(* ===== verification/Prelude.thy ===== *)
theory Prelude
  imports Complex_Main "HOL-Library.Multiset" "HOL-Library.Sublist"
    "HOL-Library.List_Lexorder" "HOL-Library.Char_ord" "HOL-Library.Product_Lexorder"
begin

text \<open>
  The part of the Python language the Demo Command Center uses everywhere: exceptions as values
  of a sum type, the string methods (on the ASCII range), the text of an integer, and the list
  facts that several components share.  The collections declared here are filled by the
  component theories: \<open>model_defs\<close> holds the unfolding equations of decision functions and
  \<open>res_simps\<close> the laws of the result type.
\<close>

named_theorems model_defs "unfolding equations of the decision functions"
named_theorems res_simps "laws of results and guards"

section \<open>Exceptions\<close>

text \<open>
  One constructor per exception class that the modelled code raises or lets through, each with
  the message of the \<open>raise\<close> statement.  A computation that may raise returns \<open>'a res\<close>: \<open>Inl\<close>
  is the exception, \<open>Inr\<close> the value.
\<close>

datatype py_error =
    ValueError string
  | LocalTimeError string
  | PermissionError string
  | RuntimeError string
  | TypeError string
  | OverflowError string
  | KeyError string
  | InvalidOperation string
  | ZoneInfoNotFoundError string
  | TimeoutError string
  | ServiceError string string
  | UnsupportedEventError string
  | InternalAuthenticationError string
  | IntegrityError string
  | HTTPException int string
  | LookupError string
  | CircuitOpenError string

type_synonym 'a res = "py_error + 'a"

text \<open>Sequencing: the continuation runs only when no exception was raised.\<close>

definition res_bind :: "'a res \<Rightarrow> ('a \<Rightarrow> 'b res) \<Rightarrow> 'b res" where
  "res_bind m f = (case m of Inl e \<Rightarrow> Inl e | Inr x \<Rightarrow> f x)"

lemma res_bind_simps [simp, res_simps, code]:
  "res_bind (Inl e) f = Inl e"
  "res_bind (Inr x) f = f x"
  by (simp_all add: res_bind_def)

lemma res_bind_eq_Inr [res_simps]:
  "res_bind m f = Inr y \<longleftrightarrow> (\<exists>x. m = Inr x \<and> f x = Inr y)"
  by (cases m) simp_all

lemma res_bind_eq_Inl [res_simps]:
  "res_bind m f = Inl e \<longleftrightarrow> m = Inl e \<or> (\<exists>x. m = Inr x \<and> f x = Inl e)"
  by (cases m) simp_all

lemma if_Inl_eq_Inr [res_simps]:
  "(if b then Inl e else k) = Inr y \<longleftrightarrow> \<not> b \<and> k = Inr y"
  by simp

text \<open>A \<open>for\<close> loop whose body may raise, collecting what it appends.\<close>

fun res_map :: "('a \<Rightarrow> 'b res) \<Rightarrow> 'a list \<Rightarrow> 'b list res" where
  "res_map f [] = Inr []"
| "res_map f (x # xs) = res_bind (f x) (\<lambda>y. res_bind (res_map f xs) (\<lambda>ys. Inr (y # ys)))"

lemma res_map_Inr_iff:
  "res_map f xs = Inr ys \<longleftrightarrow> list_all2 (\<lambda>x y. f x = Inr y) xs ys"
  by (induction xs arbitrary: ys) (auto simp: res_simps list_all2_Cons1)

lemma res_map_total: "(\<And>x. x \<in> set xs \<Longrightarrow> f x = Inr (g x)) \<Longrightarrow> res_map f xs = Inr (map g xs)"
  by (induction xs) auto

lemma res_map_Inl: "res_map f xs = Inl e \<Longrightarrow> \<exists>x\<in>set xs. f x = Inl e"
  by (induction xs) (auto simp: res_simps)

text \<open>A left fold whose step may raise.\<close>

fun res_fold :: "('s \<Rightarrow> 'a \<Rightarrow> 's res) \<Rightarrow> 's \<Rightarrow> 'a list \<Rightarrow> 's res" where
  "res_fold f s [] = Inr s"
| "res_fold f s (x # xs) = res_bind (f s x) (\<lambda>s'. res_fold f s' xs)"

lemma res_fold_append:
  "res_fold f s (xs @ ys) = res_bind (res_fold f s xs) (\<lambda>s'. res_fold f s' ys)"
proof (induction xs arbitrary: s)
  case Nil
  then show ?case by simp
next
  case (Cons x xs)
  then show ?case by (cases "f s x") auto
qed

text \<open>The invariant rule for such a loop.\<close>

lemma res_fold_invariant:
  assumes "res_fold f s xs = Inr s'" and "I s"
    and "\<And>s x s'. I s \<Longrightarrow> x \<in> set xs \<Longrightarrow> f s x = Inr s' \<Longrightarrow> I s'"
  shows "I s'"
  using assms
proof (induction xs arbitrary: s)
  case Nil
  then show ?case by simp
next
  case (Cons x xs)
  from Cons.prems(1) obtain t where t: "f s x = Inr t" "res_fold f t xs = Inr s'"
    by (auto simp: res_simps)
  from t(1) Cons.prems(2,3) have "I t" by auto
  with t(2) show ?case using Cons.prems(3) by (intro Cons.IH[OF t(2)]) auto
qed

text \<open>
  \<open>any(...)\<close> over a generator whose condition may raise: it stops at the first true element.  A
  comprehension with such a condition evaluates it for every element.
\<close>

fun res_any :: "('a \<Rightarrow> bool res) \<Rightarrow> 'a list \<Rightarrow> bool res" where
  "res_any p [] = Inr False"
| "res_any p (x # xs) = res_bind (p x) (\<lambda>b. if b then Inr True else res_any p xs)"

definition res_filter :: "('a \<Rightarrow> bool res) \<Rightarrow> 'a list \<Rightarrow> 'a list res" where
  "res_filter p xs = res_bind (res_map (\<lambda>x. res_bind (p x) (\<lambda>b. Inr (x, b))) xs)
     (\<lambda>ys. Inr (map fst (filter snd ys)))"

lemma res_any_total: "(\<And>x. x \<in> set xs \<Longrightarrow> p x = Inr (q x)) \<Longrightarrow> res_any p xs = Inr (list_ex q xs)"
  by (induction xs) auto

lemma res_filter_total:
  "(\<And>x. x \<in> set xs \<Longrightarrow> p x = Inr (q x)) \<Longrightarrow> res_filter p xs = Inr (filter q xs)"
  unfolding res_filter_def by (subst res_map_total [where g = "\<lambda>x. (x, q x)"])
    (simp_all add: filter_map comp_def)

section \<open>Calls to the outside\<close>

text \<open>
  A coroutine that awaits ports is the list of the calls it makes, in order, with its result: what
  was called stays called when a later step raises.
\<close>

type_synonym ('c, 'a) eff = "'c list \<times> 'a res"

definition eff_call :: "'c \<Rightarrow> 'a res \<Rightarrow> ('c, 'a) eff" where
  "eff_call c r = ([c], r)"

definition eff_res :: "'a res \<Rightarrow> ('c, 'a) eff" where
  "eff_res r = ([], r)"

definition eff_bind :: "('c, 'a) eff \<Rightarrow> ('a \<Rightarrow> ('c, 'b) eff) \<Rightarrow> ('c, 'b) eff" where
  "eff_bind m f = (case snd m of Inl e \<Rightarrow> (fst m, Inl e)
     | Inr x \<Rightarrow> (fst m @ fst (f x), snd (f x)))"

lemma eff_bind_simps [simp]:
  "eff_bind (cs, Inl e) f = (cs, Inl e)"
  "eff_bind (cs, Inr x) f = (cs @ fst (f x), snd (f x))"
  "fst (eff_bind m f) = fst m @ (case snd m of Inl e \<Rightarrow> [] | Inr x \<Rightarrow> fst (f x))"
  "snd (eff_bind m f) = res_bind (snd m) (\<lambda>x. snd (f x))"
  by (auto simp: eff_bind_def split: sum.splits)

section \<open>Strings\<close>

text \<open>
  A Python string is a character list.  The case and class methods are those of the ASCII range,
  which is what the identifiers, codes and keywords of the program are made of; a character
  outside it is left alone by the case methods and belongs to no class.
\<close>

abbreviation cval :: "char \<Rightarrow> nat" where
  "cval c \<equiv> of_char c"

definition is_space :: "char \<Rightarrow> bool" where
  "is_space c \<longleftrightarrow> (let n = cval c in 9 \<le> n \<and> n \<le> 13 \<or> 28 \<le> n \<and> n \<le> 32)"

definition is_upper :: "char \<Rightarrow> bool" where
  "is_upper c \<longleftrightarrow> 65 \<le> cval c \<and> cval c \<le> 90"

definition is_lower :: "char \<Rightarrow> bool" where
  "is_lower c \<longleftrightarrow> 97 \<le> cval c \<and> cval c \<le> 122"

definition is_digit :: "char \<Rightarrow> bool" where
  "is_digit c \<longleftrightarrow> 48 \<le> cval c \<and> cval c \<le> 57"

definition is_alpha :: "char \<Rightarrow> bool" where
  "is_alpha c \<longleftrightarrow> is_upper c \<or> is_lower c"

definition upper_char :: "char \<Rightarrow> char" where
  "upper_char c = (if is_lower c then char_of (cval c - 32) else c)"

definition lower_char :: "char \<Rightarrow> char" where
  "lower_char c = (if is_upper c then char_of (cval c + 32) else c)"

definition upper :: "string \<Rightarrow> string" where
  "upper s = map upper_char s"

definition casefold :: "string \<Rightarrow> string" where
  "casefold s = map lower_char s"

definition lstrip :: "string \<Rightarrow> string" where
  "lstrip s = dropWhile is_space s"

definition strip :: "string \<Rightarrow> string" where
  "strip s = rev (lstrip (rev (lstrip s)))"

definition isalpha :: "string \<Rightarrow> bool" where
  "isalpha s \<longleftrightarrow> s \<noteq> [] \<and> list_all is_alpha s"

text \<open>The superscripts two, three and one are digits to \<open>str.isdigit\<close>.\<close>

definition isdigit :: "string \<Rightarrow> bool" where
  "isdigit s \<longleftrightarrow> s \<noteq> [] \<and> list_all (\<lambda>c. is_digit c \<or> cval c \<in> {178, 179, 185}) s"

text \<open>\<open>not text.strip()\<close>: the string is blank.\<close>

definition blank :: "string \<Rightarrow> bool" where
  "blank s \<longleftrightarrow> strip s = []"

text \<open>\<open>sub in text\<close>.\<close>

definition contains :: "string \<Rightarrow> string \<Rightarrow> bool" where
  "contains t sub \<longleftrightarrow> sublist sub t"

text \<open>\<open>sep.join(parts)\<close>.\<close>

fun join :: "string \<Rightarrow> string list \<Rightarrow> string" where
  "join sep [] = []"
| "join sep [x] = x"
| "join sep (x # xs) = x @ sep @ join sep xs"

text \<open>\<open>str(n)\<close> of an integer.\<close>

fun show_nat :: "nat \<Rightarrow> string" where
  "show_nat n = (if n < 10 then [char_of (48 + n)] else show_nat (n div 10) @ [char_of (48 + n mod 10)])"

declare show_nat.simps [simp del]

definition show_int :: "int \<Rightarrow> string" where
  "show_int i = (if i < 0 then CHR ''-'' # show_nat (nat (- i)) else show_nat (nat i))"

lemma cval_lt [simp]: "cval c < 256"
  using of_char_mod_256 [of c, where 'a = nat] by (metis mod_less_divisor zero_less_numeral)

lemma cval_char_of [simp]: "cval (char_of n) = n mod 256" for n :: nat
  by (simp add: of_char_of)

lemma upper_char_idem [simp]: "upper_char (upper_char c) = upper_char c"
  by (auto simp: upper_char_def is_lower_def)

lemma upper_char_not_space [simp]: "is_space (upper_char c) = is_space c"
  by (auto simp: upper_char_def is_lower_def is_space_def Let_def)

lemma upper_idem [simp]: "upper (upper s) = upper s"
  by (simp add: upper_def)

lemma length_upper [simp]: "length (upper s) = length s"
  by (simp add: upper_def)

lemma upper_eq_Nil [simp]: "upper s = [] \<longleftrightarrow> s = []"
  by (simp add: upper_def)

lemma lstrip_id: "s = [] \<or> \<not> is_space (hd s) \<Longrightarrow> lstrip s = s"
  by (cases s) (auto simp: lstrip_def)

lemma lstrip_hd: "lstrip s = [] \<or> \<not> is_space (hd (lstrip s))"
  using hd_dropWhile [of is_space s] by (auto simp: lstrip_def)

lemma lstrip_idem [simp]: "lstrip (lstrip s) = lstrip s"
  by (rule lstrip_id) (rule lstrip_hd)

lemma last_lstrip: "lstrip s \<noteq> [] \<Longrightarrow> last (lstrip s) = last s"
  by (metis append_is_Nil_conv last_append lstrip_def takeWhile_dropWhile_id)

lemma strip_ends:
  "strip s = [] \<or> \<not> is_space (hd (strip s)) \<and> \<not> is_space (last (strip s))"
proof (cases "strip s = []")
  case False
  let ?u = "lstrip (rev (lstrip s))"
  have u: "?u \<noteq> []" using False by (simp add: strip_def)
  then have l: "lstrip s \<noteq> []" by (metis dropWhile.simps(1) lstrip_def rev.simps(1))
  have "hd (strip s) = last ?u" by (simp add: strip_def hd_rev)
  also have "\<dots> = hd (lstrip s)" using last_lstrip [OF u] l by (simp add: last_rev)
  finally have "\<not> is_space (hd (strip s))" using lstrip_hd [of s] l by simp
  moreover have "last (strip s) = hd ?u" by (simp add: strip_def last_rev)
  ultimately show ?thesis using lstrip_hd [of "rev (lstrip s)"] u by auto
qed simp

lemma strip_id: "s = [] \<or> \<not> is_space (hd s) \<and> \<not> is_space (last s) \<Longrightarrow> strip s = s"
proof -
  assume a: "s = [] \<or> \<not> is_space (hd s) \<and> \<not> is_space (last s)"
  then have "lstrip s = s" by (intro lstrip_id) auto
  moreover have "lstrip (rev s) = rev s" using a by (intro lstrip_id) (auto simp: hd_rev)
  ultimately show ?thesis by (simp add: strip_def)
qed

lemma strip_idem [simp]: "strip (strip s) = strip s"
  by (rule strip_id) (rule strip_ends)

lemma strip_upper_strip [simp]: "strip (upper (strip s)) = upper (strip s)"
proof (rule strip_id)
  show "upper (strip s) = [] \<or> \<not> is_space (hd (upper (strip s))) \<and> \<not> is_space (last (upper (strip s)))"
    using strip_ends [of s] by (auto simp: upper_def hd_map last_map)
qed

end
