(* ===== verification/Transitions.thy ===== *)
theory Transitions
  imports Prelude
begin

text \<open>
  \<open>state/machine/demo_state.py\<close> and \<open>state/transitions/table.py\<close>: the states of a demo case, the
  commands that move it, and the table of rules with its index.  \<open>resolve_transition\<close> is the only
  reader of the table.  The step relation \<open>demo_step\<close> and its runs say what a client that moves a
  case by resolving each command can do.
\<close>

section \<open>States, commands, actors\<close>

datatype demo_state =
    NEW | QUALIFYING | TUTOR_MATCHING | TUTOR_SHORTLISTED | SLOT_NEGOTIATING | SLOT_HELD
     | AWAITING_CONFIRMATIONS | SCHEDULED | REMINDERS_ACTIVE | READY | IN_PROGRESS | COMPLETED
     | ANALYSIS_PENDING | ANALYZED | CONVERSION_FOLLOW_UP | OFFER_PENDING | PAYMENT_PENDING
     | PAID | ONBOARDING_HANDOFF | CONVERTED | RESCHEDULE_REQUESTED | CANCELLED_BY_USER
     | CANCELLED_BY_TUTOR | SLOT_EXPIRED | NO_SHOW_USER | NO_SHOW_TUTOR | TECHNICAL_FAILURE
     | PAYMENT_FAILED | PAYMENT_EXPIRED | PAYMENT_REVIEW | HUMAN_HANDOFF | FAILED

primrec demo_state_value :: "demo_state \<Rightarrow> string" where
  "demo_state_value NEW = ''NEW''"
| "demo_state_value QUALIFYING = ''QUALIFYING''"
| "demo_state_value TUTOR_MATCHING = ''TUTOR_MATCHING''"
| "demo_state_value TUTOR_SHORTLISTED = ''TUTOR_SHORTLISTED''"
| "demo_state_value SLOT_NEGOTIATING = ''SLOT_NEGOTIATING''"
| "demo_state_value SLOT_HELD = ''SLOT_HELD''"
| "demo_state_value AWAITING_CONFIRMATIONS = ''AWAITING_CONFIRMATIONS''"
| "demo_state_value SCHEDULED = ''SCHEDULED''"
| "demo_state_value REMINDERS_ACTIVE = ''REMINDERS_ACTIVE''"
| "demo_state_value READY = ''READY''"
| "demo_state_value IN_PROGRESS = ''IN_PROGRESS''"
| "demo_state_value COMPLETED = ''COMPLETED''"
| "demo_state_value ANALYSIS_PENDING = ''ANALYSIS_PENDING''"
| "demo_state_value ANALYZED = ''ANALYZED''"
| "demo_state_value CONVERSION_FOLLOW_UP = ''CONVERSION_FOLLOW_UP''"
| "demo_state_value OFFER_PENDING = ''OFFER_PENDING''"
| "demo_state_value PAYMENT_PENDING = ''PAYMENT_PENDING''"
| "demo_state_value PAID = ''PAID''"
| "demo_state_value ONBOARDING_HANDOFF = ''ONBOARDING_HANDOFF''"
| "demo_state_value CONVERTED = ''CONVERTED''"
| "demo_state_value RESCHEDULE_REQUESTED = ''RESCHEDULE_REQUESTED''"
| "demo_state_value CANCELLED_BY_USER = ''CANCELLED_BY_USER''"
| "demo_state_value CANCELLED_BY_TUTOR = ''CANCELLED_BY_TUTOR''"
| "demo_state_value SLOT_EXPIRED = ''SLOT_EXPIRED''"
| "demo_state_value NO_SHOW_USER = ''NO_SHOW_USER''"
| "demo_state_value NO_SHOW_TUTOR = ''NO_SHOW_TUTOR''"
| "demo_state_value TECHNICAL_FAILURE = ''TECHNICAL_FAILURE''"
| "demo_state_value PAYMENT_FAILED = ''PAYMENT_FAILED''"
| "demo_state_value PAYMENT_EXPIRED = ''PAYMENT_EXPIRED''"
| "demo_state_value PAYMENT_REVIEW = ''PAYMENT_REVIEW''"
| "demo_state_value HUMAN_HANDOFF = ''HUMAN_HANDOFF''"
| "demo_state_value FAILED = ''FAILED''"

definition demo_states :: "demo_state list" where
  "demo_states =
    [NEW, QUALIFYING, TUTOR_MATCHING, TUTOR_SHORTLISTED, SLOT_NEGOTIATING, SLOT_HELD,
     AWAITING_CONFIRMATIONS, SCHEDULED, REMINDERS_ACTIVE, READY, IN_PROGRESS, COMPLETED,
     ANALYSIS_PENDING, ANALYZED, CONVERSION_FOLLOW_UP, OFFER_PENDING, PAYMENT_PENDING, PAID,
     ONBOARDING_HANDOFF, CONVERTED, RESCHEDULE_REQUESTED, CANCELLED_BY_USER,
     CANCELLED_BY_TUTOR, SLOT_EXPIRED, NO_SHOW_USER, NO_SHOW_TUTOR, TECHNICAL_FAILURE,
     PAYMENT_FAILED, PAYMENT_EXPIRED, PAYMENT_REVIEW, HUMAN_HANDOFF, FAILED]"

text \<open>\<open>DemoState(text)\<close>: the member with the given value.\<close>

definition demo_state_of :: "string \<Rightarrow> demo_state option" where
  "demo_state_of v = find (\<lambda>s. demo_state_value s = v) demo_states"

datatype transition_command =
    START_QUALIFICATION | COMPLETE_QUALIFICATION | COMPLETE_MATCHING | ACCEPT_SHORTLIST
     | HOLD_SLOT | REQUEST_CONFIRMATIONS | CONFIRM_ALL | ACTIVATE_REMINDERS | MARK_READY
     | START_DEMO | COMPLETE_DEMO | QUEUE_ANALYSIS | COMPLETE_ANALYSIS | START_CONVERSION
     | PROPOSE_OFFER | REQUEST_PAYMENT | VERIFY_PAYMENT | HANDOFF_ONBOARDING
     | COMPLETE_ONBOARDING | REQUEST_RESCHEDULE | REOPEN_NEGOTIATION | EXPIRE_SLOT
     | REPORT_USER_NO_SHOW | REPORT_TUTOR_NO_SHOW | REPORT_TECHNICAL_FAILURE
     | REPORT_PAYMENT_FAILURE | EXPIRE_PAYMENT | REVIEW_PAYMENT | RETRY_PAYMENT
     | CANCEL_BY_USER | CANCEL_BY_TUTOR | ESCALATE_HUMAN | FAIL

primrec transition_command_value :: "transition_command \<Rightarrow> string" where
  "transition_command_value START_QUALIFICATION = ''START_QUALIFICATION''"
| "transition_command_value COMPLETE_QUALIFICATION = ''COMPLETE_QUALIFICATION''"
| "transition_command_value COMPLETE_MATCHING = ''COMPLETE_MATCHING''"
| "transition_command_value ACCEPT_SHORTLIST = ''ACCEPT_SHORTLIST''"
| "transition_command_value HOLD_SLOT = ''HOLD_SLOT''"
| "transition_command_value REQUEST_CONFIRMATIONS = ''REQUEST_CONFIRMATIONS''"
| "transition_command_value CONFIRM_ALL = ''CONFIRM_ALL''"
| "transition_command_value ACTIVATE_REMINDERS = ''ACTIVATE_REMINDERS''"
| "transition_command_value MARK_READY = ''MARK_READY''"
| "transition_command_value START_DEMO = ''START_DEMO''"
| "transition_command_value COMPLETE_DEMO = ''COMPLETE_DEMO''"
| "transition_command_value QUEUE_ANALYSIS = ''QUEUE_ANALYSIS''"
| "transition_command_value COMPLETE_ANALYSIS = ''COMPLETE_ANALYSIS''"
| "transition_command_value START_CONVERSION = ''START_CONVERSION''"
| "transition_command_value PROPOSE_OFFER = ''PROPOSE_OFFER''"
| "transition_command_value REQUEST_PAYMENT = ''REQUEST_PAYMENT''"
| "transition_command_value VERIFY_PAYMENT = ''VERIFY_PAYMENT''"
| "transition_command_value HANDOFF_ONBOARDING = ''HANDOFF_ONBOARDING''"
| "transition_command_value COMPLETE_ONBOARDING = ''COMPLETE_ONBOARDING''"
| "transition_command_value REQUEST_RESCHEDULE = ''REQUEST_RESCHEDULE''"
| "transition_command_value REOPEN_NEGOTIATION = ''REOPEN_NEGOTIATION''"
| "transition_command_value EXPIRE_SLOT = ''EXPIRE_SLOT''"
| "transition_command_value REPORT_USER_NO_SHOW = ''REPORT_USER_NO_SHOW''"
| "transition_command_value REPORT_TUTOR_NO_SHOW = ''REPORT_TUTOR_NO_SHOW''"
| "transition_command_value REPORT_TECHNICAL_FAILURE = ''REPORT_TECHNICAL_FAILURE''"
| "transition_command_value REPORT_PAYMENT_FAILURE = ''REPORT_PAYMENT_FAILURE''"
| "transition_command_value EXPIRE_PAYMENT = ''EXPIRE_PAYMENT''"
| "transition_command_value REVIEW_PAYMENT = ''REVIEW_PAYMENT''"
| "transition_command_value RETRY_PAYMENT = ''RETRY_PAYMENT''"
| "transition_command_value CANCEL_BY_USER = ''CANCEL_BY_USER''"
| "transition_command_value CANCEL_BY_TUTOR = ''CANCEL_BY_TUTOR''"
| "transition_command_value ESCALATE_HUMAN = ''ESCALATE_HUMAN''"
| "transition_command_value FAIL = ''FAIL''"

datatype actor_type = ActorUSER | ActorTUTOR | ActorADMIN | ActorSYSTEM | ActorPROVIDER

primrec actor_type_value :: "actor_type \<Rightarrow> string" where
  "actor_type_value ActorUSER = ''user''"
| "actor_type_value ActorTUTOR = ''tutor''"
| "actor_type_value ActorADMIN = ''admin''"
| "actor_type_value ActorSYSTEM = ''system''"
| "actor_type_value ActorPROVIDER = ''provider''"

record transition_rule =
  rule_before :: demo_state
  rule_command :: transition_command
  rule_after :: demo_state
  rule_actors :: "actor_type set"
  rule_guards :: "string list"
  rule_side_effects :: "string list"
  rule_compensation :: "string option"

section \<open>The order of state values\<close>

lemma demo_state_of_value [simp]: "demo_state_of (demo_state_value s) = Some s"
  by (cases s) (simp_all add: demo_state_of_def demo_states_def)

lemma demo_state_value_inj [simp]: "demo_state_value s = demo_state_value t \<longleftrightarrow> s = t"
  by (metis demo_state_of_value option.inject)

text \<open>The members of a \<open>StrEnum\<close> are ordered by their values.\<close>

instantiation demo_state :: linorder
begin

definition less_eq_demo_state :: "demo_state \<Rightarrow> demo_state \<Rightarrow> bool" where
  "less_eq_demo_state s t \<longleftrightarrow> demo_state_value s \<le> demo_state_value t"

definition less_demo_state :: "demo_state \<Rightarrow> demo_state \<Rightarrow> bool" where
  "less_demo_state s t \<longleftrightarrow> demo_state_value s < demo_state_value t"

instance
proof
  fix s t u :: demo_state
  show "s < t \<longleftrightarrow> s \<le> t \<and> \<not> t \<le> s" "s \<le> s" "s \<le> t \<or> t \<le> s"
    by (simp_all add: less_eq_demo_state_def less_demo_state_def less_le_not_le linear)
  show "s \<le> t \<Longrightarrow> t \<le> u \<Longrightarrow> s \<le> u"
    unfolding less_eq_demo_state_def by (rule order_trans)
  show "s \<le> t \<Longrightarrow> t \<le> s \<Longrightarrow> s = t"
    unfolding less_eq_demo_state_def using antisym demo_state_value_inj by blast
qed

end

section \<open>The table\<close>

definition SYSTEM :: "actor_type set" where "SYSTEM = {ActorSYSTEM, ActorADMIN}"
definition USER :: "actor_type set" where "USER = {ActorUSER, ActorADMIN}"
definition TUTOR :: "actor_type set" where "TUTOR = {ActorTUTOR, ActorADMIN}"
definition PROVIDER :: "actor_type set" where "PROVIDER = {ActorPROVIDER, ActorSYSTEM}"
definition ANY_BUSINESS_ACTOR :: "actor_type set" where
  "ANY_BUSINESS_ACTOR = {ActorUSER, ActorTUTOR, ActorADMIN, ActorSYSTEM}"

lemmas actor_sets = SYSTEM_def USER_def TUTOR_def PROVIDER_def ANY_BUSINESS_ACTOR_def

definition mk_rule ::
  "demo_state \<Rightarrow> transition_command \<Rightarrow> demo_state \<Rightarrow> actor_type set \<Rightarrow> string list \<Rightarrow> string list
   \<Rightarrow> string option \<Rightarrow> transition_rule" where
  "mk_rule b c a actors gs effects compens =
     \<lparr>rule_before = b, rule_command = c, rule_after = a, rule_actors = actors, rule_guards = gs,
      rule_side_effects = effects, rule_compensation = compens\<rparr>"

definition TRANSITIONS :: "transition_rule list" where
  "TRANSITIONS =
    [
     mk_rule NEW START_QUALIFICATION QUALIFYING ANY_BUSINESS_ACTOR
       [] [] None,
     mk_rule QUALIFYING COMPLETE_QUALIFICATION TUTOR_MATCHING SYSTEM
       [''requirements_complete''] [''request_tutor_candidates''] None,
     mk_rule TUTOR_MATCHING COMPLETE_MATCHING TUTOR_SHORTLISTED SYSTEM
       [''authoritative_candidates_present''] [] None,
     mk_rule TUTOR_SHORTLISTED ACCEPT_SHORTLIST SLOT_NEGOTIATING USER
       [] [] None,
     mk_rule SLOT_NEGOTIATING HOLD_SLOT SLOT_HELD SYSTEM
       [''slot_still_available'', ''hold_policy_loaded''] [''create_atomic_hold''] (Some ''release_slot_hold''),
     mk_rule SLOT_HELD REQUEST_CONFIRMATIONS AWAITING_CONFIRMATIONS SYSTEM
       [''active_hold_exists''] [''request_participant_confirmations''] None,
     mk_rule SLOT_HELD EXPIRE_SLOT SLOT_EXPIRED SYSTEM
       [''hold_expired''] [''release_slot_hold''] None,
     mk_rule AWAITING_CONFIRMATIONS CONFIRM_ALL SCHEDULED SYSTEM
       [''all_required_confirmed'', ''active_hold_exists''] [''create_calendar_event''] (Some ''cancel_calendar_and_release_hold''),
     mk_rule SCHEDULED ACTIVATE_REMINDERS REMINDERS_ACTIVE SYSTEM
       [''calendar_event_confirmed''] [''schedule_durable_reminders''] (Some ''cancel_reminders''),
     mk_rule REMINDERS_ACTIVE MARK_READY READY SYSTEM
       [''start_window_reached''] [] None,
     mk_rule READY START_DEMO IN_PROGRESS ANY_BUSINESS_ACTOR
       [] [] None,
     mk_rule IN_PROGRESS COMPLETE_DEMO COMPLETED ANY_BUSINESS_ACTOR
       [''outcome_evidence_present''] [] None,
     mk_rule COMPLETED QUEUE_ANALYSIS ANALYSIS_PENDING SYSTEM
       [] [''enqueue_analysis''] None,
     mk_rule ANALYSIS_PENDING COMPLETE_ANALYSIS ANALYZED SYSTEM
       [''analysis_schema_valid''] [] None,
     mk_rule ANALYZED START_CONVERSION CONVERSION_FOLLOW_UP SYSTEM
       [''conversion_policy_loaded''] [] None,
     mk_rule CONVERSION_FOLLOW_UP PROPOSE_OFFER OFFER_PENDING SYSTEM
       [''offer_policy_valid''] [''request_offer_approval''] None,
     mk_rule CONVERSION_FOLLOW_UP REQUEST_PAYMENT PAYMENT_PENDING USER
       [''canonical_quote_verified''] [''create_payment_order''] None,
     mk_rule OFFER_PENDING REQUEST_PAYMENT PAYMENT_PENDING USER
       [''offer_approved'', ''canonical_quote_verified''] [''create_payment_order''] None,
     mk_rule PAYMENT_PENDING VERIFY_PAYMENT PAID PROVIDER
       [''cashfree_signature_verified'', ''amount_currency_binding_verified'', ''activation_not_previously_applied''] [''activate_website_subscription''] (Some ''open_payment_review''),
     mk_rule PAYMENT_PENDING REPORT_PAYMENT_FAILURE PAYMENT_FAILED PROVIDER
       [] [] None,
     mk_rule PAYMENT_PENDING EXPIRE_PAYMENT PAYMENT_EXPIRED SYSTEM
       [''payment_expired''] [] None,
     mk_rule PAYMENT_PENDING REVIEW_PAYMENT PAYMENT_REVIEW SYSTEM
       [] [] None,
     mk_rule PAYMENT_FAILED RETRY_PAYMENT PAYMENT_PENDING USER
       [''retry_allowed''] [] None,
     mk_rule PAYMENT_EXPIRED RETRY_PAYMENT PAYMENT_PENDING USER
       [''new_quote_verified''] [] None,
     mk_rule PAYMENT_REVIEW VERIFY_PAYMENT PAID PROVIDER
       [''manual_reconciliation_verified'', ''activation_not_previously_applied''] [''activate_website_subscription''] None,
     mk_rule PAID HANDOFF_ONBOARDING ONBOARDING_HANDOFF SYSTEM
       [''website_activation_confirmed''] [''publish_onboarding_handoff''] None,
     mk_rule ONBOARDING_HANDOFF COMPLETE_ONBOARDING CONVERTED SYSTEM
       [''onboarding_acknowledged''] [''request_welcome_delivery''] None,
     mk_rule SCHEDULED REQUEST_RESCHEDULE RESCHEDULE_REQUESTED ANY_BUSINESS_ACTOR
       [] [''cancel_reminders''] None,
     mk_rule REMINDERS_ACTIVE REQUEST_RESCHEDULE RESCHEDULE_REQUESTED ANY_BUSINESS_ACTOR
       [] [''cancel_reminders''] None,
     mk_rule RESCHEDULE_REQUESTED REOPEN_NEGOTIATION SLOT_NEGOTIATING SYSTEM
       [] [''cancel_calendar_event'', ''release_slot_hold''] None,
     mk_rule SLOT_EXPIRED REOPEN_NEGOTIATION SLOT_NEGOTIATING ANY_BUSINESS_ACTOR
       [] [] None,
     mk_rule READY REPORT_USER_NO_SHOW NO_SHOW_USER SYSTEM
       [''attendance_evidence_present''] [] None,
     mk_rule READY REPORT_TUTOR_NO_SHOW NO_SHOW_TUTOR SYSTEM
       [''attendance_evidence_present''] [] None,
     mk_rule IN_PROGRESS REPORT_TECHNICAL_FAILURE TECHNICAL_FAILURE ANY_BUSINESS_ACTOR
       [] [] None,
     mk_rule NO_SHOW_USER REQUEST_RESCHEDULE RESCHEDULE_REQUESTED USER
       [] [] None,
     mk_rule NO_SHOW_TUTOR REQUEST_RESCHEDULE RESCHEDULE_REQUESTED USER
       [] [] None,
     mk_rule TECHNICAL_FAILURE REQUEST_RESCHEDULE RESCHEDULE_REQUESTED ANY_BUSINESS_ACTOR
       [] [] None]"

definition CANCELLABLE :: "demo_state set" where
  "CANCELLABLE =
    {QUALIFYING, TUTOR_MATCHING, TUTOR_SHORTLISTED, SLOT_NEGOTIATING, SLOT_HELD,
     AWAITING_CONFIRMATIONS, SCHEDULED, REMINDERS_ACTIVE, READY, RESCHEDULE_REQUESTED,
     SLOT_EXPIRED, NO_SHOW_USER, NO_SHOW_TUTOR, TECHNICAL_FAILURE}"

definition TERMINAL_SET :: "demo_state set" where
  "TERMINAL_SET = {CONVERTED, CANCELLED_BY_USER, CANCELLED_BY_TUTOR, HUMAN_HANDOFF, FAILED}"

definition ESCALATABLE :: "demo_state set" where
  "ESCALATABLE = set demo_states - TERMINAL_SET"

definition FAILABLE :: "demo_state set" where
  "FAILABLE = set demo_states - TERMINAL_SET"

definition ALL_TRANSITIONS :: "transition_rule list" where
  "ALL_TRANSITIONS =
     TRANSITIONS
     @ map (\<lambda>s. mk_rule s CANCEL_BY_USER CANCELLED_BY_USER USER [] [''cancel_pending_side_effects''] None)
         (sorted_list_of_set CANCELLABLE)
     @ map (\<lambda>s. mk_rule s CANCEL_BY_TUTOR CANCELLED_BY_TUTOR TUTOR [] [''cancel_pending_side_effects''] None)
         (sorted_list_of_set CANCELLABLE)
     @ map (\<lambda>s. mk_rule s ESCALATE_HUMAN HUMAN_HANDOFF SYSTEM [] [''open_human_handoff_ticket''] None)
         (sorted_list_of_set ESCALATABLE)
     @ map (\<lambda>s. mk_rule s FAIL FAILED SYSTEM [] [''record_terminal_failure''] None)
         (sorted_list_of_set FAILABLE)"

definition rule_key :: "transition_rule \<Rightarrow> demo_state \<times> transition_command" where
  "rule_key r = (rule_before r, rule_command r)"

text \<open>The dictionary comprehension: a later rule replaces an earlier one with the same key.\<close>

definition build_index :: "('r \<Rightarrow> 'k) \<Rightarrow> 'r list \<Rightarrow> 'k \<rightharpoonup> 'r" where
  "build_index key rows = fold (\<lambda>r m. m(key r \<mapsto> r)) rows Map.empty"

definition INDEX :: "demo_state \<times> transition_command \<rightharpoonup> transition_rule" where
  "INDEX = build_index rule_key ALL_TRANSITIONS"

text \<open>The check made when the module is imported.\<close>

definition registration_ok :: "transition_rule list \<Rightarrow> bool" where
  "registration_ok rows \<longleftrightarrow> card (dom (build_index rule_key rows)) = length rows"

definition TERMINAL_STATES :: "demo_state set" where
  "TERMINAL_STATES = {CONVERTED, CANCELLED_BY_USER, CANCELLED_BY_TUTOR, HUMAN_HANDOFF, FAILED}"

definition registered_transitions :: "transition_rule list" where
  "registered_transitions = ALL_TRANSITIONS"

definition resolve_transition ::
  "demo_state \<Rightarrow> transition_command \<Rightarrow> actor_type \<Rightarrow> transition_rule res" where
  "resolve_transition b c actor =
     (case INDEX (b, c) of
        None \<Rightarrow> Inl (ValueError (''transition not allowed: '' @ demo_state_value b @ ''/''
                               @ transition_command_value c))
      | Some r \<Rightarrow>
          if actor \<notin> rule_actors r
          then Inl (PermissionError (''actor '' @ actor_type_value actor @ '' cannot execute ''
                      @ transition_command_value c @ '' from '' @ demo_state_value b))
          else Inr r)"

section \<open>Keyed tables\<close>

text \<open>
  The interface a table offers to the code that looks rules up: rows with pairwise different keys.
  The dictionary built from such a table has exactly its rows.
\<close>

locale keyed_table =
  fixes rows :: "'r list" and key :: "'r \<Rightarrow> 'k"
  assumes distinct_keys: "distinct (map key rows)"
begin

lemma fold_index:
  assumes "distinct (map key rs)" "\<And>r. r \<in> set rs \<Longrightarrow> m (key r) = None"
  shows "fold (\<lambda>r m. m(key r \<mapsto> r)) rs m k = Some r \<longleftrightarrow> r \<in> set rs \<and> key r = k \<or> m k = Some r"
  using assms
proof (induction rs arbitrary: m)
  case Nil
  then show ?case by simp
next
  case (Cons x xs)
  have "fold (\<lambda>r m. m(key r \<mapsto> r)) xs (m(key x \<mapsto> x)) k = Some r
    \<longleftrightarrow> r \<in> set xs \<and> key r = k \<or> (m(key x \<mapsto> x)) k = Some r"
  proof (rule Cons.IH)
    show "distinct (map key xs)" using Cons.prems(1) by simp
    show "(m(key x \<mapsto> x)) (key r) = None" if "r \<in> set xs" for r
      using Cons.prems that by (auto simp: image_iff)
  qed
  then have "fold (\<lambda>r m. m(key r \<mapsto> r)) (x # xs) m k = Some r
    \<longleftrightarrow> r \<in> set xs \<and> key r = k \<or> (m(key x \<mapsto> x)) k = Some r"
    by (simp only: fold.simps o_apply)
  moreover have "(m(key x \<mapsto> x)) k = Some r \<longleftrightarrow> r = x \<and> key x = k \<or> m k = Some r"
    using Cons.prems(2) [of x] by auto
  ultimately show ?case by (simp only: list.set insert_iff) blast
qed

lemma lookup_iff: "build_index key rows k = Some r \<longleftrightarrow> r \<in> set rows \<and> key r = k"
  using fold_index [of rows Map.empty k r] distinct_keys by (simp add: build_index_def)

lemma lookup_None: "build_index key rows k = None \<longleftrightarrow> k \<notin> key ` set rows"
  by (metis imageE imageI lookup_iff not_Some_eq)

lemma dom_index: "dom (build_index key rows) = key ` set rows"
  using lookup_None by (auto simp: dom_def)

lemma no_duplicate_registration: "card (dom (build_index key rows)) = length rows"
  using distinct_keys by (simp add: dom_index distinct_map card_image distinct_card)

lemma rule_unique: "r \<in> set rows \<Longrightarrow> r' \<in> set rows \<Longrightarrow> key r = key r' \<Longrightarrow> r = r'"
  by (metis lookup_iff option.inject)

end

lemma ALL_TRANSITIONS_distinct: "distinct (map rule_key ALL_TRANSITIONS)"
  by code_simp

interpretation demo_table: keyed_table ALL_TRANSITIONS rule_key
  by unfold_locales (rule ALL_TRANSITIONS_distinct)

section \<open>What \<open>resolve_transition\<close> answers\<close>

lemma resolve_transition_Inr:
  "resolve_transition b c actor = Inr r \<longleftrightarrow>
     r \<in> set ALL_TRANSITIONS \<and> rule_before r = b \<and> rule_command r = c \<and> actor \<in> rule_actors r"
proof -
  have "INDEX (b, c) = Some r' \<longleftrightarrow> r' \<in> set ALL_TRANSITIONS \<and> rule_key r' = (b, c)" for r'
    by (simp add: INDEX_def demo_table.lookup_iff)
  then show ?thesis
    by (cases "INDEX (b, c)") (force simp: resolve_transition_def rule_key_def)+
qed

lemma sorted_list_of_state_set [simp]: "set (sorted_list_of_set (S :: demo_state set)) = S"
proof -
  have "finite S"
    using finite_subset [of S "set demo_states"]
    by (metis List.finite_set demo_state_of_def demo_state_of_value find_Some_iff nth_mem subsetI)
  then show ?thesis by simp
qed

text \<open>
  The rules as a list of facts: a proof about every rule splits the table once, into the
  explicit rules and the four generated families.
\<close>

lemma ball_ALL_TRANSITIONS:
  "(\<forall>r \<in> set ALL_TRANSITIONS. P r) \<longleftrightarrow>
     (\<forall>r \<in> set TRANSITIONS. P r)
     \<and> (\<forall>s \<in> CANCELLABLE.
          P (mk_rule s CANCEL_BY_USER CANCELLED_BY_USER USER [] [''cancel_pending_side_effects''] None)
          \<and> P (mk_rule s CANCEL_BY_TUTOR CANCELLED_BY_TUTOR TUTOR [] [''cancel_pending_side_effects''] None))
     \<and> (\<forall>s. s \<notin> TERMINAL_STATES \<longrightarrow>
          P (mk_rule s ESCALATE_HUMAN HUMAN_HANDOFF SYSTEM [] [''open_human_handoff_ticket''] None)
          \<and> P (mk_rule s FAIL FAILED SYSTEM [] [''record_terminal_failure''] None))"
proof -
  have "set demo_states = UNIV"
    by (metis UNIV_eq_I demo_state_of_def demo_state_of_value find_Some_iff nth_mem)
  then have sets: "ESCALATABLE = - TERMINAL_STATES" "FAILABLE = - TERMINAL_STATES"
    by (auto simp: ESCALATABLE_def FAILABLE_def TERMINAL_SET_def TERMINAL_STATES_def)
  show ?thesis
    unfolding ALL_TRANSITIONS_def set_append set_map sorted_list_of_state_set ball_Un sets
    by (simp only: ball_simps) auto
qed

lemma mk_rule_sel [simp]:
  "rule_before (mk_rule b c a acs gs es cm) = b" "rule_command (mk_rule b c a acs gs es cm) = c"
  "rule_after (mk_rule b c a acs gs es cm) = a" "rule_actors (mk_rule b c a acs gs es cm) = acs"
  "rule_side_effects (mk_rule b c a acs gs es cm) = es"
  by (simp_all add: mk_rule_def)

section \<open>Steps and runs\<close>

text \<open>A step resolves a command for an actor and moves to the state the rule names.\<close>

inductive demo_step :: "demo_state \<Rightarrow> transition_command \<times> actor_type \<Rightarrow> demo_state \<Rightarrow> bool" where
  resolve: "resolve_transition s c actor = Inr r \<Longrightarrow> demo_step s (c, actor) (rule_after r)"

inductive_cases demo_stepE [elim!]: "demo_step s ca t"
inductive_simps demo_step_iff: "demo_step s (c, actor) t"

inductive demo_run :: "demo_state \<Rightarrow> (transition_command \<times> actor_type) list \<Rightarrow> demo_state \<Rightarrow> bool" where
  start: "demo_run s [] s"
| step: "demo_run s tr t \<Longrightarrow> demo_step t ca u \<Longrightarrow> demo_run s (tr @ [ca]) u"

inductive_simps demo_run_Nil [simp]: "demo_run s [] t"
inductive_simps demo_run_snoc: "demo_run s (tr @ [ca]) t"

text \<open>
  The invariant rule for runs: a property of the commands given so far and the state reached
  holds along every run when each rule of the table carries it from its source to its target.
\<close>

lemma demo_run_invariant:
  assumes "demo_run s tr t" and "I [] s"
    and "\<And>r tr actor. r \<in> set ALL_TRANSITIONS \<Longrightarrow> actor \<in> rule_actors r \<Longrightarrow> I tr (rule_before r)
      \<Longrightarrow> I (tr @ [(rule_command r, actor)]) (rule_after r)"
  shows "I tr t"
  using assms
proof (induction rule: demo_run.induct)
  case (start s)
  then show ?case by simp
next
  case (step s tr t ca u)
  then have "I tr t" by blast
  from step.hyps(2) obtain c actor r where
    "ca = (c, actor)" "resolve_transition t c actor = Inr r" "u = rule_after r"
    by auto
  with \<open>I tr t\<close> step.prems(2) show ?case by (auto simp: resolve_transition_Inr)
qed

text \<open>Runs are what a client computes by resolving a list of commands one after the other.\<close>

definition exec_run ::
  "demo_state \<Rightarrow> (transition_command \<times> actor_type) list \<Rightarrow> demo_state res" where
  "exec_run = res_fold (\<lambda>s (c, actor). res_bind (resolve_transition s c actor) (\<lambda>r. Inr (rule_after r)))"

lemma demo_run_iff_exec: "demo_run s tr t \<longleftrightarrow> exec_run s tr = Inr t"
proof (induction tr arbitrary: t rule: rev_induct)
  case Nil
  show ?case by (auto simp: exec_run_def)
next
  case (snoc ca tr)
  then show ?case
    by (cases ca)
      (auto simp: demo_run_snoc exec_run_def res_fold_append res_bind_eq_Inr demo_step_iff)
qed

lemma demo_run_append: "demo_run s tr t \<Longrightarrow> demo_run t tr' u \<Longrightarrow> demo_run s (tr @ tr') u"
  by (simp add: demo_run_iff_exec exec_run_def res_fold_append)

section \<open>Properties of the table\<close>

text \<open>
  (C10) The module registers its table without a duplicate key, and \<open>resolve_transition\<close> answers
  exactly by it: the rule when the state and command have one and the actor may use it, a
  \<open>PermissionError\<close> when only the actor is wrong, a \<open>ValueError\<close> when there is no such rule.
\<close>

theorem resolve_transition_exact:
  "registration_ok registered_transitions
   \<and> (resolve_transition b c actor = Inr r \<longleftrightarrow>
        r \<in> set registered_transitions \<and> rule_key r = (b, c) \<and> actor \<in> rule_actors r)
   \<and> ((\<exists>m. resolve_transition b c actor = Inl (PermissionError m)) \<longleftrightarrow>
        (\<exists>r \<in> set registered_transitions. rule_key r = (b, c) \<and> actor \<notin> rule_actors r))
   \<and> ((\<exists>m. resolve_transition b c actor = Inl (ValueError m)) \<longleftrightarrow>
        (b, c) \<notin> rule_key ` set registered_transitions)"
proof (intro conjI)
  show "registration_ok registered_transitions"
    by (simp add: registration_ok_def registered_transitions_def demo_table.no_duplicate_registration)
  show "resolve_transition b c actor = Inr r \<longleftrightarrow>
        r \<in> set registered_transitions \<and> rule_key r = (b, c) \<and> actor \<in> rule_actors r"
    by (auto simp: resolve_transition_Inr registered_transitions_def rule_key_def)
  have idx: "INDEX k = Some r \<longleftrightarrow> r \<in> set registered_transitions \<and> rule_key r = k" for k r
    by (simp add: INDEX_def demo_table.lookup_iff registered_transitions_def)
  show "(\<exists>m. resolve_transition b c actor = Inl (PermissionError m)) \<longleftrightarrow>
        (\<exists>r \<in> set registered_transitions. rule_key r = (b, c) \<and> actor \<notin> rule_actors r)"
    using idx [of "(b, c)"]
    by (cases "INDEX (b, c)") (auto simp: resolve_transition_def, metis)
  show "(\<exists>m. resolve_transition b c actor = Inl (ValueError m)) \<longleftrightarrow>
        (b, c) \<notin> rule_key ` set registered_transitions"
    using idx [of "(b, c)"] by (cases "INDEX (b, c)") (force simp: resolve_transition_def)+
qed

text \<open>
  The stations of a demo on its way to a paying learner, and how many of them a case must have
  passed when it is in a given state.
\<close>

definition journey :: "transition_command list" where
  "journey =
    [START_QUALIFICATION, COMPLETE_QUALIFICATION, COMPLETE_MATCHING, ACCEPT_SHORTLIST, HOLD_SLOT,
     REQUEST_CONFIRMATIONS, CONFIRM_ALL, ACTIVATE_REMINDERS, MARK_READY, START_DEMO, COMPLETE_DEMO,
     QUEUE_ANALYSIS, COMPLETE_ANALYSIS, START_CONVERSION, REQUEST_PAYMENT, VERIFY_PAYMENT,
     HANDOFF_ONBOARDING, COMPLETE_ONBOARDING]"

primrec station :: "demo_state \<Rightarrow> nat" where
  "station NEW = 0"
| "station QUALIFYING = 1"
| "station TUTOR_MATCHING = 2"
| "station TUTOR_SHORTLISTED = 3"
| "station SLOT_NEGOTIATING = 4"
| "station SLOT_HELD = 5"
| "station SLOT_EXPIRED = 4"
| "station AWAITING_CONFIRMATIONS = 6"
| "station SCHEDULED = 7"
| "station REMINDERS_ACTIVE = 8"
| "station READY = 9"
| "station IN_PROGRESS = 10"
| "station COMPLETED = 11"
| "station ANALYSIS_PENDING = 12"
| "station ANALYZED = 13"
| "station CONVERSION_FOLLOW_UP = 14"
| "station OFFER_PENDING = 14"
| "station PAYMENT_PENDING = 15"
| "station PAYMENT_FAILED = 15"
| "station PAYMENT_EXPIRED = 15"
| "station PAYMENT_REVIEW = 15"
| "station PAID = 16"
| "station ONBOARDING_HANDOFF = 17"
| "station CONVERTED = 18"
| "station RESCHEDULE_REQUESTED = 4"
| "station NO_SHOW_USER = 9"
| "station NO_SHOW_TUTOR = 9"
| "station TECHNICAL_FAILURE = 10"
| "station CANCELLED_BY_USER = 0"
| "station CANCELLED_BY_TUTOR = 0"
| "station HUMAN_HANDOFF = 0"
| "station FAILED = 0"

definition milestones :: "demo_state \<Rightarrow> transition_command list" where
  "milestones s = take (station s) journey"

lemma milestones_step:
  "\<forall>r \<in> set ALL_TRANSITIONS.
     subseq (milestones (rule_after r)) (milestones (rule_before r) @ [rule_command r])"
  unfolding ball_ALL_TRANSITIONS TRANSITIONS_def CANCELLABLE_def
  by (simp add: milestones_def journey_def)

lemma demo_run_milestones:
  "demo_run NEW tr t \<Longrightarrow> subseq (milestones t) (map fst tr)"
proof (erule demo_run_invariant [where I = "\<lambda>tr t. subseq (milestones t) (map fst tr)"])
  show "subseq (milestones NEW) (map fst [])" by (simp add: milestones_def)
next
  fix r and tr :: "(transition_command \<times> actor_type) list" and actor
  assume r: "r \<in> set ALL_TRANSITIONS" and "subseq (milestones (rule_before r)) (map fst tr)"
  then have "subseq (milestones (rule_before r) @ [rule_command r]) (map fst tr @ [rule_command r])"
    by (intro list_emb_append_mono) simp_all
  then show "subseq (milestones (rule_after r)) (map fst (tr @ [(rule_command r, actor)]))"
    using subseq_order.trans [OF bspec [OF milestones_step r]] by simp
qed

text \<open>
  (C9) A case that reaches a state by resolved commands has been through the stations that lead
  there, in order: a converted learner, for one, has been qualified and matched, has confirmed
  and completed a demo, has asked to pay, and has had the payment verified, in that order and
  before the onboarding steps.
\<close>

theorem converted_cases_completed_the_journey:
  assumes "demo_run NEW tr t"
  shows "subseq (milestones t) (map fst tr) \<and> milestones CONVERTED = journey"
  using demo_run_milestones [OF assms] by (simp add: milestones_def journey_def)

section \<open>Payment is verified once\<close>

definition paid_phase :: "demo_state set" where
  "paid_phase = {PAID, ONBOARDING_HANDOFF, CONVERTED}"

definition verifications :: "(transition_command \<times> actor_type) list \<Rightarrow> actor_type list" where
  "verifications tr = map snd (filter (\<lambda>(c, _). c = VERIFY_PAYMENT) tr)"

lemma verifications_simps [simp]:
  "verifications [] = []"
  "verifications (tr @ [(c, a)]) = verifications tr @ (if c = VERIFY_PAYMENT then [a] else [])"
  by (simp_all add: verifications_def)

definition after_end :: "demo_state set" where
  "after_end = {HUMAN_HANDOFF, FAILED}"

lemma paid_phase_step:
  "\<forall>r \<in> set ALL_TRANSITIONS.
     (if rule_command r = VERIFY_PAYMENT
      then rule_after r = PAID \<and> rule_before r \<notin> paid_phase \<union> after_end \<and> rule_actors r = PROVIDER
        \<and> ''activate_website_subscription'' \<in> set (rule_side_effects r)
      else (rule_after r \<in> paid_phase \<longleftrightarrow> rule_before r \<in> paid_phase \<and> rule_after r \<notin> after_end)
        \<and> rule_before r \<notin> after_end
        \<and> ''activate_website_subscription'' \<notin> set (rule_side_effects r))"
  unfolding ball_ALL_TRANSITIONS TRANSITIONS_def CANCELLABLE_def
  by (simp add: paid_phase_def after_end_def) (auto simp: TERMINAL_STATES_def)

text \<open>
  Exactly-once activation at the level of the table: along any run from \<open>NEW\<close> the command that
  verifies a payment, which is the only one that requests the website activation, is taken at
  most once; every case in a paid state has taken it exactly once, and the actor was the provider
  or the system.
\<close>

theorem payment_verified_once:
  assumes "demo_run NEW tr t"
  shows "length (verifications tr) \<le> 1
    \<and> set (verifications tr) \<subseteq> {ActorPROVIDER, ActorSYSTEM}
    \<and> (t \<in> {PAID, ONBOARDING_HANDOFF, CONVERTED} \<longrightarrow> length (verifications tr) = 1)"
proof -
  let ?I = "\<lambda>tr t. set (verifications tr) \<subseteq> PROVIDER \<and> length (verifications tr) \<le> 1
    \<and> (t \<in> paid_phase \<longrightarrow> length (verifications tr) = 1)
    \<and> (t \<notin> paid_phase \<union> after_end \<longrightarrow> verifications tr = [])"
  from assms have "?I tr t"
  proof (rule demo_run_invariant [where I = ?I])
    show "?I [] NEW" by (simp add: paid_phase_def)
  next
    fix r tr actor
    assume r: "r \<in> set ALL_TRANSITIONS" "actor \<in> rule_actors r" and I: "?I tr (rule_before r)"
    then show "?I (tr @ [(rule_command r, actor)]) (rule_after r)"
      using bspec [OF paid_phase_step r(1)]
      by (cases "rule_command r = VERIFY_PAYMENT") (auto simp: paid_phase_def after_end_def)
  qed
  then show ?thesis by (auto simp: paid_phase_def PROVIDER_def)
qed


section \<open>Terminal states and progress\<close>

text \<open>A command, with an actor, that brings a case one step closer to conversion.\<close>

fun progress :: "demo_state \<Rightarrow> transition_command \<times> actor_type" where
  "progress NEW = (START_QUALIFICATION, ActorUSER)"
| "progress QUALIFYING = (COMPLETE_QUALIFICATION, ActorSYSTEM)"
| "progress TUTOR_MATCHING = (COMPLETE_MATCHING, ActorSYSTEM)"
| "progress TUTOR_SHORTLISTED = (ACCEPT_SHORTLIST, ActorUSER)"
| "progress SLOT_NEGOTIATING = (HOLD_SLOT, ActorSYSTEM)"
| "progress SLOT_HELD = (REQUEST_CONFIRMATIONS, ActorSYSTEM)"
| "progress AWAITING_CONFIRMATIONS = (CONFIRM_ALL, ActorSYSTEM)"
| "progress SCHEDULED = (ACTIVATE_REMINDERS, ActorSYSTEM)"
| "progress REMINDERS_ACTIVE = (MARK_READY, ActorSYSTEM)"
| "progress READY = (START_DEMO, ActorUSER)"
| "progress IN_PROGRESS = (COMPLETE_DEMO, ActorTUTOR)"
| "progress COMPLETED = (QUEUE_ANALYSIS, ActorSYSTEM)"
| "progress ANALYSIS_PENDING = (COMPLETE_ANALYSIS, ActorSYSTEM)"
| "progress ANALYZED = (START_CONVERSION, ActorSYSTEM)"
| "progress CONVERSION_FOLLOW_UP = (REQUEST_PAYMENT, ActorUSER)"
| "progress OFFER_PENDING = (REQUEST_PAYMENT, ActorUSER)"
| "progress PAYMENT_PENDING = (VERIFY_PAYMENT, ActorPROVIDER)"
| "progress PAYMENT_REVIEW = (VERIFY_PAYMENT, ActorPROVIDER)"
| "progress PAID = (HANDOFF_ONBOARDING, ActorSYSTEM)"
| "progress ONBOARDING_HANDOFF = (COMPLETE_ONBOARDING, ActorSYSTEM)"
| "progress RESCHEDULE_REQUESTED = (REOPEN_NEGOTIATION, ActorSYSTEM)"
| "progress SLOT_EXPIRED = (REOPEN_NEGOTIATION, ActorUSER)"
| "progress NO_SHOW_USER = (REQUEST_RESCHEDULE, ActorUSER)"
| "progress NO_SHOW_TUTOR = (REQUEST_RESCHEDULE, ActorUSER)"
| "progress TECHNICAL_FAILURE = (REQUEST_RESCHEDULE, ActorTUTOR)"
| "progress PAYMENT_FAILED = (RETRY_PAYMENT, ActorUSER)"
| "progress PAYMENT_EXPIRED = (RETRY_PAYMENT, ActorUSER)"
| "progress _ = (FAIL, ActorSYSTEM)"

text \<open>The number of such commands to \<open>CONVERTED\<close>, and the number of commands from \<open>NEW\<close>.\<close>

primrec distance :: "demo_state \<Rightarrow> nat" where
  "distance NEW = 18"
| "distance QUALIFYING = 17"
| "distance TUTOR_MATCHING = 16"
| "distance TUTOR_SHORTLISTED = 15"
| "distance SLOT_NEGOTIATING = 14"
| "distance SLOT_HELD = 13"
| "distance AWAITING_CONFIRMATIONS = 12"
| "distance SCHEDULED = 11"
| "distance REMINDERS_ACTIVE = 10"
| "distance READY = 9"
| "distance IN_PROGRESS = 8"
| "distance COMPLETED = 7"
| "distance ANALYSIS_PENDING = 6"
| "distance ANALYZED = 5"
| "distance CONVERSION_FOLLOW_UP = 4"
| "distance OFFER_PENDING = 4"
| "distance PAYMENT_PENDING = 3"
| "distance PAID = 2"
| "distance ONBOARDING_HANDOFF = 1"
| "distance CONVERTED = 0"
| "distance RESCHEDULE_REQUESTED = 15"
| "distance CANCELLED_BY_USER = 0"
| "distance CANCELLED_BY_TUTOR = 0"
| "distance SLOT_EXPIRED = 15"
| "distance NO_SHOW_USER = 16"
| "distance NO_SHOW_TUTOR = 16"
| "distance TECHNICAL_FAILURE = 16"
| "distance PAYMENT_FAILED = 4"
| "distance PAYMENT_EXPIRED = 4"
| "distance PAYMENT_REVIEW = 3"
| "distance HUMAN_HANDOFF = 0"
| "distance FAILED = 0"

primrec depth :: "demo_state \<Rightarrow> nat" where
  "depth NEW = 0"
| "depth QUALIFYING = 1"
| "depth TUTOR_MATCHING = 2"
| "depth TUTOR_SHORTLISTED = 3"
| "depth SLOT_NEGOTIATING = 4"
| "depth SLOT_HELD = 5"
| "depth AWAITING_CONFIRMATIONS = 6"
| "depth SCHEDULED = 7"
| "depth REMINDERS_ACTIVE = 8"
| "depth READY = 9"
| "depth IN_PROGRESS = 10"
| "depth COMPLETED = 11"
| "depth ANALYSIS_PENDING = 12"
| "depth ANALYZED = 13"
| "depth CONVERSION_FOLLOW_UP = 14"
| "depth OFFER_PENDING = 15"
| "depth PAYMENT_PENDING = 15"
| "depth PAID = 16"
| "depth ONBOARDING_HANDOFF = 17"
| "depth CONVERTED = 18"
| "depth RESCHEDULE_REQUESTED = 8"
| "depth CANCELLED_BY_USER = 2"
| "depth CANCELLED_BY_TUTOR = 2"
| "depth SLOT_EXPIRED = 6"
| "depth NO_SHOW_USER = 10"
| "depth NO_SHOW_TUTOR = 10"
| "depth TECHNICAL_FAILURE = 11"
| "depth PAYMENT_FAILED = 16"
| "depth PAYMENT_EXPIRED = 16"
| "depth PAYMENT_REVIEW = 16"
| "depth HUMAN_HANDOFF = 1"
| "depth FAILED = 1"

lemma explicit_rule: "r \<in> set TRANSITIONS \<Longrightarrow> r \<in> set ALL_TRANSITIONS"
  by (simp add: ALL_TRANSITIONS_def)

lemma generated_rules:
  assumes "s \<notin> TERMINAL_STATES"
  shows "mk_rule s ESCALATE_HUMAN HUMAN_HANDOFF SYSTEM [] [''open_human_handoff_ticket''] None
      \<in> set ALL_TRANSITIONS"
    "mk_rule s FAIL FAILED SYSTEM [] [''record_terminal_failure''] None \<in> set ALL_TRANSITIONS"
  using assms ball_ALL_TRANSITIONS [of "\<lambda>r. r \<in> set ALL_TRANSITIONS"] by simp_all

lemma cancel_rules:
  assumes "s \<in> CANCELLABLE"
  shows "mk_rule s CANCEL_BY_USER CANCELLED_BY_USER USER [] [''cancel_pending_side_effects''] None
      \<in> set ALL_TRANSITIONS"
    "mk_rule s CANCEL_BY_TUTOR CANCELLED_BY_TUTOR TUTOR [] [''cancel_pending_side_effects''] None
      \<in> set ALL_TRANSITIONS"
  using assms ball_ALL_TRANSITIONS [of "\<lambda>r. r \<in> set ALL_TRANSITIONS"] by simp_all

lemma step_of_rule:
  "r \<in> set ALL_TRANSITIONS \<Longrightarrow> actor \<in> rule_actors r \<Longrightarrow>
     demo_step (rule_before r) (rule_command r, actor) (rule_after r)"
  by (rule demo_step.resolve) (simp add: resolve_transition_Inr)

lemma demo_states_UNIV: "s \<in> set demo_states"
  by (metis demo_state_of_def demo_state_of_value find_Some_iff nth_mem)

lemma progress_rules:
  "\<forall>s \<in> set demo_states. s \<in> TERMINAL_STATES \<or>
     list_ex (\<lambda>r. rule_before r = s \<and> rule_command r = fst (progress s)
       \<and> snd (progress s) \<in> rule_actors r \<and> distance (rule_after r) < distance s
       \<and> (rule_after r = CONVERTED \<or> rule_after r \<notin> TERMINAL_STATES)) TRANSITIONS"
  by code_simp

lemma arrival_rules:
  "\<forall>s \<in> set demo_states. s \<in> {NEW, CANCELLED_BY_USER, CANCELLED_BY_TUTOR, HUMAN_HANDOFF, FAILED} \<or>
     list_ex (\<lambda>r. rule_after r = s \<and> (ActorSYSTEM \<in> rule_actors r \<or> ActorUSER \<in> rule_actors r)
       \<and> depth (rule_before r) < depth s) TRANSITIONS"
  by code_simp

lemma reaches_conversion: "s = CONVERTED \<or> s \<notin> TERMINAL_STATES \<Longrightarrow> \<exists>tr. demo_run s tr CONVERTED"
proof (induction "distance s" arbitrary: s rule: less_induct)
  case less
  show ?case
  proof (cases "s = CONVERTED")
    case False
    with less.prems progress_rules demo_states_UNIV obtain r where r: "r \<in> set TRANSITIONS"
      "rule_before r = s" "snd (progress s) \<in> rule_actors r" "distance (rule_after r) < distance s"
      "rule_after r = CONVERTED \<or> rule_after r \<notin> TERMINAL_STATES"
      by (fastforce simp: list_ex_iff)
    then obtain tr where "demo_run (rule_after r) tr CONVERTED" using less.hyps by blast
    moreover have "demo_run s ([] @ [(rule_command r, snd (progress s))]) (rule_after r)"
      using step_of_rule [OF explicit_rule [OF r(1)] r(3)] r(2)
      by (intro demo_run.step [OF demo_run.start]) simp
    ultimately show ?thesis using demo_run_append by blast
  qed (auto intro: demo_run.start)
qed

lemma step_from_reachable:
  assumes "\<exists>tr. demo_run NEW tr (rule_before r)" "r \<in> set ALL_TRANSITIONS" "actor \<in> rule_actors r"
  shows "\<exists>tr. demo_run NEW tr (rule_after r)"
  using assms demo_run.step step_of_rule by blast

lemma reachable_from_NEW: "\<exists>tr. demo_run NEW tr s"
proof (induction "depth s" arbitrary: s rule: less_induct)
  case less
  have new: "\<exists>tr. demo_run NEW tr NEW" using demo_run.start by blast
  have esc: "\<exists>tr. demo_run NEW tr HUMAN_HANDOFF" "\<exists>tr. demo_run NEW tr FAILED"
    using step_from_reachable [of "mk_rule NEW ESCALATE_HUMAN HUMAN_HANDOFF SYSTEM [] [''open_human_handoff_ticket''] None" ActorSYSTEM]
      step_from_reachable [of "mk_rule NEW FAIL FAILED SYSTEM [] [''record_terminal_failure''] None" ActorSYSTEM]
      generated_rules [of NEW] new
    by (simp_all add: TERMINAL_STATES_def SYSTEM_def)
  show ?case
  proof (cases "s \<in> {NEW, CANCELLED_BY_USER, CANCELLED_BY_TUTOR, HUMAN_HANDOFF, FAILED}")
    case False
    with arrival_rules demo_states_UNIV obtain r actor where "r \<in> set TRANSITIONS"
      "rule_after r = s" "actor \<in> rule_actors r" "depth (rule_before r) < depth s"
      by (fastforce simp: list_ex_iff)
    then show ?thesis using less.hyps step_from_reachable explicit_rule by blast
  next
    case True
    have "\<exists>tr. demo_run NEW tr QUALIFYING" if "depth s = 2"
      using less.hyps [of QUALIFYING] that by simp
    then have "\<exists>tr. demo_run NEW tr s" if "s \<in> {CANCELLED_BY_USER, CANCELLED_BY_TUTOR}"
      using step_from_reachable [of "mk_rule QUALIFYING CANCEL_BY_USER CANCELLED_BY_USER USER [] [''cancel_pending_side_effects''] None" ActorUSER]
        step_from_reachable [of "mk_rule QUALIFYING CANCEL_BY_TUTOR CANCELLED_BY_TUTOR TUTOR [] [''cancel_pending_side_effects''] None" ActorTUTOR]
        cancel_rules [of QUALIFYING] that
      by (auto simp: CANCELLABLE_def USER_def TUTOR_def)
    with True new esc show ?thesis by auto
  qed
qed

lemma no_rule_from_terminal: "\<forall>r \<in> set ALL_TRANSITIONS. rule_before r \<notin> TERMINAL_STATES"
  unfolding ball_ALL_TRANSITIONS TRANSITIONS_def CANCELLABLE_def by (simp add: TERMINAL_STATES_def)

text \<open>
  (C25) The life cycle has no dead end and no unreachable state: every state is reached from \<open>NEW\<close>
  by resolved commands, exactly the declared terminal states have no way out, and from every
  other state the case can still be converted.
\<close>

theorem lifecycle_live:
  "(\<exists>tr. demo_run NEW tr s)
   \<and> (s \<in> TERMINAL_STATES \<longleftrightarrow> (\<forall>ca t. \<not> demo_step s ca t))
   \<and> (s \<in> TERMINAL_STATES \<or> (\<exists>tr. demo_run s tr CONVERTED))"
proof (intro conjI)
  show "\<exists>tr. demo_run NEW tr s" by (rule reachable_from_NEW)
  show "s \<in> TERMINAL_STATES \<or> (\<exists>tr. demo_run s tr CONVERTED)" using reaches_conversion by blast
  show "s \<in> TERMINAL_STATES \<longleftrightarrow> (\<forall>ca t. \<not> demo_step s ca t)"
  proof (cases "s \<in> TERMINAL_STATES")
    case True
    then show ?thesis using no_rule_from_terminal by (auto simp: resolve_transition_Inr)
  next
    case False
    from step_of_rule [OF generated_rules(2) [OF False], of ActorSYSTEM]
    have "demo_step s (FAIL, ActorSYSTEM) FAILED" by (simp add: SYSTEM_def)
    with False show ?thesis by metis
  qed
qed

text \<open>A whole life of a case, the instance at which the run theorems are evaluated.\<close>

definition sample_run :: "(transition_command \<times> actor_type) list" where
  "sample_run =
    [(START_QUALIFICATION, ActorUSER), (COMPLETE_QUALIFICATION, ActorSYSTEM),
     (COMPLETE_MATCHING, ActorSYSTEM), (ACCEPT_SHORTLIST, ActorUSER), (HOLD_SLOT, ActorSYSTEM),
     (REQUEST_CONFIRMATIONS, ActorSYSTEM), (CONFIRM_ALL, ActorSYSTEM),
     (ACTIVATE_REMINDERS, ActorSYSTEM), (MARK_READY, ActorSYSTEM), (START_DEMO, ActorTUTOR),
     (COMPLETE_DEMO, ActorTUTOR), (QUEUE_ANALYSIS, ActorSYSTEM), (COMPLETE_ANALYSIS, ActorSYSTEM),
     (START_CONVERSION, ActorSYSTEM), (REQUEST_PAYMENT, ActorUSER), (EXPIRE_PAYMENT, ActorSYSTEM),
     (RETRY_PAYMENT, ActorUSER), (VERIFY_PAYMENT, ActorPROVIDER), (HANDOFF_ONBOARDING, ActorSYSTEM),
     (COMPLETE_ONBOARDING, ActorSYSTEM)]"

lemma sample_run_converts: "demo_run NEW sample_run CONVERTED"
  unfolding demo_run_iff_exec by code_simp

theorem converted_cases_completed_the_journey_witness:
  "demo_run NEW sample_run CONVERTED \<and> subseq journey (map fst sample_run)"
  using converted_cases_completed_the_journey [OF sample_run_converts] sample_run_converts by metis

theorem payment_verified_once_witness:
  "demo_run NEW sample_run CONVERTED \<and> length (verifications sample_run) = 1"
  using payment_verified_once [OF sample_run_converts] sample_run_converts by simp

end
