(* ===== verification/Money.thy ===== *)
theory Money
  imports Prelude
begin

text \<open>
  \<open>modules/demo_core/domain/money.py\<close>: amounts in integer minor units with a currency.  The
  constructor normalises the currency and rejects what is not money, subtraction and discounting
  go through it again, and the dataclass order (\<open>order=True\<close>) is the lexicographic one.
\<close>

datatype money = Money (amount_minor: int) (currency: string)

definition mk_money :: "int \<Rightarrow> string \<Rightarrow> money res" where
  "mk_money amount cur =
     (let normalized = upper (strip cur)
      in if amount < 0 then Inl (ValueError ''money cannot be negative'')
         else if length normalized \<noteq> 3 \<or> \<not> isalpha normalized
              then Inl (ValueError ''currency must be a three-letter ISO code'')
         else Inr (Money amount normalized))"

definition require_same_currency :: "money \<Rightarrow> money \<Rightarrow> unit res" where
  "require_same_currency a b =
     (if currency a \<noteq> currency b then Inl (ValueError ''currency mismatch'') else Inr ())"

definition subtract :: "money \<Rightarrow> money \<Rightarrow> money res" where
  "subtract a b =
     res_bind (require_same_currency a b) (\<lambda>_.
       if amount_minor b > amount_minor a
       then Inl (ValueError ''money subtraction cannot be negative'')
       else mk_money (amount_minor a - amount_minor b) (currency a))"

definition discounted_by_basis_points :: "money \<Rightarrow> int \<Rightarrow> money res" where
  "discounted_by_basis_points m bp =
     (if \<not> (0 \<le> bp \<and> bp \<le> 10000)
      then Inl (ValueError ''basis points must be between zero and 10000'')
      else let numerator = amount_minor m * (10000 - bp)
           in mk_money ((numerator + 9999) div 10000) (currency m))"

section \<open>The order of the dataclass\<close>

instantiation money :: linorder
begin

definition less_eq_money :: "money \<Rightarrow> money \<Rightarrow> bool" where
  "less_eq_money a b \<longleftrightarrow> (amount_minor a, currency a) \<le> (amount_minor b, currency b)"

definition less_money :: "money \<Rightarrow> money \<Rightarrow> bool" where
  "less_money a b \<longleftrightarrow> (amount_minor a, currency a) < (amount_minor b, currency b)"

instance
proof
  fix x y z :: money
  show "x < y \<longleftrightarrow> x \<le> y \<and> \<not> y \<le> x" "x \<le> x" "x \<le> y \<or> y \<le> x"
    by (auto simp: less_eq_money_def less_money_def)
  show "x \<le> y \<Longrightarrow> y \<le> z \<Longrightarrow> x \<le> z"
    unfolding less_eq_money_def by (rule order_trans)
  show "x \<le> y \<Longrightarrow> y \<le> x \<Longrightarrow> x = y"
    unfolding less_eq_money_def by (metis antisym money.expand prod.inject)
qed

end

lemma money_le_same_currency:
  "currency a = currency b \<Longrightarrow> a \<le> b \<longleftrightarrow> amount_minor a \<le> amount_minor b"
  by (auto simp: less_eq_money_def)

section \<open>The type invariant\<close>

text \<open>What every value built by the constructor satisfies.\<close>

definition wf_money :: "money \<Rightarrow> bool" where
  "wf_money m \<longleftrightarrow> 0 \<le> amount_minor m \<and> length (currency m) = 3 \<and> isalpha (currency m)
     \<and> upper (strip (currency m)) = currency m"

lemma mk_money_Inr:
  "mk_money amount cur = Inr m \<longleftrightarrow>
     0 \<le> amount \<and> length (upper (strip cur)) = 3 \<and> isalpha (upper (strip cur))
     \<and> m = Money amount (upper (strip cur))"
  by (auto simp: mk_money_def Let_def)

lemma mk_money_wf: "mk_money amount cur = Inr m \<Longrightarrow> wf_money m"
  by (auto simp: mk_money_Inr wf_money_def)

lemma mk_money_of_wf: "wf_money m \<Longrightarrow> 0 \<le> a \<Longrightarrow> mk_money a (currency m) = Inr (Money a (currency m))"
  by (auto simp: mk_money_Inr wf_money_def)

lemma require_same_currency_Inr [res_simps]:
  "require_same_currency a b = Inr u \<longleftrightarrow> currency a = currency b"
  by (cases u) (auto simp: require_same_currency_def)

lemma subtract_wf: "wf_money a \<Longrightarrow> subtract a b = Inr m \<Longrightarrow> wf_money m"
  by (auto simp: subtract_def res_simps dest: mk_money_wf split: if_splits)

lemma discounted_wf: "discounted_by_basis_points m bp = Inr d \<Longrightarrow> wf_money d"
  by (simp add: discounted_by_basis_points_def Let_def mk_money_wf split: if_splits)

text \<open>A discount of valid money never fails and gives the exact quotient rounded up.\<close>

lemma ceil_div: "(n + 9999) div 10000 = - (- n div (10000::int))"
proof (rule int_div_pos_eq)
  show "n + 9999 = 10000 * - (- n div 10000) + (9999 - - n mod 10000)"
    using div_mult_mod_eq [of "- n" 10000] by linarith
  show "0 \<le> 9999 - - n mod 10000" "9999 - - n mod 10000 < 10000"
    using pos_mod_bound [of 10000 "- n"] pos_mod_sign [of 10000 "- n"] by linarith+
qed

lemma discounted_by_basis_points_eq:
  assumes "wf_money m" "0 \<le> bp" "bp \<le> 10000"
  shows "discounted_by_basis_points m bp =
    Inr (Money (- (- (amount_minor m * (10000 - bp)) div 10000)) (currency m))"
proof -
  let ?n = "amount_minor m * (10000 - bp)"
  have n: "0 \<le> ?n" using assms by (simp add: wf_money_def)
  then have "0 \<le> (?n + 9999) div 10000" by simp
  then show ?thesis
    using assms mk_money_of_wf [OF assms(1), of "(?n + 9999) div 10000"]
    by (simp add: discounted_by_basis_points_def Let_def ceil_div)
qed

end
