(* ===== verification/Decimal.thy ===== *)
theory Decimal
  imports Prelude "HOL-Library.Log_Nat"
begin

text \<open>
  Python's \<open>decimal.Decimal\<close> under the default context: results are rounded to 28 significant
  digits, ties to even.  A finite decimal is modelled by its value, a rational number; every
  arithmetic operation of the program rounds its exact result with \<open>dec_rnd 28\<close>, while
  comparisons, \<open>min\<close> and \<open>max\<close> are exact.  The limits of the exponent (a million either way),
  signed zeros and NaN are not modelled.  Rounding is defined over any Archimedean field, so that
  the correctly rounded exponential function is the rounding of a real number.
\<close>

section \<open>Rounding\<close>

text \<open>The exponent of the leading digit of a positive number.\<close>

definition adjusted :: "'a::floor_ceiling \<Rightarrow> int" where
  "adjusted x =
     (if 1 \<le> x then int (floorlog 10 (nat \<lfloor>x\<rfloor>)) - 1
      else - int (floorlog 10 (nat (\<lceil>1 / x\<rceil> - 1))))"

definition round_half_even :: "'a::floor_ceiling \<Rightarrow> int" where
  "round_half_even x =
     (let n = \<lfloor>x\<rfloor>; r = x - of_int n
      in if 2 * r < 1 \<or> 2 * r = 1 \<and> even n then n else n + 1)"

text \<open>Scientific notation with \<open>p\<close> digits.\<close>

definition dec_exponent :: "nat \<Rightarrow> 'a::floor_ceiling \<Rightarrow> int" where
  "dec_exponent p x = adjusted \<bar>x\<bar> + 1 - int p"

definition dec_coefficient :: "nat \<Rightarrow> 'a::floor_ceiling \<Rightarrow> int" where
  "dec_coefficient p x =
     (let m = round_half_even (\<bar>x\<bar> / 10 powi dec_exponent p x) in if x < 0 then - m else m)"

definition dec_rnd :: "nat \<Rightarrow> 'a::floor_ceiling \<Rightarrow> rat" where
  "dec_rnd p x =
     (if x = 0 then 0 else of_int (dec_coefficient p x) * 10 powi dec_exponent p x)"

section \<open>The operations of the default context\<close>

type_synonym decimal = rat

abbreviation dec_round :: "rat \<Rightarrow> rat" where
  "dec_round \<equiv> dec_rnd 28"

definition dec_add :: "decimal \<Rightarrow> decimal \<Rightarrow> decimal" where "dec_add x y = dec_round (x + y)"
definition dec_sub :: "decimal \<Rightarrow> decimal \<Rightarrow> decimal" where "dec_sub x y = dec_round (x - y)"
definition dec_mul :: "decimal \<Rightarrow> decimal \<Rightarrow> decimal" where "dec_mul x y = dec_round (x * y)"
definition dec_neg :: "decimal \<Rightarrow> decimal" where "dec_neg x = dec_round (- x)"
definition dec_abs :: "decimal \<Rightarrow> decimal" where "dec_abs x = dec_round \<bar>x\<bar>"

text \<open>Division by zero signals \<open>DivisionByZero\<close> or, for \<open>0 / 0\<close>, \<open>InvalidOperation\<close>; both raise.\<close>

definition dec_div :: "decimal \<Rightarrow> decimal \<Rightarrow> decimal res" where
  "dec_div x y =
     (if y = 0 then Inl (InvalidOperation (if x = 0 then ''DivisionUndefined'' else ''DivisionByZero''))
      else Inr (dec_round (x / y)))"

text \<open>\<open>x ** 2\<close> multiplies with three extra digits before the final rounding.\<close>

definition dec_square :: "decimal \<Rightarrow> decimal" where
  "dec_square x = dec_round (dec_rnd 31 (x * x))"

text \<open>\<open>x.exp()\<close> is correctly rounded.\<close>

definition dec_exp :: "decimal \<Rightarrow> decimal" where
  "dec_exp x = dec_rnd 28 (exp (of_rat x :: real))"

text \<open>\<open>sum(values, start=Decimal(0))\<close>.\<close>

definition dec_sum :: "decimal list \<Rightarrow> decimal" where
  "dec_sum xs = foldl dec_add 0 xs"

lemmas dec_ops = dec_add_def dec_sub_def dec_mul_def dec_neg_def dec_abs_def

section \<open>Leading digits\<close>

lemma powi_nat10: "(10::'a::field_char_0) powi int n = 10 ^ n"
  by (simp add: power_int_def)

lemma powi10_less [simp]: "(10::'a::linordered_field) powi m < 10 powi n \<longleftrightarrow> m < n"
  using power_int_strict_increasing [of m n "10::'a"] power_int_increasing [of n m "10::'a"]
  by (meson linorder_not_less numeral_le_iff one_le_numeral one_less_numeral_iff semiring_norm(76))

lemma powi10_le [simp]: "(10::'a::linordered_field) powi m \<le> 10 powi n \<longleftrightarrow> m \<le> n"
  by (simp flip: not_less)

lemma powi10_pos [simp]: "0 < (10::'a::linordered_field) powi m"
  by simp

lemma powi10_split: "(10::'a::linordered_field) powi (int n + e) = 10 ^ n * 10 powi e"
  by (simp add: power_int_add powi_nat10)

lemma adjusted_bounds:
  fixes x :: "'a::floor_ceiling"
  assumes "0 < x"
  shows "10 powi adjusted x \<le> x \<and> x < 10 powi (adjusted x + 1)"
proof (cases "1 \<le> x")
  case True
  let ?n = "nat \<lfloor>x\<rfloor>" and ?d = "floorlog 10 (nat \<lfloor>x\<rfloor>)"
  have n: "0 < ?n" using True by simp
  have b: "10 ^ (?d - 1) \<le> ?n" "?n < 10 ^ ?d" using floorlog_bounds [of ?n 10] n by simp_all
  have d: "0 < ?d" using n b(2) by (cases ?d) auto
  have fl: "of_nat ?n \<le> x" "x < of_nat ?n + 1"
    using True floor_correct [of x] by (simp_all add: of_nat_nat)
  have "(10::'a) ^ (?d - 1) \<le> of_nat ?n" using b(1) by (metis of_nat_le_iff of_nat_numeral of_nat_power)
  moreover have "of_nat ?n + 1 \<le> (10::'a) ^ ?d"
    using b(2) by (metis Suc_leI add.commute of_nat_Suc of_nat_le_iff of_nat_numeral of_nat_power)
  moreover have "adjusted x = int (?d - 1)" "adjusted x + 1 = int ?d"
    using True d by (simp_all add: adjusted_def)
  ultimately show ?thesis using fl powi_nat10 by (metis (no_types) dual_order.strict_trans1 order_trans)
next
  case False
  let ?c = "\<lceil>1 / x\<rceil>" and ?n = "nat (\<lceil>1 / x\<rceil> - 1)" and ?d = "floorlog 10 (nat (\<lceil>1 / x\<rceil> - 1))"
  have "1 < 1 / x" using False assms by simp
  then have c: "2 \<le> ?c" by (simp add: one_less_ceiling flip: add1_zle_eq)
  then have n: "0 < ?n" by simp
  have b: "10 ^ (?d - 1) \<le> ?n" "?n < 10 ^ ?d" using floorlog_bounds [of ?n 10] n by simp_all
  have d: "0 < ?d" using n b(2) by (cases ?d) auto
  have "(of_nat ?n :: 'a) = of_int (?c - 1)" by (rule of_nat_nat) (use c in linarith)
  then have fl: "of_nat ?n < 1 / x" "1 / x \<le> of_nat ?n + 1"
    using ceiling_correct [of "1 / x"] by simp_all
  have "(10::'a) ^ (?d - 1) \<le> of_nat ?n" using b(1) by (metis of_nat_le_iff of_nat_numeral of_nat_power)
  then have u: "(10::'a) ^ (?d - 1) < 1 / x" using fl by linarith
  have "of_nat ?n + 1 \<le> (10::'a) ^ ?d"
    using b(2) by (metis Suc_leI add.commute of_nat_Suc of_nat_le_iff of_nat_numeral of_nat_power)
  then have l: "1 / x \<le> (10::'a) ^ ?d" using fl by linarith
  have a: "adjusted x = - int ?d" "adjusted x + 1 = - int (?d - 1)"
    using False d by (simp_all add: adjusted_def)
  have "1 / 10 ^ ?d \<le> x" using l assms by (simp add: field_simps)
  moreover have "x < 1 / 10 ^ (?d - 1)" using u assms by (simp add: field_simps)
  moreover have "(10::'a) powi adjusted x = 1 / 10 ^ ?d"
    by (simp only: a(1) power_int_minus powi_nat10 inverse_eq_divide)
  moreover have "(10::'a) powi (adjusted x + 1) = 1 / 10 ^ (?d - 1)"
    by (simp only: a(2) power_int_minus powi_nat10 inverse_eq_divide)
  ultimately show ?thesis by (simp only:)
qed

lemma adjusted_eqI:
  fixes x :: "'a::floor_ceiling"
  assumes "10 powi e \<le> x" "x < 10 powi (e + 1)"
  shows "adjusted x = e"
proof -
  have "0 < x" using assms(1) by (rule less_le_trans [rotated]) simp
  then have b: "10 powi adjusted x \<le> x" "x < 10 powi (adjusted x + 1)"
    using adjusted_bounds by blast+
  have "(10::'a) powi e < 10 powi (adjusted x + 1)" "(10::'a) powi adjusted x < 10 powi (e + 1)"
    using assms b by linarith+
  then have "e < adjusted x + 1" "adjusted x < e + 1" by simp_all
  then show ?thesis by simp
qed

lemma adjusted_mono:
  fixes x y :: "'a::floor_ceiling"
  assumes "0 < x" "x \<le> y"
  shows "adjusted x \<le> adjusted y"
proof -
  have "(10::'a) powi adjusted x < 10 powi (adjusted y + 1)"
    using adjusted_bounds [of x] adjusted_bounds [of y] assms by linarith
  then have "adjusted x < adjusted y + 1" by simp_all
  then show ?thesis by simp
qed

text \<open>The number of digits computed by repeated division, for evaluation.\<close>

function digits10 :: "int \<Rightarrow> int" where
  "digits10 n = (if n \<le> 0 then 0 else digits10 (n div 10) + 1)"
  by auto
termination by (relation "measure nat") auto

declare digits10.simps [simp del]

lemma digits10_floorlog: "digits10 (int n) = int (floorlog 10 n)"
proof (induction n rule: less_induct)
  case (less n)
  show ?case
  proof (cases "n = 0")
    case True
    then show ?thesis by (simp add: digits10.simps floorlog_def)
  next
    case False
    then have "digits10 (int n) = digits10 (int (n div 10)) + 1" by (simp add: digits10.simps zdiv_int)
    then show ?thesis using less.IH [of "n div 10"] False compute_floorlog [of 10 n] by simp
  qed
qed

lemma adjusted_code [code]:
  fixes x :: "'a::floor_ceiling"
  shows "adjusted x =
    (if x \<le> 0 then - int (floorlog 10 (nat (\<lceil>1 / x\<rceil> - 1)))
     else if 1 \<le> x then digits10 \<lfloor>x\<rfloor> - 1 else - digits10 (\<lceil>1 / x\<rceil> - 1))"
proof -
  have "digits10 i = int (floorlog 10 (nat i))" if "0 \<le> i" for i
    using digits10_floorlog [of "nat i"] that by simp
  moreover have "0 \<le> \<lceil>1 / x\<rceil> - 1" if "0 < x"
    using that less_ceiling_iff [of 0 "1 / x"] by simp
  ultimately show ?thesis by (auto simp: adjusted_def)
qed

section \<open>Ties to even\<close>

lemma round_half_even_of_int [simp]: "round_half_even (of_int n :: 'a::floor_ceiling) = n"
  by (simp add: round_half_even_def)

lemma round_half_even_cases:
  "round_half_even x = \<lfloor>x\<rfloor> \<or> round_half_even x = \<lfloor>x\<rfloor> + 1"
  by (simp add: round_half_even_def Let_def)

lemma round_half_even_mono:
  fixes x y :: "'a::floor_ceiling"
  assumes "x \<le> y"
  shows "round_half_even x \<le> round_half_even y"
proof (cases "\<lfloor>x\<rfloor> = \<lfloor>y\<rfloor>")
  case True
  then show ?thesis using assms by (auto simp: round_half_even_def Let_def)
next
  case False
  then have "\<lfloor>x\<rfloor> + 1 \<le> \<lfloor>y\<rfloor>" using floor_mono [OF assms] by simp
  then show ?thesis using round_half_even_cases [of x] round_half_even_cases [of y] by linarith
qed

lemma round_half_even_le: "x \<le> of_int n \<Longrightarrow> round_half_even x \<le> n"
  using round_half_even_mono [of x "of_int n"] by simp

lemma round_half_even_ge: "of_int n \<le> x \<Longrightarrow> n \<le> round_half_even x"
  using round_half_even_mono [of "of_int n" x] by simp

section \<open>Laws of rounding\<close>

lemma dec_rnd_0 [simp]: "dec_rnd p 0 = 0"
  by (simp add: dec_rnd_def)

lemma dec_rnd_minus [simp]: "dec_rnd p (- x) = - dec_rnd p x"
  by (auto simp: dec_rnd_def dec_coefficient_def dec_exponent_def Let_def)

text \<open>A positive number keeps its leading digit, or becomes the next power of ten.\<close>

lemma dec_rnd_pos_bounds:
  fixes x :: "'a::floor_ceiling"
  assumes "0 < x" "0 < p"
  shows "10 powi adjusted x \<le> dec_rnd p x \<and> dec_rnd p x \<le> 10 powi (adjusted x + 1)"
proof -
  let ?e = "dec_exponent p x" and ?q = "x / 10 powi dec_exponent p x"
  have e: "adjusted x = int (p - 1) + ?e" "adjusted x + 1 = int p + ?e"
    using assms by (simp_all add: dec_exponent_def of_nat_diff)
  have split: "(10::'b) powi adjusted x = 10 ^ (p - 1) * 10 powi ?e"
    "(10::'b) powi (adjusted x + 1) = 10 ^ p * 10 powi ?e" for dummy :: "'b::linordered_field itself"
    by (subst e(1), rule powi10_split) (subst e(2), rule powi10_split)
  have "10 ^ (p - 1) \<le> ?q" "?q \<le> 10 ^ p"
    using adjusted_bounds [OF assms(1)] unfolding split by (simp_all add: field_simps)
  then have "10 ^ (p - 1) \<le> round_half_even ?q" "round_half_even ?q \<le> 10 ^ p"
    by (auto intro: round_half_even_ge round_half_even_le)
  then have "(10::rat) ^ (p - 1) \<le> of_int (round_half_even ?q)"
    "of_int (round_half_even ?q) \<le> (10::rat) ^ p"
    by (metis of_int_le_iff of_int_numeral of_int_power)+
  then show ?thesis
    using assms(1) unfolding split by (simp add: dec_rnd_def dec_coefficient_def)
qed

lemma dec_rnd_pos: "0 < x \<Longrightarrow> 0 < p \<Longrightarrow> 0 < dec_rnd p x" for x :: "'a::floor_ceiling"
  using dec_rnd_pos_bounds [of x p] powi10_pos [of "adjusted x", where 'a = rat] by linarith

lemma dec_rnd_mono_pos:
  fixes x y :: "'a::floor_ceiling"
  assumes "0 < x" "x \<le> y" "0 < p"
  shows "dec_rnd p x \<le> dec_rnd p y"
proof (cases "adjusted x = adjusted y")
  case True
  then have "x / 10 powi dec_exponent p x \<le> y / 10 powi dec_exponent p y"
    using assms by (simp add: dec_exponent_def divide_right_mono)
  then have "round_half_even (x / 10 powi dec_exponent p x)
      \<le> round_half_even (y / 10 powi dec_exponent p y)"
    by (rule round_half_even_mono)
  then show ?thesis
    using assms True by (simp add: dec_rnd_def dec_coefficient_def dec_exponent_def mult_right_mono)
next
  case False
  then have "adjusted x + 1 \<le> adjusted y" using adjusted_mono [OF assms(1,2)] by simp
  then have "(10::rat) powi (adjusted x + 1) \<le> 10 powi adjusted y" by simp
  then show ?thesis
    using dec_rnd_pos_bounds [of x p] dec_rnd_pos_bounds [of y p] assms by linarith
qed

lemma dec_rnd_mono:
  fixes x y :: "'a::floor_ceiling"
  assumes "x \<le> y" "0 < p"
  shows "dec_rnd p x \<le> dec_rnd p y"
proof -
  consider "0 < x" | "x \<le> 0" "0 \<le> y" | "y < 0" using assms(1) by linarith
  then show ?thesis
  proof cases
    case 1
    then show ?thesis using dec_rnd_mono_pos assms by blast
  next
    case 2
    have "0 \<le> dec_rnd p z" if "0 \<le> z" for z :: 'a
      using that dec_rnd_pos [of z p] assms(2) by (cases "z = 0") auto
    from this [of y] this [of "- x"] 2 show ?thesis by simp
  next
    case 3
    then have "dec_rnd p (- y) \<le> dec_rnd p (- x)" using assms by (intro dec_rnd_mono_pos) auto
    then show ?thesis by simp
  qed
qed

text \<open>A number with at most \<open>p\<close> digits is not changed.\<close>

lemma dec_rnd_exact_pos:
  fixes e :: int
  assumes "0 < m" "m < 10 ^ p"
  shows "dec_rnd p (of_int m * 10 powi e :: rat) = of_int m * 10 powi e"
proof -
  define x where "x = (of_int m * 10 powi e :: rat)"
  have x: "0 < x" using assms by (simp add: x_def)
  have "(of_int m :: rat) < 10 ^ p"
    using assms by (metis of_int_less_iff of_int_numeral of_int_power)
  then have "x < 10 ^ p * 10 powi e" by (simp add: x_def)
  also have "\<dots> = 10 powi (int p + e)" by (simp add: power_int_add powi_nat10)
  finally have "(10::rat) powi adjusted x < 10 powi (int p + e)"
    using adjusted_bounds [OF x] by linarith
  then have "dec_exponent p x \<le> e" using x by (simp add: dec_exponent_def)
  then obtain k where k: "e = dec_exponent p x + int k" using zle_iff_zadd by blast
  have q: "10 powi e = 10 ^ k * (10 powi dec_exponent p x :: rat)"
    by (subst k) (simp add: power_int_add powi_nat10)
  have "x = of_int m * 10 powi e" by (simp add: x_def)
  then have eq: "x = of_int (m * 10 ^ k) * 10 powi dec_exponent p x"
    unfolding q by (simp add: mult.assoc)
  then have "x / 10 powi dec_exponent p x = of_int (m * 10 ^ k)"
    by (metis nonzero_mult_div_cancel_right power_int_not_zero zero_neq_numeral)
  then have "dec_coefficient p x = m * 10 ^ k"
    using x by (simp only: dec_coefficient_def Let_def abs_of_pos round_half_even_of_int) simp
  then have "dec_rnd p x = of_int (m * 10 ^ k) * 10 powi dec_exponent p x"
    using x by (simp add: dec_rnd_def)
  also have "\<dots> = x" by (rule eq [symmetric])
  finally show ?thesis by (simp add: x_def)
qed

lemma dec_rnd_exactI:
  fixes x :: rat
  assumes "x * 10 ^ k = of_int m" "\<bar>m\<bar> < 10 ^ p"
  shows "dec_rnd p x = x"
proof -
  have "x = of_int m * 10 powi (- int k)"
    using assms(1) by (simp add: power_int_minus powi_nat10 field_simps)
  moreover have "(- of_int m :: rat) = of_int (- m)" by simp
  ultimately show ?thesis
    using dec_rnd_exact_pos [of m p "- int k"] dec_rnd_exact_pos [of "- m" p "- int k"]
      dec_rnd_minus [of p "of_int m * 10 powi (- int k)"] assms(2)
    by (cases m "0::int" rule: linorder_cases) auto
qed

lemma dec_rnd_power_of_ten: "0 < p \<Longrightarrow> dec_rnd p (10 powi e :: rat) = 10 powi e"
  using dec_rnd_exact_pos [of 1 p e] by simp

lemma dec_rnd_idem_pos:
  fixes x :: "'a::floor_ceiling"
  assumes "0 < x" "0 < p"
  shows "dec_rnd p (dec_rnd p x) = dec_rnd p x"
proof (cases "dec_rnd p x = 10 powi (adjusted x + 1)")
  case True
  then show ?thesis using dec_rnd_power_of_ten assms by simp
next
  case False
  let ?m = "dec_coefficient p x" and ?e = "dec_exponent p x"
  have r: "dec_rnd p x = of_int ?m * 10 powi ?e" using assms by (simp add: dec_rnd_def)
  have "of_int ?m * 10 powi ?e < (10::rat) powi (int p + ?e)"
    using dec_rnd_pos_bounds [OF assms] False r assms(1) by (simp add: dec_exponent_def)
  then have "of_int ?m < (10::rat) ^ p" by (simp add: power_int_add powi_nat10)
  then have "?m < 10 ^ p" by (metis of_int_less_iff of_int_numeral of_int_power)
  moreover have "0 < (of_int ?m :: rat)"
    using dec_rnd_pos [OF assms] powi10_pos unfolding r by (rule zero_less_mult_pos2)
  ultimately show ?thesis unfolding r by (intro dec_rnd_exact_pos) simp_all
qed

lemma dec_rnd_idem:
  fixes x :: "'a::floor_ceiling"
  assumes "0 < p"
  shows "dec_rnd p (dec_rnd p x) = dec_rnd p x"
proof -
  consider "0 < x" | "x = 0" | "0 < - x" by (metis neg_0_less_iff_less linorder_neqE)
  then show ?thesis
  proof cases
    case 3
    from dec_rnd_idem_pos [OF 3 assms] show ?thesis by (simp only: dec_rnd_minus neg_equal_iff_equal)
  qed (simp_all add: dec_rnd_idem_pos assms)
qed

lemma dec_rnd_1 [simp]: "0 < p \<Longrightarrow> dec_rnd p (1::rat) = 1"
  using dec_rnd_power_of_ten [of p 0] by simp

lemma dec_rnd_of_nat:
  assumes "0 < p" "n \<le> 10 ^ p"
  shows "dec_rnd p (of_nat n :: rat) = of_nat n"
proof -
  consider "n = 0" | "n = 10 ^ p" | "0 < n" "n < 10 ^ p" using assms by linarith
  then show ?thesis
  proof cases
    case 2
    then show ?thesis using dec_rnd_power_of_ten [of p "int p"] assms by (simp add: powi_nat10)
  next
    case 3
    then have "int n < 10 ^ p" by (metis of_nat_less_iff of_nat_numeral of_nat_power)
    then show ?thesis using dec_rnd_exact_pos [of "int n" p 0] 3 by simp
  qed simp
qed

section \<open>What the scores of the program rely on\<close>

text \<open>
  The programs' scores are quotients of sums of products, each operation rounded.  That such a
  score still lies between zero and one needs only these laws of the rounding function, not its
  definition.
\<close>

locale rounding =
  fixes rnd :: "rat \<Rightarrow> rat"
  assumes rnd_mono: "x \<le> y \<Longrightarrow> rnd x \<le> rnd y"
    and rnd_zero: "rnd 0 = 0"
    and rnd_one: "rnd 1 = 1"
    and rnd_idem: "rnd (rnd x) = rnd x"
    and rnd_pos: "0 < x \<Longrightarrow> 0 < rnd x"
begin

lemma rnd_nonneg: "0 \<le> x \<Longrightarrow> 0 \<le> rnd x"
  using rnd_mono [of 0 x] by (simp add: rnd_zero)

lemma rnd_le_one: "x \<le> 1 \<Longrightarrow> rnd x \<le> 1"
  using rnd_mono [of x 1] by (simp add: rnd_one)

lemma rnd_ge_one: "1 \<le> x \<Longrightarrow> 1 \<le> rnd x"
  using rnd_mono [of 1 x] by (simp add: rnd_one)

text \<open>A quotient of ordered numbers is a fraction.\<close>

lemma fraction: "0 \<le> x \<Longrightarrow> x \<le> y \<Longrightarrow> 0 \<le> rnd (x / y) \<and> rnd (x / y) \<le> 1"
  by (cases "y = 0") (auto intro!: rnd_nonneg rnd_le_one simp: rnd_zero)

text \<open>The position of a value between two bounds is a fraction.\<close>

lemma normalized_fraction:
  assumes "lo \<le> v" "v \<le> hi"
  shows "0 \<le> rnd (rnd (v - lo) / rnd (hi - lo)) \<and> rnd (rnd (v - lo) / rnd (hi - lo)) \<le> 1"
  using assms by (intro fraction rnd_nonneg rnd_mono) simp_all

text \<open>A fraction of an exact weight does not exceed the weight.\<close>

lemma scaled_le:
  assumes "0 \<le> n" "n \<le> 1" "0 \<le> w" "rnd w = w"
  shows "0 \<le> rnd (n * w) \<and> rnd (n * w) \<le> w"
proof -
  have "n * w \<le> w" using mult_right_mono [of n 1 w] assms by simp
  then have "rnd (n * w) \<le> rnd w" by (rule rnd_mono)
  then show ?thesis using assms rnd_nonneg [of "n * w"] by simp
qed

lemma add_mono_rnd: "a \<le> b \<Longrightarrow> c \<le> d \<Longrightarrow> rnd (a + c) \<le> rnd (b + d)"
  by (rule rnd_mono) simp

text \<open>An exact number is not decreased by a rounded addition of something not negative.\<close>

lemma add_increasing: "rnd a = a \<Longrightarrow> a \<le> b \<Longrightarrow> 0 \<le> c \<Longrightarrow> a \<le> rnd (b + c)"
  using rnd_mono [of a "b + c"] by simp

text \<open>The mean of fractions is a fraction, as long as the number of summands is exact.\<close>

lemma sum_fractions_le:
  assumes "\<And>k. k \<le> n + length xs \<Longrightarrow> rnd (of_nat k) = of_nat k"
    and "list_all (\<lambda>x. 0 \<le> x \<and> x \<le> 1) xs" and "0 \<le> s" "s \<le> of_nat n"
  shows "0 \<le> foldl (\<lambda>s x. rnd (s + x)) s xs
    \<and> foldl (\<lambda>s x. rnd (s + x)) s xs \<le> of_nat (n + length xs)"
  using assms
proof (induction xs arbitrary: s n)
  case Nil
  then show ?case by simp
next
  case (Cons x xs)
  have "rnd (s + x) \<le> rnd (of_nat (Suc n))" using Cons.prems(2,4) by (intro rnd_mono) simp
  then have "rnd (s + x) \<le> of_nat (Suc n)" using Cons.prems(1) [of "Suc n"] by simp
  moreover have "0 \<le> rnd (s + x)" using Cons.prems(2,3) by (intro rnd_nonneg) simp
  ultimately show ?case
    using Cons.IH [of "Suc n" "rnd (s + x)"] Cons.prems(1,2) by simp
qed

lemma mean_fraction:
  assumes "\<And>k. k \<le> length xs \<Longrightarrow> rnd (of_nat k) = of_nat k"
    and "list_all (\<lambda>x. 0 \<le> x \<and> x \<le> 1) xs"
  shows "0 \<le> rnd (foldl (\<lambda>s x. rnd (s + x)) 0 xs / of_nat (length xs))
    \<and> rnd (foldl (\<lambda>s x. rnd (s + x)) 0 xs / of_nat (length xs)) \<le> 1"
  using sum_fractions_le [of 0 xs 0] assms by (intro fraction) simp_all

end

interpretation dec28: rounding dec_round
  by unfold_locales (simp_all add: dec_rnd_mono dec_rnd_idem dec_rnd_pos)

lemma dec_sum_foldl: "dec_sum xs = foldl (\<lambda>s x. dec_round (s + x)) 0 xs"
  by (simp add: dec_sum_def dec_add_def [abs_def])

lemma dec_sum_append1: "dec_sum (xs @ [x]) = dec_add (dec_sum xs) x"
  by (simp add: dec_sum_def)

lemma dec_sum_round [simp]: "dec_round (dec_sum xs) = dec_sum xs"
  by (induction xs rule: rev_induct) (simp_all add: dec_sum_append1 dec_add_def dec_rnd_idem, simp add: dec_sum_def)

lemma dec_sum_nonneg: "list_all (\<lambda>x. 0 \<le> x) xs \<Longrightarrow> 0 \<le> dec_sum xs"
  by (induction xs rule: rev_induct)
    (auto simp: dec_sum_append1 dec_add_def intro!: dec28.rnd_nonneg, simp add: dec_sum_def)

text \<open>The mean of at most \<open>10 ^ 28\<close> fractions.\<close>

lemma dec_mean_fraction:
  assumes "list_all (\<lambda>x. 0 \<le> x \<and> x \<le> 1) xs" "length xs \<le> 10 ^ 28"
  shows "0 \<le> dec_round (dec_sum xs / of_nat (length xs))"
    "dec_round (dec_sum xs / of_nat (length xs)) \<le> 1"
  using dec28.mean_fraction [of xs] assms dec_rnd_of_nat [of 28] by (auto simp: dec_sum_foldl)

end
