(* ===== verification/Quality.thy ===== *)
theory Quality
  imports Decimal
begin

text \<open>
  \<open>modules/demo_core/domain/quality.py\<close>: scoring a demo against a weighted rubric.  Each dataclass
  is a record; its \<open>__post_init__\<close> is the function of the same name, and a value of the class is a
  record that passes it.  A dict is a map and a frozenset a set.
\<close>

section \<open>The model\<close>

record quality_component_definition =
  qc_component_id :: string
  qc_weight :: decimal
  qc_minimum :: decimal
  qc_maximum :: decimal
  qc_required :: bool

definition quality_component_post_init :: "quality_component_definition \<Rightarrow> unit res" where
  "quality_component_post_init c =
     (if qc_weight c < 0 \<or> qc_maximum c \<le> qc_minimum c
      then Inl (ValueError ''quality component bounds or weight are invalid'') else Inr ())"

record quality_rubric =
  qr_version :: string
  qr_components :: "quality_component_definition list"
  qr_blocking_flags :: "string set"
  qr_minimum_aggregate_cohort :: int

definition quality_rubric_post_init :: "quality_rubric \<Rightarrow> unit res" where
  "quality_rubric_post_init r =
     (let ids = map qc_component_id (qr_components r)
      in if blank (qr_version r) \<or> qr_components r = []
         then Inl (ValueError ''quality rubric version and components are required'')
         else if length ids \<noteq> card (set ids)
         then Inl (ValueError ''quality component IDs must be unique'')
         else if dec_sum (map qc_weight (qr_components r)) \<le> 0
         then Inl (ValueError ''quality rubric must have positive total weight'')
         else if qr_minimum_aggregate_cohort r \<le> 0
         then Inl (ValueError ''aggregate cohort threshold must be positive'')
         else Inr ())"

record quality_observation =
  qo_component_id :: string
  qo_value :: "decimal option"
  qo_evidence_refs :: "string list"

record quality_assessment =
  qa_score :: "decimal option"
  qa_component_scores :: "string \<rightharpoonup> decimal option"
  qa_evidence_refs :: "string \<rightharpoonup> string list"
  qa_missing_components :: "string set"
  qa_completeness :: decimal
  qa_rubric_version :: string
  qa_requires_human_review :: bool
  qa_flags :: "string set"
  qa_override_score :: "decimal option"
  qa_override_reason :: "string option"

record regional_quality_aggregate =
  rq_region_id :: string
  rq_cohort_size :: nat
  rq_mean_score :: "decimal option"
  rq_suppressed :: bool
  rq_rubric_version :: string

text \<open>The local variables that the loop of \<open>assess_quality\<close> updates.\<close>

record assess_vars =
  av_component_scores :: "string \<rightharpoonup> decimal option"
  av_evidence :: "string \<rightharpoonup> string list"
  av_missing :: "string set"
  av_weighted :: decimal
  av_measured_weight :: decimal

definition assess_component ::
  "(string \<rightharpoonup> quality_observation) \<Rightarrow> assess_vars \<Rightarrow> quality_component_definition \<Rightarrow> assess_vars res" where
  "assess_component supplied v component =
     (let cid = qc_component_id component
      in case Option.bind (supplied cid) (\<lambda>ob. map_option (\<lambda>x. (ob, x)) (qo_value ob)) of
           None \<Rightarrow> Inr (v\<lparr>av_component_scores := (av_component_scores v)(cid \<mapsto> None),
                        av_missing := insert cid (av_missing v)\<rparr>)
         | Some (ob, x) \<Rightarrow>
             if \<not> (qc_minimum component \<le> x \<and> x \<le> qc_maximum component)
             then Inl (ValueError ''quality observation falls outside rubric bounds'')
             else res_bind (dec_div (dec_sub x (qc_minimum component))
                              (dec_sub (qc_maximum component) (qc_minimum component)))
               (\<lambda>normalized. Inr (v\<lparr>
                  av_component_scores := (av_component_scores v)(cid \<mapsto> Some normalized),
                  av_evidence := (av_evidence v)(cid \<mapsto> qo_evidence_refs ob),
                  av_weighted := dec_add (av_weighted v) (dec_mul normalized (qc_weight component)),
                  av_measured_weight := dec_add (av_measured_weight v) (qc_weight component)\<rparr>)))"

text \<open>The dict comprehension keeps the last observation of a component.\<close>

definition supplied_observations :: "quality_observation list \<Rightarrow> string \<rightharpoonup> quality_observation" where
  "supplied_observations observations = map_of (rev (map (\<lambda>ob. (qo_component_id ob, ob)) observations))"

definition assess_quality ::
  "quality_observation list \<Rightarrow> string set \<Rightarrow> quality_rubric \<Rightarrow> quality_assessment res" where
  "assess_quality observations flags rubric =
     (let supplied = supplied_observations observations;
          known = set (map qc_component_id (qr_components rubric))
      in if \<not> set (map qo_component_id observations) \<subseteq> known
         then Inl (ValueError ''quality observations contain unknown components'')
         else let total_weight = dec_sum (map qc_weight (qr_components rubric))
         in res_bind (res_fold (assess_component supplied)
              \<lparr>av_component_scores = Map.empty, av_evidence = Map.empty, av_missing = {},
               av_weighted = 0, av_measured_weight = 0\<rparr> (qr_components rubric))
            (\<lambda>v. res_bind (if av_measured_weight v = 0 then Inr None
                          else res_bind (dec_div (av_weighted v) (av_measured_weight v)) (\<lambda>s. Inr (Some s)))
            (\<lambda>score. res_bind (dec_div (av_measured_weight v) total_weight)
            (\<lambda>completeness. Inr
               \<lparr>qa_score = score, qa_component_scores = av_component_scores v,
                qa_evidence_refs = av_evidence v, qa_missing_components = av_missing v,
                qa_completeness = completeness, qa_rubric_version = qr_version rubric,
                qa_requires_human_review = (flags \<inter> qr_blocking_flags rubric \<noteq> {} \<or>
                  list_ex (\<lambda>c. qc_required c \<and> qc_component_id c \<in> av_missing v) (qr_components rubric)),
                qa_flags = flags, qa_override_score = None, qa_override_reason = None\<rparr>))))"

definition override_assessment ::
  "quality_assessment \<Rightarrow> decimal \<Rightarrow> string \<Rightarrow> bool \<Rightarrow> quality_assessment res" where
  "override_assessment assessment score reason authorized =
     (if \<not> authorized then Inl (PermissionError ''quality override requires authorization'')
      else if \<not> (0 \<le> score \<and> score \<le> 1)
      then Inl (ValueError ''override score must be between zero and one'')
      else if blank reason then Inl (ValueError ''quality override reason is required'')
      else Inr (assessment\<lparr>qa_override_score := Some score,
                           qa_override_reason := Some (strip reason)\<rparr>))"

definition effective_score :: "quality_assessment \<Rightarrow> decimal option" where
  "effective_score a =
     (case qa_override_score a of Some s \<Rightarrow> Some s | None \<Rightarrow> qa_score a)"

definition aggregate_region ::
  "string \<Rightarrow> quality_assessment list \<Rightarrow> quality_rubric \<Rightarrow> regional_quality_aggregate res" where
  "aggregate_region region assessments rubric =
     (let scores = List.map_filter effective_score assessments
      in if int (length scores) < qr_minimum_aggregate_cohort rubric
         then Inr \<lparr>rq_region_id = region, rq_cohort_size = length scores, rq_mean_score = None,
                   rq_suppressed = True, rq_rubric_version = qr_version rubric\<rparr>
         else res_bind (dec_div (dec_sum scores) (of_nat (length scores)))
           (\<lambda>mean. Inr \<lparr>rq_region_id = region, rq_cohort_size = length scores,
                       rq_mean_score = Some mean, rq_suppressed = False,
                       rq_rubric_version = qr_version rubric\<rparr>))"

section \<open>Valid rubrics\<close>

text \<open>What the constructors guarantee, with weights of at most 28 digits.\<close>

definition valid_rubric :: "quality_rubric \<Rightarrow> bool" where
  "valid_rubric r \<longleftrightarrow> quality_rubric_post_init r = Inr ()
     \<and> list_all (\<lambda>c. quality_component_post_init c = Inr ()) (qr_components r)"

definition exact_weights :: "quality_rubric \<Rightarrow> bool" where
  "exact_weights r \<longleftrightarrow> list_all (\<lambda>c. dec_round (qc_weight c) = qc_weight c) (qr_components r)"

lemma quality_component_ok:
  "quality_component_post_init c = Inr u \<longleftrightarrow> 0 \<le> qc_weight c \<and> qc_minimum c < qc_maximum c"
  by (auto simp: quality_component_post_init_def)

lemma valid_rubric_weights:
  "valid_rubric r \<Longrightarrow> 0 < dec_sum (map qc_weight (qr_components r))"
  "valid_rubric r \<Longrightarrow> 0 < qr_minimum_aggregate_cohort r"
  "valid_rubric r \<Longrightarrow> distinct (map qc_component_id (qr_components r))"
  by (auto simp: valid_rubric_def quality_rubric_post_init_def Let_def card_distinct
      split: if_splits)

section \<open>The scoring loop\<close>

text \<open>
  The loop invariant after the components \<open>done\<close>: the weighted sum stays below the measured
  weight, which stays below the total weight seen so far.
\<close>

definition assess_inv :: "(string \<rightharpoonup> quality_observation) \<Rightarrow> quality_component_definition list \<Rightarrow> assess_vars \<Rightarrow> bool" where
  "assess_inv supplied cs v \<longleftrightarrow>
     0 \<le> av_weighted v \<and> av_weighted v \<le> av_measured_weight v
     \<and> av_measured_weight v \<le> dec_sum (map qc_weight cs)
     \<and> dec_round (av_measured_weight v) = av_measured_weight v
     \<and> av_missing v = {qc_component_id c | c. c \<in> set cs \<and> Option.bind (supplied (qc_component_id c)) qo_value = None}
     \<and> (\<forall>k s. av_component_scores v k = Some (Some s) \<longrightarrow> 0 \<le> s \<and> s \<le> 1)"

lemma bind_pair: "Option.bind m (\<lambda>ob. map_option (\<lambda>x. (ob, x)) (f ob)) =
   (case m of None \<Rightarrow> None | Some ob \<Rightarrow> (case f ob of None \<Rightarrow> None | Some x \<Rightarrow> Some (ob, x)))"
  by (auto split: option.splits)

lemma assess_component_inv:
  assumes inv: "assess_inv supplied cs v" and step: "assess_component supplied v c = Inr v'"
    and c: "0 \<le> qc_weight c" "qc_minimum c < qc_maximum c" "dec_round (qc_weight c) = qc_weight c"
  shows "assess_inv supplied (cs @ [c]) v'"
proof (cases "Option.bind (supplied (qc_component_id c)) qo_value")
  case None
  then have v': "v' = v\<lparr>av_component_scores := (av_component_scores v)(qc_component_id c \<mapsto> None),
      av_missing := insert (qc_component_id c) (av_missing v)\<rparr>"
    using step by (auto simp: assess_component_def Let_def bind_pair split: option.splits)
  have "av_measured_weight v \<le> dec_sum (map qc_weight (cs @ [c]))"
    using inv c dec28.add_increasing by (simp add: assess_inv_def dec_sum_append1 dec_add_def)
  then show ?thesis using inv None by (auto simp: assess_inv_def v')
next
  case (Some x)
  then obtain ob where ob: "supplied (qc_component_id c) = Some ob" "qo_value ob = Some x"
    by (auto simp: bind_eq_Some_conv)
  let ?n = "dec_round (dec_round (x - qc_minimum c) / dec_round (qc_maximum c - qc_minimum c))"
  from step ob have x: "qc_minimum c \<le> x" "x \<le> qc_maximum c"
    and v': "v' = v\<lparr>
      av_component_scores := (av_component_scores v)(qc_component_id c \<mapsto> Some ?n),
      av_evidence := (av_evidence v)(qc_component_id c \<mapsto> qo_evidence_refs ob),
      av_weighted := dec_add (av_weighted v) (dec_mul ?n (qc_weight c)),
      av_measured_weight := dec_add (av_measured_weight v) (qc_weight c)\<rparr>"
    by (auto simp: assess_component_def Let_def dec_div_def dec_sub_def split: if_splits)
  have n: "0 \<le> ?n" "?n \<le> 1" using dec28.normalized_fraction [OF x] by auto
  have m: "0 \<le> dec_round (?n * qc_weight c)" "dec_round (?n * qc_weight c) \<le> qc_weight c"
    using dec28.scaled_le [OF n c(1,3)] by auto
  have "0 \<le> dec_round (av_weighted v + dec_round (?n * qc_weight c))"
    using inv m by (intro dec28.rnd_nonneg) (simp add: assess_inv_def)
  moreover have "dec_round (av_weighted v + dec_round (?n * qc_weight c))
      \<le> dec_round (av_measured_weight v + qc_weight c)"
    using inv m by (intro dec28.add_mono_rnd) (simp_all add: assess_inv_def)
  moreover have "dec_round (av_measured_weight v + qc_weight c)
      \<le> dec_round (dec_sum (map qc_weight cs) + qc_weight c)"
    using inv by (intro dec28.add_mono_rnd) (simp_all add: assess_inv_def)
  ultimately show ?thesis
    using inv ob n by (auto simp: assess_inv_def v' dec_add_def dec_mul_def dec_sum_append1
        dec_rnd_idem)
qed

lemma assess_loop_inv:
  assumes "res_fold (assess_component supplied) v cs = Inr v'" "assess_inv supplied pre v"
    and "list_all (\<lambda>c. quality_component_post_init c = Inr ()) cs"
    and "list_all (\<lambda>c. dec_round (qc_weight c) = qc_weight c) cs"
  shows "assess_inv supplied (pre @ cs) v'"
  using assms
proof (induction cs arbitrary: v pre)
  case Nil
  then show ?case by simp
next
  case (Cons c cs)
  from Cons.prems(1) obtain w where w: "assess_component supplied v c = Inr w"
    "res_fold (assess_component supplied) w cs = Inr v'"
    by (auto simp: res_simps)
  have "assess_inv supplied (pre @ [c]) w"
    using assess_component_inv [OF Cons.prems(2) w(1)] Cons.prems(3,4)
    by (simp add: quality_component_ok)
  from Cons.IH [OF w(2) this] Cons.prems(3,4) show ?case by simp
qed

lemma assess_inv_start:
  "assess_inv supplied [] \<lparr>av_component_scores = Map.empty, av_evidence = Map.empty,
     av_missing = {}, av_weighted = 0, av_measured_weight = 0\<rparr>"
  by (simp add: assess_inv_def dec_sum_def)

section \<open>Properties\<close>

text \<open>
  (C31) Under a valid rubric whose weights have at most 28 digits, a quality assessment that is
  returned has its score, its completeness and every component score between zero and one in
  spite of decimal rounding; the missing components are exactly those without an observed value,
  and human review is required exactly when a blocking flag is raised or a required component is
  missing.
\<close>

theorem assess_quality_sound:
  assumes "valid_rubric r" "exact_weights r" "assess_quality obs flags r = Inr a"
  shows "(\<forall>s. qa_score a = Some s \<longrightarrow> 0 \<le> s \<and> s \<le> 1)
    \<and> 0 \<le> qa_completeness a \<and> qa_completeness a \<le> 1
    \<and> (\<forall>k s. qa_component_scores a k = Some (Some s) \<longrightarrow> 0 \<le> s \<and> s \<le> 1)
    \<and> qa_missing_components a = {qc_component_id c | c. c \<in> set (qr_components r)
          \<and> Option.bind (supplied_observations obs (qc_component_id c)) qo_value = None}
    \<and> (qa_requires_human_review a \<longleftrightarrow> flags \<inter> qr_blocking_flags r \<noteq> {}
          \<or> (\<exists>c\<in>set (qr_components r). qc_required c \<and> qc_component_id c \<in> qa_missing_components a))"
proof -
  let ?W = "dec_sum (map qc_weight (qr_components r))"
  from assms(3) obtain v where
    loop: "res_fold (assess_component (supplied_observations obs))
      \<lparr>av_component_scores = Map.empty, av_evidence = Map.empty, av_missing = {},
       av_weighted = 0, av_measured_weight = 0\<rparr> (qr_components r) = Inr v"
    and score: "qa_score a = (if av_measured_weight v = 0 then None
        else Some (dec_round (av_weighted v / av_measured_weight v)))"
    and rest: "qa_completeness a = dec_round (av_measured_weight v / ?W)"
      "qa_component_scores a = av_component_scores v" "qa_missing_components a = av_missing v"
      "qa_requires_human_review a \<longleftrightarrow> flags \<inter> qr_blocking_flags r \<noteq> {}
         \<or> list_ex (\<lambda>c. qc_required c \<and> qc_component_id c \<in> av_missing v) (qr_components r)"
    by (auto simp: assess_quality_def Let_def res_simps dec_div_def split: if_splits)
  have inv: "assess_inv (supplied_observations obs) (qr_components r) v"
    using assess_loop_inv [OF loop assess_inv_start] assms(1,2)
    by (simp add: valid_rubric_def exact_weights_def)
  have "0 \<le> qa_completeness a \<and> qa_completeness a \<le> 1"
    using inv unfolding rest assess_inv_def by (intro dec28.fraction) auto
  moreover have "0 \<le> s \<and> s \<le> 1" if "qa_score a = Some s" for s
    using that inv dec28.fraction [of "av_weighted v" "av_measured_weight v"]
    by (auto simp: score assess_inv_def split: if_splits)
  ultimately show ?thesis using inv unfolding rest assess_inv_def by (auto simp: list_ex_iff)
qed

text \<open>A rubric with a required component that was observed and an optional one that was not.\<close>

definition sample_rubric :: quality_rubric where
  "sample_rubric = \<lparr>qr_version = ''v1'', qr_components =
     [\<lparr>qc_component_id = ''clarity'', qc_weight = 2, qc_minimum = 1, qc_maximum = 5, qc_required = True\<rparr>,
      \<lparr>qc_component_id = ''pace'', qc_weight = 2, qc_minimum = 0, qc_maximum = 1, qc_required = False\<rparr>],
     qr_blocking_flags = {''safety''}, qr_minimum_aggregate_cohort = 1\<rparr>"

definition sample_observations :: "quality_observation list" where
  "sample_observations = [\<lparr>qo_component_id = ''clarity'', qo_value = Some 4, qo_evidence_refs = [''n1'']\<rparr>]"

lemma sample_numbers:
  "dec_round 2 = 2" "dec_round 3 = 3" "dec_round 4 = 4" "dec_round (3 / 4) = 3 / 4"
  "dec_round (3 / 2) = 3 / 2" "dec_round (1 / 2) = 1 / 2"
  by (rule dec_rnd_exactI [where k = 2 and m = 200] dec_rnd_exactI [where k = 2 and m = 300]
      dec_rnd_exactI [where k = 2 and m = 400] dec_rnd_exactI [where k = 2 and m = 75]
      dec_rnd_exactI [where k = 2 and m = 150] dec_rnd_exactI [where k = 2 and m = 50]; simp)+

lemma sample_rubric_valid: "valid_rubric sample_rubric" "exact_weights sample_rubric"
  by (simp_all add: valid_rubric_def exact_weights_def sample_rubric_def quality_rubric_post_init_def
      quality_component_post_init_def dec_sum_def dec_add_def sample_numbers blank_def strip_def
      lstrip_def is_space_def)

lemma sample_assessment:
  "assess_quality sample_observations {} sample_rubric = Inr
     \<lparr>qa_score = Some (3 / 4), qa_component_scores = [''clarity'' \<mapsto> Some (3 / 4), ''pace'' \<mapsto> None],
      qa_evidence_refs = [''clarity'' \<mapsto> [''n1'']], qa_missing_components = {''pace''},
      qa_completeness = 1 / 2, qa_rubric_version = ''v1'', qa_requires_human_review = False,
      qa_flags = {}, qa_override_score = None, qa_override_reason = None\<rparr>"
  by (simp add: assess_quality_def sample_rubric_def sample_observations_def supplied_observations_def
      assess_component_def dec_ops dec_sum_def dec_div_def sample_numbers Let_def)

theorem assess_quality_sound_witness:
  "\<exists>a. assess_quality sample_observations {} sample_rubric = Inr a
     \<and> qa_completeness a \<le> 1 \<and> \<not> qa_requires_human_review a \<and> qa_score a = Some (3 / 4)"
  using assess_quality_sound [OF sample_rubric_valid sample_assessment] sample_assessment by simp

text \<open>
  Aggregating a region never fails under a valid rubric: below the minimum cohort the mean is
  suppressed, and otherwise the mean of scores between zero and one lies between zero and one.
\<close>

theorem aggregate_region_suppression:
  assumes "valid_rubric r" "length assessments \<le> 10 ^ 28"
    and "\<forall>a\<in>set assessments. \<forall>s. effective_score a = Some s \<longrightarrow> 0 \<le> s \<and> s \<le> 1"
  shows "\<exists>g. aggregate_region region assessments r = Inr g
    \<and> rq_cohort_size g = length (filter (\<lambda>a. effective_score a \<noteq> None) assessments)
    \<and> (rq_suppressed g \<longleftrightarrow> int (rq_cohort_size g) < qr_minimum_aggregate_cohort r)
    \<and> (rq_mean_score g = None \<longleftrightarrow> rq_suppressed g)
    \<and> (\<forall>m. rq_mean_score g = Some m \<longrightarrow> 0 \<le> m \<and> m \<le> 1)"
proof -
  let ?s = "List.map_filter effective_score assessments"
  have len: "length ?s = length (filter (\<lambda>a. effective_score a \<noteq> None) assessments)"
    by (simp add: List.map_filter_def comp_def)
  have "length ?s \<le> length assessments" unfolding len by (rule length_filter_le)
  then have small: "length ?s \<le> 10 ^ 28" using assms(2) by linarith
  have unit: "list_all (\<lambda>x. 0 \<le> x \<and> x \<le> 1) ?s"
    using assms(3) by (auto simp: list_all_iff List.map_filter_def)
  note m = dec_mean_fraction [OF unit small]
  have "0 < qr_minimum_aggregate_cohort r" using valid_rubric_weights(2) assms(1) .
  then show ?thesis
    using m len by (cases "int (length ?s) < qr_minimum_aggregate_cohort r")
      (auto simp: aggregate_region_def Let_def dec_div_def)
qed

theorem aggregate_region_suppression_witness:
  "\<exists>a g. assess_quality sample_observations {} sample_rubric = Inr a
     \<and> aggregate_region ''IN-KA'' [a] sample_rubric = Inr g
     \<and> rq_cohort_size g = 1 \<and> \<not> rq_suppressed g"
proof -
  obtain a where a1: "assess_quality sample_observations {} sample_rubric = Inr a"
    using sample_assessment by blast
  have a2: "effective_score a = Some (3 / 4)"
    using a1 unfolding sample_assessment by (auto simp: effective_score_def)
  have f: "length (filter (\<lambda>a. effective_score a \<noteq> None) [a]) = 1"
    "\<forall>b\<in>set [a]. \<forall>s. effective_score b = Some s \<longrightarrow> 0 \<le> s \<and> s \<le> 1"
    by (simp_all del: not_None_eq add: a2)
  have "qr_minimum_aggregate_cohort sample_rubric = 1" by (simp add: sample_rubric_def)
  then have "\<exists>g. aggregate_region ''IN-KA'' [a] sample_rubric = Inr g
     \<and> rq_cohort_size g = 1 \<and> \<not> rq_suppressed g"
    using aggregate_region_suppression [OF sample_rubric_valid(1) _ f(2), of "''IN-KA''"]
    unfolding f(1) by fastforce
  then show ?thesis using a1 by blast
qed

end
