(* ===== verification/Clock.thy ===== *)
theory Clock
  imports Prelude
begin

text \<open>
  Python's \<open>datetime\<close> as the program uses it.  A value is a wall-clock reading in microseconds
  since 1970-01-01T00:00 together with the offset from UTC that its \<open>tzinfo\<close> reports; a naive
  value has no offset.  Adding a \<open>timedelta\<close> moves the wall clock, comparison of two aware values
  compares instants, and mixing a naive with an aware value raises.  Offsets are fixed per value,
  as those of parsed ISO timestamps, database columns and \<open>UTC\<close> are; the zone rules that
  \<open>zoneinfo\<close> reads from the time zone database are the argument \<open>tzdb\<close> of what uses them.
\<close>

datatype datetime = Datetime (wall: int) (utcoff: "int option")

type_synonym timedelta = int

abbreviation (input) second :: int where "second \<equiv> 1000000"
abbreviation (input) day :: int where "day \<equiv> 86400000000"

definition aware :: "datetime \<Rightarrow> bool" where
  "aware d \<longleftrightarrow> utcoff d \<noteq> None"

definition instant :: "datetime \<Rightarrow> int" where
  "instant d = wall d - (case utcoff d of None \<Rightarrow> 0 | Some off \<Rightarrow> off)"

text \<open>Years 1 to 9999.\<close>

definition in_range :: "int \<Rightarrow> bool" where
  "in_range w \<longleftrightarrow> -62135596800000000 \<le> w \<and> w \<le> 253402300799999999"

definition dt_less :: "datetime \<Rightarrow> datetime \<Rightarrow> bool res" where
  "dt_less a b =
     (if aware a = aware b then Inr (instant a < instant b)
      else Inl (TypeError ''can't compare offset-naive and offset-aware datetimes''))"

definition dt_le :: "datetime \<Rightarrow> datetime \<Rightarrow> bool res" where
  "dt_le a b =
     (if aware a = aware b then Inr (instant a \<le> instant b)
      else Inl (TypeError ''can't compare offset-naive and offset-aware datetimes''))"

definition dt_eq :: "datetime \<Rightarrow> datetime \<Rightarrow> bool" where
  "dt_eq a b \<longleftrightarrow> aware a = aware b \<and> instant a = instant b"

definition dt_add :: "datetime \<Rightarrow> timedelta \<Rightarrow> datetime res" where
  "dt_add d t =
     (if in_range (wall d + t) then Inr (Datetime (wall d + t) (utcoff d))
      else Inl (OverflowError ''date value out of range''))"

definition dt_diff :: "datetime \<Rightarrow> datetime \<Rightarrow> timedelta res" where
  "dt_diff a b =
     (if aware a = aware b then Inr (instant a - instant b)
      else Inl (TypeError ''can't subtract offset-naive and offset-aware datetimes''))"

text \<open>\<open>d.astimezone(UTC)\<close> of an aware value.\<close>

definition to_utc :: "datetime \<Rightarrow> datetime res" where
  "to_utc d =
     (if in_range (instant d) then Inr (Datetime (instant d) (Some 0))
      else Inl (OverflowError ''date value out of range''))"

section \<open>ISO 8601 text\<close>

text \<open>The proleptic Gregorian date of a day number counted from 1970-01-01.\<close>

definition civil :: "int \<Rightarrow> int \<times> int \<times> int" where
  "civil n =
     (let z = n + 719468;
          era = z div 146097;
          doe = z mod 146097;
          yoe = (doe - doe div 1460 + doe div 36524 - doe div 146096) div 365;
          doy = doe - (365 * yoe + yoe div 4 - yoe div 100);
          mp = (5 * doy + 2) div 153;
          dd = doy - (153 * mp + 2) div 5 + 1;
          mm = (if mp < 10 then mp + 3 else mp - 9);
          yy = yoe + era * 400 + (if mm \<le> 2 then 1 else 0)
      in (yy, mm, dd))"

definition zfill :: "nat \<Rightarrow> int \<Rightarrow> string" where
  "zfill w n = (let s = show_nat (nat n) in replicate (w - length s) (CHR ''0'') @ s)"

definition format_offset :: "int \<Rightarrow> string" where
  "format_offset off =
     (let a = \<bar>off\<bar>;
          hh = a div (3600 * second);
          mi = a div (60 * second) mod 60;
          ss = a div second mod 60;
          us = a mod second
      in (if off < 0 then ''-'' else ''+'') @ zfill 2 hh @ '':'' @ zfill 2 mi
         @ (if ss \<noteq> 0 \<or> us \<noteq> 0
            then '':'' @ zfill 2 ss @ (if us \<noteq> 0 then ''.'' @ zfill 6 us else '''') else ''''))"

definition isoformat :: "datetime \<Rightarrow> string" where
  "isoformat d =
     (let (yy, mm, dd) = civil (wall d div day);
          t = wall d mod day;
          us = t mod second
      in zfill 4 yy @ ''-'' @ zfill 2 mm @ ''-'' @ zfill 2 dd @ ''T''
         @ zfill 2 (t div (3600 * second)) @ '':'' @ zfill 2 (t div (60 * second) mod 60)
         @ '':'' @ zfill 2 (t div second mod 60)
         @ (if us \<noteq> 0 then ''.'' @ zfill 6 us else '''')
         @ (case utcoff d of None \<Rightarrow> '''' | Some off \<Rightarrow> format_offset off))"

section \<open>Zones\<close>

text \<open>
  What \<open>ZoneInfo(name)\<close> offers: the offset in force at a wall time for either value of \<open>fold\<close>, and
  the wall time and fold of a UTC instant.  The database that maps names to zones is data outside
  the program.
\<close>

record zone =
  zone_offset :: "int \<Rightarrow> int \<Rightarrow> int"
  zone_local :: "int \<Rightarrow> int \<times> int"

type_synonym tzdb = "string \<Rightarrow> zone option"

definition zone_info :: "tzdb \<Rightarrow> string \<Rightarrow> zone res" where
  "zone_info db name =
     (case db name of
        None \<Rightarrow> Inl (ZoneInfoNotFoundError (''No time zone found with key '' @ name))
      | Some z \<Rightarrow> Inr z)"

text \<open>A zone with one offset for all times, such as \<open>Asia/Kolkata\<close> since 1945.\<close>

definition fixed_zone :: "int \<Rightarrow> zone" where
  "fixed_zone off = \<lparr>zone_offset = (\<lambda>_ _. off), zone_local = (\<lambda>u. (u + off, 0))\<rparr>"

section \<open>Laws\<close>

lemma instant_Datetime [simp]:
  "instant (Datetime w None) = w" "instant (Datetime w (Some off)) = w - off"
  by (simp_all add: instant_def)

lemma aware_Datetime [simp]: "aware (Datetime w off) \<longleftrightarrow> off \<noteq> None"
  by (simp add: aware_def)

lemma dt_compare_aware [simp]:
  assumes "aware a" "aware b"
  shows "dt_less a b = Inr (instant a < instant b)" "dt_le a b = Inr (instant a \<le> instant b)"
    "dt_diff a b = Inr (instant a - instant b)"
  using assms by (simp_all add: dt_less_def dt_le_def dt_diff_def)

lemma dt_less_Inr [res_simps]:
  "dt_less a b = Inr c \<longleftrightarrow> aware a = aware b \<and> c = (instant a < instant b)"
  by (auto simp: dt_less_def)

lemma dt_le_Inr [res_simps]:
  "dt_le a b = Inr c \<longleftrightarrow> aware a = aware b \<and> c = (instant a \<le> instant b)"
  by (auto simp: dt_le_def)

lemma dt_diff_Inr [res_simps]:
  "dt_diff a b = Inr c \<longleftrightarrow> aware a = aware b \<and> c = instant a - instant b"
  by (auto simp: dt_diff_def)

lemma dt_add_Inr [res_simps]:
  "dt_add d t = Inr e \<longleftrightarrow> in_range (wall d + t) \<and> e = Datetime (wall d + t) (utcoff d)"
  by (auto simp: dt_add_def)

lemma dt_add_aware: "dt_add d t = Inr e \<Longrightarrow> aware e = aware d"
  by (auto simp: dt_add_def aware_def split: if_splits)

lemma dt_add_instant: "dt_add d t = Inr e \<Longrightarrow> instant e = instant d + t"
  by (auto simp: dt_add_def instant_def split: if_splits)

lemmas dt_addD = dt_add_aware dt_add_instant

lemma to_utc_instant: "to_utc d = Inr u \<Longrightarrow> instant u = instant d \<and> aware u"
  by (auto simp: to_utc_def split: if_splits)

end
