(* ===== verification/Forecasting.thy ===== *)
theory Forecasting
  imports Decimal Clock
begin

text \<open>
  \<open>modules/success_forecasting\<close>: the logistic conversion forecast over a versioned feature registry,
  the evaluation of a forecast against labels, and the time-aware split of labelled samples.
\<close>

section \<open>The model\<close>

record feature_definition =
  fd_name :: string
  fd_minimum :: decimal
  fd_maximum :: decimal
  fd_fallback :: decimal
  fd_reason_code :: string

definition feature_definition_post_init :: "feature_definition \<Rightarrow> unit res" where
  "feature_definition_post_init f =
     (if fd_maximum f \<le> fd_minimum f \<or> \<not> (fd_minimum f \<le> fd_fallback f \<and> fd_fallback f \<le> fd_maximum f)
      then Inl (ValueError ''feature bounds or fallback are invalid'') else Inr ())"

record feature_observation =
  fo_name :: string
  fo_value :: decimal
  fo_observed_at :: datetime

definition feature_observation_post_init :: "feature_observation \<Rightarrow> unit res" where
  "feature_observation_post_init ob =
     (if \<not> aware (fo_observed_at ob)
      then Inl (ValueError ''feature observation time must be timezone-aware'') else Inr ())"

record forecast_model =
  fm_version :: string
  fm_feature_registry_version :: string
  fm_intercept :: decimal
  fm_coefficients :: "(string \<times> decimal) list"
  fm_features :: "feature_definition list"
  fm_missing_feature_confidence_penalty :: decimal
  fm_maximum_reason_codes :: int
  fm_logit_floor :: decimal
  fm_logit_ceiling :: decimal

definition forecast_model_post_init :: "forecast_model \<Rightarrow> unit res" where
  "forecast_model_post_init m =
     (let names = map fd_name (fm_features m)
      in if blank (fm_version m) \<or> blank (fm_feature_registry_version m)
         then Inl (ValueError ''model and feature registry versions are required'')
         else if length names \<noteq> card (set names) \<or> set names \<noteq> set (map fst (fm_coefficients m))
         then Inl (ValueError ''model coefficients must exactly match the feature registry'')
         else if \<not> (0 \<le> fm_missing_feature_confidence_penalty m \<and> fm_missing_feature_confidence_penalty m \<le> 1)
         then Inl (ValueError ''missing feature penalty must be between zero and one'')
         else if fm_maximum_reason_codes m \<le> 0 \<or> fm_logit_floor m \<ge> fm_logit_ceiling m
         then Inl (ValueError ''model output policy is invalid'')
         else Inr ())"

record threshold_policy =
  tp_version :: string
  tp_lower_threshold :: decimal
  tp_upper_threshold :: decimal

definition threshold_policy_post_init :: "threshold_policy \<Rightarrow> unit res" where
  "threshold_policy_post_init t =
     (if \<not> (0 \<le> tp_lower_threshold t \<and> tp_lower_threshold t < tp_upper_threshold t \<and> tp_upper_threshold t \<le> 1)
      then Inl (ValueError ''forecast thresholds are invalid'') else Inr ())"

datatype forecast_band = LOWER | MIDDLE | UPPER

record forecast_prediction =
  fp_model_version :: string
  fp_feature_registry_version :: string
  fp_threshold_policy_version :: string
  fp_feature_timestamp :: datetime
  fp_prediction_timestamp :: datetime
  fp_probability :: decimal
  fp_confidence :: decimal
  fp_band :: forecast_band
  fp_reason_codes :: "string list"
  fp_fallback_used :: bool
  fp_missing_features :: "string set"

text \<open>The loop that files the observations by name.\<close>

definition supply_observation ::
  "string set \<Rightarrow> datetime \<Rightarrow> (string \<rightharpoonup> feature_observation) \<Rightarrow> feature_observation
     \<Rightarrow> (string \<rightharpoonup> feature_observation) res" where
  "supply_observation registry feature_timestamp supplied ob =
     (if fo_name ob \<notin> registry then Inl (ValueError ''observation is outside the feature registry'')
      else res_bind (dt_less feature_timestamp (fo_observed_at ob)) (\<lambda>future.
        if future then Inl (ValueError ''future information cannot be used for prediction'')
        else if supplied (fo_name ob) \<noteq> None then Inl (ValueError ''duplicate feature observation'')
        else Inr (supplied(fo_name ob \<mapsto> ob))))"

text \<open>The loop over the features: the missing names, the contributions and the logit.\<close>

definition score_feature ::
  "(string \<rightharpoonup> feature_observation) \<Rightarrow> forecast_model \<Rightarrow> string set \<times> (string \<times> decimal) list \<times> decimal
     \<Rightarrow> feature_definition \<Rightarrow> (string set \<times> (string \<times> decimal) list \<times> decimal) res" where
  "score_feature supplied model = (\<lambda>(missing, contributions, logit) feature.
     let value = (case supplied (fd_name feature) of None \<Rightarrow> fd_fallback feature | Some ob \<Rightarrow> fo_value ob);
         missing' = (if supplied (fd_name feature) = None then insert (fd_name feature) missing else missing)
     in if \<not> (fd_minimum feature \<le> value \<and> value \<le> fd_maximum feature)
        then Inl (ValueError ''feature value falls outside registry bounds'')
        else res_bind (dec_div (dec_sub value (fd_minimum feature))
                         (dec_sub (fd_maximum feature) (fd_minimum feature))) (\<lambda>normalized.
          case map_of (fm_coefficients model) (fd_name feature) of
            None \<Rightarrow> Inl (KeyError (fd_name feature))
          | Some coefficient \<Rightarrow>
              let contribution = dec_mul normalized coefficient
              in Inr (missing', contributions @ [(fd_reason_code feature, contribution)],
                      dec_add logit contribution)))"

definition forecast_band_of :: "threshold_policy \<Rightarrow> decimal \<Rightarrow> forecast_band" where
  "forecast_band_of thresholds probability =
     (if probability < tp_lower_threshold thresholds then LOWER
      else if probability \<ge> tp_upper_threshold thresholds then UPPER else MIDDLE)"

definition predict_conversion ::
  "feature_observation list \<Rightarrow> forecast_model \<Rightarrow> threshold_policy \<Rightarrow> datetime \<Rightarrow> datetime
     \<Rightarrow> forecast_prediction res" where
  "predict_conversion observations model thresholds feature_timestamp prediction_timestamp =
     (if \<not> aware feature_timestamp \<or> \<not> aware prediction_timestamp
      then Inl (ValueError ''forecast timestamps must be timezone-aware'')
      else res_bind (dt_less prediction_timestamp feature_timestamp) (\<lambda>late.
        if late then Inl (ValueError ''feature timestamp cannot be after prediction time'')
        else res_bind (res_fold (supply_observation (set (map fd_name (fm_features model))) feature_timestamp)
                         Map.empty observations) (\<lambda>supplied.
        res_bind (res_fold (score_feature supplied model) ({}, [], fm_intercept model) (fm_features model))
          (\<lambda>(missing, contributions, logit).
        let bounded_logit = min (max logit (fm_logit_floor model)) (fm_logit_ceiling model)
        in res_bind (dec_div 1 (dec_add 1 (dec_exp (dec_neg bounded_logit)))) (\<lambda>probability.
           res_bind (dec_div (of_nat (card missing)) (of_nat (length (fm_features model)))) (\<lambda>missing_fraction.
           let confidence = max 0 (dec_sub 1 (dec_mul missing_fraction (fm_missing_feature_confidence_penalty model)));
               ordered = sort_key (\<lambda>item. (dec_neg (dec_abs (snd item)), fst item)) contributions;
               reasons = map fst (filter (\<lambda>item. snd item \<noteq> 0) (take (nat (fm_maximum_reason_codes model)) ordered))
           in Inr \<lparr>fp_model_version = fm_version model,
                   fp_feature_registry_version = fm_feature_registry_version model,
                   fp_threshold_policy_version = tp_version thresholds,
                   fp_feature_timestamp = feature_timestamp,
                   fp_prediction_timestamp = prediction_timestamp,
                   fp_probability = probability, fp_confidence = confidence,
                   fp_band = forecast_band_of thresholds probability,
                   fp_reason_codes = reasons, fp_fallback_used = (missing \<noteq> {}),
                   fp_missing_features = missing\<rparr>))))))"

record labeled_prediction =
  lp_probability :: decimal
  lp_converted :: bool
  lp_predicted_at :: datetime
  lp_labeled_at :: datetime

definition labeled_prediction_post_init :: "labeled_prediction \<Rightarrow> unit res" where
  "labeled_prediction_post_init l =
     (if \<not> (0 \<le> lp_probability l \<and> lp_probability l \<le> 1)
      then Inl (ValueError ''probability must be between zero and one'')
      else if \<not> aware (lp_predicted_at l) \<or> \<not> aware (lp_labeled_at l)
      then Inl (ValueError ''evaluation timestamps must be timezone-aware'')
      else res_bind (dt_less (lp_labeled_at l) (lp_predicted_at l)) (\<lambda>early.
        if early then Inl (ValueError ''label cannot predate prediction'') else Inr ()))"

record evaluation_policy =
  ep_version :: string
  ep_minimum_sample_size :: int
  ep_maximum_brier_score :: decimal
  ep_minimum_roc_auc :: decimal

definition evaluation_policy_post_init :: "evaluation_policy \<Rightarrow> unit res" where
  "evaluation_policy_post_init p =
     (if ep_minimum_sample_size p \<le> 0
      then Inl (ValueError ''minimum evaluation sample size must be positive'')
      else if \<not> (0 \<le> ep_maximum_brier_score p \<and> ep_maximum_brier_score p \<le> 1)
      then Inl (ValueError ''maximum Brier score must be between zero and one'')
      else if \<not> (0 \<le> ep_minimum_roc_auc p \<and> ep_minimum_roc_auc p \<le> 1)
      then Inl (ValueError ''minimum ROC AUC must be between zero and one'')
      else Inr ())"

record forecast_evaluation =
  fe_sample_size :: nat
  fe_brier_score :: "decimal option"
  fe_roc_auc :: "decimal option"
  fe_meets_promotion_policy :: bool
  fe_reason :: string
  fe_policy_version :: string

text \<open>The body of the double loop of \<open>_roc_auc\<close> and the loop itself.\<close>

definition auc_step :: "decimal \<Rightarrow> labeled_prediction \<times> labeled_prediction \<Rightarrow> decimal" where
  "auc_step wins = (\<lambda>(positive, negative).
     if lp_probability positive > lp_probability negative then dec_add wins 1
     else if lp_probability positive = lp_probability negative then dec_add wins (1 / 2)
     else wins)"

definition roc_auc :: "labeled_prediction list \<Rightarrow> decimal option res" where
  "roc_auc samples =
     (let positives = filter lp_converted samples;
          negatives = filter (\<lambda>s. \<not> lp_converted s) samples
      in if positives = [] \<or> negatives = [] then Inr None
         else let wins = foldl auc_step 0 (List.product positives negatives)
         in res_bind (dec_div wins (of_nat (length positives * length negatives))) (\<lambda>a. Inr (Some a)))"

definition squared_error :: "labeled_prediction \<Rightarrow> decimal" where
  "squared_error sample = dec_square (dec_sub (lp_probability sample) (if lp_converted sample then 1 else 0))"

definition evaluate_forecast ::
  "labeled_prediction list \<Rightarrow> evaluation_policy \<Rightarrow> forecast_evaluation res" where
  "evaluate_forecast samples policy =
     (if int (length samples) < ep_minimum_sample_size policy
      then Inr \<lparr>fe_sample_size = length samples, fe_brier_score = None, fe_roc_auc = None,
                fe_meets_promotion_policy = False, fe_reason = ''insufficient_sample'',
                fe_policy_version = ep_version policy\<rparr>
      else res_bind (dec_div (dec_sum (map squared_error samples)) (of_nat (length samples))) (\<lambda>brier.
        res_bind (roc_auc samples) (\<lambda>auc.
        let passes = (brier \<le> ep_maximum_brier_score policy
              \<and> (case auc of None \<Rightarrow> False | Some a \<Rightarrow> a \<ge> ep_minimum_roc_auc policy))
        in Inr \<lparr>fe_sample_size = length samples, fe_brier_score = Some brier, fe_roc_auc = auc,
                fe_meets_promotion_policy = passes,
                fe_reason = (if passes then ''promotion_thresholds_met'' else ''promotion_thresholds_not_met''),
                fe_policy_version = ep_version policy\<rparr>)))"

definition time_aware_split ::
  "labeled_prediction list \<Rightarrow> datetime \<Rightarrow> datetime
     \<Rightarrow> (labeled_prediction list \<times> labeled_prediction list \<times> labeled_prediction list) res" where
  "time_aware_split samples training_ends_at validation_ends_at =
     res_bind (dt_le validation_ends_at training_ends_at) (\<lambda>bad.
       if bad then Inl (ValueError ''training cutoff must precede validation cutoff'')
       else let ordered = sort_key (\<lambda>item. instant (lp_predicted_at item)) samples
       in res_bind (res_filter (\<lambda>item. dt_less (lp_predicted_at item) training_ends_at) ordered) (\<lambda>training.
          res_bind (res_filter (\<lambda>item.
              res_bind (dt_le training_ends_at (lp_predicted_at item)) (\<lambda>b.
                if b then dt_less (lp_predicted_at item) validation_ends_at else Inr False)) ordered) (\<lambda>validation.
          res_bind (res_filter (\<lambda>item. dt_le validation_ends_at (lp_predicted_at item)) ordered) (\<lambda>testing.
          Inr (training, validation, testing)))))"

text \<open>\<open>DeterministicForecastUseCase.execute\<close> with the model and thresholds of the use case.\<close>

record deterministic_forecast_use_case =
  dfu_model :: forecast_model
  dfu_thresholds :: threshold_policy

definition deterministic_forecast_execute ::
  "deterministic_forecast_use_case \<Rightarrow> feature_observation list \<Rightarrow> datetime \<Rightarrow> datetime
     \<Rightarrow> forecast_prediction res" where
  "deterministic_forecast_execute self observations feature_timestamp prediction_timestamp =
     predict_conversion observations (dfu_model self) (dfu_thresholds self)
       feature_timestamp prediction_timestamp"

section \<open>Valid inputs\<close>

definition valid_model :: "forecast_model \<Rightarrow> bool" where
  "valid_model m \<longleftrightarrow> forecast_model_post_init m = Inr ()
     \<and> list_all (\<lambda>f. feature_definition_post_init f = Inr ()) (fm_features m)"

lemma feature_definition_ok:
  "feature_definition_post_init f = Inr u \<longleftrightarrow>
     fd_minimum f < fd_maximum f \<and> fd_minimum f \<le> fd_fallback f \<and> fd_fallback f \<le> fd_maximum f"
  by (auto simp: feature_definition_post_init_def)

lemma valid_modelD:
  assumes "valid_model m"
  shows "distinct (map fd_name (fm_features m))"
    "set (map fd_name (fm_features m)) = set (map fst (fm_coefficients m))"
    "0 \<le> fm_missing_feature_confidence_penalty m" "fm_missing_feature_confidence_penalty m \<le> 1"
    "0 < fm_maximum_reason_codes m"
  using assms by (auto simp: valid_model_def forecast_model_post_init_def Let_def card_distinct
      split: if_splits)

text \<open>The observations that a prediction accepts, by the rules of the registry.\<close>

definition admissible :: "feature_observation list \<Rightarrow> forecast_model \<Rightarrow> datetime \<Rightarrow> bool" where
  "admissible obs m t \<longleftrightarrow> distinct (map fo_name obs)
     \<and> (\<forall>ob\<in>set obs. instant (fo_observed_at ob) \<le> instant t
          \<and> (\<exists>f\<in>set (fm_features m). fd_name f = fo_name ob
               \<and> fd_minimum f \<le> fo_value ob \<and> fo_value ob \<le> fd_maximum f))"

section \<open>Collecting the observations\<close>

abbreviation observations_by_name :: "feature_observation list \<Rightarrow> string \<rightharpoonup> feature_observation" where
  "observations_by_name obs \<equiv> map_of (map (\<lambda>ob. (fo_name ob, ob)) obs)"

lemma supply_observation_Inr:
  assumes "aware t" "aware (fo_observed_at ob)"
  shows "supply_observation R t acc ob = Inr acc' \<longleftrightarrow>
    fo_name ob \<in> R \<and> instant (fo_observed_at ob) \<le> instant t \<and> acc (fo_name ob) = None
    \<and> acc' = acc(fo_name ob \<mapsto> ob)"
  using assms by (auto simp: supply_observation_def not_less)

lemma supply_loop:
  assumes "aware t" "\<forall>ob\<in>set obs. aware (fo_observed_at ob)"
  shows "res_fold (supply_observation R t) acc obs = Inr acc' \<longleftrightarrow>
    distinct (map fo_name obs) \<and> (\<forall>ob\<in>set obs. fo_name ob \<in> R
       \<and> instant (fo_observed_at ob) \<le> instant t \<and> acc (fo_name ob) = None)
    \<and> acc' = acc ++ observations_by_name obs"
  using assms(2)
proof (induction obs arbitrary: acc)
  case Nil
  then show ?case by auto
next
  case (Cons ob obs)
  have "res_fold (supply_observation R t) acc (ob # obs) = Inr acc' \<longleftrightarrow>
      (fo_name ob \<in> R \<and> instant (fo_observed_at ob) \<le> instant t \<and> acc (fo_name ob) = None)
      \<and> res_fold (supply_observation R t) (acc(fo_name ob \<mapsto> ob)) obs = Inr acc'"
    using Cons.prems assms(1) by (auto simp: res_simps supply_observation_Inr)
  also have "\<dots> \<longleftrightarrow> (fo_name ob \<in> R \<and> instant (fo_observed_at ob) \<le> instant t \<and> acc (fo_name ob) = None)
      \<and> fo_name ob \<notin> fo_name ` set obs \<and> distinct (map fo_name obs)
      \<and> (\<forall>ob\<in>set obs. fo_name ob \<in> R \<and> instant (fo_observed_at ob) \<le> instant t \<and> acc (fo_name ob) = None)
      \<and> acc' = acc(fo_name ob \<mapsto> ob) ++ observations_by_name obs"
    by (subst Cons.IH) (use Cons.prems in \<open>auto simp: image_iff split: if_splits\<close>)
  also have "\<dots> \<longleftrightarrow> distinct (map fo_name (ob # obs))
      \<and> (\<forall>ob\<in>set (ob # obs). fo_name ob \<in> R \<and> instant (fo_observed_at ob) \<le> instant t \<and> acc (fo_name ob) = None)
      \<and> acc' = acc ++ observations_by_name (ob # obs)"
    by (auto simp: map_add_upd_left dom_map_of_conv_image_fst image_image)
  finally show ?case .
qed

section \<open>Scoring the features\<close>

abbreviation feature_value :: "(string \<rightharpoonup> feature_observation) \<Rightarrow> feature_definition \<Rightarrow> decimal" where
  "feature_value acc f \<equiv> (case acc (fd_name f) of None \<Rightarrow> fd_fallback f | Some ob \<Rightarrow> fo_value ob)"

definition feature_contribution ::
  "(string \<rightharpoonup> feature_observation) \<Rightarrow> forecast_model \<Rightarrow> feature_definition \<Rightarrow> decimal" where
  "feature_contribution acc m f =
     dec_mul (dec_round (dec_sub (feature_value acc f) (fd_minimum f) / dec_sub (fd_maximum f) (fd_minimum f)))
       (the (map_of (fm_coefficients m) (fd_name f)))"

lemma score_feature_Inr:
  assumes "fd_minimum f < fd_maximum f" "fd_name f \<in> set (map fst (fm_coefficients m))"
  shows "score_feature acc m (ms, cs, l) f = Inr s \<longleftrightarrow>
    fd_minimum f \<le> feature_value acc f \<and> feature_value acc f \<le> fd_maximum f
    \<and> s = (if acc (fd_name f) = None then insert (fd_name f) ms else ms,
           cs @ [(fd_reason_code f, feature_contribution acc m f)],
           dec_add l (feature_contribution acc m f))"
proof -
  have p: "0 < dec_sub (fd_maximum f) (fd_minimum f)"
    using assms(1) unfolding dec_sub_def by (intro dec28.rnd_pos) simp
  obtain c where "map_of (fm_coefficients m) (fd_name f) = Some c"
    using assms(2) by (metis list.set_map map_of_eq_None_iff not_None_eq)
  with p show ?thesis
    by (auto simp: score_feature_def Let_def dec_div_def feature_contribution_def)
qed

lemma score_loop:
  assumes "list_all (\<lambda>f. fd_minimum f < fd_maximum f \<and> fd_name f \<in> set (map fst (fm_coefficients m))) fs"
  shows "res_fold (score_feature acc m) (ms, cs, l) fs = Inr s \<longleftrightarrow>
    (\<forall>f\<in>set fs. fd_minimum f \<le> feature_value acc f \<and> feature_value acc f \<le> fd_maximum f)
    \<and> s = (ms \<union> {n \<in> fd_name ` set fs. acc n = None},
           cs @ map (\<lambda>f. (fd_reason_code f, feature_contribution acc m f)) fs,
           foldl dec_add l (map (feature_contribution acc m) fs))"
  using assms
proof (induction fs arbitrary: ms cs l)
  case Nil
  then show ?case by auto
next
  case (Cons f fs)
  have "res_fold (score_feature acc m) (ms, cs, l) (f # fs) = Inr s \<longleftrightarrow>
      (fd_minimum f \<le> feature_value acc f \<and> feature_value acc f \<le> fd_maximum f)
      \<and> res_fold (score_feature acc m) (if acc (fd_name f) = None then insert (fd_name f) ms else ms,
           cs @ [(fd_reason_code f, feature_contribution acc m f)],
           dec_add l (feature_contribution acc m f)) fs = Inr s"
    using Cons.prems by (auto simp: res_simps score_feature_Inr simp del: set_map)
  moreover have "list_all (\<lambda>f. fd_minimum f < fd_maximum f
      \<and> fd_name f \<in> set (map fst (fm_coefficients m))) fs" using Cons.prems by simp
  ultimately show ?case
    by (simp only: Cons.IH) (auto simp del: not_None_eq)
qed

lemma observations_by_name_Some:
  "observations_by_name obs n = Some ob \<Longrightarrow> ob \<in> set obs \<and> fo_name ob = n"
  by (auto dest: map_of_SomeD)

lemma observations_by_name_distinct:
  "distinct (map fo_name obs) \<Longrightarrow> ob \<in> set obs \<Longrightarrow> observations_by_name obs (fo_name ob) = Some ob"
  by (auto simp: comp_def intro!: map_of_is_SomeI)

lemma feature_values_in_bounds:
  assumes v: "valid_model m" and d: "distinct (map fo_name obs)"
    and r: "\<forall>ob\<in>set obs. fo_name ob \<in> fd_name ` set (fm_features m)"
  shows "(\<forall>f\<in>set (fm_features m). fd_minimum f \<le> feature_value (observations_by_name obs) f
       \<and> feature_value (observations_by_name obs) f \<le> fd_maximum f)
    \<longleftrightarrow> (\<forall>ob\<in>set obs. \<exists>f\<in>set (fm_features m). fd_name f = fo_name ob
         \<and> fd_minimum f \<le> fo_value ob \<and> fo_value ob \<le> fd_maximum f)"
    (is "?L \<longleftrightarrow> ?R")
proof
  assume L: ?L
  show ?R
  proof
    fix ob assume ob: "ob \<in> set obs"
    with r obtain f where f: "f \<in> set (fm_features m)" "fd_name f = fo_name ob" by force
    with L ob d show "\<exists>f\<in>set (fm_features m). fd_name f = fo_name ob
        \<and> fd_minimum f \<le> fo_value ob \<and> fo_value ob \<le> fd_maximum f"
      by (intro bexI [of _ f]) (auto simp: observations_by_name_distinct)
  qed
next
  assume R: ?R
  show ?L
  proof
    fix f assume f: "f \<in> set (fm_features m)"
    show "fd_minimum f \<le> feature_value (observations_by_name obs) f
       \<and> feature_value (observations_by_name obs) f \<le> fd_maximum f"
    proof (cases "observations_by_name obs (fd_name f)")
      case None
      then show ?thesis using v f by (auto simp: valid_model_def list_all_iff feature_definition_ok)
    next
      case (Some ob)
      then have ob: "ob \<in> set obs" "fo_name ob = fd_name f" using observations_by_name_Some by blast+
      with R obtain g where g: "g \<in> set (fm_features m)" "fd_name g = fd_name f"
        "fd_minimum g \<le> fo_value ob" "fo_value ob \<le> fd_maximum g" by metis
      then have "g = f" using f valid_modelD(1) [OF v] by (auto simp: distinct_map dest: inj_onD)
      then show ?thesis using g Some by simp
    qed
  qed
qed

text \<open>The prediction assembled from the results of the feature loop.\<close>

definition assembled :: "forecast_model \<Rightarrow> threshold_policy \<Rightarrow> datetime \<Rightarrow> datetime
    \<Rightarrow> string set \<times> (string \<times> decimal) list \<times> decimal \<Rightarrow> forecast_prediction" where
  "assembled m th ft pt = (\<lambda>(missing, contributions, logit).
     let bounded = min (max logit (fm_logit_floor m)) (fm_logit_ceiling m);
         probability = dec_round (1 / dec_add 1 (dec_exp (dec_neg bounded)))
     in \<lparr>fp_model_version = fm_version m, fp_feature_registry_version = fm_feature_registry_version m,
         fp_threshold_policy_version = tp_version th,
         fp_feature_timestamp = ft, fp_prediction_timestamp = pt, fp_probability = probability,
         fp_confidence = max 0 (dec_sub 1 (dec_mul
           (dec_round (of_nat (card missing) / of_nat (length (fm_features m))))
           (fm_missing_feature_confidence_penalty m))),
         fp_band = forecast_band_of th probability,
         fp_reason_codes = map fst (filter (\<lambda>item. snd item \<noteq> 0) (take (nat (fm_maximum_reason_codes m))
           (sort_key (\<lambda>item. (dec_neg (dec_abs (snd item)), fst item)) contributions))),
         fp_fallback_used = (missing \<noteq> {}), fp_missing_features = missing\<rparr>)"

lemma one_plus_exp: "1 \<le> dec_add 1 (dec_exp x)"
proof -
  have "0 < dec_exp x" unfolding dec_exp_def by (rule dec_rnd_pos) simp_all
  then show ?thesis unfolding dec_add_def by (intro dec28.rnd_ge_one) simp
qed

lemma predict_conversion_loops:
  assumes "aware ft" "aware pt"
  shows "predict_conversion obs m th ft pt = Inr p \<longleftrightarrow> instant ft \<le> instant pt \<and>
     (\<exists>acc. res_fold (supply_observation (set (map fd_name (fm_features m))) ft) Map.empty obs = Inr acc \<and>
      (\<exists>s. res_fold (score_feature acc m) ({}, [], fm_intercept m) (fm_features m) = Inr s \<and>
        fm_features m \<noteq> [] \<and> p = assembled m th ft pt s))"
proof -
  have "dec_add 1 (dec_exp x) \<noteq> 0" for x using one_plus_exp [of x] by linarith
  then show ?thesis
    using assms by (auto simp: predict_conversion_def assembled_def Let_def res_simps dec_div_def not_less)
qed

text \<open>When a prediction is returned, and what it then holds.\<close>

lemma predict_conversion_Inr:
  assumes v: "valid_model m" and a: "aware ft" "aware pt" "\<forall>ob\<in>set obs. aware (fo_observed_at ob)"
  shows "predict_conversion obs m th ft pt = Inr p \<longleftrightarrow>
    instant ft \<le> instant pt \<and> admissible obs m ft \<and> fm_features m \<noteq> []
    \<and> p = assembled m th ft pt
        ({n \<in> fd_name ` set (fm_features m). observations_by_name obs n = None},
         map (\<lambda>f. (fd_reason_code f, feature_contribution (observations_by_name obs) m f)) (fm_features m),
         foldl dec_add (fm_intercept m) (map (feature_contribution (observations_by_name obs) m) (fm_features m)))"
proof -
  let ?R = "set (map fd_name (fm_features m))" and ?b = "observations_by_name obs"
  have fs: "list_all (\<lambda>f. fd_minimum f < fd_maximum f \<and> fd_name f \<in> set (map fst (fm_coefficients m)))
      (fm_features m)"
    using v valid_modelD(2) [OF v] by (auto simp: valid_model_def list_all_iff feature_definition_ok)
  have "fo_name ob \<in> fd_name ` set (fm_features m)" if "admissible obs m ft" "ob \<in> set obs" for ob
    using that unfolding admissible_def by (metis imageI)
  then have adm: "admissible obs m ft \<longleftrightarrow> (distinct (map fo_name obs) \<and> (\<forall>ob\<in>set obs. fo_name ob \<in> ?R
       \<and> instant (fo_observed_at ob) \<le> instant ft)) \<and> (\<forall>f\<in>set (fm_features m).
       fd_minimum f \<le> feature_value ?b f \<and> feature_value ?b f \<le> fd_maximum f)"
    using feature_values_in_bounds [OF v, of obs] unfolding admissible_def set_map by blast
  show ?thesis
    unfolding predict_conversion_loops [OF a(1,2)] supply_loop [OF a(1,3)] score_loop [OF fs] adm by auto
qed

section \<open>Evaluation\<close>

lemma half_exact:
  assumes "n \<le> 10 ^ 27"
  shows "dec_round (of_nat n / 2) = of_nat n / 2"
proof (rule dec_rnd_exactI [where k = 1 and m = "5 * int n"])
  have "int n \<le> int (10 ^ 27)" using assms by (simp only: of_nat_le_iff)
  then have "int n \<le> 10 ^ 27" by simp
  then show "\<bar>5 * int n\<bar> < 10 ^ 28" by simp
qed simp

text \<open>Twice the credit that a pair earns: two for a win of the converted sample, one for a tie.\<close>

definition pair_credit :: "labeled_prediction \<times> labeled_prediction \<Rightarrow> nat" where
  "pair_credit = (\<lambda>(p, n). if lp_probability p > lp_probability n then 2
     else if lp_probability p = lp_probability n then 1 else 0)"

lemma auc_loop:
  assumes "h + 2 * length prs \<le> 10 ^ 27"
  shows "foldl auc_step (of_nat h / 2) prs = of_nat (h + sum_list (map pair_credit prs)) / 2"
  using assms
proof (induction prs arbitrary: h)
  case Nil
  then show ?case by simp
next
  case (Cons pr prs)
  have c: "pair_credit pr \<le> 2" by (auto simp: pair_credit_def split: prod.splits)
  have step: "auc_step (of_nat h / 2) pr = of_nat (h + pair_credit pr) / 2"
    using half_exact [of "h + 2"] half_exact [of "h + 1"] Cons.prems
    by (auto simp: auc_step_def pair_credit_def dec_add_def add_divide_distrib add.commute
        split: prod.splits)
  have "h + pair_credit pr + 2 * length prs \<le> 10 ^ 27" using Cons.prems c by simp
  from Cons.IH [OF this] show ?case
    by (simp only: foldl_Cons step list.map sum_list.Cons add.assoc)
qed

lemma pair_credit_sum: "sum_list (map pair_credit prs) \<le> 2 * length prs"
  by (induction prs) (auto simp: pair_credit_def split: prod.splits)

lemma length_product_filter:
  "length (filter P xs) * length (filter Q xs) \<le> length xs * length xs"
  by (rule mult_le_mono) simp_all

lemma roc_auc_eq:
  assumes "2 * (length samples * length samples) \<le> 10 ^ 27"
  shows "roc_auc samples = Inr
    (let pos = filter lp_converted samples; neg = filter (\<lambda>s. \<not> lp_converted s) samples
     in if pos = [] \<or> neg = [] then None
        else Some (dec_round (of_nat (sum_list (map pair_credit (List.product pos neg))) / 2
               / of_nat (length pos * length neg))))"
proof -
  let ?p = "filter lp_converted samples" and ?n = "filter (\<lambda>s. \<not> lp_converted s) samples"
  have "2 * length (List.product ?p ?n) \<le> 10 ^ 27"
    using length_product_filter [of lp_converted samples "\<lambda>s. \<not> lp_converted s"] assms by simp
  then have "foldl auc_step 0 (List.product ?p ?n) = of_nat (sum_list (map pair_credit (List.product ?p ?n))) / 2"
    using auc_loop [of 0 "List.product ?p ?n"] by simp
  then show ?thesis unfolding roc_auc_def Let_def dec_div_def by (simp only:) simp
qed

lemma squared_error_unit:
  assumes "0 \<le> lp_probability l" "lp_probability l \<le> 1"
  shows "0 \<le> squared_error l \<and> squared_error l \<le> 1"
proof -
  define x where "x = dec_sub (lp_probability l) (if lp_converted l then 1 else 0)"
  have "dec_round (-1) \<le> x" "x \<le> dec_round 1"
    using assms unfolding x_def dec_sub_def by (intro dec28.rnd_mono; simp)+
  then have "\<bar>x\<bar> \<le> 1" by (simp add: abs_le_iff)
  then have "x * x \<le> 1" by (metis abs_square_le_1 power2_eq_square)
  then have "dec_rnd 31 (x * x) \<le> 1" "0 \<le> dec_rnd 31 (x * x)"
    using dec_rnd_mono [of "x * x" 1 31] dec_rnd_mono [of 0 "x * x" 31] by simp_all
  then show ?thesis
    unfolding squared_error_def dec_square_def x_def [symmetric]
    by (auto intro!: dec28.rnd_nonneg dec28.rnd_le_one)
qed

lemma labeled_prediction_ok:
  "labeled_prediction_post_init l = Inr u \<longleftrightarrow> 0 \<le> lp_probability l \<and> lp_probability l \<le> 1
     \<and> aware (lp_predicted_at l) \<and> aware (lp_labeled_at l)
     \<and> instant (lp_predicted_at l) \<le> instant (lp_labeled_at l)"
  by (cases u) (auto simp: labeled_prediction_post_init_def not_less)

section \<open>The time-aware split\<close>

lemma sorted_split3:
  assumes "sorted (map k xs)" "a \<le> b"
  shows "filter (\<lambda>x. k x < a) xs @ filter (\<lambda>x. a \<le> k x \<and> k x < b) xs @ filter (\<lambda>x. b \<le> k x) xs = xs"
  using assms(1)
proof (induction xs)
  case Nil
  then show ?case by simp
next
  case (Cons x xs)
  then have "\<forall>y\<in>set xs. k x \<le> k y" by simp
  then have "a \<le> k x \<Longrightarrow> filter (\<lambda>x. k x < a) xs = []"
    "b \<le> k x \<Longrightarrow> filter (\<lambda>x. a \<le> k x \<and> k x < b) xs = []"
    by (force simp: filter_empty_conv)+
  with Cons assms(2) show ?case by (cases "k x < a"; cases "k x < b") auto
qed

section \<open>Properties\<close>


definition sample_model :: forecast_model where
  "sample_model = \<lparr>fm_version = ''m1'', fm_feature_registry_version = ''r1'', fm_intercept = 0,
     fm_coefficients = [(''attendance'', 2)],
     fm_features = [\<lparr>fd_name = ''attendance'', fd_minimum = 0, fd_maximum = 1, fd_fallback = 1 / 2,
       fd_reason_code = ''ATTENDED''\<rparr>],
     fm_missing_feature_confidence_penalty = 1, fm_maximum_reason_codes = 3,
     fm_logit_floor = - 4, fm_logit_ceiling = 4\<rparr>"

definition sample_thresholds :: threshold_policy where
  "sample_thresholds = \<lparr>tp_version = ''t1'', tp_lower_threshold = 1 / 4, tp_upper_threshold = 3 / 4\<rparr>"

definition sample_feature :: feature_observation where
  "sample_feature = \<lparr>fo_name = ''attendance'', fo_value = 1, fo_observed_at = Datetime 5 (Some 0)\<rparr>"

lemma sample_model_valid: "valid_model sample_model"
  by (simp add: valid_model_def sample_model_def forecast_model_post_init_def
      feature_definition_post_init_def blank_def strip_def lstrip_def is_space_def)

text \<open>
  With a valid model and aware times a prediction is returned exactly when the model has a
  feature, the feature time is not after the prediction time, and the observations are admissible:
  registered, unique, within the bounds of their feature and not from the future.
\<close>

theorem predict_conversion_returns_iff:
  assumes "valid_model m" "aware ft" "aware pt"
    and "\<forall>ob\<in>set obs. feature_observation_post_init ob = Inr ()"
  shows "(\<exists>p. predict_conversion obs m th ft pt = Inr p) \<longleftrightarrow>
    fm_features m \<noteq> [] \<and> instant ft \<le> instant pt \<and> admissible obs m ft"
proof -
  have "\<forall>ob\<in>set obs. aware (fo_observed_at ob)"
    using assms(4) by (auto simp: feature_observation_post_init_def split: if_splits)
  from predict_conversion_Inr [OF assms(1-3) this] show ?thesis by auto
qed

lemma sample_admissible: "admissible [sample_feature] sample_model (Datetime 10 (Some 0))"
  by (simp add: admissible_def sample_feature_def sample_model_def)

theorem predict_conversion_returns_iff_witness:
  "\<exists>p. predict_conversion [sample_feature] sample_model sample_thresholds
     (Datetime 10 (Some 0)) (Datetime 20 (Some 0)) = Inr p"
proof -
  have "fm_features sample_model \<noteq> []" by (simp add: sample_model_def)
  then show ?thesis
    using sample_admissible predict_conversion_returns_iff [OF sample_model_valid,
        of "Datetime 10 (Some 0)" "Datetime 20 (Some 0)" "[sample_feature]" sample_thresholds]
    by (simp add: feature_observation_post_init_def sample_feature_def)
qed


text \<open>
  (C29) Evaluating valid samples never fails.  With too few samples nothing is scored; otherwise the
  Brier score is a fraction, the ROC AUC is the rounded share of pairs of a converted and an
  unconverted sample that the forecast orders correctly, ties counting half, and is absent when one
  class is absent; promotion needs both thresholds, so never happens on one class only.
\<close>

theorem evaluate_forecast_sound:
  assumes "evaluation_policy_post_init pol = Inr ()"
    and "\<forall>l\<in>set samples. labeled_prediction_post_init l = Inr ()"
    and "2 * (length samples * length samples) \<le> 10 ^ 27"
  shows "\<exists>e. evaluate_forecast samples pol = Inr e \<and>
    (if int (length samples) < ep_minimum_sample_size pol
     then fe_brier_score e = None \<and> fe_roc_auc e = None \<and> \<not> fe_meets_promotion_policy e
     else (\<exists>b. fe_brier_score e = Some b \<and> 0 \<le> b \<and> b \<le> 1
       \<and> fe_roc_auc e =
          (let pos = filter lp_converted samples; neg = filter (\<lambda>s. \<not> lp_converted s) samples
           in if pos = [] \<or> neg = [] then None
              else Some (dec_round (of_nat (sum_list (map pair_credit (List.product pos neg))) / 2
                     / of_nat (length pos * length neg))))
       \<and> (fe_meets_promotion_policy e \<longleftrightarrow> b \<le> ep_maximum_brier_score pol
            \<and> (\<exists>a. fe_roc_auc e = Some a \<and> ep_minimum_roc_auc pol \<le> a))))"
proof (cases "int (length samples) < ep_minimum_sample_size pol")
  case True
  then show ?thesis by (simp add: evaluate_forecast_def)
next
  case False
  have ne: "samples \<noteq> []"
    using False assms(1) by (auto simp: evaluation_policy_post_init_def split: if_splits)
  have unit: "list_all (\<lambda>x. 0 \<le> x \<and> x \<le> 1) (map squared_error samples)"
    using assms(2) squared_error_unit by (auto simp: list_all_iff labeled_prediction_ok)
  have "length samples \<le> length samples * length samples" by (rule le_square)
  also have "\<dots> \<le> 10 ^ 27" using assms(3) by linarith
  finally have small: "length (map squared_error samples) \<le> 10 ^ 28" by simp
  from dec_mean_fraction [OF unit small] ne False show ?thesis
    by (auto simp: evaluate_forecast_def roc_auc_eq [OF assms(3)] dec_div_def Let_def split: option.splits)
qed

definition sample_labels :: "labeled_prediction list" where
  "sample_labels =
     [\<lparr>lp_probability = 1, lp_converted = True, lp_predicted_at = Datetime 30 (Some 0), lp_labeled_at = Datetime 40 (Some 0)\<rparr>,
      \<lparr>lp_probability = 0, lp_converted = False, lp_predicted_at = Datetime 10 (Some 0), lp_labeled_at = Datetime 40 (Some 0)\<rparr>]"

theorem evaluate_forecast_sound_witness:
  "\<exists>e. evaluate_forecast sample_labels
     \<lparr>ep_version = ''e1'', ep_minimum_sample_size = 1, ep_maximum_brier_score = 1, ep_minimum_roc_auc = 1\<rparr> = Inr e
     \<and> fe_roc_auc e = Some 1 \<and> fe_meets_promotion_policy e"
  using evaluate_forecast_sound [of "\<lparr>ep_version = ''e1'', ep_minimum_sample_size = 1,
      ep_maximum_brier_score = 1, ep_minimum_roc_auc = 1\<rparr>" sample_labels]
  by (auto simp: evaluation_policy_post_init_def sample_labels_def labeled_prediction_ok pair_credit_def)

text \<open>
  The time-aware split loses, invents and reorders nothing: the three parts concatenate to the
  samples in time order, and the cutoffs separate them, so no training sample was predicted after
  a validation or test sample.
\<close>

theorem time_aware_split_partition:
  assumes "\<forall>l\<in>set samples. labeled_prediction_post_init l = Inr ()" "aware a" "aware b"
    and "instant a < instant b"
  shows "\<exists>training validation testing. time_aware_split samples a b = Inr (training, validation, testing)
    \<and> training @ validation @ testing = sort_key (\<lambda>l. instant (lp_predicted_at l)) samples
    \<and> mset (training @ validation @ testing) = mset samples
    \<and> (\<forall>l\<in>set training. instant (lp_predicted_at l) < instant a)
    \<and> (\<forall>l\<in>set validation. instant a \<le> instant (lp_predicted_at l) \<and> instant (lp_predicted_at l) < instant b)
    \<and> (\<forall>l\<in>set testing. instant b \<le> instant (lp_predicted_at l))"
proof -
  let ?k = "\<lambda>l. instant (lp_predicted_at l)"
  let ?o = "sort_key ?k samples"
  have aw: "aware (lp_predicted_at l)" if "l \<in> set ?o" for l
    using that assms(1) by (auto simp: labeled_prediction_ok)
  have f: "res_filter (\<lambda>l. dt_less (lp_predicted_at l) a) ?o = Inr (filter (\<lambda>l. ?k l < instant a) ?o)"
    "res_filter (\<lambda>l. res_bind (dt_le a (lp_predicted_at l)) (\<lambda>c.
        if c then dt_less (lp_predicted_at l) b else Inr False)) ?o
      = Inr (filter (\<lambda>l. instant a \<le> ?k l \<and> ?k l < instant b) ?o)"
    "res_filter (\<lambda>l. dt_le b (lp_predicted_at l)) ?o = Inr (filter (\<lambda>l. instant b \<le> ?k l) ?o)"
    using aw assms(2,3) by (auto intro!: res_filter_total)
  have "filter (\<lambda>l. ?k l < instant a) ?o @ filter (\<lambda>l. instant a \<le> ?k l \<and> ?k l < instant b) ?o
      @ filter (\<lambda>l. instant b \<le> ?k l) ?o = ?o"
    using assms(4) by (intro sorted_split3) simp_all
  then obtain xs ys zs where parts: "xs = filter (\<lambda>l. ?k l < instant a) ?o"
      "ys = filter (\<lambda>l. instant a \<le> ?k l \<and> ?k l < instant b) ?o"
      "zs = filter (\<lambda>l. instant b \<le> ?k l) ?o" and cat: "xs @ ys @ zs = ?o" by blast
  have "time_aware_split samples a b = Inr (xs, ys, zs)"
    using assms(2-4) by (simp add: time_aware_split_def Let_def f parts)
  moreover have "mset (xs @ ys @ zs) = mset samples" unfolding cat by simp
  ultimately show ?thesis using cat parts by (intro exI [of _ xs] exI [of _ ys] exI [of _ zs]) auto
qed

theorem time_aware_split_partition_witness:
  "\<exists>training validation testing. time_aware_split sample_labels (Datetime 20 (Some 0)) (Datetime 25 (Some 0))
     = Inr (training, validation, testing) \<and> mset (training @ validation @ testing) = mset sample_labels"
proof -
  have "\<forall>l\<in>set sample_labels. labeled_prediction_post_init l = Inr ()"
    by (simp add: sample_labels_def labeled_prediction_ok)
  from time_aware_split_partition [OF this, of "Datetime 20 (Some 0)" "Datetime 25 (Some 0)"]
  show ?thesis by (simp del: mset_append) blast
qed

end
