(* ===== verification/Digest.thy ===== *)
theory Digest
  imports Prelude "HOL-Library.Word"
begin

unbundle bit_operations_syntax

text \<open>
  The digests of Python's \<open>hashlib\<close> and \<open>hmac\<close> that the program derives its keys and signatures
  from: SHA-256 and HMAC-SHA-256, as FIPS 180-4 and FIPS 198-1 define them, on byte strings.  A
  byte string is a character list, so that \<open>text.encode()\<close> of an ASCII text is the text itself.
\<close>

type_synonym w32 = "32 word"

text \<open>
  The first 32 bits of the fractional parts of the cube roots of the first 64 primes, and of the
  square roots of the first eight.
\<close>

definition sha_K :: "w32 list" where
  "sha_K =
    [1116352408, 1899447441, 3049323471, 3921009573,
     961987163, 1508970993, 2453635748, 2870763221,
     3624381080, 310598401, 607225278, 1426881987,
     1925078388, 2162078206, 2614888103, 3248222580,
     3835390401, 4022224774, 264347078, 604807628,
     770255983, 1249150122, 1555081692, 1996064986,
     2554220882, 2821834349, 2952996808, 3210313671,
     3336571891, 3584528711, 113926993, 338241895,
     666307205, 773529912, 1294757372, 1396182291,
     1695183700, 1986661051, 2177026350, 2456956037,
     2730485921, 2820302411, 3259730800, 3345764771,
     3516065817, 3600352804, 4094571909, 275423344,
     430227734, 506948616, 659060556, 883997877,
     958139571, 1322822218, 1537002063, 1747873779,
     1955562222, 2024104815, 2227730452, 2361852424,
     2428436474, 2756734187, 3204031479, 3329325298]"

definition sha_H0 :: "w32 list" where
  "sha_H0 =
    [1779033703, 3144134277, 1013904242, 2773480762,
     1359893119, 2600822924, 528734635, 1541459225]"

definition rotr :: "nat \<Rightarrow> w32 \<Rightarrow> w32" where
  "rotr n x = drop_bit n x OR push_bit (32 - n) x"

definition bsig0 :: "w32 \<Rightarrow> w32" where "bsig0 x = rotr 2 x XOR rotr 13 x XOR rotr 22 x"
definition bsig1 :: "w32 \<Rightarrow> w32" where "bsig1 x = rotr 6 x XOR rotr 11 x XOR rotr 25 x"
definition ssig0 :: "w32 \<Rightarrow> w32" where "ssig0 x = rotr 7 x XOR rotr 18 x XOR drop_bit 3 x"
definition ssig1 :: "w32 \<Rightarrow> w32" where "ssig1 x = rotr 17 x XOR rotr 19 x XOR drop_bit 10 x"

definition sha_ch :: "w32 \<Rightarrow> w32 \<Rightarrow> w32 \<Rightarrow> w32" where
  "sha_ch x y z = (x AND y) XOR (NOT x AND z)"

definition sha_maj :: "w32 \<Rightarrow> w32 \<Rightarrow> w32 \<Rightarrow> w32" where
  "sha_maj x y z = (x AND y) XOR (x AND z) XOR (y AND z)"

text \<open>The message, a one bit, zeros, and the bit length in eight bytes.\<close>

definition be_bytes :: "nat \<Rightarrow> nat \<Rightarrow> nat list" where
  "be_bytes w n = map (\<lambda>i. n div 256 ^ (w - 1 - i) mod 256) [0..<w]"

definition sha_pad :: "string \<Rightarrow> nat list" where
  "sha_pad s = map cval s @ [128] @ replicate ((119 - length s mod 64) mod 64) 0 @ be_bytes 8 (8 * length s)"

fun to_words :: "nat list \<Rightarrow> w32 list" where
  "to_words (a # b # c # d # rest) = of_nat (((a * 256 + b) * 256 + c) * 256 + d) # to_words rest"
| "to_words _ = []"

text \<open>The message schedule holds the words in reverse, so the newest is first.\<close>

fun schedule :: "nat \<Rightarrow> w32 list \<Rightarrow> w32 list" where
  "schedule 0 ws = ws"
| "schedule (Suc n) ws =
     schedule n ((ssig1 (ws ! 1) + ws ! 6 + ssig0 (ws ! 14) + ws ! 15) # ws)"

fun sha_rounds :: "(w32 \<times> w32) list \<Rightarrow> w32 list \<Rightarrow> w32 list" where
  "sha_rounds ((k, w) # kws) [a, b, c, d, e, f, g, h] =
     (let t1 = h + bsig1 e + sha_ch e f g + k + w;
          t2 = bsig0 a + sha_maj a b c
      in sha_rounds kws [t1 + t2, a, b, c, d + t1, e, f, g])"
| "sha_rounds _ st = st"

definition sha_block :: "w32 list \<Rightarrow> w32 list \<Rightarrow> w32 list" where
  "sha_block ws st =
     map2 (+) st (sha_rounds (zip sha_K (rev (schedule 48 (rev ws)))) st)"

function sha_blocks :: "w32 list \<Rightarrow> w32 list \<Rightarrow> w32 list" where
  "sha_blocks st ws =
     (if length ws < 16 then st else sha_blocks (sha_block (take 16 ws) st) (drop 16 ws))"
  by pat_completeness auto
termination
  by (relation "measure (\<lambda>(st, ws). length ws)") auto

declare sha_blocks.simps [simp del]

definition word_bytes :: "w32 \<Rightarrow> nat list" where
  "word_bytes w = be_bytes 4 (unat w)"

definition sha256_digest :: "string \<Rightarrow> string" where
  "sha256_digest s = map char_of (concat (map word_bytes (sha_blocks sha_H0 (to_words (sha_pad s)))))"

definition hex_digit :: "nat \<Rightarrow> char" where
  "hex_digit n = (if n < 10 then char_of (48 + n) else char_of (87 + n))"

definition hex :: "string \<Rightarrow> string" where
  "hex bs = concat (map (\<lambda>c. [hex_digit (cval c div 16), hex_digit (cval c mod 16)]) bs)"

text \<open>\<open>sha256(data).hexdigest()\<close>.\<close>

definition sha256 :: "string \<Rightarrow> string" where
  "sha256 s = hex (sha256_digest s)"

section \<open>UTF-8\<close>

text \<open>\<open>text.encode("utf-8")\<close> of a Latin-1 string.\<close>

definition utf8_char :: "char \<Rightarrow> string" where
  "utf8_char c = (if cval c < 128 then [c] else [char_of (192 + cval c div 64), char_of (128 + cval c mod 64)])"

definition utf8 :: "string \<Rightarrow> string" where
  "utf8 s = concat (map utf8_char s)"

section \<open>HMAC\<close>

definition xor_byte :: "nat \<Rightarrow> char \<Rightarrow> char" where
  "xor_byte n c = char_of (n XOR cval c)"

definition hmac_key :: "string \<Rightarrow> string" where
  "hmac_key k =
     (let k' = (if length k > 64 then sha256_digest k else k)
      in k' @ replicate (64 - length k') (char_of (0::nat)))"

definition hmac_sha256_digest :: "string \<Rightarrow> string \<Rightarrow> string" where
  "hmac_sha256_digest k msg =
     (let k0 = hmac_key k
      in sha256_digest (map (xor_byte 0x5c) k0 @ sha256_digest (map (xor_byte 0x36) k0 @ msg)))"

definition hmac_sha256 :: "string \<Rightarrow> string \<Rightarrow> string" where
  "hmac_sha256 k msg = hex (hmac_sha256_digest k msg)"

section \<open>Lengths of digests\<close>

lemma sha_rounds_length [simp]: "length (sha_rounds kws st) = length st"
  by (induction kws st rule: sha_rounds.induct) (simp_all add: Let_def)

lemma sha_blocks_length [simp]: "length (sha_blocks st ws) = length st"
proof (induction st ws rule: sha_blocks.induct)
  case (1 st ws)
  then show ?case by (subst sha_blocks.simps) (simp add: sha_block_def)
qed

lemma hex_length: "length (hex bs) = 2 * length bs"
  by (induction bs) (simp_all add: hex_def)

lemma sha256_digest_length: "length (sha256_digest s) = 32"
proof -
  have "length (concat (map word_bytes ws)) = 4 * length ws" for ws
    by (induction ws) (simp_all add: word_bytes_def be_bytes_def)
  then show ?thesis by (simp add: sha256_digest_def sha_H0_def)
qed

lemma sha256_length [simp]: "length (sha256 s) = 64"
  by (simp add: sha256_def hex_length sha256_digest_length)

lemma hmac_sha256_length [simp]: "length (hmac_sha256 k m) = 64"
  by (simp add: hmac_sha256_def hmac_sha256_digest_def Let_def hex_length sha256_digest_length)

end
