(* ===== verification/Scheduling.thy ===== *)
theory Scheduling
  imports Clock Digest
begin

text \<open>
  \<open>modules/scheduling\<close>: resolving wall times, proposing demo slots, slot holds with their
  expiry, the confirmation decision, and the coordinator that obtains the tutor's acceptance before
  a meeting link goes out.
\<close>

section \<open>Policy and windows\<close>

datatype participant = LEARNER_OR_GUARDIAN | TUTOR_PARTICIPANT

datatype confirmation_status = PENDING | CONFIRMED | DECLINED

datatype hold_status = ACTIVE | RELEASED | EXPIRED

record scheduling_policy =
  sp_version :: string
  sp_session_duration :: timedelta
  sp_buffer_before :: timedelta
  sp_buffer_after :: timedelta
  sp_hold_ttl :: timedelta
  sp_confirmation_ttl :: timedelta
  sp_minimum_lead_time :: timedelta
  sp_maximum_options :: int
  sp_required_confirmations :: "participant set"

definition scheduling_policy_post_init :: "scheduling_policy \<Rightarrow> unit res" where
  "scheduling_policy_post_init p =
     (if blank (sp_version p) then Inl (ValueError ''scheduling policy version is required'')
      else if list_ex (\<lambda>v. v \<le> 0) [sp_session_duration p, sp_hold_ttl p, sp_confirmation_ttl p]
      then Inl (ValueError ''duration and TTL values must be positive'')
      else if list_ex (\<lambda>v. v < 0) [sp_buffer_before p, sp_buffer_after p, sp_minimum_lead_time p]
      then Inl (ValueError ''buffers and lead time cannot be negative'')
      else if sp_maximum_options p \<le> 0 then Inl (ValueError ''maximum options must be positive'')
      else if sp_required_confirmations p = {}
      then Inl (ValueError ''at least one confirmation must be required'')
      else Inr ())"

datatype time_window = TimeWindow (starts_at: datetime) (ends_at: datetime)

definition mk_time_window :: "datetime \<Rightarrow> datetime \<Rightarrow> time_window res" where
  "mk_time_window s e =
     (if \<not> aware s \<or> \<not> aware e then Inl (ValueError ''time windows must be timezone-aware'')
      else res_bind (dt_le e s) (\<lambda>bad.
        if bad then Inl (ValueError ''time window must have positive duration'')
        else Inr (TimeWindow s e)))"

definition overlaps :: "time_window \<Rightarrow> time_window \<Rightarrow> bool res" where
  "overlaps self other =
     res_bind (dt_less (starts_at self) (ends_at other)) (\<lambda>b.
       if b then dt_less (starts_at other) (ends_at self) else Inr False)"

record slot_option =
  so_option_id :: string
  so_tutor_id :: string
  so_starts_at :: datetime
  so_ends_at :: datetime
  so_display_timezone :: string
  so_policy_version :: string

record slot_hold =
  sh_hold_id :: string
  sh_demo_id :: string
  sh_tutor_id :: string
  sh_slot :: time_window
  sh_held_at :: datetime
  sh_expires_at :: datetime
  sh_status :: hold_status
  sh_policy_version :: string

record confirmation =
  cf_participant :: participant
  cf_status :: confirmation_status
  cf_recorded_at :: "datetime option"

record confirmation_decision =
  cd_ready_to_schedule :: bool
  cd_outstanding :: "participant set"
  cd_declined :: "participant set"
  cd_hold_active :: bool
  cd_reason :: string

section \<open>Wall times\<close>

text \<open>
  A wall time is microseconds since 1970; \<open>local_time\<close> carries its \<open>tzinfo\<close> only to be rejected.
  A candidate is valid when its UTC instant reads back as the same wall time and fold.
\<close>

definition local_candidate :: "zone \<Rightarrow> int \<Rightarrow> int \<Rightarrow> (int \<times> datetime) list res" where
  "local_candidate z w fld =
     (let off = zone_offset z w fld; u = w - off
      in if \<not> in_range u then Inl (OverflowError ''date value out of range'')
         else case zone_local z u of (w', fld') \<Rightarrow>
           if \<not> in_range w' then Inl (OverflowError ''date value out of range'')
           else Inr (if w' = w \<and> fld' = fld then [(fld, Datetime w (Some off))] else []))"

definition resolve_local_datetime ::
  "tzdb \<Rightarrow> int \<Rightarrow> bool \<Rightarrow> string \<Rightarrow> int option \<Rightarrow> datetime res" where
  "resolve_local_datetime db w has_tzinfo timezone_name fld =
     (if has_tzinfo then Inl (LocalTimeError ''local time must not already contain timezone information'')
      else case db timezone_name of
        None \<Rightarrow> Inl (LocalTimeError ''unknown IANA timezone'')
      | Some z \<Rightarrow>
          res_bind (local_candidate z w 0) (\<lambda>c0. res_bind (local_candidate z w 1) (\<lambda>c1.
          let valid = c0 @ c1
          in if valid = [] then Inl (LocalTimeError ''local time does not exist in the selected timezone'')
             else if card (set (map (utcoff \<circ> snd) valid)) > 1 \<and> fld = None
             then Inl (LocalTimeError ''local time is ambiguous; an explicit fold is required'')
             else case map_of valid (case fld of None \<Rightarrow> 0 | Some f \<Rightarrow> f) of
               None \<Rightarrow> Inl (LocalTimeError ''invalid fold for local time'')
             | Some d \<Rightarrow> Inr d)))"

section \<open>Slots\<close>

definition slot_id :: "string \<Rightarrow> datetime \<Rightarrow> datetime \<Rightarrow> string \<Rightarrow> string" where
  "slot_id tutor_id start end policy_version =
     sha256 (join ''|'' [tutor_id, isoformat start, isoformat end, policy_version])"

text \<open>\<open>set(...)\<close> of datetimes keeps the first of equal values; \<open>sorted\<close> cannot compare mixed ones.\<close>

definition distinct_starts :: "datetime list \<Rightarrow> datetime list" where
  "distinct_starts ds = foldl (\<lambda>acc d. if list_ex (dt_eq d) acc then acc else acc @ [d]) [] ds"

definition sorted_starts :: "datetime list \<Rightarrow> datetime list res" where
  "sorted_starts ds =
     (if list_all aware ds \<or> list_all (\<lambda>d. \<not> aware d) ds
      then Inr (sort_key instant (distinct_starts ds))
      else Inl (TypeError ''can't compare offset-naive and offset-aware datetimes''))"

text \<open>One pass of the loop: \<open>None\<close> is \<open>continue\<close>.\<close>

definition consider_start ::
  "string \<Rightarrow> time_window list \<Rightarrow> time_window list \<Rightarrow> scheduling_policy \<Rightarrow> datetime \<Rightarrow> string
     \<Rightarrow> datetime \<Rightarrow> slot_option option res" where
  "consider_start tutor_id availability busy policy now display_timezone start =
     (if \<not> aware start then Inl (ValueError ''candidate slot start must be timezone-aware'')
      else res_bind (dt_add start (sp_session_duration policy)) (\<lambda>end.
        res_bind (mk_time_window start end) (\<lambda>session.
        res_bind (dt_add start (- sp_buffer_before policy)) (\<lambda>ps.
        res_bind (dt_add end (sp_buffer_after policy)) (\<lambda>pe.
        res_bind (mk_time_window ps pe) (\<lambda>protected.
        res_bind (res_any (\<lambda>window. res_bind (dt_le (starts_at window) (starts_at session)) (\<lambda>b.
            if b then dt_le (ends_at session) (ends_at window) else Inr False)) availability)
          (\<lambda>is_within_availability.
        res_bind (dt_add now (sp_minimum_lead_time policy)) (\<lambda>earliest.
        res_bind (dt_less start earliest) (\<lambda>too_soon.
        if too_soon \<or> \<not> is_within_availability then Inr None
        else res_bind (res_any (overlaps protected) busy) (\<lambda>blocked.
          if blocked then Inr None
          else Inr (Some \<lparr>so_option_id = slot_id tutor_id start end (sp_version policy),
                          so_tutor_id = tutor_id, so_starts_at = start, so_ends_at = end,
                          so_display_timezone = display_timezone,
                          so_policy_version = sp_version policy\<rparr>)))))))))))"

fun propose_loop :: "(datetime \<Rightarrow> slot_option option res) \<Rightarrow> int \<Rightarrow> slot_option list \<Rightarrow> datetime list \<Rightarrow> slot_option list res" where
  "propose_loop f m options [] = Inr options"
| "propose_loop f m options (d # ds) =
     res_bind (f d) (\<lambda>r. case r of
        None \<Rightarrow> propose_loop f m options ds
      | Some s \<Rightarrow> (let options' = options @ [s]
                  in if int (length options') = m then Inr options' else propose_loop f m options' ds))"

definition propose_slots ::
  "tzdb \<Rightarrow> string \<Rightarrow> datetime list \<Rightarrow> time_window list \<Rightarrow> time_window list \<Rightarrow> scheduling_policy
     \<Rightarrow> datetime \<Rightarrow> string \<Rightarrow> slot_option list res" where
  "propose_slots db tutor_id candidate_starts availability busy policy now display_timezone =
     (if \<not> aware now then Inl (ValueError ''proposal time must be timezone-aware'')
      else res_bind (zone_info db display_timezone) (\<lambda>_.
        res_bind (sorted_starts candidate_starts) (\<lambda>starts.
          propose_loop (consider_start tutor_id availability busy policy now display_timezone)
            (sp_maximum_options policy) [] starts)))"

section \<open>Holds\<close>

definition create_hold :: "string \<Rightarrow> slot_option \<Rightarrow> scheduling_policy \<Rightarrow> datetime \<Rightarrow> slot_hold res" where
  "create_hold demo_id option policy now =
     (if \<not> aware now then Inl (ValueError ''hold time must be timezone-aware'')
      else res_bind (mk_time_window (so_starts_at option) (so_ends_at option)) (\<lambda>slot.
        res_bind (dt_add now (sp_hold_ttl policy)) (\<lambda>expires.
        Inr \<lparr>sh_hold_id = sha256 (demo_id @ ''|'' @ so_option_id option @ ''|'' @ sp_version policy),
             sh_demo_id = demo_id, sh_tutor_id = so_tutor_id option, sh_slot = slot,
             sh_held_at = now, sh_expires_at = expires, sh_status = ACTIVE,
             sh_policy_version = sp_version policy\<rparr>)))"

definition is_active :: "slot_hold \<Rightarrow> bool" where
  "is_active h \<longleftrightarrow> sh_status h = ACTIVE"

definition hold_is_active :: "slot_hold \<Rightarrow> datetime \<Rightarrow> bool res" where
  "hold_is_active h now = (if sh_status h = ACTIVE then dt_less now (sh_expires_at h) else Inr False)"

definition holds_collide :: "slot_hold \<Rightarrow> slot_hold \<Rightarrow> datetime \<Rightarrow> bool res" where
  "holds_collide h1 h2 now =
     (if sh_tutor_id h1 \<noteq> sh_tutor_id h2 then Inr False
      else res_bind (hold_is_active h1 now) (\<lambda>a. if \<not> a then Inr False
      else res_bind (hold_is_active h2 now) (\<lambda>b. if \<not> b then Inr False
      else overlaps (sh_slot h1) (sh_slot h2))))"

definition expire_hold :: "slot_hold \<Rightarrow> datetime \<Rightarrow> slot_hold res" where
  "expire_hold h now =
     (if sh_status h = ACTIVE
      then res_bind (dt_le (sh_expires_at h) now) (\<lambda>over.
        Inr (if over then h\<lparr>sh_status := EXPIRED\<rparr> else h))
      else Inr h)"

definition release_hold :: "slot_hold \<Rightarrow> slot_hold" where
  "release_hold h = (if sh_status h = ACTIVE then h\<lparr>sh_status := RELEASED\<rparr> else h)"

text \<open>The last confirmation of a participant counts.\<close>

definition confirmation_statuses :: "confirmation list \<Rightarrow> participant \<rightharpoonup> confirmation_status" where
  "confirmation_statuses cs = map_of (rev (map (\<lambda>c. (cf_participant c, cf_status c)) cs))"

definition evaluate_confirmations ::
  "slot_hold \<Rightarrow> confirmation list \<Rightarrow> scheduling_policy \<Rightarrow> datetime \<Rightarrow> confirmation_decision res" where
  "evaluate_confirmations hold confirmations policy now =
     (let statuses = confirmation_statuses confirmations;
          declined = {p \<in> sp_required_confirmations policy. statuses p = Some DECLINED};
          outstanding = {p \<in> sp_required_confirmations policy. statuses p \<noteq> Some CONFIRMED \<and> p \<notin> declined};
          decide = (\<lambda>ready act reason. Inr \<lparr>cd_ready_to_schedule = ready, cd_outstanding = outstanding,
             cd_declined = declined, cd_hold_active = act, cd_reason = reason\<rparr>)
      in res_bind (hold_is_active hold now) (\<lambda>held.
         res_bind (if held then res_bind (dt_add (sh_held_at hold) (sp_confirmation_ttl policy)) (dt_less now)
                   else Inr False) (\<lambda>active.
         if declined \<noteq> {} then decide False active ''participant_declined''
         else if \<not> active then decide False False ''confirmation_expired''
         else if outstanding \<noteq> {} then decide False True ''confirmation_outstanding''
         else decide True True ''all_required_confirmed'')))"

section \<open>Which starts may be proposed\<close>

definition valid_window :: "time_window \<Rightarrow> bool" where
  "valid_window w \<longleftrightarrow> mk_time_window (starts_at w) (ends_at w) = Inr w"

lemma valid_windowD:
  assumes "valid_window w"
  shows "aware (starts_at w)" "aware (ends_at w)" "instant (starts_at w) < instant (ends_at w)"
  using assms by (auto simp: valid_window_def mk_time_window_def res_simps split: if_splits)

lemma mk_time_window_ok:
  "aware s \<Longrightarrow> aware e \<Longrightarrow> instant s < instant e \<Longrightarrow> mk_time_window s e = Inr (TimeWindow s e)"
  by (simp add: mk_time_window_def)

lemma overlaps_aware:
  "aware (starts_at v) \<Longrightarrow> aware (ends_at v) \<Longrightarrow> aware (starts_at w) \<Longrightarrow> aware (ends_at w) \<Longrightarrow>
   overlaps v w = Inr (instant (starts_at v) < instant (ends_at w) \<and> instant (starts_at w) < instant (ends_at v))"
  by (simp add: overlaps_def)

text \<open>
  The rule for a start, on instants: late enough, the session inside an availability window, and
  the session with its buffers clear of every busy window.
\<close>

definition bookable ::
  "time_window list \<Rightarrow> time_window list \<Rightarrow> scheduling_policy \<Rightarrow> datetime \<Rightarrow> datetime \<Rightarrow> bool" where
  "bookable availability busy policy now start \<longleftrightarrow>
     instant now + sp_minimum_lead_time policy \<le> instant start
     \<and> (\<exists>w\<in>set availability. instant (starts_at w) \<le> instant start
          \<and> instant start + sp_session_duration policy \<le> instant (ends_at w))
     \<and> (\<forall>b\<in>set busy. instant (ends_at b) \<le> instant start - sp_buffer_before policy
          \<or> instant start + sp_session_duration policy + sp_buffer_after policy \<le> instant (starts_at b))"

definition slot_of :: "string \<Rightarrow> scheduling_policy \<Rightarrow> string \<Rightarrow> datetime \<Rightarrow> slot_option" where
  "slot_of tutor_id policy tz start =
     (let end = Datetime (wall start + sp_session_duration policy) (utcoff start)
      in \<lparr>so_option_id = slot_id tutor_id start end (sp_version policy), so_tutor_id = tutor_id,
          so_starts_at = start, so_ends_at = end, so_display_timezone = tz,
          so_policy_version = sp_version policy\<rparr>)"

text \<open>Every date the loop computes for a start exists.\<close>

definition dates_exist :: "scheduling_policy \<Rightarrow> datetime \<Rightarrow> bool" where
  "dates_exist policy start \<longleftrightarrow> in_range (wall start + sp_session_duration policy)
     \<and> in_range (wall start - sp_buffer_before policy)
     \<and> in_range (wall start + sp_session_duration policy + sp_buffer_after policy)"

lemma policy_okD:
  assumes "scheduling_policy_post_init p = Inr ()"
  shows "0 < sp_session_duration p" "0 < sp_hold_ttl p" "0 < sp_confirmation_ttl p"
    "0 \<le> sp_buffer_before p" "0 \<le> sp_buffer_after p" "0 \<le> sp_minimum_lead_time p"
    "0 < sp_maximum_options p" "sp_required_confirmations p \<noteq> {}"
  using assms by (auto simp: scheduling_policy_post_init_def split: if_splits)

lemma Datetime_instant: "instant (Datetime (wall d + t) (utcoff d)) = instant d + t"
  by (simp add: instant_def)

lemma Datetime_aware: "aware (Datetime w (utcoff d)) = aware d"
  by (simp add: aware_def)

lemma consider_start_eq:
  assumes pol: "scheduling_policy_post_init policy = Inr ()" and aw: "aware start" "aware now"
    and ws: "\<forall>w\<in>set availability. valid_window w" "\<forall>w\<in>set busy. valid_window w"
    and ex: "dates_exist policy start" "in_range (wall now + sp_minimum_lead_time policy)"
  shows "consider_start tutor_id availability busy policy now tz start =
    Inr (if bookable availability busy policy now start then Some (slot_of tutor_id policy tz start) else None)"
proof -
  let ?e = "Datetime (wall start + sp_session_duration policy) (utcoff start)"
  let ?ps = "Datetime (wall start + - sp_buffer_before policy) (utcoff start)"
  let ?pe = "Datetime (wall ?e + sp_buffer_after policy) (utcoff ?e)"
  have e: "aware ?e" "instant ?e = instant start + sp_session_duration policy"
    using aw by (simp_all only: Datetime_aware Datetime_instant)
  have ps: "aware ?ps" "instant ?ps = instant start - sp_buffer_before policy"
    using aw by (simp_all only: Datetime_aware Datetime_instant)
  have pe: "aware ?pe" "instant ?pe = instant start + sp_session_duration policy + sp_buffer_after policy"
    using aw by (simp_all only: Datetime_aware Datetime_instant e)
  have adds: "dt_add start (sp_session_duration policy) = Inr ?e"
    "dt_add start (- sp_buffer_before policy) = Inr ?ps" "dt_add ?e (sp_buffer_after policy) = Inr ?pe"
    "dt_add now (sp_minimum_lead_time policy) = Inr (Datetime (wall now + sp_minimum_lead_time policy) (utcoff now))"
    using ex by (simp_all add: dt_add_def dates_exist_def)
  have wins: "mk_time_window start ?e = Inr (TimeWindow start ?e)" "mk_time_window ?ps ?pe = Inr (TimeWindow ?ps ?pe)"
    using policy_okD [OF pol] aw e ps pe by (auto intro!: mk_time_window_ok)
  have lead: "dt_less start (Datetime (wall now + sp_minimum_lead_time policy) (utcoff now))
      = Inr (instant start < instant now + sp_minimum_lead_time policy)"
    using aw by (subst dt_compare_aware) (simp_all only: Datetime_aware Datetime_instant)
  have avail: "res_any (\<lambda>w. res_bind (dt_le (starts_at w) start) (\<lambda>b. if b then dt_le ?e (ends_at w) else Inr False)) availability
      = Inr (list_ex (\<lambda>w. instant (starts_at w) \<le> instant start
          \<and> instant start + sp_session_duration policy \<le> instant (ends_at w)) availability)"
  proof (rule res_any_total)
    fix w assume "w \<in> set availability"
    then have w: "aware (starts_at w)" "aware (ends_at w)" using ws(1) valid_windowD by blast+
    show "res_bind (dt_le (starts_at w) start) (\<lambda>b. if b then dt_le ?e (ends_at w) else Inr False)
        = Inr (instant (starts_at w) \<le> instant start
          \<and> instant start + sp_session_duration policy \<le> instant (ends_at w))"
      by (simp only: dt_compare_aware(2) [OF w(1) aw(1)] dt_compare_aware(2) [OF e(1) w(2)] e(2)
          res_bind_simps) simp
  qed
  have busy: "res_any (overlaps (TimeWindow ?ps ?pe)) busy
      = Inr (list_ex (\<lambda>b. instant start - sp_buffer_before policy < instant (ends_at b)
          \<and> instant (starts_at b) < instant start + sp_session_duration policy + sp_buffer_after policy) busy)"
  proof (rule res_any_total)
    fix b assume "b \<in> set busy"
    then have "valid_window b" using ws(2) by blast
    then show "overlaps (TimeWindow ?ps ?pe) b = Inr (instant start - sp_buffer_before policy < instant (ends_at b)
          \<and> instant (starts_at b) < instant start + sp_session_duration policy + sp_buffer_after policy)"
      using ps pe by (subst overlaps_aware) (auto dest: valid_windowD)
  qed
  show ?thesis
    unfolding consider_start_def adds res_bind_simps wins time_window.sel avail lead busy
    using aw(1) by (auto simp: bookable_def slot_of_def Let_def list_ex_iff not_less not_le)
qed

section \<open>The proposal loop\<close>

lemma propose_loop_eq:
  assumes "\<forall>d\<in>set ds. f d = Inr (if P d then Some (g d) else None)" "int (length opts) < m"
  shows "propose_loop f m opts ds = Inr (opts @ take (nat m - length opts) (map g (filter P ds)))"
  using assms
proof (induction ds arbitrary: opts)
  case Nil
  then show ?case by simp
next
  case (Cons d ds)
  show ?case
  proof (cases "P d \<and> int (Suc (length opts)) = m")
    case True
    then have "nat m - length opts = 1" by linarith
    then show ?thesis using True Cons.prems by simp
  next
    case False
    then have "nat m - length opts = Suc (nat m - Suc (length opts))" if "P d"
      using that Cons.prems(2) by linarith
    then show ?thesis using False Cons.IH [of opts] Cons.IH [of "opts @ [g d]"] Cons.prems by auto
  qed
qed

lemma distinct_starts_inv:
  "list_all aware ds \<Longrightarrow> set (distinct_starts ds) \<subseteq> set ds \<and> distinct (map instant (distinct_starts ds))
     \<and> instant ` set (distinct_starts ds) = instant ` set ds"
proof (induction ds rule: rev_induct)
  case Nil
  then show ?case by (simp add: distinct_starts_def)
next
  case (snoc d ds)
  let ?acc = "distinct_starts ds"
  have step: "distinct_starts (ds @ [d]) = (if list_ex (dt_eq d) ?acc then ?acc else ?acc @ [d])"
    by (simp add: distinct_starts_def)
  have "\<forall>x\<in>set ?acc. aware x" "aware d" using snoc by (auto simp: list_all_iff)
  then have "list_ex (dt_eq d) ?acc \<longleftrightarrow> instant d \<in> instant ` set ?acc"
    by (auto simp: list_ex_iff dt_eq_def)
  then show ?case using snoc unfolding step by auto
qed

text \<open>The starts the loop visits: aware, each instant once, in increasing order.\<close>

lemma sorted_starts_inv:
  assumes "list_all aware ds" "sorted_starts ds = Inr ss"
  shows "set ss \<subseteq> set ds" "sorted_wrt (<) (map instant ss)" "instant ` set ss = instant ` set ds"
proof -
  have ss: "ss = sort_key instant (distinct_starts ds)" using assms by (simp add: sorted_starts_def)
  have "sorted (map instant ss)" "distinct (map instant ss)"
    using distinct_starts_inv [OF assms(1)] by (simp_all add: ss distinct_map)
  then show "sorted_wrt (<) (map instant ss)" by (simp add: strict_sorted_iff)
  show "set ss \<subseteq> set ds" "instant ` set ss = instant ` set ds"
    using distinct_starts_inv [OF assms(1)] by (simp_all add: ss)
qed

lemma propose_slots_eq:
  assumes pol: "scheduling_policy_post_init policy = Inr ()" and aw: "aware now" "list_all aware cands"
    and ws: "\<forall>w\<in>set availability. valid_window w" "\<forall>w\<in>set busy. valid_window w"
    and ex: "list_all (dates_exist policy) cands" "in_range (wall now + sp_minimum_lead_time policy)"
    and tz: "db tz = Some z" and ss: "sorted_starts cands = Inr ss"
  shows "propose_slots db tutor cands availability busy policy now tz =
    Inr (take (nat (sp_maximum_options policy))
      (map (slot_of tutor policy tz) (filter (bookable availability busy policy now) ss)))"
proof -
  have "\<forall>d\<in>set ss. consider_start tutor availability busy policy now tz d =
      Inr (if bookable availability busy policy now d then Some (slot_of tutor policy tz d) else None)"
    using sorted_starts_inv(1) [OF aw(2) ss] aw ex ws pol
    by (intro ballI consider_start_eq) (auto simp: list_all_iff)
  from propose_loop_eq [OF this, of "[]" "sp_maximum_options policy"] show ?thesis
    using policy_okD(7) [OF pol] aw tz ss by (simp add: propose_slots_def zone_info_def)
qed

section \<open>Properties of proposals\<close>

lemma slot_of_simps [simp]:
  "so_starts_at (slot_of t p tz d) = d" "instant (so_ends_at (slot_of t p tz d)) = instant d + sp_session_duration p"
  "so_tutor_id (slot_of t p tz d) = t" "so_policy_version (slot_of t p tz d) = sp_version p"
  by (simp_all add: slot_of_def Let_def Datetime_instant)

lemma take_filter_complete:
  assumes "sorted_wrt (<) (map k xs)" "x \<in> set xs" "P x"
  shows "x \<in> set (take n (filter P xs))
    \<or> length (take n (filter P xs)) = n \<and> (\<forall>y\<in>set (take n (filter P xs)). k y < (k x :: 'a::linorder))"
proof (rule disjCI)
  let ?f = "filter P xs"
  assume no: "\<not> (length (take n ?f) = n \<and> (\<forall>y\<in>set (take n ?f). k y < k x))"
  have sw: "sorted_wrt (<) (map k ?f)" using assms(1) by (auto simp: sorted_wrt_map intro: sorted_wrt_filter)
  have "x \<in> set (take n ?f @ drop n ?f)" using assms(2,3) by simp
  then have x: "x \<in> set (take n ?f) \<union> set (drop n ?f)" unfolding set_append .
  show "x \<in> set (take n ?f)"
  proof (rule ccontr)
    assume nin: "x \<notin> set (take n ?f)"
    then have dr: "x \<in> set (drop n ?f)" using x by blast
    then have "n \<le> length ?f" by (cases "n \<le> length ?f") auto
    moreover have "sorted_wrt (<) (map k (take n ?f) @ map k (drop n ?f))"
      using sw by (metis append_take_drop_id map_append)
    then have "\<forall>y\<in>set (take n ?f). k y < k x" using dr by (auto simp: sorted_wrt_append)
    ultimately show False using no by simp
  qed
qed

text \<open>
  (C21) Slot proposals are sound, ordered, bounded and complete.  With valid windows and dates that
  exist, the proposals are returned; each one starts at a candidate that is late enough, lies in an
  availability window and keeps its buffers clear of every busy window; starts strictly increase
  and there are at most \<open>maximum_options\<close>; and a bookable candidate is left out only when the
  options are full of earlier starts.
\<close>

theorem propose_slots_correct:
  assumes "scheduling_policy_post_init policy = Inr ()" "aware now" "list_all aware cands"
    and "\<forall>w\<in>set availability. valid_window w" "\<forall>w\<in>set busy. valid_window w"
    and "list_all (dates_exist policy) cands" "in_range (wall now + sp_minimum_lead_time policy)"
    and "db tz = Some z"
  shows "\<exists>opts. propose_slots db tutor cands availability busy policy now tz = Inr opts
    \<and> (\<forall>s\<in>set opts. so_starts_at s \<in> set cands \<and> bookable availability busy policy now (so_starts_at s)
         \<and> instant (so_ends_at s) = instant (so_starts_at s) + sp_session_duration policy \<and> so_tutor_id s = tutor)
    \<and> sorted_wrt (<) (map (instant \<circ> so_starts_at) opts)
    \<and> int (length opts) \<le> sp_maximum_options policy
    \<and> (\<forall>d\<in>set cands. bookable availability busy policy now d \<longrightarrow>
         (\<exists>s\<in>set opts. instant (so_starts_at s) = instant d)
         \<or> int (length opts) = sp_maximum_options policy \<and> (\<forall>s\<in>set opts. instant (so_starts_at s) < instant d))"
proof -
  let ?ok = "bookable availability busy policy now" and ?n = "nat (sp_maximum_options policy)"
  obtain ss where ss: "sorted_starts cands = Inr ss" using assms(3) by (auto simp: sorted_starts_def)
  note inv = sorted_starts_inv [OF assms(3) ss]
  define xs where "xs = take ?n (filter ?ok ss)"
  have eq: "propose_slots db tutor cands availability busy policy now tz = Inr (map (slot_of tutor policy tz) xs)"
    using propose_slots_eq [OF assms(1-7), of db tz z] assms(8) ss by (simp add: take_map xs_def)
  have pos: "0 < sp_maximum_options policy" using policy_okD(7) [OF assms(1)] .
  have mem: "\<forall>d\<in>set xs. d \<in> set cands \<and> ?ok d"
    using inv(1) unfolding xs_def by (auto dest!: in_set_takeD)
  have "sorted_wrt (<) (map instant (filter ?ok ss))"
    using inv(2) by (auto simp: sorted_wrt_map intro: sorted_wrt_filter)
  then have srt: "sorted_wrt (<) (map instant xs)"
    by (simp add: xs_def sorted_wrt_take flip: take_map)
  have "length xs \<le> ?n" by (simp add: xs_def)
  then have len: "int (length xs) \<le> sp_maximum_options policy" using pos by linarith
  have complete: "(\<exists>s\<in>set xs. instant s = instant d)
      \<or> int (length xs) = sp_maximum_options policy \<and> (\<forall>s\<in>set xs. instant s < instant d)"
    if d: "d \<in> set cands" "?ok d" for d
  proof -
    obtain e where e: "e \<in> set ss" "instant e = instant d" using inv(3) d(1) by (metis imageE imageI)
    then have "?ok e" using d(2) by (simp add: bookable_def)
    then have "e \<in> set xs \<or> length xs = ?n \<and> (\<forall>s\<in>set xs. instant s < instant e)"
      unfolding xs_def by (intro take_filter_complete [OF inv(2) e(1)])
    then show ?thesis using e(2) pos by auto
  qed
  show ?thesis
    using mem srt len complete unfolding eq
    by (intro exI [of _ "map (slot_of tutor policy tz) xs"]) (simp add: comp_def)
qed

definition sample_policy :: scheduling_policy where
  "sample_policy = \<lparr>sp_version = ''s1'', sp_session_duration = 10, sp_buffer_before = 5, sp_buffer_after = 5,
     sp_hold_ttl = 100, sp_confirmation_ttl = 50, sp_minimum_lead_time = 20, sp_maximum_options = 2,
     sp_required_confirmations = {LEARNER_OR_GUARDIAN, TUTOR_PARTICIPANT}\<rparr>"

abbreviation (input) utc :: "int \<Rightarrow> datetime" where
  "utc w \<equiv> Datetime w (Some 0)"

lemma sample_policy_valid: "scheduling_policy_post_init sample_policy = Inr ()"
  by (simp add: sample_policy_def scheduling_policy_post_init_def blank_def strip_def lstrip_def is_space_def)

theorem propose_slots_correct_witness:
  "\<exists>opts. propose_slots (\<lambda>n. if n = ''UTC'' then Some (fixed_zone 0) else None) ''T1''
       [utc 80, utc 30, utc 10, utc 80] [TimeWindow (utc 0) (utc 100)] [TimeWindow (utc 45) (utc 60)]
       sample_policy (utc 0) ''UTC'' = Inr opts
     \<and> sorted_wrt (<) (map (instant \<circ> so_starts_at) opts) \<and> length opts \<le> 2"
proof -
  let ?av = "[TimeWindow (utc 0) (utc 100)]" and ?bu = "[TimeWindow (utc 45) (utc 60)]"
    and ?cs = "[utc 80, utc 30, utc 10, utc 80]"
    and ?db = "\<lambda>n. if n = ''UTC'' then Some (fixed_zone 0) else None"
  have ws: "\<forall>w\<in>set ?av. valid_window w" "\<forall>w\<in>set ?bu. valid_window w"
    by (simp_all add: valid_window_def mk_time_window_def)
  have ex: "list_all (dates_exist sample_policy) ?cs" "in_range (wall (utc 0) + sp_minimum_lead_time sample_policy)"
    by (simp_all add: dates_exist_def in_range_def sample_policy_def)
  have "sp_maximum_options sample_policy = 2" by (simp add: sample_policy_def)
  then show ?thesis
    using propose_slots_correct [OF sample_policy_valid _ _ ws ex, of ?db "''UTC''" "fixed_zone 0" "''T1''"]
    by fastforce
qed

section \<open>The life of a hold\<close>

text \<open>What can happen to a hold after it is created: expiry checks at some time, and release.\<close>

inductive hold_step :: "slot_hold \<Rightarrow> slot_hold \<Rightarrow> bool" where
  expiry: "expire_hold h now = Inr h' \<Longrightarrow> hold_step h h'"
| release: "hold_step h (release_hold h)"

inductive_cases hold_stepE: "hold_step h h'"

abbreviation hold_history :: "slot_hold \<Rightarrow> slot_hold \<Rightarrow> bool" where
  "hold_history \<equiv> hold_step\<^sup>*\<^sup>*"

lemma hold_step_frame:
  assumes "hold_step h h'"
  shows "h' = h\<lparr>sh_status := sh_status h'\<rparr> \<and> (sh_status h \<noteq> ACTIVE \<longrightarrow> h' = h)"
  using assms by (auto elim!: hold_stepE simp: expire_hold_def release_hold_def res_simps split: if_splits)

lemma hold_history_frame:
  "hold_history h h' \<Longrightarrow> h' = h\<lparr>sh_status := sh_status h'\<rparr> \<and> (sh_status h \<noteq> ACTIVE \<longrightarrow> h' = h)"
proof (induction rule: rtranclp_induct)
  case (step y z)
  from hold_step_frame [OF step.hyps(2)] step.IH show ?case
    by (metis slot_hold.select_convs(7) slot_hold.surjective slot_hold.update_convs(7))
qed simp

lemma create_hold_Inr:
  assumes "create_hold demo opt policy t = Inr h"
  shows "sh_status h = ACTIVE" "sh_held_at h = t" "aware t" "aware (sh_expires_at h)"
    "instant (sh_expires_at h) = instant t + sp_hold_ttl policy" "valid_window (sh_slot h)"
    "sh_tutor_id h = so_tutor_id opt"
  using assms by (auto simp: create_hold_def res_simps mk_time_window_def valid_window_def aware_def
      instant_def split: if_splits)

text \<open>
  A hold blocks its tutor's slot from its creation until its expiry and never again after it
  expired or was released: whatever happens to the hold, at a time from its expiry on it is not
  active, a released or expired hold is active at no time and stays as it is, and holds that are
  not both active never collide.
\<close>

theorem hold_lifecycle:
  assumes "create_hold demo opt policy t = Inr h" "hold_history h h'" "aware now"
  shows "(hold_is_active h now = Inr (instant now < instant t + sp_hold_ttl policy))
    \<and> hold_is_active h' now = Inr (sh_status h' = ACTIVE \<and> instant now < instant t + sp_hold_ttl policy)
    \<and> (sh_status h' \<noteq> ACTIVE \<longrightarrow> (\<forall>h''. hold_history h' h'' \<longrightarrow> h'' = h'))
    \<and> (\<forall>g. hold_is_active h' now = Inr False \<longrightarrow> holds_collide h' g now = Inr False)"
proof -
  note h = create_hold_Inr [OF assms(1)]
  have "sh_expires_at h' = sh_expires_at h"
    using hold_history_frame [OF assms(2)] by (metis slot_hold.select_convs(6) slot_hold.surjective slot_hold.update_convs(7))
  then show ?thesis
    using h assms(3) hold_history_frame [of h'] by (auto simp: hold_is_active_def holds_collide_def)
qed

theorem hold_lifecycle_witness:
  "\<exists>h. create_hold ''D1'' (slot_of ''T1'' sample_policy ''UTC'' (utc 30)) sample_policy (utc 0) = Inr h
     \<and> hold_history h (release_hold h) \<and> hold_is_active h (utc 99) = Inr True
     \<and> hold_is_active (release_hold h) (utc 99) = Inr False"
proof -
  obtain h where h: "create_hold ''D1'' (slot_of ''T1'' sample_policy ''UTC'' (utc 30)) sample_policy (utc 0) = Inr h"
    by (auto simp: create_hold_def slot_of_def Let_def mk_time_window_def dt_add_def in_range_def sample_policy_def)
  have "hold_history h (release_hold h)" by (blast intro: hold_step.release)
  moreover have "sp_hold_ttl sample_policy = 100" by (simp add: sample_policy_def)
  moreover have "sh_status (release_hold h) \<noteq> ACTIVE" by (simp add: release_hold_def)
  ultimately show ?thesis using h hold_lifecycle [OF h, of "release_hold h" "utc 99"] by auto
qed

text \<open>
  A slot is ready to schedule exactly when every required participant's last recorded status
  is a confirmation, the hold is active and the confirmation window is open; the decision's sets
  are then exact, and a decline of a required participant is never overruled.
\<close>

theorem confirmations_exact:
  assumes "create_hold demo opt policy t = Inr h" "aware now"
    and "in_range (wall t + sp_confirmation_ttl policy)"
  shows "\<exists>c. evaluate_confirmations h cs policy now = Inr c
    \<and> (cd_ready_to_schedule c \<longleftrightarrow>
         (\<forall>p\<in>sp_required_confirmations policy. confirmation_statuses cs p = Some CONFIRMED)
         \<and> instant now < instant t + sp_hold_ttl policy \<and> instant now < instant t + sp_confirmation_ttl policy)
    \<and> cd_declined c = {p \<in> sp_required_confirmations policy. confirmation_statuses cs p = Some DECLINED}
    \<and> cd_outstanding c = {p \<in> sp_required_confirmations policy.
         confirmation_statuses cs p \<noteq> Some CONFIRMED \<and> confirmation_statuses cs p \<noteq> Some DECLINED}
    \<and> (cd_declined c \<noteq> {} \<longrightarrow> cd_reason c = ''participant_declined'')
    \<and> (cd_ready_to_schedule c \<longrightarrow> cd_outstanding c = {} \<and> cd_declined c = {} \<and> cd_hold_active c)"
proof -
  note h = create_hold_Inr [OF assms(1)]
  let ?a = "instant now < instant t + sp_hold_ttl policy \<and> instant now < instant t + sp_confirmation_ttl policy"
  have add: "dt_add t (sp_confirmation_ttl policy) = Inr (Datetime (wall t + sp_confirmation_ttl policy) (utcoff t))"
    using assms(3) by (simp add: dt_add_def)
  have less: "dt_less now (Datetime (wall t + sp_confirmation_ttl policy) (utcoff t))
      = Inr (instant now < instant t + sp_confirmation_ttl policy)"
    using h(3) assms(2) by (subst dt_compare_aware) (simp_all only: Datetime_aware Datetime_instant)
  have held: "hold_is_active h now = Inr (instant now < instant t + sp_hold_ttl policy)"
    using h assms(2) by (simp add: hold_is_active_def)
  show ?thesis
    unfolding evaluate_confirmations_def Let_def held res_bind_simps h(2) add
    by (cases "instant now < instant t + sp_hold_ttl policy"; cases "instant now < instant t + sp_confirmation_ttl policy")
      (auto simp: less)
qed

theorem confirmations_exact_witness:
  "\<exists>h c. create_hold ''D1'' (slot_of ''T1'' sample_policy ''UTC'' (utc 30)) sample_policy (utc 0) = Inr h
     \<and> evaluate_confirmations h
       [\<lparr>cf_participant = LEARNER_OR_GUARDIAN, cf_status = CONFIRMED, cf_recorded_at = None\<rparr>,
        \<lparr>cf_participant = TUTOR_PARTICIPANT, cf_status = CONFIRMED, cf_recorded_at = None\<rparr>]
       sample_policy (utc 40) = Inr c \<and> cd_ready_to_schedule c"
proof -
  obtain h where h: "create_hold ''D1'' (slot_of ''T1'' sample_policy ''UTC'' (utc 30)) sample_policy (utc 0) = Inr h"
    by (auto simp: create_hold_def slot_of_def Let_def mk_time_window_def dt_add_def in_range_def sample_policy_def)
  have r: "in_range (wall (utc 0) + sp_confirmation_ttl sample_policy)" by (simp add: sample_policy_def in_range_def)
  let ?cs = "[\<lparr>cf_participant = LEARNER_OR_GUARDIAN, cf_status = CONFIRMED, cf_recorded_at = None\<rparr>,
        \<lparr>cf_participant = TUTOR_PARTICIPANT, cf_status = CONFIRMED, cf_recorded_at = None\<rparr>]"
  have "\<forall>p\<in>sp_required_confirmations sample_policy. confirmation_statuses ?cs p = Some CONFIRMED"
    "sp_hold_ttl sample_policy = 100" "sp_confirmation_ttl sample_policy = 50"
    by (simp_all add: sample_policy_def confirmation_statuses_def)
  then show ?thesis using h confirmations_exact [OF h _ r, of "utc 40" ?cs] by fastforce
qed

section \<open>Local times\<close>

text \<open>
  What \<open>zoneinfo\<close> documents: an instant reads as a wall time and a fold of 0 or 1 whose offset leads
  back to the instant.
\<close>

definition zone_consistent :: "zone \<Rightarrow> bool" where
  "zone_consistent z \<longleftrightarrow> (\<forall>u w f. zone_local z u = (w, f) \<longrightarrow> (f = 0 \<or> f = 1) \<and> u = w - zone_offset z w f)"

definition candidates_exist :: "zone \<Rightarrow> int \<Rightarrow> bool" where
  "candidates_exist z w \<longleftrightarrow> (\<forall>f\<in>{0, 1}. in_range (w - zone_offset z w f)
     \<and> in_range (fst (zone_local z (w - zone_offset z w f))))"

lemma local_candidate_eq:
  assumes "candidates_exist z w" "f = 0 \<or> f = 1"
  shows "local_candidate z w f = Inr (if zone_local z (w - zone_offset z w f) = (w, f)
    then [(f, Datetime w (Some (zone_offset z w f)))] else [])"
  using assms by (auto simp: local_candidate_def candidates_exist_def Let_def split: prod.splits)

lemma local_candidate_reads:
  assumes "zone_consistent z"
  shows "zone_local z u = (w, f) \<longleftrightarrow> (f = 0 \<or> f = 1) \<and> u = w - zone_offset z w f
    \<and> zone_local z (w - zone_offset z w f) = (w, f)"
  using assms by (auto simp: zone_consistent_def)

text \<open>
  A wall time resolves without a chosen fold exactly when one instant, in the first fold, reads
  as that wall time, and then to that instant: times in a gap and ambiguous times are refused.  With
  a chosen fold the result is the instant that reads as that wall time and fold.
\<close>

theorem resolve_local_datetime_exact:
  assumes "db tz = Some z" "zone_consistent z" "candidates_exist z w"
  shows "(resolve_local_datetime db w False tz None = Inr d \<longleftrightarrow>
      wall d = w \<and> aware d \<and> zone_local z (instant d) = (w, 0)
      \<and> (\<forall>u. fst (zone_local z u) = w \<longrightarrow> u = instant d))
    \<and> (resolve_local_datetime db w False tz (Some f) = Inr d \<longleftrightarrow>
      wall d = w \<and> aware d \<and> zone_local z (instant d) = (w, f))"
proof -
  let ?o = "\<lambda>f. zone_offset z w f" and ?r = "\<lambda>f. zone_local z (w - zone_offset z w f) = (w, f)"
  note reads = local_candidate_reads [OF assms(2)]
  have unfold: "resolve_local_datetime db w False tz fld =
    (let valid = (if ?r 0 then [(0, Datetime w (Some (?o 0)))] else [])
               @ (if ?r 1 then [(1, Datetime w (Some (?o 1)))] else [])
     in if valid = [] then Inl (LocalTimeError ''local time does not exist in the selected timezone'')
        else if card (set (map (utcoff \<circ> snd) valid)) > 1 \<and> fld = None
        then Inl (LocalTimeError ''local time is ambiguous; an explicit fold is required'')
        else case map_of valid (case fld of None \<Rightarrow> 0 | Some f \<Rightarrow> f) of
          None \<Rightarrow> Inl (LocalTimeError ''invalid fold for local time'') | Some d \<Rightarrow> Inr d)" for fld
    using assms(1,3) by (simp add: resolve_local_datetime_def local_candidate_eq)
  have dt: "d = Datetime w (Some x) \<longleftrightarrow> wall d = w \<and> aware d \<and> instant d = w - x" for x
    by (cases d) (auto simp: aware_def)
  have differ: "?r 0 \<Longrightarrow> ?r 1 \<Longrightarrow> ?o 0 \<noteq> ?o 1" by auto
  have uniq: "(\<forall>u. fst (zone_local z u) = w \<longrightarrow> u = instant d) \<longleftrightarrow>
      (?r 0 \<longrightarrow> instant d = w - ?o 0) \<and> (?r 1 \<longrightarrow> instant d = w - ?o 1)"
    using reads by (metis fst_conv prod.collapse)
  have none: "resolve_local_datetime db w False tz None = Inr d \<longleftrightarrow> ?r 0 \<and> \<not> ?r 1 \<and> d = Datetime w (Some (?o 0))"
    using differ by (auto simp: unfold Let_def card_insert_if)
  have some: "resolve_local_datetime db w False tz (Some f) = Inr d \<longleftrightarrow>
      (f = 0 \<or> f = 1) \<and> ?r f \<and> d = Datetime w (Some (?o f))"
    by (auto simp: unfold Let_def)
  show ?thesis unfolding none some uniq reads [of "instant d"] dt using differ by auto
qed

theorem resolve_local_datetime_exact_witness:
  "resolve_local_datetime (\<lambda>n. if n = ''Asia/Kolkata'' then Some (fixed_zone 19800000000) else None)
     86400000000 False ''Asia/Kolkata'' None = Inr (Datetime 86400000000 (Some 19800000000))"
proof -
  let ?db = "\<lambda>n. if n = ''Asia/Kolkata'' then Some (fixed_zone 19800000000) else None"
  have "zone_consistent (fixed_zone 19800000000)" "candidates_exist (fixed_zone 19800000000) 86400000000"
    by (simp_all add: zone_consistent_def candidates_exist_def fixed_zone_def in_range_def)
  from resolve_local_datetime_exact [OF _ this, of ?db "''Asia/Kolkata''" "Datetime 86400000000 (Some 19800000000)"]
  show ?thesis by (simp add: fixed_zone_def)
qed

end
