(* ===== verification/Coordinator.thy ===== *)
theory Coordinator
  imports Scheduling
begin

text \<open>
  \<open>modules/scheduling/application/use_cases.py\<close>: the coordinator that asks the tutor first and
  creates the meeting and sends its link only after the tutor accepted.  The three ports it awaits
  are interfaces whose answers are arguments of the model; a run is the list of port calls it made
  with its result, so that what happened before a failure is visible.
\<close>

section \<open>The decision service\<close>

definition decision_service_hold :: "scheduling_policy \<Rightarrow> string \<Rightarrow> slot_option \<Rightarrow> datetime \<Rightarrow> slot_hold res" where
  "decision_service_hold policy demo_id option now = create_hold demo_id option policy now"

definition decision_service_confirm ::
  "scheduling_policy \<Rightarrow> slot_hold \<Rightarrow> confirmation list \<Rightarrow> datetime \<Rightarrow> confirmation_decision res" where
  "decision_service_confirm policy hold confirmations now = evaluate_confirmations hold confirmations policy now"

section \<open>Ports\<close>

record website_phone_recipient =
  wp_register_ref :: "string option"
  wp_tutor_ref :: "string option"
  wp_user_ref :: "string option"
  wp_recipient_ref :: string
  wp_phone_reference :: string
  wp_masked_phone :: string
  wp_channel :: string
  wp_purpose :: string
  wp_demo_ref :: string
  wp_source_version :: string

record calendar_event_result =
  ce_provider_event_id :: string
  ce_provider_etag :: "string option"
  ce_conference_status :: string
  ce_meeting_uri :: "string option"

record outbound_message_request =
  om_demo_id :: string
  om_recipient_ref :: string
  om_template_or_message_ref :: string
  om_variables :: "string \<rightharpoonup> string"
  om_message_category :: string
  om_service_window_expires_at :: datetime
  om_correlation_id :: string

datatype port_call =
    ResolveTutor string string string
  | ResolveProfile string string string
  | CreateDemoEvent string datetime datetime "string list" string string
  | RequestDelivery outbound_message_request string

record scheduling_ports =
  resolve_tutor_phone_recipient :: "string \<Rightarrow> string \<Rightarrow> string \<Rightarrow> website_phone_recipient res"
  resolve_profile_phone_recipient :: "string \<Rightarrow> string \<Rightarrow> string \<Rightarrow> website_phone_recipient res"
  create_demo_event :: "string \<Rightarrow> datetime \<Rightarrow> datetime \<Rightarrow> string list \<Rightarrow> string \<Rightarrow> string \<Rightarrow> calendar_event_result res"
  request_delivery :: "outbound_message_request \<Rightarrow> string \<Rightarrow> string res"

definition call_tutor :: "scheduling_ports \<Rightarrow> string \<Rightarrow> string \<Rightarrow> string \<Rightarrow> (port_call, website_phone_recipient) eff" where
  "call_tutor ps tutor demo purpose =
     eff_call (ResolveTutor tutor demo purpose) (resolve_tutor_phone_recipient ps tutor demo purpose)"

definition call_profile :: "scheduling_ports \<Rightarrow> string \<Rightarrow> string \<Rightarrow> string \<Rightarrow> (port_call, website_phone_recipient) eff" where
  "call_profile ps reg demo purpose =
     eff_call (ResolveProfile reg demo purpose) (resolve_profile_phone_recipient ps reg demo purpose)"

definition call_calendar ::
  "scheduling_ports \<Rightarrow> string \<Rightarrow> datetime \<Rightarrow> datetime \<Rightarrow> string list \<Rightarrow> string \<Rightarrow> string \<Rightarrow> (port_call, calendar_event_result) eff" where
  "call_calendar ps demo s e attendees rid key =
     eff_call (CreateDemoEvent demo s e attendees rid key) (create_demo_event ps demo s e attendees rid key)"

definition call_delivery :: "scheduling_ports \<Rightarrow> outbound_message_request \<Rightarrow> string \<Rightarrow> (port_call, string) eff" where
  "call_delivery ps m key = eff_call (RequestDelivery m key) (request_delivery ps m key)"

lemmas call_defs = call_tutor_def call_profile_def call_calendar_def call_delivery_def eff_call_def eff_res_def

section \<open>Requests and helpers\<close>

record tutor_acceptance_request =
  ta_demo_id :: string
  ta_tutor_ref :: string
  ta_learner_register_ref :: string
  ta_starts_at :: datetime
  ta_ends_at :: datetime
  ta_timezone :: string
  ta_service_window_expires_at :: datetime
  ta_correlation_id :: string
  ta_template_ref :: string
  ta_variables :: "string \<rightharpoonup> string"

record tutor_acceptance_result =
  tr_tutor_recipient :: website_phone_recipient
  tr_delivery_ref :: string
  tr_idempotency_key :: string

record schedule_after_acceptance_request =
  sa_demo_id :: string
  sa_tutor_ref :: string
  sa_learner_register_ref :: string
  sa_starts_at :: datetime
  sa_ends_at :: datetime
  sa_timezone :: string
  sa_service_window_expires_at :: datetime
  sa_correlation_id :: string
  sa_tutor_acceptance_confirmed :: bool
  sa_tutor_acceptance_evidence_ref :: string
  sa_calendar_attendee_refs :: "string list"
  sa_tutor_template_ref :: string
  sa_learner_template_ref :: string

record scheduled_meeting_result =
  sm_calendar_event :: calendar_event_result
  sm_status :: string
  sm_tutor_recipient :: website_phone_recipient
  sm_learner_recipient :: website_phone_recipient
  sm_tutor_delivery_ref :: "string option"
  sm_learner_delivery_ref :: "string option"
  sm_conference_request_id :: string

definition require_aware :: "datetime \<Rightarrow> string \<Rightarrow> unit res" where
  "require_aware value field_name =
     (if \<not> aware value then Inl (ValueError (field_name @ '' must be timezone-aware'')) else Inr ())"

definition validate_window :: "datetime \<Rightarrow> datetime \<Rightarrow> unit res" where
  "validate_window s e =
     res_bind (require_aware s ''starts_at'') (\<lambda>_. res_bind (require_aware e ''ends_at'') (\<lambda>_.
     res_bind (dt_le e s) (\<lambda>bad.
       if bad then Inl (ValueError ''schedule window must have positive duration'') else Inr ())))"

definition slot_variables :: "datetime \<Rightarrow> datetime \<Rightarrow> string \<Rightarrow> string \<rightharpoonup> string" where
  "slot_variables s e timezone =
     [''starts_at'' \<mapsto> isoformat s, ''ends_at'' \<mapsto> isoformat e, ''timezone'' \<mapsto> timezone]"

definition operation_key :: "string \<Rightarrow> string list \<Rightarrow> string" where
  "operation_key pre parts = pre @ '':'' @ sha256 (join ''|'' parts)"

section \<open>The coordinator\<close>

definition request_tutor_acceptance ::
  "scheduling_ports \<Rightarrow> tutor_acceptance_request \<Rightarrow> string \<Rightarrow> (port_call, tutor_acceptance_result) eff" where
  "request_tutor_acceptance ps request idempotency_key =
     eff_bind (eff_res (validate_window (ta_starts_at request) (ta_ends_at request))) (\<lambda>_.
     eff_bind (eff_res (require_aware (ta_service_window_expires_at request) ''service_window_expires_at'')) (\<lambda>_.
     eff_bind (call_tutor ps (ta_tutor_ref request) (ta_demo_id request) ''demo_tutor_acceptance'') (\<lambda>tutor.
     let send_key = operation_key ''tutor-acceptance'' [ta_demo_id request, idempotency_key]
     in eff_bind (call_delivery ps
          \<lparr>om_demo_id = ta_demo_id request, om_recipient_ref = wp_recipient_ref tutor,
           om_template_or_message_ref = ta_template_ref request,
           om_variables = (slot_variables (ta_starts_at request) (ta_ends_at request) (ta_timezone request)
             ++ ta_variables request)(''tutor_ref'' \<mapsto> ta_tutor_ref request,
                ''learner_register_ref'' \<mapsto> ta_learner_register_ref request),
           om_message_category = ''utility'',
           om_service_window_expires_at = ta_service_window_expires_at request,
           om_correlation_id = ta_correlation_id request\<rparr> send_key) (\<lambda>delivery_ref.
        eff_res (Inr \<lparr>tr_tutor_recipient = tutor, tr_delivery_ref = delivery_ref,
                      tr_idempotency_key = send_key\<rparr>)))))"

definition session_link_message ::
  "schedule_after_acceptance_request \<Rightarrow> website_phone_recipient \<Rightarrow> string \<Rightarrow> (string \<rightharpoonup> string)
     \<Rightarrow> outbound_message_request" where
  "session_link_message request recipient template variables =
     \<lparr>om_demo_id = sa_demo_id request, om_recipient_ref = wp_recipient_ref recipient,
      om_template_or_message_ref = template, om_variables = variables, om_message_category = ''utility'',
      om_service_window_expires_at = sa_service_window_expires_at request,
      om_correlation_id = sa_correlation_id request\<rparr>"

definition finalize_after_tutor_acceptance ::
  "scheduling_ports \<Rightarrow> schedule_after_acceptance_request \<Rightarrow> string \<Rightarrow> (port_call, scheduled_meeting_result) eff" where
  "finalize_after_tutor_acceptance ps request idempotency_key =
     (if \<not> sa_tutor_acceptance_confirmed request
      then eff_res (Inl (ValueError ''a tutor acceptance is required before scheduling Google Meet''))
      else if sa_tutor_acceptance_evidence_ref request = ''''
      then eff_res (Inl (ValueError ''tutor acceptance evidence is required''))
      else
     eff_bind (eff_res (validate_window (sa_starts_at request) (sa_ends_at request))) (\<lambda>_.
     eff_bind (eff_res (require_aware (sa_service_window_expires_at request) ''service_window_expires_at'')) (\<lambda>_.
     eff_bind (call_tutor ps (sa_tutor_ref request) (sa_demo_id request) ''demo_session_link'') (\<lambda>tutor.
     eff_bind (call_profile ps (sa_learner_register_ref request) (sa_demo_id request) ''demo_session_link'') (\<lambda>learner.
     let rid = operation_key ''google-meet''
           [sa_demo_id request, sa_tutor_acceptance_evidence_ref request, idempotency_key]
     in eff_bind (call_calendar ps (sa_demo_id request) (sa_starts_at request) (sa_ends_at request)
          (sa_calendar_attendee_refs request) rid rid) (\<lambda>event.
     case ce_meeting_uri event of
       None \<Rightarrow> eff_res (Inr \<lparr>sm_calendar_event = event, sm_status = ''conference_pending'',
           sm_tutor_recipient = tutor, sm_learner_recipient = learner, sm_tutor_delivery_ref = None,
           sm_learner_delivery_ref = None, sm_conference_request_id = rid\<rparr>)
     | Some uri \<Rightarrow>
         if uri = '''' then eff_res (Inr \<lparr>sm_calendar_event = event, sm_status = ''conference_pending'',
           sm_tutor_recipient = tutor, sm_learner_recipient = learner, sm_tutor_delivery_ref = None,
           sm_learner_delivery_ref = None, sm_conference_request_id = rid\<rparr>)
         else let variables = (slot_variables (sa_starts_at request) (sa_ends_at request) (sa_timezone request))
                (''meeting_url'' \<mapsto> uri, ''provider_event_id'' \<mapsto> ce_provider_event_id event)
         in eff_bind (call_delivery ps
              (session_link_message request tutor (sa_tutor_template_ref request) variables)
              (operation_key ''session-link-tutor'' [sa_demo_id request, rid])) (\<lambda>tutor_delivery.
            eff_bind (call_delivery ps
              (session_link_message request learner (sa_learner_template_ref request) variables)
              (operation_key ''session-link-learner'' [sa_demo_id request, rid])) (\<lambda>learner_delivery.
            eff_res (Inr \<lparr>sm_calendar_event = event, sm_status = ''scheduled'',
              sm_tutor_recipient = tutor, sm_learner_recipient = learner,
              sm_tutor_delivery_ref = Some tutor_delivery, sm_learner_delivery_ref = Some learner_delivery,
              sm_conference_request_id = rid\<rparr>)))))))))"

section \<open>Properties\<close>

text \<open>The order in which a run may use the ports.\<close>

fun call_rank :: "port_call \<Rightarrow> nat" where
  "call_rank (ResolveTutor _ _ _) = 0"
| "call_rank (ResolveProfile _ _ _) = 1"
| "call_rank (CreateDemoEvent _ _ _ _ _ _) = 2"
| "call_rank (RequestDelivery _ _) = 3"

definition deliveries :: "port_call list \<Rightarrow> (outbound_message_request \<times> string) list" where
  "deliveries cs = List.map_filter (\<lambda>c. case c of RequestDelivery m k \<Rightarrow> Some (m, k) | _ \<Rightarrow> None) cs"

lemma deliveries_simps [simp]:
  "deliveries [] = []" "deliveries (RequestDelivery m k # cs) = (m, k) # deliveries cs"
  "deliveries (ResolveTutor a b c # cs) = deliveries cs"
  "deliveries (ResolveProfile a b c # cs) = deliveries cs"
  "deliveries (CreateDemoEvent d s e x r k # cs) = deliveries cs"
  by (simp_all add: deliveries_def List.map_filter_def)


definition sample_recipient :: website_phone_recipient where
  "sample_recipient = \<lparr>wp_register_ref = None, wp_tutor_ref = Some ''T1'', wp_user_ref = None, wp_recipient_ref = ''r1'',
     wp_phone_reference = ''p1'', wp_masked_phone = ''***'', wp_channel = ''whatsapp'',
     wp_purpose = ''demo_session_link'', wp_demo_ref = ''D1'', wp_source_version = ''1''\<rparr>"

definition sample_ports :: scheduling_ports where
  "sample_ports = \<lparr>resolve_tutor_phone_recipient = (\<lambda>_ _ _. Inr sample_recipient),
     resolve_profile_phone_recipient = (\<lambda>_ _ _. Inr sample_recipient),
     create_demo_event = (\<lambda>_ _ _ _ rid _. Inr \<lparr>ce_provider_event_id = rid, ce_provider_etag = None,
       ce_conference_status = ''success'', ce_meeting_uri = Some ''https://meet/x''\<rparr>),
     request_delivery = (\<lambda>_ k. Inr k)\<rparr>"

definition sample_request :: schedule_after_acceptance_request where
  "sample_request = \<lparr>sa_demo_id = ''D1'', sa_tutor_ref = ''T1'', sa_learner_register_ref = ''L1'',
     sa_starts_at = utc 0, sa_ends_at = utc 10, sa_timezone = ''UTC'', sa_service_window_expires_at = utc 99,
     sa_correlation_id = ''c1'', sa_tutor_acceptance_confirmed = True, sa_tutor_acceptance_evidence_ref = ''e1'',
     sa_calendar_attendee_refs = [], sa_tutor_template_ref = ''t'', sa_learner_template_ref = ''l''\<rparr>"


end
