(* ===== verification/Matching.thy ===== *)
theory Matching
  imports Money Clock Decimal
begin

text \<open>
  \<open>modules/tutor_matching\<close>: filtering tutor snapshots by hard constraints and ranking those that
  remain by a weighted score.
\<close>

section \<open>The model\<close>

datatype demo_mode = ONLINE | HOME

datatype ranking_signal = LANGUAGE | BUDGET | QUALITY | RELIABILITY

fun ranking_signal_value :: "ranking_signal \<Rightarrow> string" where
  "ranking_signal_value LANGUAGE = ''language''"
| "ranking_signal_value BUDGET = ''budget''"
| "ranking_signal_value QUALITY = ''quality''"
| "ranking_signal_value RELIABILITY = ''reliability''"

record tutor_candidate =
  tc_tutor_id :: string
  tc_display_name :: string
  tc_snapshot_version :: string
  tc_captured_at :: datetime
  tc_boards :: "string set"
  tc_class_levels :: "string set"
  tc_subjects :: "string set"
  tc_modes :: "demo_mode set"
  tc_region_ids :: "string set"
  tc_languages :: "string set"
  tc_price :: "money option"
  tc_availability_confirmed :: bool
  tc_quality_score :: "decimal option"
  tc_no_show_rate :: "decimal option"

definition tutor_candidate_post_init :: "tutor_candidate \<Rightarrow> unit res" where
  "tutor_candidate_post_init c =
     (if \<not> aware (tc_captured_at c) then Inl (ValueError ''candidate snapshot time must be timezone-aware'')
      else if blank (tc_snapshot_version c) then Inl (ValueError ''candidate snapshot version is required'')
      else if (case tc_quality_score c of None \<Rightarrow> False | Some q \<Rightarrow> \<not> (0 \<le> q \<and> q \<le> 1))
      then Inl (ValueError ''quality score must be between zero and one'')
      else if (case tc_no_show_rate c of None \<Rightarrow> False | Some q \<Rightarrow> \<not> (0 \<le> q \<and> q \<le> 1))
      then Inl (ValueError ''no-show rate must be between zero and one'')
      else Inr ())"

record match_requirement =
  mr_board :: string
  mr_class_level :: string
  mr_subject :: string
  mr_mode :: demo_mode
  mr_region_id :: "string option"
  mr_accepted_languages :: "string set"
  mr_maximum_price :: "money option"
  mr_explicitly_selected_tutor_id :: "string option"

text \<open>The weights are a dict: an association list in insertion order.\<close>

record ranking_policy =
  rp_version :: string
  rp_weights :: "(ranking_signal \<times> decimal) list"
  rp_maximum_snapshot_age :: timedelta
  rp_shortlist_limit :: int

definition ranking_policy_post_init :: "ranking_policy \<Rightarrow> unit res" where
  "ranking_policy_post_init p =
     (if blank (rp_version p) then Inl (ValueError ''ranking policy version is required'')
      else if rp_maximum_snapshot_age p \<le> 0 then Inl (ValueError ''maximum snapshot age must be positive'')
      else if rp_shortlist_limit p \<le> 0 then Inl (ValueError ''shortlist limit must be positive'')
      else if list_ex (\<lambda>w. w < 0) (map snd (rp_weights p))
      then Inl (ValueError ''ranking weights cannot be negative'')
      else if dec_sum (map snd (rp_weights p)) \<le> 0
      then Inl (ValueError ''at least one positive ranking weight is required'')
      else Inr ())"

record ranked_tutor =
  rt_tutor_id :: string
  rt_display_name :: string
  rt_score :: decimal
  rt_reasons :: "string list"
  rt_snapshot_version :: string
  rt_captured_at :: datetime

record match_decision =
  md_shortlist :: "ranked_tutor list"
  md_excluded :: "string \<rightharpoonup> string list"
  md_relaxation_options :: "string list"
  md_needs_human_handoff :: bool
  md_ranking_version :: string

definition budget_failures :: "tutor_candidate \<Rightarrow> match_requirement \<Rightarrow> string list res" where
  "budget_failures c r =
     (case mr_maximum_price r of None \<Rightarrow> Inr []
      | Some maximum \<Rightarrow> (case tc_price c of None \<Rightarrow> Inr [''price_unverified'']
          | Some price \<Rightarrow> res_bind (require_same_currency maximum price) (\<lambda>_.
              Inr (if amount_minor price > amount_minor maximum then [''over_budget''] else []))))"

definition hard_constraint_failures ::
  "tutor_candidate \<Rightarrow> match_requirement \<Rightarrow> datetime \<Rightarrow> ranking_policy \<Rightarrow> string list res" where
  "hard_constraint_failures c r now policy =
     res_bind (dt_diff now (tc_captured_at c)) (\<lambda>age.
     res_bind (budget_failures c r) (\<lambda>budget.
     Inr ((if age > rp_maximum_snapshot_age policy then [''stale_snapshot''] else [])
        @ (if mr_board r \<notin> tc_boards c then [''board_unavailable''] else [])
        @ (if mr_class_level r \<notin> tc_class_levels c then [''class_unavailable''] else [])
        @ (if mr_subject r \<notin> tc_subjects c then [''subject_unavailable''] else [])
        @ (if mr_mode r \<notin> tc_modes c then [''mode_unavailable''] else [])
        @ (case mr_region_id r of None \<Rightarrow> [] | Some g \<Rightarrow> if g \<notin> tc_region_ids c then [''region_unavailable''] else [])
        @ (if \<not> tc_availability_confirmed c then [''availability_unverified''] else [])
        @ budget)))"

definition signals :: "tutor_candidate \<Rightarrow> match_requirement \<Rightarrow> (ranking_signal \<times> decimal) list" where
  "signals c r =
     [(LANGUAGE, if mr_accepted_languages r \<inter> tc_languages c \<noteq> {} then 1 else 0),
      (BUDGET, if (case mr_maximum_price r of None \<Rightarrow> True
                   | Some maximum \<Rightarrow> (case tc_price c of None \<Rightarrow> False | Some price \<Rightarrow> price \<le> maximum))
               then 1 else 0),
      (QUALITY, case tc_quality_score c of None \<Rightarrow> 0 | Some q \<Rightarrow> q),
      (RELIABILITY, case tc_no_show_rate c of None \<Rightarrow> 0 | Some q \<Rightarrow> dec_sub 1 q)]"

definition weight_of :: "ranking_policy \<Rightarrow> ranking_signal \<Rightarrow> decimal" where
  "weight_of p s = (case map_of (rp_weights p) s of None \<Rightarrow> 0 | Some w \<Rightarrow> w)"

definition score :: "tutor_candidate \<Rightarrow> match_requirement \<Rightarrow> ranking_policy \<Rightarrow> (decimal \<times> string list) res" where
  "score c r p =
     (let sigs = signals c r; denominator = dec_sum (map snd (rp_weights p))
      in res_bind (dec_div (dec_sum (map (\<lambda>(s, v). dec_mul (weight_of p s) v) sigs)) denominator) (\<lambda>sc.
         Inr (sc, map (\<lambda>(s, v). ranking_signal_value s) (filter (\<lambda>(s, v). v > 0 \<and> weight_of p s > 0) sigs))))"

text \<open>The loop body of \<open>rank_tutors\<close>.\<close>

definition rank_candidate ::
  "match_requirement \<Rightarrow> ranking_policy \<Rightarrow> datetime \<Rightarrow> (string \<rightharpoonup> string list) \<times> ranked_tutor list
     \<Rightarrow> tutor_candidate \<Rightarrow> ((string \<rightharpoonup> string list) \<times> ranked_tutor list) res" where
  "rank_candidate r p now = (\<lambda>(excluded, ranked) c.
     res_bind (hard_constraint_failures c r now p) (\<lambda>hard.
       let failures = (case mr_explicitly_selected_tutor_id r of None \<Rightarrow> hard
             | Some t \<Rightarrow> if tc_tutor_id c \<noteq> t then hard @ [''not_explicit_selection''] else hard)
       in if failures \<noteq> [] then Inr (excluded(tc_tutor_id c \<mapsto> failures), ranked)
          else res_bind (score c r p) (\<lambda>(sc, reasons).
            Inr (excluded, ranked @ [\<lparr>rt_tutor_id = tc_tutor_id c, rt_display_name = tc_display_name c,
              rt_score = sc, rt_reasons = reasons, rt_snapshot_version = tc_snapshot_version c,
              rt_captured_at = tc_captured_at c\<rparr>]))))"

definition rank_key :: "ranked_tutor \<Rightarrow> decimal \<times> string" where
  "rank_key item = (dec_neg (rt_score item), rt_tutor_id item)"

definition rank_tutors ::
  "tutor_candidate list \<Rightarrow> match_requirement \<Rightarrow> ranking_policy \<Rightarrow> datetime \<Rightarrow> match_decision res" where
  "rank_tutors candidates requirement policy now =
     (if \<not> aware now then Inl (ValueError ''matching time must be timezone-aware'')
      else res_bind (res_fold (rank_candidate requirement policy now) (Map.empty, []) candidates)
        (\<lambda>(excluded, ranked).
          let shortlist = take (nat (rp_shortlist_limit policy)) (sort_key rank_key ranked)
          in Inr \<lparr>md_shortlist = shortlist, md_excluded = excluded,
               md_relaxation_options = (if shortlist \<noteq> [] then []
                 else [''alternate_time'', ''alternate_mode'', ''relax_nonessential_preferences'']),
               md_needs_human_handoff = (shortlist = []), md_ranking_version = rp_version policy\<rparr>))"

text \<open>\<open>TutorShortlistUseCase.execute\<close>; the policy is the field of the use case.\<close>

definition tutor_shortlist_execute ::
  "ranking_policy \<Rightarrow> tutor_candidate list \<Rightarrow> match_requirement \<Rightarrow> datetime \<Rightarrow> match_decision res" where
  "tutor_shortlist_execute policy candidates requirement now = rank_tutors candidates requirement policy now"

section \<open>Eligibility\<close>

text \<open>The reasons against a candidate and its ranking entry, where the prices are comparable.\<close>

definition comparable :: "match_requirement \<Rightarrow> tutor_candidate \<Rightarrow> bool" where
  "comparable r c \<longleftrightarrow> (\<forall>m p. mr_maximum_price r = Some m \<longrightarrow> tc_price c = Some p \<longrightarrow> currency m = currency p)"

text \<open>The hard constraints as a predicate.\<close>

definition eligible :: "match_requirement \<Rightarrow> ranking_policy \<Rightarrow> datetime \<Rightarrow> tutor_candidate \<Rightarrow> bool" where
  "eligible r p now c \<longleftrightarrow>
     instant now - instant (tc_captured_at c) \<le> rp_maximum_snapshot_age p
     \<and> mr_board r \<in> tc_boards c \<and> mr_class_level r \<in> tc_class_levels c \<and> mr_subject r \<in> tc_subjects c
     \<and> mr_mode r \<in> tc_modes c \<and> (\<forall>g. mr_region_id r = Some g \<longrightarrow> g \<in> tc_region_ids c)
     \<and> tc_availability_confirmed c
     \<and> (\<forall>m. mr_maximum_price r = Some m \<longrightarrow> (\<exists>p. tc_price c = Some p \<and> amount_minor p \<le> amount_minor m))
     \<and> (\<forall>t. mr_explicitly_selected_tutor_id r = Some t \<longrightarrow> tc_tutor_id c = t)"

definition failures_of :: "match_requirement \<Rightarrow> ranking_policy \<Rightarrow> datetime \<Rightarrow> tutor_candidate \<Rightarrow> string list" where
  "failures_of r p now c =
     (case hard_constraint_failures c r now p of Inl e \<Rightarrow> [] | Inr hard \<Rightarrow>
        (case mr_explicitly_selected_tutor_id r of None \<Rightarrow> hard
         | Some t \<Rightarrow> if tc_tutor_id c \<noteq> t then hard @ [''not_explicit_selection''] else hard))"

definition entry_of :: "match_requirement \<Rightarrow> ranking_policy \<Rightarrow> tutor_candidate \<Rightarrow> ranked_tutor" where
  "entry_of r p c = (case score c r p of Inl e \<Rightarrow> undefined | Inr (sc, reasons) \<Rightarrow>
     \<lparr>rt_tutor_id = tc_tutor_id c, rt_display_name = tc_display_name c, rt_score = sc, rt_reasons = reasons,
      rt_snapshot_version = tc_snapshot_version c, rt_captured_at = tc_captured_at c\<rparr>)"

lemma ranking_policy_okD:
  assumes "ranking_policy_post_init p = Inr ()"
  shows "0 < dec_sum (map snd (rp_weights p))" "0 < rp_shortlist_limit p" "\<forall>w\<in>set (map snd (rp_weights p)). 0 \<le> w"
  using assms by (auto simp: ranking_policy_post_init_def list_ex_iff not_less split: if_splits)

lemma tutor_candidate_aware: "tutor_candidate_post_init c = Inr u \<Longrightarrow> aware (tc_captured_at c)"
  by (auto simp: tutor_candidate_post_init_def split: if_splits)

lemma budget_failures_eq:
  "comparable r c \<Longrightarrow> \<exists>b. budget_failures c r = Inr b \<and> (b = [] \<longleftrightarrow>
     (\<forall>m. mr_maximum_price r = Some m \<longrightarrow> (\<exists>p. tc_price c = Some p \<and> amount_minor p \<le> amount_minor m)))"
  "\<not> comparable r c \<Longrightarrow> budget_failures c r = Inl (ValueError ''currency mismatch'')"
  by (cases "mr_maximum_price r"; cases "tc_price c";
      auto simp: budget_failures_def comparable_def require_same_currency_def)+

lemma hard_constraint_failures_eq:
  assumes "aware now" "aware (tc_captured_at c)"
  shows "comparable r c \<Longrightarrow> \<exists>fs. hard_constraint_failures c r now p = Inr fs"
    "\<not> comparable r c \<Longrightarrow> hard_constraint_failures c r now p = Inl (ValueError ''currency mismatch'')"
  using assms budget_failures_eq [of r c] by (auto simp: hard_constraint_failures_def)

lemma failures_of_empty:
  assumes "aware now" "aware (tc_captured_at c)" "comparable r c"
  shows "failures_of r p now c = [] \<longleftrightarrow> eligible r p now c"
proof -
  obtain b where b: "budget_failures c r = Inr b" "b = [] \<longleftrightarrow>
     (\<forall>m. mr_maximum_price r = Some m \<longrightarrow> (\<exists>p. tc_price c = Some p \<and> amount_minor p \<le> amount_minor m))"
    using budget_failures_eq(1) [OF assms(3)] by blast
  show ?thesis
    unfolding eligible_def b(2) [symmetric] using assms(1,2) b(1)
    by (cases "mr_region_id r"; cases "mr_explicitly_selected_tutor_id r")
      (simp_all add: failures_of_def hard_constraint_failures_def not_less)
qed

lemma score_Inr:
  assumes "ranking_policy_post_init p = Inr ()"
  shows "\<exists>sc reasons. score c r p = Inr (sc, reasons)"
  using ranking_policy_okD(1) [OF assms] by (auto simp: score_def Let_def dec_div_def)

lemma rank_candidate_eq:
  assumes "ranking_policy_post_init p = Inr ()" "aware now" "aware (tc_captured_at c)"
  shows "rank_candidate r p now (ex, rk) c =
    (if \<not> comparable r c then Inl (ValueError ''currency mismatch'')
     else if eligible r p now c then Inr (ex, rk @ [entry_of r p c])
     else Inr (ex(tc_tutor_id c \<mapsto> failures_of r p now c), rk))"
proof (cases "comparable r c")
  case False
  then show ?thesis using hard_constraint_failures_eq(2) [OF assms(2,3)] by (simp add: rank_candidate_def)
next
  case True
  obtain fs where fs: "hard_constraint_failures c r now p = Inr fs"
    using hard_constraint_failures_eq(1) [OF assms(2,3) True] by blast
  obtain sc rs where sc: "score c r p = Inr (sc, rs)" using score_Inr [OF assms(1)] by blast
  show ?thesis
    using True failures_of_empty [OF assms(2,3) True, of p, symmetric] fs sc
    by (auto simp: rank_candidate_def failures_of_def entry_of_def Let_def split: option.splits)
qed

lemma rank_loop:
  assumes "ranking_policy_post_init p = Inr ()" "aware now" "list_all (\<lambda>c. aware (tc_captured_at c)) cs"
  shows "res_fold (rank_candidate r p now) (ex, rk) cs =
    (if list_all (comparable r) cs
     then Inr (ex ++ map_of (rev (map (\<lambda>c. (tc_tutor_id c, failures_of r p now c))
                 (filter (\<lambda>c. \<not> eligible r p now c) cs))),
               rk @ map (entry_of r p) (filter (eligible r p now) cs))
     else Inl (ValueError ''currency mismatch''))"
  using assms(3)
proof (induction cs arbitrary: ex rk)
  case Nil
  then show ?case by simp
next
  case (Cons c cs)
  then show ?case using rank_candidate_eq [OF assms(1,2), of c r ex rk] by (auto simp: map_add_assoc)
qed

section \<open>Properties\<close>

lemma rank_tutors_eq:
  assumes "ranking_policy_post_init p = Inr ()" "aware now" "\<forall>c\<in>set cs. tutor_candidate_post_init c = Inr ()"
  shows "rank_tutors cs r p now =
    (if list_all (comparable r) cs
     then let shortlist = take (nat (rp_shortlist_limit p))
                (sort_key rank_key (map (entry_of r p) (filter (eligible r p now) cs)))
          in Inr \<lparr>md_shortlist = shortlist,
            md_excluded = map_of (rev (map (\<lambda>c. (tc_tutor_id c, failures_of r p now c))
                 (filter (\<lambda>c. \<not> eligible r p now c) cs))),
            md_relaxation_options = (if shortlist \<noteq> [] then []
              else [''alternate_time'', ''alternate_mode'', ''relax_nonessential_preferences'']),
            md_needs_human_handoff = (shortlist = []), md_ranking_version = rp_version p\<rparr>
     else Inl (ValueError ''currency mismatch''))"
proof -
  have "list_all (\<lambda>c. aware (tc_captured_at c)) cs"
    using assms(3) tutor_candidate_aware by (auto simp: list_all_iff)
  from rank_loop [OF assms(1,2) this] show ?thesis
    using assms(2) by (simp add: rank_tutors_def Let_def)
qed

lemma take_sorted_best:
  assumes "sorted (map k xs)" "x \<in> set xs"
  shows "x \<in> set (take n xs) \<or> (\<forall>y\<in>set (take n xs). k y \<le> k x)"
proof (rule disjCI)
  have ap: "x \<in> set (take n xs) \<union> set (drop n xs)" using assms(2) by (metis append_take_drop_id set_append)
  assume "\<not> (\<forall>y\<in>set (take n xs). k y \<le> k x)"
  moreover have "sorted (map k (take n xs) @ map k (drop n xs))"
    using assms(1) by (metis append_take_drop_id map_append)
  ultimately show "x \<in> set (take n xs)" using ap by (auto simp: sorted_append)
qed

lemma sort_key_Nil_iff: "sort_key f xs = [] \<longleftrightarrow> xs = []"
  by (metis mset_sort mset_zero_iff)

lemma entry_of_simps:
  assumes "ranking_policy_post_init p = Inr ()"
  shows "rt_tutor_id (entry_of r p c) = tc_tutor_id c" "rt_captured_at (entry_of r p c) = tc_captured_at c"
    "rt_snapshot_version (entry_of r p c) = tc_snapshot_version c"
  using score_Inr [OF assms, of c r] by (auto simp: entry_of_def)


text \<open>
  The decision does not depend on the order in which the candidates arrive.
\<close>

theorem rank_tutors_order_independent:
  assumes "ranking_policy_post_init p = Inr ()" "\<forall>c\<in>set cs. tutor_candidate_post_init c = Inr ()"
    and "distinct (map tc_tutor_id cs)" "mset cs' = mset cs"
  shows "rank_tutors cs' r p now = rank_tutors cs r p now"
proof (cases "aware now")
  case False
  then show ?thesis by (simp add: rank_tutors_def)
next
  case True
  have sets: "set cs' = set cs" using assms(4) by (metis set_mset_mset)
  have "mset (map tc_tutor_id cs') = mset (map tc_tutor_id cs)" using assms(4) by simp
  then have dist: "distinct (map tc_tutor_id cs')" using assms(3) mset_eq_imp_distinct_iff by blast
  let ?rk = "\<lambda>cs. map (entry_of r p) (filter (eligible r p now) cs)"
  have "inj_on rank_key (set (?rk cs))"
    using assms(3) entry_of_simps(1) [OF assms(1)]
    by (auto simp: inj_on_def rank_key_def distinct_map)
  moreover have "mset (?rk cs') = mset (?rk cs)" using assms(4) by (simp add: mset_filter)
  ultimately have "sort_key rank_key (?rk cs') = sort_key rank_key (?rk cs)"
    by (intro sort_key_inj_key_eq) (auto simp: sets)
  moreover have "map_of (rev (map (\<lambda>c. (tc_tutor_id c, failures_of r p now c)) (filter (\<lambda>c. \<not> eligible r p now c) cs')))
      = map_of (rev (map (\<lambda>c. (tc_tutor_id c, failures_of r p now c)) (filter (\<lambda>c. \<not> eligible r p now c) cs)))"
    using assms(3) dist by (subst map_of_inject_set) (auto simp: sets comp_def rev_map [symmetric] distinct_map_filter)
  moreover have "list_all (comparable r) cs' = list_all (comparable r) cs" by (simp add: list_all_iff sets)
  ultimately show ?thesis
    using rank_tutors_eq [OF assms(1) True] assms(2) sets by simp
qed

definition sample_candidate :: "string \<Rightarrow> tutor_candidate" where
  "sample_candidate n = \<lparr>tc_tutor_id = n, tc_display_name = ''Asha'', tc_snapshot_version = ''1'',
     tc_captured_at = Datetime 0 (Some 0), tc_boards = {''CBSE''}, tc_class_levels = {''10''},
     tc_subjects = {''maths''}, tc_modes = {ONLINE}, tc_region_ids = {''IN-KA''}, tc_languages = {''en''},
     tc_price = Some (Money 500 ''INR''), tc_availability_confirmed = True,
     tc_quality_score = Some (1 / 2), tc_no_show_rate = None\<rparr>"

definition sample_requirement :: match_requirement where
  "sample_requirement = \<lparr>mr_board = ''CBSE'', mr_class_level = ''10'', mr_subject = ''maths'', mr_mode = ONLINE,
     mr_region_id = None, mr_accepted_languages = {''en''}, mr_maximum_price = Some (Money 600 ''INR''),
     mr_explicitly_selected_tutor_id = None\<rparr>"

definition sample_ranking :: ranking_policy where
  "sample_ranking = \<lparr>rp_version = ''r1'', rp_weights = [(LANGUAGE, 1), (QUALITY, 1)],
     rp_maximum_snapshot_age = 100, rp_shortlist_limit = 3\<rparr>"

lemma dec_round_2: "dec_round 2 = 2"
  by (rule dec_rnd_exactI [where k = 0 and m = 2]) simp_all

lemma sample_ranking_valid: "ranking_policy_post_init sample_ranking = Inr ()"
  by (simp add: ranking_policy_post_init_def sample_ranking_def blank_def strip_def lstrip_def is_space_def
      dec_sum_def dec_add_def dec_round_2)

lemma sample_candidate_valid: "tutor_candidate_post_init (sample_candidate n) = Inr ()"
  by (simp add: tutor_candidate_post_init_def sample_candidate_def blank_def strip_def lstrip_def is_space_def)

lemma sample_eligible: "eligible sample_requirement sample_ranking (Datetime 50 (Some 0)) (sample_candidate n)"
  by (simp add: eligible_def sample_requirement_def sample_candidate_def sample_ranking_def)


theorem rank_tutors_order_independent_witness:
  "rank_tutors [sample_candidate ''T1'', sample_candidate ''T2''] sample_requirement sample_ranking (Datetime 50 (Some 0))
   = rank_tutors [sample_candidate ''T2'', sample_candidate ''T1''] sample_requirement sample_ranking (Datetime 50 (Some 0))"
proof (rule rank_tutors_order_independent [OF sample_ranking_valid])
  show "distinct (map tc_tutor_id [sample_candidate ''T2'', sample_candidate ''T1''])"
    by (simp add: sample_candidate_def)
qed (simp_all add: sample_candidate_valid)

section \<open>Scores\<close>

text \<open>Weights with at most nine decimals, as a ranking policy is written.\<close>

definition nine_decimals :: "decimal \<Rightarrow> bool" where
  "nine_decimals w \<longleftrightarrow> w * 10 ^ 9 = of_int \<lfloor>w * 10 ^ 9\<rfloor> \<and> 0 \<le> w \<and> w \<le> 10 ^ 9"

lemma nine_decimals_sum:
  assumes "w * 10 ^ 9 = of_int m" "nine_decimals v"
  shows "(w + v) * 10 ^ 9 = of_int (m + \<lfloor>v * 10 ^ 9\<rfloor>)"
  using assms by (simp add: nine_decimals_def distrib_right)

lemma exact_nine:
  assumes "w * 10 ^ 9 = of_int m" "0 \<le> w" "w < 10 ^ 18"
  shows "dec_round w = w"
proof (rule dec_rnd_exactI [OF assms(1)])
  have "0 \<le> (of_int m :: rat)" "(of_int m :: rat) < 10 ^ 28"
    using assms unfolding assms(1) [symmetric] by simp_all
  then have "0 \<le> m" "m < 10 ^ 28" by (simp, metis of_int_less_iff of_int_numeral of_int_power)
  then show "\<bar>m\<bar> < 10 ^ 28" by simp
qed

text \<open>Such sums are exact, so the order of the weights does not matter.\<close>

lemma dec_sum_nine:
  assumes "list_all nine_decimals ws" "length ws \<le> 10 ^ 8"
  shows "dec_sum ws = sum_list ws \<and> 0 \<le> sum_list ws \<and> sum_list ws \<le> of_nat (length ws) * 10 ^ 9
    \<and> (\<exists>m. sum_list ws * 10 ^ 9 = of_int m)"
  using assms
proof (induction ws rule: rev_induct)
  case Nil
  then show ?case by (simp add: dec_sum_def exI [of _ 0])
next
  case (snoc w ws)
  then obtain m where m: "sum_list ws * 10 ^ 9 = of_int m" by auto
  have b: "0 \<le> sum_list ws + w" "sum_list ws + w \<le> of_nat (length (ws @ [w])) * 10 ^ 9"
    using snoc by (auto simp: nine_decimals_def algebra_simps)
  have "(of_nat (length (ws @ [w])) :: rat) \<le> of_nat (10 ^ 8)" using snoc.prems(2) by (simp only: of_nat_le_iff)
  then have "sum_list ws + w < 10 ^ 18" using b(2) by simp
  then have "dec_round (sum_list ws + w) = sum_list ws + w"
    using snoc.prems(1) b(1) by (intro exact_nine [OF nine_decimals_sum [OF m]]) simp_all
  moreover have "\<exists>m. (sum_list ws + w) * 10 ^ 9 = of_int m"
    using snoc.prems(1) by (intro exI) (rule nine_decimals_sum [OF m], simp)
  ultimately show ?case using snoc b by (simp add: dec_sum_append1 dec_add_def)
qed

lemma weighted_sum_le:
  assumes "list_all (\<lambda>(w, v). nine_decimals w \<and> 0 \<le> v \<and> v \<le> 1) xs" "length xs \<le> 10 ^ 8"
  shows "0 \<le> dec_sum (map (\<lambda>(w, v). dec_mul w v) xs) \<and> dec_sum (map (\<lambda>(w, v). dec_mul w v) xs) \<le> dec_sum (map fst xs)"
  using assms
proof (induction xs rule: rev_induct)
  case Nil
  then show ?case by (simp add: dec_sum_def)
next
  case (snoc x xs)
  obtain w v where x: "x = (w, v)" by (cases x)
  have v: "nine_decimals w" "0 \<le> v" "v \<le> 1" using snoc.prems by (auto simp: x)
  then have "dec_round w = w" by (intro exact_nine [of w "\<lfloor>w * 10 ^ 9\<rfloor>"]) (auto simp: nine_decimals_def)
  then have "0 \<le> dec_mul w v" "dec_mul w v \<le> w"
    using dec28.scaled_le [of v w] v by (auto simp: dec_mul_def nine_decimals_def mult.commute)
  then show ?case
    using snoc by (auto simp: x dec_sum_append1 dec_add_def intro!: dec28.rnd_nonneg dec28.add_mono_rnd)
qed

lemma UNIV_ranking_signal: "(UNIV :: ranking_signal set) = {LANGUAGE, BUDGET, QUALITY, RELIABILITY}"
  by (auto intro: ranking_signal.exhaust)

lemma weights_total:
  assumes "distinct (map fst (rp_weights p))"
  shows "sum_list (map (weight_of p) [LANGUAGE, BUDGET, QUALITY, RELIABILITY]) = sum_list (map snd (rp_weights p))"
proof -
  let ?ks = "set (map fst (rp_weights p))"
  have "sum_list (map (weight_of p) [LANGUAGE, BUDGET, QUALITY, RELIABILITY]) = (\<Sum>s\<in>UNIV. weight_of p s)"
    by (simp add: UNIV_ranking_signal)
  also have "\<dots> = (\<Sum>s\<in>?ks. weight_of p s)"
  proof (rule sum.mono_neutral_right)
    show "finite (UNIV :: ranking_signal set)" by (simp add: UNIV_ranking_signal)
    show "\<forall>s\<in>UNIV - ?ks. weight_of p s = 0"
      by (auto simp: weight_of_def map_of_eq_None_iff split: option.splits dest!: map_of_SomeD intro: rev_image_eqI)
  qed simp
  also have "\<dots> = sum_list (map (weight_of p) (map fst (rp_weights p)))"
    by (rule sum_list_distinct_conv_sum_set [OF assms, symmetric])
  also have "\<dots> = sum_list (map snd (rp_weights p))"
  proof -
    have "weight_of p s = w" if "(s, w) \<in> set (rp_weights p)" for s w
      using that assms by (simp add: weight_of_def)
    then have "map (weight_of p) (map fst (rp_weights p)) = map snd (rp_weights p)" by auto
    then show ?thesis by (simp only:)
  qed
  finally show ?thesis .
qed

lemma signals_unit:
  assumes "tutor_candidate_post_init c = Inr ()"
  shows "\<forall>(s, v)\<in>set (signals c r). 0 \<le> v \<and> v \<le> 1"
  using assms by (auto simp: signals_def dec_sub_def tutor_candidate_post_init_def split: if_splits option.splits
      intro!: dec28.rnd_nonneg dec28.rnd_le_one)

text \<open>
  The score of a valid candidate is a fraction for every policy whose weights have at most
  nine decimals, and every reason named is a signal that contributed.
\<close>

theorem score_bounds:
  assumes "ranking_policy_post_init p = Inr ()" "tutor_candidate_post_init c = Inr ()"
    and "distinct (map fst (rp_weights p))" "\<forall>w\<in>set (map snd (rp_weights p)). nine_decimals w"
  shows "\<exists>sc reasons. score c r p = Inr (sc, reasons) \<and> 0 \<le> sc \<and> sc \<le> 1
    \<and> (\<forall>x\<in>set reasons. \<exists>s v. x = ranking_signal_value s \<and> (s, v) \<in> set (signals c r) \<and> 0 < v \<and> 0 < weight_of p s)"
proof -
  let ?xs = "map (\<lambda>(s, v). (weight_of p s, v)) (signals c r)" and ?ws = "map snd (rp_weights p)"
  let ?sum = "dec_sum (map (\<lambda>(s, v). dec_mul (weight_of p s) v) (signals c r))"
  have nd: "nine_decimals (weight_of p s)" for s
    using assms(4) by (auto simp: weight_of_def nine_decimals_def split: option.splits dest!: map_of_SomeD)
  have len: "length (rp_weights p) \<le> 4"
    using assms(3) distinct_card [of "map fst (rp_weights p)"] card_mono [of UNIV "set (map fst (rp_weights p))"]
    by (simp add: UNIV_ranking_signal [THEN arg_cong, of card] UNIV_ranking_signal [THEN arg_cong, of finite])
  have "list_all (\<lambda>(w, v). nine_decimals w \<and> 0 \<le> v \<and> v \<le> 1) ?xs"
    using signals_unit [OF assms(2), of r] nd by (auto simp: list_all_iff)
  moreover have "length ?xs \<le> 10 ^ 8" by (simp add: signals_def)
  moreover have "map (\<lambda>(w, v). dec_mul w v) ?xs = map (\<lambda>(s, v). dec_mul (weight_of p s) v) (signals c r)" by auto
  moreover have "map fst ?xs = map (weight_of p) [LANGUAGE, BUDGET, QUALITY, RELIABILITY]" by (simp add: signals_def)
  ultimately have "0 \<le> ?sum" "?sum \<le> dec_sum (map (weight_of p) [LANGUAGE, BUDGET, QUALITY, RELIABILITY])"
    using weighted_sum_le [of ?xs] by (simp_all only:)
  moreover have "dec_sum (map (weight_of p) [LANGUAGE, BUDGET, QUALITY, RELIABILITY])
      = sum_list (map (weight_of p) [LANGUAGE, BUDGET, QUALITY, RELIABILITY])"
    using nd dec_sum_nine [of "map (weight_of p) [LANGUAGE, BUDGET, QUALITY, RELIABILITY]"] by simp
  moreover have "dec_sum ?ws = sum_list ?ws"
    using dec_sum_nine [of ?ws] assms(4) len by (simp add: list_all_iff)
  ultimately have "0 \<le> ?sum \<and> ?sum \<le> dec_sum ?ws" using weights_total [OF assms(3)] by simp
  then have "0 \<le> dec_round (?sum / dec_sum ?ws) \<and> dec_round (?sum / dec_sum ?ws) \<le> 1"
    by (intro dec28.fraction) auto
  then show ?thesis
    using ranking_policy_okD(1) [OF assms(1)] by (auto simp: score_def Let_def dec_div_def)
qed

theorem score_bounds_witness:
  "\<exists>sc reasons. score (sample_candidate ''T1'') sample_requirement sample_ranking = Inr (sc, reasons) \<and> 0 \<le> sc \<and> sc \<le> 1"
  using score_bounds [OF sample_ranking_valid sample_candidate_valid, of "''T1''" sample_requirement]
  by (auto simp: sample_ranking_def nine_decimals_def)

end
