(* ===== verification/Discounts.thy ===== *)
theory Discounts
  imports Money Clock Digest
begin

text \<open>
  \<open>modules/discount_suggestions\<close>: deciding a requested discount against the price floor, the
  policy's limits and approval tiers, binding an approved decision to an offer and validating its
  redemption.
\<close>

section \<open>The model\<close>

datatype approval_level = AUTOMATIC | OPERATIONS | FINANCE | REJECTED

record approval_tier =
  at_maximum_discount_basis_points :: int
  at_level :: approval_level

record discount_policy =
  dp_version :: string
  dp_recommendation_minimum_basis_points :: int
  dp_recommendation_maximum_basis_points :: int
  dp_absolute_maximum_basis_points :: int
  dp_approval_tiers :: "approval_tier list"
  dp_offer_ttl :: timedelta
  dp_maximum_active_offers :: int
  dp_offer_cooldown :: timedelta
  dp_allow_coupon_stacking :: bool
  dp_offers_are_reusable :: bool

definition discount_policy_post_init :: "discount_policy \<Rightarrow> unit res" where
  "discount_policy_post_init p =
     (let values = [dp_recommendation_minimum_basis_points p, dp_recommendation_maximum_basis_points p,
                    dp_absolute_maximum_basis_points p];
          maxima = map at_maximum_discount_basis_points (dp_approval_tiers p)
      in if blank (dp_version p) \<or> list_ex (\<lambda>v. \<not> (0 \<le> v \<and> v \<le> 10000)) values
         then Inl (ValueError ''discount version or basis-point limits are invalid'')
         else if \<not> (dp_recommendation_minimum_basis_points p \<le> dp_recommendation_maximum_basis_points p
                \<and> dp_recommendation_maximum_basis_points p \<le> dp_absolute_maximum_basis_points p)
         then Inl (ValueError ''discount bands must be ordered'')
         else if dp_offer_ttl p \<le> 0 \<or> dp_offer_cooldown p < 0
         then Inl (ValueError ''offer timing policy is invalid'')
         else if dp_maximum_active_offers p \<le> 0 \<or> dp_approval_tiers p = []
         then Inl (ValueError ''offer limit and approval tiers are required'')
         else if maxima \<noteq> sort maxima \<or> length maxima \<noteq> card (set maxima)
         then Inl (ValueError ''approval tiers must be unique and ascending'')
         else Inr ())"

record discount_context =
  dc_demo_id :: string
  dc_user_id :: string
  dc_plan_ref :: string
  dc_list_price :: money
  dc_minimum_permitted_price :: money
  dc_requested_discount_basis_points :: int
  dc_active_offer_count :: int
  dc_latest_offer_created_at :: "datetime option"
  dc_overlapping_coupon :: bool
  dc_eligible :: bool

record discount_decision =
  dd_approved :: bool
  dd_list_price :: money
  dd_minimum_permitted_price :: money
  dd_maximum_permitted_discount_basis_points :: int
  dd_recommended_band_basis_points :: "int \<times> int"
  dd_selected_price :: "money option"
  dd_selected_discount_basis_points :: "int option"
  dd_expires_at :: "datetime option"
  dd_reusable :: bool
  dd_approval_level :: approval_level
  dd_reason_codes :: "string list"
  dd_policy_version :: string

record offer_binding =
  ob_offer_id :: string
  ob_demo_id :: string
  ob_user_id :: string
  ob_plan_ref :: string
  ob_selected_price :: money
  ob_expires_at :: datetime
  ob_reusable :: bool
  ob_redemption_count :: int
  ob_policy_version :: string

definition price_floor_maximum_discount :: "money \<Rightarrow> money \<Rightarrow> int res" where
  "price_floor_maximum_discount list_price minimum_price =
     res_bind (require_same_currency list_price minimum_price) (\<lambda>_.
       if amount_minor minimum_price > amount_minor list_price
       then Inl (ValueError ''minimum price cannot exceed list price'')
       else if amount_minor list_price = 0 then Inr 0
       else Inr (((amount_minor list_price - amount_minor minimum_price) * 10000) div amount_minor list_price))"

fun approval_for :: "approval_tier list \<Rightarrow> int \<Rightarrow> approval_level" where
  "approval_for [] requested = REJECTED"
| "approval_for (tier # tiers) requested =
     (if requested \<le> at_maximum_discount_basis_points tier then at_level tier
      else approval_for tiers requested)"

definition decide_discount :: "discount_context \<Rightarrow> discount_policy \<Rightarrow> datetime \<Rightarrow> discount_decision res" where
  "decide_discount context policy now =
     (if \<not> aware now then Inl (ValueError ''discount decision time must be timezone-aware'')
      else res_bind (price_floor_maximum_discount (dc_list_price context) (dc_minimum_permitted_price context))
        (\<lambda>floor_max.
      let maximum = min floor_max (dp_absolute_maximum_basis_points policy);
          requested = dc_requested_discount_basis_points context;
          band = (min (dp_recommendation_minimum_basis_points policy) maximum,
                  min (dp_recommendation_maximum_basis_points policy) maximum)
      in res_bind (case dc_latest_offer_created_at context of None \<Rightarrow> Inr False
           | Some t \<Rightarrow> res_bind (dt_add t (dp_offer_cooldown policy)) (\<lambda>until. dt_less now until)) (\<lambda>cooling.
      let approval = approval_for (dp_approval_tiers policy) requested;
          reasons = (if \<not> dc_eligible context then [''learner_not_eligible''] else [])
            @ (if dc_active_offer_count context \<ge> dp_maximum_active_offers policy then [''active_offer_limit_reached''] else [])
            @ (if cooling then [''offer_cooldown_active''] else [])
            @ (if dc_overlapping_coupon context \<and> \<not> dp_allow_coupon_stacking policy then [''overlapping_discount''] else [])
            @ (if \<not> (0 \<le> requested \<and> requested \<le> maximum) then [''requested_discount_outside_policy''] else [])
            @ (if approval = REJECTED then [''step_up_approval_unavailable''] else [])
      in if reasons \<noteq> []
         then Inr \<lparr>dd_approved = False, dd_list_price = dc_list_price context,
           dd_minimum_permitted_price = dc_minimum_permitted_price context,
           dd_maximum_permitted_discount_basis_points = maximum, dd_recommended_band_basis_points = band,
           dd_selected_price = None, dd_selected_discount_basis_points = None, dd_expires_at = None,
           dd_reusable = dp_offers_are_reusable policy, dd_approval_level = REJECTED,
           dd_reason_codes = reasons, dd_policy_version = dp_version policy\<rparr>
         else res_bind (discounted_by_basis_points (dc_list_price context) requested) (\<lambda>selected.
           if amount_minor selected < amount_minor (dc_minimum_permitted_price context)
           then Inl (RuntimeError ''discount calculation crossed the configured price floor'')
           else res_bind (dt_add now (dp_offer_ttl policy)) (\<lambda>expires.
             Inr \<lparr>dd_approved = True, dd_list_price = dc_list_price context,
               dd_minimum_permitted_price = dc_minimum_permitted_price context,
               dd_maximum_permitted_discount_basis_points = maximum, dd_recommended_band_basis_points = band,
               dd_selected_price = Some selected, dd_selected_discount_basis_points = Some requested,
               dd_expires_at = Some expires, dd_reusable = dp_offers_are_reusable policy,
               dd_approval_level = approval, dd_reason_codes = [''policy_approved''],
               dd_policy_version = dp_version policy\<rparr>)))))"

definition bind_offer :: "discount_context \<Rightarrow> discount_decision \<Rightarrow> offer_binding res" where
  "bind_offer context decision =
     (case (dd_approved decision, dd_selected_price decision, dd_expires_at decision) of
        (True, Some selected, Some expires) \<Rightarrow>
          Inr \<lparr>ob_offer_id = sha256 (join ''|'' [dc_demo_id context, dc_user_id context, dc_plan_ref context,
                 show_int (amount_minor selected), currency selected, isoformat expires, dd_policy_version decision]),
               ob_demo_id = dc_demo_id context, ob_user_id = dc_user_id context, ob_plan_ref = dc_plan_ref context,
               ob_selected_price = selected, ob_expires_at = expires, ob_reusable = dd_reusable decision,
               ob_redemption_count = 0, ob_policy_version = dd_policy_version decision\<rparr>
      | _ \<Rightarrow> Inl (ValueError ''only an approved discount decision can become an offer''))"

definition validate_offer_redemption ::
  "offer_binding \<Rightarrow> string \<Rightarrow> string \<Rightarrow> string \<Rightarrow> string \<Rightarrow> datetime \<Rightarrow> (bool \<times> string) res" where
  "validate_offer_redemption offer demo_id user_id plan_ref cur now =
     res_bind (dt_le (ob_expires_at offer) now) (\<lambda>expired.
       if expired then Inr (False, ''offer_expired'')
       else if ob_demo_id offer \<noteq> demo_id \<or> ob_user_id offer \<noteq> user_id \<or> ob_plan_ref offer \<noteq> plan_ref
            \<or> currency (ob_selected_price offer) \<noteq> upper cur
       then Inr (False, ''offer_binding_mismatch'')
       else if ob_redemption_count offer > 0 \<and> \<not> ob_reusable offer
       then Inr (False, ''offer_already_redeemed'')
       else Inr (True, ''offer_valid''))"

text \<open>\<open>DiscountDecisionUseCase.execute\<close>.\<close>

definition discount_decision_execute :: "discount_policy \<Rightarrow> discount_context \<Rightarrow> datetime \<Rightarrow> discount_decision res" where
  "discount_decision_execute policy context now = decide_discount context policy now"

section \<open>The price floor\<close>

definition valid_context :: "discount_context \<Rightarrow> bool" where
  "valid_context c \<longleftrightarrow> wf_money (dc_list_price c) \<and> wf_money (dc_minimum_permitted_price c)
     \<and> currency (dc_list_price c) = currency (dc_minimum_permitted_price c)
     \<and> amount_minor (dc_minimum_permitted_price c) \<le> amount_minor (dc_list_price c)
     \<and> (\<forall>t. dc_latest_offer_created_at c = Some t \<longrightarrow> aware t)"

text \<open>A discount within the floor's limit, rounded up, stays above the floor.\<close>

lemma floor_respected:
  fixes L M bp :: int
  assumes "0 \<le> M" "M \<le> L" "0 \<le> bp" "bp \<le> (if L = 0 then 0 else ((L - M) * 10000) div L)" "bp \<le> 10000"
  shows "M \<le> - (- (L * (10000 - bp)) div 10000)" "- (- (L * (10000 - bp)) div 10000) \<le> L"
proof -
  have "L * bp \<le> (L - M) * 10000"
  proof (cases "L = 0")
    case False
    then have "L * bp \<le> L * (((L - M) * 10000) div L)" using assms by (intro mult_left_mono) auto
    also have "\<dots> = (L - M) * 10000 - ((L - M) * 10000) mod L" by (rule minus_mod_eq_mult_div [symmetric])
    also have "\<dots> \<le> (L - M) * 10000" using False assms(1,2) by simp
    finally show ?thesis .
  qed (use assms in simp)
  then have "10000 * M \<le> L * (10000 - bp)" by (simp add: algebra_simps)
  then have "- (L * (10000 - bp)) div 10000 \<le> (10000 * - M) div 10000" by (intro zdiv_mono1) simp_all
  then show "M \<le> - (- (L * (10000 - bp)) div 10000)" by simp
  have "L * (10000 - bp) \<le> L * 10000" using assms by (intro mult_left_mono) simp_all
  then have "(10000 * - L) div 10000 \<le> - (L * (10000 - bp)) div 10000" by (intro zdiv_mono1) simp_all
  then show "- (- (L * (10000 - bp)) div 10000) \<le> L" by simp
qed

lemma price_floor_eq:
  assumes "valid_context c"
  shows "price_floor_maximum_discount (dc_list_price c) (dc_minimum_permitted_price c) =
    Inr (let L = amount_minor (dc_list_price c); M = amount_minor (dc_minimum_permitted_price c)
         in if L = 0 then 0 else ((L - M) * 10000) div L)"
  using assms by (auto simp: price_floor_maximum_discount_def require_same_currency_def valid_context_def Let_def)

text \<open>The conditions under which the policy grants a discount.\<close>

definition grantable :: "discount_context \<Rightarrow> discount_policy \<Rightarrow> datetime \<Rightarrow> bool" where
  "grantable c p now \<longleftrightarrow> dc_eligible c \<and> dc_active_offer_count c < dp_maximum_active_offers p
     \<and> (\<forall>t. dc_latest_offer_created_at c = Some t \<longrightarrow> instant t + dp_offer_cooldown p \<le> instant now)
     \<and> (dc_overlapping_coupon c \<longrightarrow> dp_allow_coupon_stacking p)
     \<and> 0 \<le> dc_requested_discount_basis_points c
     \<and> dc_requested_discount_basis_points c \<le> dp_absolute_maximum_basis_points p
     \<and> dc_requested_discount_basis_points c \<le> (let L = amount_minor (dc_list_price c) in
          if L = 0 then 0 else ((L - amount_minor (dc_minimum_permitted_price c)) * 10000) div L)
     \<and> approval_for (dp_approval_tiers p) (dc_requested_discount_basis_points c) \<noteq> REJECTED"

definition discount_dates_exist :: "discount_context \<Rightarrow> discount_policy \<Rightarrow> datetime \<Rightarrow> bool" where
  "discount_dates_exist c p now \<longleftrightarrow> in_range (wall now + dp_offer_ttl p)
     \<and> (\<forall>t. dc_latest_offer_created_at c = Some t \<longrightarrow> in_range (wall t + dp_offer_cooldown p))"

lemma cooldown_eq:
  assumes "valid_context c" "aware now" "discount_dates_exist c p now"
  shows "(case dc_latest_offer_created_at c of None \<Rightarrow> Inr False
       | Some t \<Rightarrow> res_bind (dt_add t (dp_offer_cooldown p)) (\<lambda>until. dt_less now until))
    = Inr (\<exists>t. dc_latest_offer_created_at c = Some t \<and> instant now < instant t + dp_offer_cooldown p)"
proof (cases "dc_latest_offer_created_at c")
  case (Some t)
  then have "dt_add t (dp_offer_cooldown p) = Inr (Datetime (wall t + dp_offer_cooldown p) (utcoff t))" "aware t"
    using assms by (auto simp: dt_add_def discount_dates_exist_def valid_context_def)
  moreover from this have "aware (Datetime (wall t + dp_offer_cooldown p) (utcoff t))"
    "instant (Datetime (wall t + dp_offer_cooldown p) (utcoff t)) = instant t + dp_offer_cooldown p"
    by (auto simp: aware_def instant_def)
  ultimately show ?thesis using Some assms(2) by (simp del: aware_Datetime instant_Datetime)
qed simp

lemma policy_limit:
  "discount_policy_post_init p = Inr () \<Longrightarrow> dp_absolute_maximum_basis_points p \<le> 10000"
  by (auto simp: discount_policy_post_init_def Let_def split: if_splits)

text \<open>The decision in every case.\<close>

lemma decide_discount_cases:
  assumes "discount_policy_post_init p = Inr ()" "valid_context c" "aware now" "discount_dates_exist c p now"
  shows "\<exists>d. decide_discount c p now = Inr d \<and> (dd_approved d \<longleftrightarrow> grantable c p now)
    \<and> (if dd_approved d
       then (\<exists>m t. dd_selected_price d = Some m \<and> dd_expires_at d = Some t \<and> wf_money m
         \<and> currency m = currency (dc_list_price c)
         \<and> amount_minor m = - (- (amount_minor (dc_list_price c) * (10000 - dc_requested_discount_basis_points c)) div 10000)
         \<and> amount_minor (dc_minimum_permitted_price c) \<le> amount_minor m
         \<and> amount_minor m \<le> amount_minor (dc_list_price c)
         \<and> aware t \<and> instant t = instant now + dp_offer_ttl p) \<and> dd_reusable d = dp_offers_are_reusable p
       else dd_selected_price d = None \<and> dd_expires_at d = None \<and> dd_reason_codes d \<noteq> [])"
proof -
  let ?L = "amount_minor (dc_list_price c)" and ?M = "amount_minor (dc_minimum_permitted_price c)"
  let ?bp = "dc_requested_discount_basis_points c"
  let ?S = "- (- (?L * (10000 - ?bp)) div 10000)"
  note unfold = decide_discount_def price_floor_eq [OF assms(2)] res_bind_simps cooldown_eq [OF assms(2-4)]
  show ?thesis
  proof (cases "grantable c p now")
    case False
    then show ?thesis
      unfolding unfold using assms(3) by (auto simp: grantable_def Let_def not_le)
  next
    case True
    then have bp: "0 \<le> ?bp" "?bp \<le> (if ?L = 0 then 0 else ((?L - ?M) * 10000) div ?L)" "?bp \<le> 10000"
      using policy_limit [OF assms(1)] by (auto simp: grantable_def Let_def)
    have money: "0 \<le> ?M" "?M \<le> ?L" "wf_money (dc_list_price c)" using assms(2) by (auto simp: valid_context_def wf_money_def)
    have sel: "discounted_by_basis_points (dc_list_price c) ?bp = Inr (Money ?S (currency (dc_list_price c)))"
      using discounted_by_basis_points_eq [OF money(3)] bp by simp
    have add: "dt_add now (dp_offer_ttl p) = Inr (Datetime (wall now + dp_offer_ttl p) (utcoff now))"
      using assms(4) by (simp add: dt_add_def discount_dates_exist_def)
    from True have "decide_discount c p now = Inr \<lparr>dd_approved = True, dd_list_price = dc_list_price c,
        dd_minimum_permitted_price = dc_minimum_permitted_price c,
        dd_maximum_permitted_discount_basis_points = min (if ?L = 0 then 0 else ((?L - ?M) * 10000) div ?L) (dp_absolute_maximum_basis_points p),
        dd_recommended_band_basis_points = (min (dp_recommendation_minimum_basis_points p) (min (if ?L = 0 then 0 else ((?L - ?M) * 10000) div ?L) (dp_absolute_maximum_basis_points p)),
          min (dp_recommendation_maximum_basis_points p) (min (if ?L = 0 then 0 else ((?L - ?M) * 10000) div ?L) (dp_absolute_maximum_basis_points p))),
        dd_selected_price = Some (Money ?S (currency (dc_list_price c))), dd_selected_discount_basis_points = Some ?bp,
        dd_expires_at = Some (Datetime (wall now + dp_offer_ttl p) (utcoff now)), dd_reusable = dp_offers_are_reusable p,
        dd_approval_level = approval_for (dp_approval_tiers p) ?bp, dd_reason_codes = [''policy_approved''],
        dd_policy_version = dp_version p\<rparr>"
      unfolding unfold using assms(3) floor_respected(1) [OF money(1,2) bp]
      by (auto simp: grantable_def Let_def sel add not_less not_le)
    then show ?thesis
      using True assms(3) floor_respected [OF money(1,2) bp] discounted_wf [OF sel]
      by (auto simp: aware_def instant_def)
  qed
qed

text \<open>
  (C23) Discount decisions are total and safe.  For a valid context, policy and dates a decision is
  always returned: the check that guards the price floor never fires.  The discount is approved
  exactly under the conditions of the policy, and the selected price is then the list price less
  the requested share rounded up, not below the permitted minimum and not above the list price, in
  the same currency, until the offer's time to live has passed; a refused discount selects nothing
  and names a reason.
\<close>

theorem decide_discount_safe:
  assumes "discount_policy_post_init p = Inr ()" "valid_context c" "aware now" "discount_dates_exist c p now"
  shows "\<exists>d. decide_discount c p now = Inr d \<and> (dd_approved d \<longleftrightarrow> grantable c p now)
    \<and> (if dd_approved d
       then (\<exists>m t. dd_selected_price d = Some m \<and> dd_expires_at d = Some t \<and> wf_money m
         \<and> currency m = currency (dc_list_price c)
         \<and> amount_minor m = - (- (amount_minor (dc_list_price c) * (10000 - dc_requested_discount_basis_points c)) div 10000)
         \<and> amount_minor (dc_minimum_permitted_price c) \<le> amount_minor m
         \<and> amount_minor m \<le> amount_minor (dc_list_price c)
         \<and> aware t \<and> instant t = instant now + dp_offer_ttl p) \<and> dd_reusable d = dp_offers_are_reusable p
       else dd_selected_price d = None \<and> dd_expires_at d = None \<and> dd_reason_codes d \<noteq> [])"
  by (rule decide_discount_cases [OF assms])

definition sample_discount_policy :: discount_policy where
  "sample_discount_policy = \<lparr>dp_version = ''d1'', dp_recommendation_minimum_basis_points = 500,
     dp_recommendation_maximum_basis_points = 1000, dp_absolute_maximum_basis_points = 2000,
     dp_approval_tiers = [\<lparr>at_maximum_discount_basis_points = 1500, at_level = AUTOMATIC\<rparr>],
     dp_offer_ttl = 100, dp_maximum_active_offers = 1, dp_offer_cooldown = 50,
     dp_allow_coupon_stacking = False, dp_offers_are_reusable = False\<rparr>"

definition sample_context :: discount_context where
  "sample_context = \<lparr>dc_demo_id = ''D1'', dc_user_id = ''U1'', dc_plan_ref = ''gold'',
     dc_list_price = Money 99999 ''INR'', dc_minimum_permitted_price = Money 85000 ''INR'',
     dc_requested_discount_basis_points = 1000, dc_active_offer_count = 0,
     dc_latest_offer_created_at = Some (Datetime 0 (Some 0)), dc_overlapping_coupon = False, dc_eligible = True\<rparr>"

lemma sample_discount_valid:
  "discount_policy_post_init sample_discount_policy = Inr ()" "valid_context sample_context"
  "discount_dates_exist sample_context sample_discount_policy (Datetime 60 (Some 0))"
  "grantable sample_context sample_discount_policy (Datetime 60 (Some 0))"
  by (simp_all add: discount_policy_post_init_def sample_discount_policy_def blank_def strip_def lstrip_def
      is_space_def valid_context_def sample_context_def wf_money_def isalpha_def is_alpha_def is_upper_def
      is_lower_def upper_def upper_char_def discount_dates_exist_def in_range_def grantable_def)

theorem decide_discount_safe_witness:
  "\<exists>d m. decide_discount sample_context sample_discount_policy (Datetime 60 (Some 0)) = Inr d
     \<and> dd_selected_price d = Some m \<and> amount_minor m = 90000"
proof -
  obtain d where d: "decide_discount sample_context sample_discount_policy (Datetime 60 (Some 0)) = Inr d"
    "dd_approved d"
    and m: "\<exists>m. dd_selected_price d = Some m \<and> amount_minor m = - (- (amount_minor (dc_list_price sample_context)
       * (10000 - dc_requested_discount_basis_points sample_context)) div 10000)"
    using decide_discount_safe [OF sample_discount_valid(1,2) _ sample_discount_valid(3)] sample_discount_valid(4)
    by auto
  have "- (- (amount_minor (dc_list_price sample_context)
       * (10000 - dc_requested_discount_basis_points sample_context)) div 10000) = 90000"
    by (simp add: sample_context_def)
  then show ?thesis using d m by auto
qed

text \<open>
  An offer bound to an approved decision is redeemable by exactly the demo, user and plan it was
  made for, in the currency of the list price, until it expires; once redeemed it is refused
  unless the policy makes offers reusable.
\<close>

theorem offer_redeemable_iff:
  assumes "discount_policy_post_init p = Inr ()" "valid_context c" "aware t" "discount_dates_exist c p t"
    and "decide_discount c p t = Inr d" "bind_offer c d = Inr off" "aware now"
  shows "\<exists>reason. validate_offer_redemption (off\<lparr>ob_redemption_count := n\<rparr>) demo user plan cur now =
    Inr (demo = dc_demo_id c \<and> user = dc_user_id c \<and> plan = dc_plan_ref c
         \<and> upper cur = currency (dc_list_price c) \<and> instant now < instant t + dp_offer_ttl p
         \<and> (n \<le> 0 \<or> dp_offers_are_reusable p), reason)"
proof -
  obtain m e where m: "dd_approved d" "dd_selected_price d = Some m" "dd_expires_at d = Some e"
    using assms(6) by (auto simp: bind_offer_def split: bool.splits option.splits)
  have "currency m = currency (dc_list_price c)" "aware e" "instant e = instant t + dp_offer_ttl p"
    "dd_reusable d = dp_offers_are_reusable p"
    using decide_discount_cases [OF assms(1-4)] assms(5) m by auto
  moreover have "ob_demo_id off = dc_demo_id c" "ob_user_id off = dc_user_id c" "ob_plan_ref off = dc_plan_ref c"
    "ob_selected_price off = m" "ob_expires_at off = e" "ob_reusable off = dd_reusable d"
    using assms(6) m by (auto simp: bind_offer_def)
  ultimately show ?thesis
    using assms(7) by (auto simp: validate_offer_redemption_def not_less)
qed

theorem offer_redeemable_iff_witness:
  "\<exists>d off reason. decide_discount sample_context sample_discount_policy (Datetime 60 (Some 0)) = Inr d
     \<and> bind_offer sample_context d = Inr off
     \<and> validate_offer_redemption (off\<lparr>ob_redemption_count := 0\<rparr>) ''D1'' ''U1'' ''gold'' ''inr'' (Datetime 90 (Some 0))
         = Inr (True, reason)"
proof -
  have aw: "aware (Datetime 60 (Some 0))" by simp
  obtain d where d: "decide_discount sample_context sample_discount_policy (Datetime 60 (Some 0)) = Inr d"
    "dd_approved d" "\<exists>m t. dd_selected_price d = Some m \<and> dd_expires_at d = Some t"
    using decide_discount_cases [OF sample_discount_valid(1,2) aw sample_discount_valid(3)] sample_discount_valid(4)
    by auto
  then obtain off where off: "bind_offer sample_context d = Inr off" by (auto simp: bind_offer_def)
  have "''D1'' = dc_demo_id sample_context" "''U1'' = dc_user_id sample_context" "''gold'' = dc_plan_ref sample_context"
    "dp_offer_ttl sample_discount_policy = 100" by (simp_all add: sample_context_def sample_discount_policy_def)
  moreover have "upper ''inr'' = currency (dc_list_price sample_context)" by code_simp
  ultimately show ?thesis
    using offer_redeemable_iff [OF sample_discount_valid(1,2) aw sample_discount_valid(3) d(1) off,
        of "Datetime 90 (Some 0)" 0 "''D1''" "''U1''" "''gold''" "''inr''"] d off by auto
qed

end
