(* ===== verification/Payments.thy ===== *)
theory Payments
  imports Money Clock Digest
begin

text \<open>
  \<open>modules/paid_transition\<close>: deciding whether evidence from the payment provider moves an order to
  paid.  Only authoritative evidence that matches the order in every bound attribute counts, and an
  activation is never applied twice.
\<close>

section \<open>The model\<close>

datatype evidence_source =
    SIGNED_WEBHOOK | AUTHENTICATED_RECONCILIATION | BROWSER_RETURN | CLIENT_CALLBACK | USER_MESSAGE

datatype payment_decision_kind =
    TRANSITION_PAID | DUPLICATE | REVIEW | RECONCILE | FAILED | PAYMENT_EXPIRED | PAYMENT_PENDING | REJECTED_EVIDENCE

record payment_order_binding =
  po_domain_order_id :: string
  po_provider_order_id :: string
  po_demo_id :: string
  po_user_id :: string
  po_customer_ref :: string
  po_plan_ref :: string
  po_offer_ref :: "string option"
  po_amount :: money
  po_purpose :: string
  po_environment :: string
  po_expires_at :: datetime

record payment_evidence =
  pe_provider_event_id :: string
  pe_provider_order_id :: string
  pe_source :: evidence_source
  pe_status :: string
  pe_amount :: money
  pe_customer_ref :: string
  pe_purpose :: string
  pe_environment :: string
  pe_occurred_at :: datetime
  pe_signature_verified :: bool
  pe_replay_window_verified :: bool
  pe_provider_authentication_verified :: bool

record payment_verification_policy =
  pp_version :: string
  pp_successful_terminal_statuses :: "string set"
  pp_failed_terminal_statuses :: "string set"
  pp_expired_terminal_statuses :: "string set"
  pp_review_statuses :: "string set"

text \<open>
  The length of the flattened groups is the sum of their sizes; it differs from the size of their
  union when a status is in two groups.
\<close>

definition payment_policy_post_init :: "payment_verification_policy \<Rightarrow> unit res" where
  "payment_policy_post_init p =
     (let groups = [pp_successful_terminal_statuses p, pp_failed_terminal_statuses p,
                    pp_expired_terminal_statuses p, pp_review_statuses p]
      in if blank (pp_version p) \<or> pp_successful_terminal_statuses p = {}
         then Inl (ValueError ''payment policy version and success statuses are required'')
         else if sum_list (map card groups) \<noteq> card (\<Union>(set groups))
         then Inl (ValueError ''payment statuses cannot map to multiple decisions'')
         else Inr ())"

record payment_decision =
  pd_kind :: payment_decision_kind
  pd_reason_codes :: "string list"
  pd_should_transition_paid :: bool
  pd_activation_key :: "string option"
  pd_paid_outbox_key :: "string option"
  pd_policy_version :: string

definition payment_operation_key :: "string \<Rightarrow> payment_order_binding \<Rightarrow> string" where
  "payment_operation_key pre order =
     sha256 (pre @ ''|'' @ po_domain_order_id order @ ''|'' @ po_provider_order_id order @ ''|'' @ po_demo_id order)"

definition authoritative :: "payment_evidence \<Rightarrow> bool" where
  "authoritative e =
     (case pe_source e of
        SIGNED_WEBHOOK \<Rightarrow> pe_signature_verified e \<and> pe_replay_window_verified e
      | AUTHENTICATED_RECONCILIATION \<Rightarrow> pe_provider_authentication_verified e
      | _ \<Rightarrow> False)"

definition mismatches :: "payment_order_binding \<Rightarrow> payment_evidence \<Rightarrow> string list" where
  "mismatches order e =
     (if pe_provider_order_id e \<noteq> po_provider_order_id order then [''order_mismatch''] else [])
     @ (case require_same_currency (pe_amount e) (po_amount order) of
          Inl _ \<Rightarrow> [''currency_mismatch'']
        | Inr _ \<Rightarrow> if amount_minor (pe_amount e) \<noteq> amount_minor (po_amount order) then [''amount_mismatch''] else [])
     @ (if pe_customer_ref e \<noteq> po_customer_ref order then [''customer_mismatch''] else [])
     @ (if pe_purpose e \<noteq> po_purpose order then [''purpose_mismatch''] else [])
     @ (if pe_environment e \<noteq> po_environment order then [''environment_mismatch''] else [])"

definition verify_payment ::
  "payment_order_binding \<Rightarrow> payment_evidence \<Rightarrow> payment_verification_policy \<Rightarrow> string set \<Rightarrow> bool
     \<Rightarrow> datetime \<Rightarrow> payment_decision res" where
  "verify_payment order e policy processed_event_ids paid_activation_already_applied now =
     (let decision = (\<lambda>kind reasons paid key outbox. Inr \<lparr>pd_kind = kind, pd_reason_codes = reasons,
            pd_should_transition_paid = paid, pd_activation_key = key, pd_paid_outbox_key = outbox,
            pd_policy_version = pp_version policy\<rparr>)
      in if \<not> aware now \<or> \<not> aware (po_expires_at order) \<or> \<not> aware (pe_occurred_at e)
         then Inl (ValueError ''payment timestamps must be timezone-aware'')
         else if pe_provider_event_id e \<in> processed_event_ids
         then decision DUPLICATE [''provider_event_duplicate''] False None None
         else if \<not> authoritative e
         then decision REJECTED_EVIDENCE [''non_authoritative_payment_evidence''] False None None
         else if mismatches order e \<noteq> []
         then decision REVIEW (mismatches order e) False None None
         else if pe_status e \<in> pp_successful_terminal_statuses policy
         then (if paid_activation_already_applied
               then decision DUPLICATE [''paid_activation_already_applied''] False
                 (Some (payment_operation_key ''activation'' order)) (Some (payment_operation_key ''paid-outbox'' order))
               else decision TRANSITION_PAID [''verified_terminal_success''] True
                 (Some (payment_operation_key ''activation'' order)) (Some (payment_operation_key ''paid-outbox'' order)))
         else if pe_status e \<in> pp_failed_terminal_statuses policy
         then decision FAILED [''verified_terminal_failure''] False None None
         else res_bind (if pe_status e \<in> pp_expired_terminal_statuses policy then Inr True
                        else dt_le (po_expires_at order) now) (\<lambda>expired.
           if expired then decision PAYMENT_EXPIRED [''payment_expired''] False None None
           else if pe_status e \<in> pp_review_statuses policy
           then decision REVIEW [''provider_status_requires_review''] False None None
           else if pe_source e = SIGNED_WEBHOOK
           then decision RECONCILE [''nonterminal_status_requires_reconciliation''] False None None
           else decision PAYMENT_PENDING [''verified_nonterminal_status''] False None None))"

text \<open>\<open>PaymentVerificationUseCase.execute\<close>.\<close>

definition payment_verification_execute ::
  "payment_verification_policy \<Rightarrow> payment_order_binding \<Rightarrow> payment_evidence \<Rightarrow> string set \<Rightarrow> bool
     \<Rightarrow> datetime \<Rightarrow> payment_decision res" where
  "payment_verification_execute policy order e processed_event_ids paid_activation_already_applied now =
     verify_payment order e policy processed_event_ids paid_activation_already_applied now"

section \<open>What matching evidence is\<close>

definition matches :: "payment_order_binding \<Rightarrow> payment_evidence \<Rightarrow> bool" where
  "matches order e \<longleftrightarrow> pe_provider_order_id e = po_provider_order_id order \<and> pe_amount e = po_amount order
     \<and> pe_customer_ref e = po_customer_ref order \<and> pe_purpose e = po_purpose order
     \<and> pe_environment e = po_environment order"

lemma mismatches_empty: "mismatches order e = [] \<longleftrightarrow> matches order e"
  by (auto simp: mismatches_def matches_def require_same_currency_def intro: money.expand)

lemma payment_groups_disjoint:
  assumes "payment_policy_post_init p = Inr ()" "finite (pp_successful_terminal_statuses p)"
    "finite (pp_failed_terminal_statuses p)" "finite (pp_expired_terminal_statuses p)" "finite (pp_review_statuses p)"
  shows "pp_successful_terminal_statuses p \<inter> (pp_failed_terminal_statuses p \<union> pp_expired_terminal_statuses p \<union> pp_review_statuses p) = {}"
    "pp_failed_terminal_statuses p \<inter> (pp_expired_terminal_statuses p \<union> pp_review_statuses p) = {}"
    "pp_expired_terminal_statuses p \<inter> pp_review_statuses p = {}"
proof -
  let ?a = "pp_successful_terminal_statuses p" and ?b = "pp_failed_terminal_statuses p"
    and ?c = "pp_expired_terminal_statuses p" and ?d = "pp_review_statuses p"
  have eq: "card ?a + (card ?b + (card ?c + card ?d)) = card (?a \<union> (?b \<union> (?c \<union> ?d)))"
    using assms(1) by (simp add: payment_policy_post_init_def Let_def split: if_splits)
  have cd: "card ?c + card ?d = card (?c \<union> ?d) + card (?c \<inter> ?d)"
    using card_Un_Int [OF assms(4,5)] .
  have bcd: "card ?b + card (?c \<union> ?d) = card (?b \<union> (?c \<union> ?d)) + card (?b \<inter> (?c \<union> ?d))"
    using card_Un_Int [of ?b "?c \<union> ?d"] assms by simp
  have abcd: "card ?a + card (?b \<union> (?c \<union> ?d)) = card (?a \<union> (?b \<union> (?c \<union> ?d))) + card (?a \<inter> (?b \<union> (?c \<union> ?d)))"
    using card_Un_Int [of ?a "?b \<union> (?c \<union> ?d)"] assms by simp
  have "card (?c \<inter> ?d) = 0" "card (?b \<inter> (?c \<union> ?d)) = 0" "card (?a \<inter> (?b \<union> (?c \<union> ?d))) = 0"
    using eq cd bcd abcd by linarith+
  then show "?a \<inter> (?b \<union> ?c \<union> ?d) = {}" "?b \<inter> (?c \<union> ?d) = {}" "?c \<inter> ?d = {}"
    using assms by (auto simp: Un_assoc)
qed

section \<open>Properties\<close>

text \<open>
  (C4) An order moves to paid exactly on new, authoritative evidence that equals the order in
  provider order, amount, currency, customer, purpose and environment and carries a successful
  terminal status, while no activation has been applied; a browser return, a client callback or a
  message never pays.  Keys for the activation are issued only for matching authoritative success.
\<close>

theorem verify_payment_paid_iff:
  assumes "aware now" "aware (po_expires_at order)" "aware (pe_occurred_at e)"
  shows "\<exists>d. verify_payment order e policy processed paid now = Inr d
    \<and> (pd_kind d = TRANSITION_PAID \<longleftrightarrow> pd_should_transition_paid d)
    \<and> (pd_should_transition_paid d \<longleftrightarrow> pe_provider_event_id e \<notin> processed \<and> authoritative e \<and> matches order e
         \<and> pe_status e \<in> pp_successful_terminal_statuses policy \<and> \<not> paid)
    \<and> (pd_activation_key d \<noteq> None \<longrightarrow> authoritative e \<and> matches order e
         \<and> pe_status e \<in> pp_successful_terminal_statuses policy)
    \<and> (pe_source e \<in> {BROWSER_RETURN, CLIENT_CALLBACK, USER_MESSAGE} \<longrightarrow> pd_kind d \<in> {DUPLICATE, REJECTED_EVIDENCE})"
  using assms by (auto simp: verify_payment_def Let_def mismatches_empty authoritative_def split: evidence_source.splits)

definition sample_order :: payment_order_binding where
  "sample_order = \<lparr>po_domain_order_id = ''O1'', po_provider_order_id = ''P1'', po_demo_id = ''D1'', po_user_id = ''U1'',
     po_customer_ref = ''C1'', po_plan_ref = ''gold'', po_offer_ref = None, po_amount = Money 5000 ''INR'',
     po_purpose = ''subscription'', po_environment = ''production'', po_expires_at = Datetime 100 (Some 0)\<rparr>"

definition sample_evidence :: "string \<Rightarrow> payment_evidence" where
  "sample_evidence n = \<lparr>pe_provider_event_id = n, pe_provider_order_id = ''P1'', pe_source = SIGNED_WEBHOOK,
     pe_status = ''PAID'', pe_amount = Money 5000 ''INR'', pe_customer_ref = ''C1'', pe_purpose = ''subscription'',
     pe_environment = ''production'', pe_occurred_at = Datetime 40 (Some 0), pe_signature_verified = True,
     pe_replay_window_verified = True, pe_provider_authentication_verified = False\<rparr>"

definition sample_payment_policy :: payment_verification_policy where
  "sample_payment_policy = \<lparr>pp_version = ''p1'', pp_successful_terminal_statuses = {''PAID''},
     pp_failed_terminal_statuses = {''FAILED''}, pp_expired_terminal_statuses = {''EXPIRED''}, pp_review_statuses = {}\<rparr>"

theorem verify_payment_paid_iff_witness:
  "\<exists>d. verify_payment sample_order (sample_evidence ''E1'') sample_payment_policy {} False (Datetime 50 (Some 0)) = Inr d
     \<and> pd_kind d = TRANSITION_PAID"
proof -
  have "authoritative (sample_evidence ''E1'')" "matches sample_order (sample_evidence ''E1'')"
    "pe_status (sample_evidence ''E1'') \<in> pp_successful_terminal_statuses sample_payment_policy"
    "aware (po_expires_at sample_order)" "aware (pe_occurred_at (sample_evidence ''E1''))"
    by (simp_all add: sample_evidence_def sample_order_def sample_payment_policy_def authoritative_def matches_def)
  then show ?thesis
    using verify_payment_paid_iff [of "Datetime 50 (Some 0)" sample_order "sample_evidence ''E1''" sample_payment_policy "{}" False]
    by auto
qed

text \<open>
  Under a valid policy the provider's terminal status decides alone: new matching authoritative
  evidence is \<open>FAILED\<close> exactly for a failed status, and for a review status it is \<open>REVIEW\<close> until the
  order expires and \<open>EXPIRED\<close> from then on.  An expired order can still be paid by a successful
  status.
\<close>

theorem verify_payment_status_classes:
  assumes "payment_policy_post_init policy = Inr ()" "finite (pp_successful_terminal_statuses policy)"
    "finite (pp_failed_terminal_statuses policy)" "finite (pp_expired_terminal_statuses policy)"
    "finite (pp_review_statuses policy)"
    and "aware now" "aware (po_expires_at order)" "aware (pe_occurred_at e)"
    and "pe_provider_event_id e \<notin> processed" "authoritative e" "matches order e"
  shows "\<exists>d. verify_payment order e policy processed paid now = Inr d
    \<and> (pd_kind d = FAILED \<longleftrightarrow> pe_status e \<in> pp_failed_terminal_statuses policy)
    \<and> (pe_status e \<in> pp_expired_terminal_statuses policy \<longrightarrow> pd_kind d = PAYMENT_EXPIRED)
    \<and> (pe_status e \<in> pp_review_statuses policy \<longrightarrow>
         pd_kind d = (if instant (po_expires_at order) \<le> instant now then PAYMENT_EXPIRED else REVIEW))
    \<and> (pe_status e \<in> pp_successful_terminal_statuses policy \<longrightarrow>
         pd_kind d = (if paid then DUPLICATE else TRANSITION_PAID))"
  using payment_groups_disjoint [OF assms(1-5)] assms(6-)
  by (auto simp: verify_payment_def Let_def mismatches_empty disjoint_iff)

theorem verify_payment_status_classes_witness:
  "\<exists>d. verify_payment sample_order (sample_evidence ''E1'') sample_payment_policy {''E0''} True (Datetime 500 (Some 0)) = Inr d
     \<and> pd_kind d = DUPLICATE"
proof -
  have ok: "payment_policy_post_init sample_payment_policy = Inr ()"
    by (simp add: payment_policy_post_init_def sample_payment_policy_def blank_def strip_def lstrip_def is_space_def)
  have fin: "finite (pp_successful_terminal_statuses sample_payment_policy)"
    "finite (pp_failed_terminal_statuses sample_payment_policy)" "finite (pp_expired_terminal_statuses sample_payment_policy)"
    "finite (pp_review_statuses sample_payment_policy)" by (simp_all add: sample_payment_policy_def)
  have "authoritative (sample_evidence ''E1'')" "matches sample_order (sample_evidence ''E1'')"
    "pe_status (sample_evidence ''E1'') \<in> pp_successful_terminal_statuses sample_payment_policy"
    "aware (po_expires_at sample_order)" "aware (pe_occurred_at (sample_evidence ''E1''))"
    "pe_provider_event_id (sample_evidence ''E1'') \<notin> {''E0''}"
    by (simp_all add: sample_evidence_def sample_order_def sample_payment_policy_def authoritative_def matches_def)
  then show ?thesis
    using verify_payment_status_classes [OF ok fin, of "Datetime 500 (Some 0)" sample_order "sample_evidence ''E1''" "{''E0''}" True]
    by auto
qed

end
