(* ===== verification/Messaging.thy ===== *)
theory Messaging
  imports Clock
begin

text \<open>
  \<open>modules/communications/domain/message_policy.py\<close>: whether, over which channel and from when a
  message may be sent.  A \<open>time\<close> is microseconds since midnight; the zone of the recipient is read
  from the time zone database \<open>db\<close>.
\<close>

section \<open>The model\<close>

datatype channel = WHATSAPP | EMAIL

datatype message_class = MARKETING | UTILITY | TRANSACTIONAL

record quiet_hours =
  qh_starts_at :: int
  qh_ends_at :: int

definition quiet_contains :: "quiet_hours \<Rightarrow> int \<Rightarrow> bool" where
  "quiet_contains q local_time =
     (if qh_starts_at q = qh_ends_at q then False
      else if qh_starts_at q < qh_ends_at q then qh_starts_at q \<le> local_time \<and> local_time < qh_ends_at q
      else local_time \<ge> qh_starts_at q \<or> local_time < qh_ends_at q)"

record communication_preference =
  cp_timezone :: string
  cp_preferred_channels :: "channel list"
  cp_opted_out_at :: "datetime option"

definition communication_preference_post_init :: "tzdb \<Rightarrow> communication_preference \<Rightarrow> unit res" where
  "communication_preference_post_init db p =
     (if db (cp_timezone p) = None
      then Inl (ValueError ''communication timezone must be a valid IANA zone'')
      else if cp_preferred_channels p = []
      then Inl (ValueError ''at least one preferred channel is required'')
      else if (case cp_opted_out_at p of None \<Rightarrow> False | Some t \<Rightarrow> \<not> aware t)
      then Inl (ValueError ''opt-out time must be timezone-aware'')
      else Inr ())"

record message_request =
  mq_message_class :: message_class
  mq_available_channels :: "channel set"
  mq_template_ref :: "string option"
  mq_meta_service_window_open :: bool
  mq_expected_cost_minor :: int

record message_policy =
  mp_version :: string
  mp_quiet_hours :: quiet_hours
  mp_allowed_after_opt_out :: "message_class set"
  mp_whatsapp_template_required_outside_window :: bool
  mp_provider_retry_limit :: int
  mp_maximum_cost_minor :: int
  mp_opt_out_keywords :: "string set"

definition message_policy_post_init :: "message_policy \<Rightarrow> unit res" where
  "message_policy_post_init p =
     (if blank (mp_version p) then Inl (ValueError ''message policy version is required'')
      else if mp_provider_retry_limit p < 0 \<or> mp_maximum_cost_minor p < 0
      then Inl (ValueError ''retry and cost limits cannot be negative'')
      else if \<exists>k\<in>mp_opt_out_keywords p. blank k
      then Inl (ValueError ''opt-out keywords cannot be blank'')
      else Inr ())"

record message_decision =
  mg_allowed :: bool
  mg_channel :: "channel option"
  mg_template_ref :: "string option"
  mg_not_before :: datetime
  mg_reason :: string
  mg_policy_version :: string
  mg_provider_retry_limit :: int

text \<open>\<open>replace\<close> builds a new preference, so its constructor checks run again.\<close>

definition record_opt_out ::
  "tzdb \<Rightarrow> communication_preference \<Rightarrow> string \<Rightarrow> message_policy \<Rightarrow> datetime \<Rightarrow> communication_preference res" where
  "record_opt_out db preference inbound_text policy now =
     (let normalized = casefold (strip inbound_text);
          keywords = (\<lambda>k. casefold (strip k)) ` mp_opt_out_keywords policy
      in if normalized \<in> keywords
         then let p' = preference\<lparr>cp_opted_out_at := Some now\<rparr>
              in res_bind (communication_preference_post_init db p') (\<lambda>_. Inr p')
         else Inr preference)"

definition after_quiet_hours ::
  "tzdb \<Rightarrow> datetime \<Rightarrow> communication_preference \<Rightarrow> quiet_hours \<Rightarrow> datetime res" where
  "after_quiet_hours db now preference quiet =
     res_bind (zone_info db (cp_timezone preference)) (\<lambda>z.
       let w = fst (zone_local z (instant now)); t = w mod day
       in if \<not> in_range (instant now) \<or> \<not> in_range w then Inl (OverflowError ''date value out of range'')
          else if \<not> quiet_contains quiet t then Inr now
          else let date = w div day + (if qh_starts_at quiet > qh_ends_at quiet \<and> t \<ge> qh_starts_at quiet then 1 else 0);
                   e = date * day + qh_ends_at quiet;
                   u = e - zone_offset z e 0
          in if \<not> in_range e \<or> \<not> in_range u then Inl (OverflowError ''date value out of range'')
             else Inr (Datetime u (Some 0)))"

definition evaluate_message ::
  "tzdb \<Rightarrow> message_request \<Rightarrow> communication_preference \<Rightarrow> message_policy \<Rightarrow> datetime \<Rightarrow> message_decision res" where
  "evaluate_message db request preference policy now =
     (let refuse = (\<lambda>reason. Inr \<lparr>mg_allowed = False, mg_channel = None, mg_template_ref = None,
            mg_not_before = now, mg_reason = reason, mg_policy_version = mp_version policy,
            mg_provider_retry_limit = mp_provider_retry_limit policy\<rparr>)
      in if \<not> aware now then Inl (ValueError ''message decision time must be timezone-aware'')
         else if cp_opted_out_at preference \<noteq> None \<and> mq_message_class request \<notin> mp_allowed_after_opt_out policy
         then refuse ''recipient_opted_out''
         else if mq_expected_cost_minor request < 0 \<or> mq_expected_cost_minor request > mp_maximum_cost_minor policy
         then refuse ''cost_limit_exceeded''
         else case List.find (\<lambda>c. c \<in> mq_available_channels request) (cp_preferred_channels preference) of
           None \<Rightarrow> refuse ''no_permitted_channel''
         | Some chosen \<Rightarrow>
             if chosen = WHATSAPP \<and> \<not> mq_meta_service_window_open request
                \<and> mp_whatsapp_template_required_outside_window policy
                \<and> (case mq_template_ref request of None \<Rightarrow> True | Some r \<Rightarrow> r = '''')
             then refuse ''approved_template_required''
             else res_bind (after_quiet_hours db now preference (mp_quiet_hours policy)) (\<lambda>not_before.
               Inr \<lparr>mg_allowed = True, mg_channel = Some chosen, mg_template_ref = mq_template_ref request,
                 mg_not_before = not_before, mg_reason = ''permitted'', mg_policy_version = mp_version policy,
                 mg_provider_retry_limit = mp_provider_retry_limit policy\<rparr>))"

section \<open>Opt-out\<close>

text \<open>The inbound messages of a recipient, each at its time.\<close>

definition record_all ::
  "tzdb \<Rightarrow> message_policy \<Rightarrow> communication_preference \<Rightarrow> (string \<times> datetime) list \<Rightarrow> communication_preference res" where
  "record_all db policy pref inbound = res_fold (\<lambda>p (text, t). record_opt_out db p text policy t) pref inbound"

definition is_opt_out :: "message_policy \<Rightarrow> string \<Rightarrow> bool" where
  "is_opt_out policy text \<longleftrightarrow> casefold (strip text) \<in> (\<lambda>k. casefold (strip k)) ` mp_opt_out_keywords policy"

lemma record_opt_out_Inr:
  assumes "record_opt_out db p text policy t = Inr p'"
  shows "p' = (if is_opt_out policy text then p\<lparr>cp_opted_out_at := Some t\<rparr> else p)"
  using assms by (auto simp: record_opt_out_def is_opt_out_def Let_def res_simps split: if_splits)

lemma record_all_Inr:
  assumes "record_all db policy p inbound = Inr p'"
  shows "cp_opted_out_at p' \<noteq> None \<longleftrightarrow> cp_opted_out_at p \<noteq> None \<or> (\<exists>m\<in>set inbound. is_opt_out policy (fst m))"
    "cp_timezone p' = cp_timezone p" "cp_preferred_channels p' = cp_preferred_channels p"
  using assms
proof (induction inbound arbitrary: p)
  case Nil
  { case 1 then show ?case by (simp add: record_all_def) }
  { case 2 then show ?case by (simp add: record_all_def) }
  { case 3 then show ?case by (simp add: record_all_def) }
next
  case (Cons m ms)
  obtain x t where m: "m = (x, t)" by (cases m)
  have split: "\<exists>q. record_opt_out db p x policy t = Inr q \<and> record_all db policy q ms = Inr p'"
    if "record_all db policy p (m # ms) = Inr p'" for p
    using that by (auto simp: record_all_def m res_simps)
  { case 1 from split [OF this] obtain q where
      q: "record_opt_out db p x policy t = Inr q" "record_all db policy q ms = Inr p'" by blast
    show ?case using Cons.IH(1) [OF q(2)] record_opt_out_Inr [OF q(1)] by (auto simp: m) }
  { case 2 from split [OF this] obtain q where
      q: "record_opt_out db p x policy t = Inr q" "record_all db policy q ms = Inr p'" by blast
    show ?case using Cons.IH(2) [OF q(2)] record_opt_out_Inr [OF q(1)] by simp }
  { case 3 from split [OF this] obtain q where
      q: "record_opt_out db p x policy t = Inr q" "record_all db policy q ms = Inr p'" by blast
    show ?case using Cons.IH(3) [OF q(2)] record_opt_out_Inr [OF q(1)] by simp }
qed

section \<open>Quiet hours\<close>

text \<open>A zone whose offset does not change, at the times that matter to a decision.\<close>

definition quiet_ok :: "quiet_hours \<Rightarrow> bool" where
  "quiet_ok q \<longleftrightarrow> 0 \<le> qh_starts_at q \<and> qh_starts_at q < day \<and> 0 \<le> qh_ends_at q \<and> qh_ends_at q < day"

definition local_time :: "int \<Rightarrow> int \<Rightarrow> int" where
  "local_time off u = (u + off) mod day"

text \<open>The first instant from now on whose local time is outside the quiet hours.\<close>

lemma quiet_end:
  fixes w :: int
  assumes "quiet_ok q" "quiet_contains q (w mod day)"
  defines "e \<equiv> (w div day + (if qh_starts_at q > qh_ends_at q \<and> w mod day \<ge> qh_starts_at q then 1 else 0)) * day + qh_ends_at q"
  shows "w < e" "\<not> quiet_contains q (e mod day)" "\<forall>x. w \<le> x \<and> x < e \<longrightarrow> quiet_contains q (x mod day)"
proof -
  obtain d t where w: "w = d * day + t" "0 \<le> t" "t < day" "w div day = d" "w mod day = t"
    by (metis div_mult_mod_eq pos_mod_bound pos_mod_sign zero_less_numeral)
  have e: "e = (d + (if qh_starts_at q > qh_ends_at q \<and> t \<ge> qh_starts_at q then 1 else 0)) * day + qh_ends_at q"
    unfolding e_def w(4,5) ..
  have em: "e mod day = qh_ends_at q" using assms(1) by (simp only: e mod_mult_self3) (simp add: quiet_ok_def)
  have c: "quiet_contains q t" using assms(2) unfolding w(5) .
  show "\<not> quiet_contains q (e mod day)" unfolding em by (simp add: quiet_contains_def)
  show "w < e" using c w(1-3) assms(1) unfolding e by (auto simp: quiet_contains_def quiet_ok_def split: if_splits)
  show "\<forall>x. w \<le> x \<and> x < e \<longrightarrow> quiet_contains q (x mod day)"
  proof (intro allI impI)
    fix x assume x: "w \<le> x \<and> x < e"
    obtain d' t' where x': "x = d' * day + t'" "0 \<le> t'" "t' < day" "x mod day = t'"
      by (metis div_mult_mod_eq pos_mod_bound pos_mod_sign zero_less_numeral)
    have "d \<le> d'" "d' \<le> d + 1" using x w(1-3) x'(1-3) assms(1) unfolding e by (auto simp: quiet_ok_def split: if_splits)
    then consider "d' = d" | "d' = d + 1" by linarith
    then show "quiet_contains q (x mod day)"
    proof cases
      case 1
      then have "t' \<ge> t" "t' < qh_ends_at q \<or> qh_starts_at q > qh_ends_at q \<and> t \<ge> qh_starts_at q"
        using x w(1) x'(1) unfolding e by (auto split: if_splits)
      then show ?thesis using c unfolding x'(4) by (auto simp: quiet_contains_def split: if_splits)
    next
      case 2
      then have "t' < qh_ends_at q" "qh_starts_at q > qh_ends_at q"
        using x x'(1,2) assms(1) unfolding e by (auto simp: quiet_ok_def split: if_splits)
      then show ?thesis unfolding x'(4) by (simp add: quiet_contains_def)
    qed
  qed
qed

section \<open>Properties\<close>

text \<open>
  (C30) A message is allowed exactly when the recipient has not opted out of its class, its cost is
  within the limit, a preferred channel is available, and a message outside the service window of
  WhatsApp has a template where the policy asks for one; it then uses the first preferred channel
  that is available.  An inbound opt-out keyword, in any case and with surrounding blanks, blocks
  every message of a class the policy does not exempt, whatever the recipient writes afterwards.
\<close>

theorem messages_respect_preferences:
  assumes "record_all db policy pref inbound = Inr pref'" "evaluate_message db request pref' policy now = Inr d"
  shows "(mg_allowed d \<longleftrightarrow>
      (cp_opted_out_at pref' = None \<or> mq_message_class request \<in> mp_allowed_after_opt_out policy)
      \<and> 0 \<le> mq_expected_cost_minor request \<and> mq_expected_cost_minor request \<le> mp_maximum_cost_minor policy
      \<and> (\<exists>c. List.find (\<lambda>c. c \<in> mq_available_channels request) (cp_preferred_channels pref) = Some c
           \<and> (c = WHATSAPP \<and> \<not> mq_meta_service_window_open request \<and> mp_whatsapp_template_required_outside_window policy
               \<longrightarrow> (\<exists>r. mq_template_ref request = Some r \<and> r \<noteq> ''''))))
    \<and> (mg_allowed d \<longrightarrow> mg_channel d = List.find (\<lambda>c. c \<in> mq_available_channels request) (cp_preferred_channels pref))
    \<and> ((\<exists>m\<in>set inbound. is_opt_out policy (fst m)) \<and> mq_message_class request \<notin> mp_allowed_after_opt_out policy
         \<longrightarrow> \<not> mg_allowed d \<and> mg_reason d = ''recipient_opted_out'')"
proof -
  note rec = record_all_Inr [OF assms(1)]
  have "aware now" using assms(2) by (auto simp: evaluate_message_def Let_def split: if_splits)
  show ?thesis
  proof (cases "cp_opted_out_at pref' \<noteq> None \<and> mq_message_class request \<notin> mp_allowed_after_opt_out policy")
    case True
    then show ?thesis using assms(2) \<open>aware now\<close> by (auto simp: evaluate_message_def)
  next
    case False
    then have no: "\<not> ((\<exists>m\<in>set inbound. is_opt_out policy (fst m)) \<and> mq_message_class request \<notin> mp_allowed_after_opt_out policy)"
      using rec(1) by auto
    have e: "evaluate_message db request pref' policy now = Inr d" by (rule assms(2))
    show ?thesis
      using e False \<open>aware now\<close> unfolding evaluate_message_def rec(3) Let_def simp_thms(31) if_False
      by (cases "List.find (\<lambda>c. c \<in> mq_available_channels request) (cp_preferred_channels pref)"; cases "mq_template_ref request")
        (use no in \<open>auto simp: res_simps split: if_splits\<close>)
  qed
qed

lemma after_quiet_hours_fixed:
  assumes db: "db (cp_timezone pref) = Some (fixed_zone off)" and q: "quiet_ok q"
    and "after_quiet_hours db now pref q = Inr nb"
  shows "instant now \<le> instant nb \<and> \<not> quiet_contains q (local_time off (instant nb))
    \<and> (\<forall>u. instant now \<le> u \<and> u < instant nb \<longrightarrow> quiet_contains q (local_time off u))"
proof (cases "quiet_contains q (local_time off (instant now))")
  case False
  then have "nb = now"
    using assms by (auto simp: after_quiet_hours_def zone_info_def fixed_zone_def Let_def local_time_def split: if_splits)
  then show ?thesis using False by auto
next
  case True
  let ?w = "instant now + off"
  define e where "e = (?w div day + (if qh_starts_at q > qh_ends_at q \<and> ?w mod day \<ge> qh_starts_at q then 1 else 0)) * day + qh_ends_at q"
  have "after_quiet_hours db now pref q = (if \<not> in_range (instant now) \<or> \<not> in_range ?w
      then Inl (OverflowError ''date value out of range'')
      else if \<not> in_range e \<or> \<not> in_range (e - off) then Inl (OverflowError ''date value out of range'')
      else Inr (Datetime (e - off) (Some 0)))"
    using db True by (simp add: after_quiet_hours_def zone_info_def fixed_zone_def Let_def local_time_def e_def)
  then have nb: "instant nb = e - off" using assms(3) by (auto split: if_splits)
  note qe = quiet_end [OF q, of ?w, folded e_def, OF True [unfolded local_time_def]]
  have "quiet_contains q (local_time off u)" if "instant now \<le> u" "u < instant nb" for u
    using qe(3) [rule_format, of "u + off"] that nb by (simp add: local_time_def)
  then show ?thesis using qe(1,2) nb by (simp add: local_time_def)
qed

text \<open>
  In a zone with a constant offset an allowed message waits exactly until the end of the quiet
  hours: the time it may go out is not before now, its local time is outside the quiet hours, and
  every instant from now until then is inside them.
\<close>

theorem quiet_hours_respected:
  assumes "db (cp_timezone pref) = Some (fixed_zone off)" "quiet_ok (mp_quiet_hours policy)"
    and "evaluate_message db request pref policy now = Inr d" "mg_allowed d"
  shows "instant now \<le> instant (mg_not_before d)
    \<and> \<not> quiet_contains (mp_quiet_hours policy) (local_time off (instant (mg_not_before d)))
    \<and> (\<forall>u. instant now \<le> u \<and> u < instant (mg_not_before d)
         \<longrightarrow> quiet_contains (mp_quiet_hours policy) (local_time off u))"
proof -
  have "after_quiet_hours db now pref (mp_quiet_hours policy) = Inr (mg_not_before d)"
    using assms(3,4) by (auto simp: evaluate_message_def Let_def res_simps split: if_splits option.splits)
  from after_quiet_hours_fixed [OF assms(1,2) this] show ?thesis .
qed

definition sample_message_policy :: message_policy where
  "sample_message_policy = \<lparr>mp_version = ''v1'', mp_quiet_hours = \<lparr>qh_starts_at = 75600000000, qh_ends_at = 28800000000\<rparr>,
     mp_allowed_after_opt_out = {TRANSACTIONAL}, mp_whatsapp_template_required_outside_window = True,
     mp_provider_retry_limit = 3, mp_maximum_cost_minor = 100, mp_opt_out_keywords = {''stop''}\<rparr>"

definition sample_preference :: communication_preference where
  "sample_preference = \<lparr>cp_timezone = ''Asia/Kolkata'', cp_preferred_channels = [EMAIL, WHATSAPP], cp_opted_out_at = None\<rparr>"

definition sample_message :: message_request where
  "sample_message = \<lparr>mq_message_class = UTILITY, mq_available_channels = {WHATSAPP}, mq_template_ref = Some ''t1'',
     mq_meta_service_window_open = False, mq_expected_cost_minor = 10\<rparr>"

abbreviation (input) kolkata_db :: tzdb where
  "kolkata_db \<equiv> (\<lambda>n. if n = ''Asia/Kolkata'' then Some (fixed_zone 19800000000) else None)"

text \<open>At 22:00 local time the message waits until 08:00 of the next day.\<close>

theorem quiet_hours_respected_witness:
  "\<exists>d. evaluate_message kolkata_db sample_message sample_preference sample_message_policy (Datetime 59400000000 (Some 0)) = Inr d
     \<and> mg_allowed d \<and> instant (mg_not_before d) = 95400000000
     \<and> \<not> quiet_contains (mp_quiet_hours sample_message_policy) (local_time 19800000000 (instant (mg_not_before d)))"
proof -
  obtain d where d: "evaluate_message kolkata_db sample_message sample_preference sample_message_policy
      (Datetime 59400000000 (Some 0)) = Inr d" "mg_allowed d" "instant (mg_not_before d) = 95400000000"
    by (simp add: evaluate_message_def sample_message_def sample_preference_def sample_message_policy_def
        after_quiet_hours_def zone_info_def fixed_zone_def in_range_def quiet_contains_def Let_def)
  have "quiet_ok (mp_quiet_hours sample_message_policy)" "kolkata_db (cp_timezone sample_preference) = Some (fixed_zone 19800000000)"
    by (simp_all add: quiet_ok_def sample_message_policy_def sample_preference_def)
  then show ?thesis using d quiet_hours_respected [OF _ _ d(1,2)] by blast
qed

theorem messages_respect_preferences_witness:
  "\<exists>p d. record_all kolkata_db sample_message_policy sample_preference
       [('' STOP '', Datetime 5 (Some 0)), (''hello'', Datetime 6 (Some 0))] = Inr p
     \<and> evaluate_message kolkata_db sample_message p sample_message_policy (Datetime 9 (Some 0)) = Inr d \<and> \<not> mg_allowed d"
proof -
  let ?in = "[('' STOP '', Datetime 5 (Some 0)), (''hello'', Datetime 6 (Some 0))]"
  have kw: "casefold (strip '' STOP '') = ''stop''" "casefold (strip ''stop'') = ''stop''" "casefold (strip ''hello'') = ''hello''"
    by code_simp+
  obtain p where p: "record_all kolkata_db sample_message_policy sample_preference ?in = Inr p" "cp_opted_out_at p \<noteq> None"
    by (simp add: record_all_def record_opt_out_def Let_def kw sample_message_policy_def sample_preference_def
        communication_preference_post_init_def)
  then obtain d where d: "evaluate_message kolkata_db sample_message p sample_message_policy (Datetime 9 (Some 0)) = Inr d"
    by (auto simp: evaluate_message_def sample_message_def sample_message_policy_def Let_def)
  have "is_opt_out sample_message_policy '' STOP ''" by (simp add: is_opt_out_def sample_message_policy_def kw)
  then have "\<exists>m\<in>set ?in. is_opt_out sample_message_policy (fst m)" by simp
  moreover have "mq_message_class sample_message \<notin> mp_allowed_after_opt_out sample_message_policy"
    by (simp add: sample_message_def sample_message_policy_def)
  ultimately have "\<not> mg_allowed d" using messages_respect_preferences [OF p(1) d] by blast
  then show ?thesis using p(1) d by blast
qed

end
