(* ===== verification/Reminders.thy ===== *)
theory Reminders
  imports Messaging Digest
begin

text \<open>
  \<open>modules/reminders\<close>: which reminders a session gets and when, whether a planned reminder still
  applies, and what the attendance signals say about a no-show.
\<close>

section \<open>The model\<close>

datatype reminder_audience = LEARNER_AUDIENCE | TUTOR_AUDIENCE

fun reminder_audience_value :: "reminder_audience \<Rightarrow> string" where
  "reminder_audience_value LEARNER_AUDIENCE = ''learner_or_guardian''"
| "reminder_audience_value TUTOR_AUDIENCE = ''tutor''"

datatype attendance_outcome =
    PRESENT_OR_UNKNOWN | LEARNER_NO_SHOW | TUTOR_NO_SHOW | TECHNICAL_FAILURE | DISPUTED

datatype attendance_signal =
    LEARNER_CONFIRMED_ABSENT | TUTOR_CONFIRMED_LEARNER_ABSENT | TUTOR_CONFIRMED_ABSENT
  | LEARNER_CONFIRMED_TUTOR_ABSENT | CONSENTED_ATTENDANCE_LEARNER_MISSING
  | CONSENTED_ATTENDANCE_TUTOR_MISSING | TECHNICAL_INCIDENT | OUTCOME_DISPUTED

record reminder_rule =
  rr_rule_id :: string
  rr_relative_to_start :: timedelta
  rr_audiences :: "reminder_audience set"
  rr_message_class :: message_class
  rr_channels :: "channel set"
  rr_template_ref :: string
  rr_active_case_states :: "string set"

record reminder_policy =
  rm_version :: string
  rm_rules :: "reminder_rule list"
  rm_provider_retry_limit :: int
  rm_risk_threshold :: int
  rm_risk_rule_ids :: "string set"

definition reminder_policy_post_init :: "reminder_policy \<Rightarrow> unit res" where
  "reminder_policy_post_init p =
     (let rule_ids = map rr_rule_id (rm_rules p)
      in if blank (rm_version p) then Inl (ValueError ''reminder policy version is required'')
         else if rm_provider_retry_limit p < 0 \<or> rm_risk_threshold p < 0
         then Inl (ValueError ''retry and risk thresholds cannot be negative'')
         else if length rule_ids \<noteq> card (set rule_ids)
         then Inl (ValueError ''reminder rule IDs must be unique'')
         else if \<not> rm_risk_rule_ids p \<subseteq> set rule_ids
         then Inl (ValueError ''risk rule IDs must reference configured rules'')
         else Inr ())"

record reminder_plan =
  pl_reminder_key :: string
  pl_rule_id :: string
  pl_audience :: reminder_audience
  pl_run_at :: datetime
  pl_channels :: "channel set"
  pl_template_ref :: string
  pl_message_class :: message_class
  pl_policy_version :: string
  pl_session_version :: int

record no_show_policy =
  ns_version :: string
  ns_minimum_independent_signals :: int
  ns_decision_delay :: timedelta

definition no_show_policy_post_init :: "no_show_policy \<Rightarrow> unit res" where
  "no_show_policy_post_init p =
     (if ns_minimum_independent_signals p \<le> 0 \<or> ns_decision_delay p < 0
      then Inl (ValueError ''no-show evidence and delay policy are invalid'') else Inr ())"

record no_show_decision =
  nd_outcome :: attendance_outcome
  nd_requires_human_review :: bool
  nd_evidence :: "attendance_signal set"
  nd_policy_version :: string

text \<open>The rules that the loop does not skip.\<close>

definition rule_applies :: "reminder_policy \<Rightarrow> string \<Rightarrow> reminder_audience \<Rightarrow> int \<Rightarrow> reminder_rule \<Rightarrow> bool" where
  "rule_applies policy case_state audience risk_score rule \<longleftrightarrow>
     \<not> (audience \<notin> rr_audiences rule \<or> case_state \<notin> rr_active_case_states rule
        \<or> rr_rule_id rule \<in> rm_risk_rule_ids policy \<and> risk_score < rm_risk_threshold policy)"

definition plan_step ::
  "string \<Rightarrow> datetime \<Rightarrow> int \<Rightarrow> string \<Rightarrow> reminder_audience \<Rightarrow> int \<Rightarrow> reminder_policy \<Rightarrow> datetime
     \<Rightarrow> reminder_plan list \<Rightarrow> reminder_rule \<Rightarrow> reminder_plan list res" where
  "plan_step demo_id session_starts_at session_version case_state audience risk_score policy now plans rule =
     (if \<not> rule_applies policy case_state audience risk_score rule then Inr plans
      else res_bind (dt_add session_starts_at (rr_relative_to_start rule)) (\<lambda>run_at.
        res_bind (dt_less run_at now) (\<lambda>past.
          if past then Inr plans
          else Inr (plans @ [\<lparr>pl_reminder_key = sha256 (demo_id @ ''|'' @ show_int session_version @ ''|''
                 @ rm_version policy @ ''|'' @ rr_rule_id rule @ ''|'' @ reminder_audience_value audience),
               pl_rule_id = rr_rule_id rule, pl_audience = audience, pl_run_at = run_at,
               pl_channels = rr_channels rule, pl_template_ref = rr_template_ref rule,
               pl_message_class = rr_message_class rule, pl_policy_version = rm_version policy,
               pl_session_version = session_version\<rparr>]))))"

definition plan_key :: "reminder_plan \<Rightarrow> int \<times> string" where
  "plan_key item = (instant (pl_run_at item), pl_rule_id item)"

definition plan_reminders ::
  "string \<Rightarrow> datetime \<Rightarrow> int \<Rightarrow> string \<Rightarrow> reminder_audience \<Rightarrow> int \<Rightarrow> reminder_policy \<Rightarrow> datetime
     \<Rightarrow> reminder_plan list res" where
  "plan_reminders demo_id session_starts_at session_version case_state audience risk_score policy now =
     (if \<not> aware session_starts_at \<or> \<not> aware now then Inl (ValueError ''reminder times must be timezone-aware'')
      else res_bind (res_fold (plan_step demo_id session_starts_at session_version case_state audience risk_score policy now)
             [] (rm_rules policy)) (\<lambda>plans. Inr (sort_key plan_key plans)))"

definition reminder_is_current :: "reminder_plan \<Rightarrow> int \<Rightarrow> string \<Rightarrow> reminder_rule \<Rightarrow> bool" where
  "reminder_is_current plan current_session_version current_case_state rule \<longleftrightarrow>
     pl_session_version plan = current_session_version \<and> pl_rule_id plan = rr_rule_id rule
     \<and> current_case_state \<in> rr_active_case_states rule"

definition determine_no_show ::
  "attendance_signal set \<Rightarrow> datetime \<Rightarrow> no_show_policy \<Rightarrow> datetime \<Rightarrow> no_show_decision res" where
  "determine_no_show signals session_starts_at policy now =
     (let decide = (\<lambda>outcome review. Inr \<lparr>nd_outcome = outcome, nd_requires_human_review = review,
            nd_evidence = signals, nd_policy_version = ns_version policy\<rparr>)
      in if OUTCOME_DISPUTED \<in> signals then decide DISPUTED True
         else if TECHNICAL_INCIDENT \<in> signals then decide TECHNICAL_FAILURE True
         else res_bind (dt_add session_starts_at (ns_decision_delay policy)) (\<lambda>decidable.
           res_bind (dt_less now decidable) (\<lambda>early.
           if early then decide PRESENT_OR_UNKNOWN False
           else let learner = signals \<inter> {LEARNER_CONFIRMED_ABSENT, TUTOR_CONFIRMED_LEARNER_ABSENT,
                                         CONSENTED_ATTENDANCE_LEARNER_MISSING};
                    tutor = signals \<inter> {TUTOR_CONFIRMED_ABSENT, LEARNER_CONFIRMED_TUTOR_ABSENT,
                                       CONSENTED_ATTENDANCE_TUTOR_MISSING};
                    learner_sufficient = int (card learner) \<ge> ns_minimum_independent_signals policy;
                    tutor_sufficient = int (card tutor) \<ge> ns_minimum_independent_signals policy
                in if learner_sufficient \<and> tutor_sufficient then decide DISPUTED True
                   else if learner_sufficient then decide LEARNER_NO_SHOW False
                   else if tutor_sufficient then decide TUTOR_NO_SHOW False
                   else decide PRESENT_OR_UNKNOWN False)))"

text \<open>\<open>ReminderPlanningUseCase.execute\<close>.\<close>

definition reminder_planning_execute ::
  "reminder_policy \<Rightarrow> string \<Rightarrow> datetime \<Rightarrow> int \<Rightarrow> string \<Rightarrow> reminder_audience \<Rightarrow> int \<Rightarrow> datetime
     \<Rightarrow> reminder_plan list res" where
  "reminder_planning_execute policy demo_id session_starts_at session_version case_state audience risk_score now =
     plan_reminders demo_id session_starts_at session_version case_state audience risk_score policy now"

section \<open>Properties\<close>

definition rule_due :: "datetime \<Rightarrow> datetime \<Rightarrow> reminder_rule \<Rightarrow> bool" where
  "rule_due start now rule \<longleftrightarrow> instant now \<le> instant start + rr_relative_to_start rule"

lemma plan_loop:
  assumes "aware start" "aware now"
    and "list_all (\<lambda>r. rule_applies p st aud risk r \<longrightarrow> in_range (wall start + rr_relative_to_start r)) rules"
  shows "\<exists>new. res_fold (plan_step demo start ver st aud risk p now) acc rules = Inr (acc @ new)
    \<and> map pl_rule_id new = map rr_rule_id (filter (\<lambda>r. rule_applies p st aud risk r \<and> rule_due start now r) rules)
    \<and> map (\<lambda>pl. instant (pl_run_at pl)) new
       = map (\<lambda>r. instant start + rr_relative_to_start r) (filter (\<lambda>r. rule_applies p st aud risk r \<and> rule_due start now r) rules)
    \<and> (\<forall>pl\<in>set new. pl_audience pl = aud \<and> pl_session_version pl = ver \<and> pl_policy_version pl = rm_version p)"
  using assms(3)
proof (induction rules arbitrary: acc)
  case Nil
  then show ?case by simp
next
  case (Cons r rules)
  then have rest: "list_all (\<lambda>r. rule_applies p st aud risk r \<longrightarrow> in_range (wall start + rr_relative_to_start r)) rules" by simp
  show ?case
  proof (cases "rule_applies p st aud risk r \<and> rule_due start now r")
    case False
    have "plan_step demo start ver st aud risk p now acc r = Inr acc"
    proof (cases "rule_applies p st aud risk r")
      case True
      then have "in_range (wall start + rr_relative_to_start r)" "\<not> rule_due start now r" using Cons.prems False by simp_all
      then show ?thesis
        using True assms(1,2) by (auto simp: plan_step_def dt_add_def dt_less_def rule_due_def aware_def instant_def)
    qed (simp add: plan_step_def)
    then show ?thesis using False Cons.IH [OF rest, of acc] by auto
  next
    case True
    then have "in_range (wall start + rr_relative_to_start r)" using Cons.prems by simp
    then obtain pl where pl: "plan_step demo start ver st aud risk p now acc r = Inr (acc @ [pl])"
      "pl_rule_id pl = rr_rule_id r" "instant (pl_run_at pl) = instant start + rr_relative_to_start r"
      "pl_audience pl = aud" "pl_session_version pl = ver" "pl_policy_version pl = rm_version p"
      using True assms(1,2) by (auto simp: plan_step_def dt_add_def dt_less_def rule_due_def aware_def instant_def)
    from Cons.IH [OF rest, of "acc @ [pl]"] obtain new where
      "res_fold (plan_step demo start ver st aud risk p now) (acc @ [pl]) rules = Inr (acc @ pl # new)"
      "map pl_rule_id new = map rr_rule_id (filter (\<lambda>r. rule_applies p st aud risk r \<and> rule_due start now r) rules)"
      "map (\<lambda>pl. instant (pl_run_at pl)) new
       = map (\<lambda>r. instant start + rr_relative_to_start r) (filter (\<lambda>r. rule_applies p st aud risk r \<and> rule_due start now r) rules)"
      "\<forall>pl\<in>set new. pl_audience pl = aud \<and> pl_session_version pl = ver \<and> pl_policy_version pl = rm_version p"
      by auto
    then show ?thesis using True pl by (intro exI [of _ "pl # new"]) simp
  qed
qed

text \<open>
  Planning schedules exactly the rules that apply to the audience, the state of the case and
  the risk, and whose time has not passed, each once, in order of their time with the rule id
  deciding ties; every plan carries the session version it was made for, so it stops being current
  when the session changes.
\<close>

theorem plan_reminders_exact:
  assumes "reminder_policy_post_init p = Inr ()" "aware start" "aware now"
    and "\<forall>r\<in>set (rm_rules p). in_range (wall start + rr_relative_to_start r)"
  shows "\<exists>plans. plan_reminders demo start ver st aud risk p now = Inr plans
    \<and> sorted (map plan_key plans) \<and> distinct (map pl_rule_id plans)
    \<and> set (map plan_key plans) = {(instant start + rr_relative_to_start r, rr_rule_id r) | r.
          r \<in> set (rm_rules p) \<and> rule_applies p st aud risk r \<and> rule_due start now r}
    \<and> (\<forall>pl\<in>set plans. instant now \<le> instant (pl_run_at pl) \<and> pl_audience pl = aud
          \<and> (\<forall>ver' st' r. reminder_is_current pl ver' st' r \<longrightarrow> ver' = ver))"
proof -
  let ?rs = "filter (\<lambda>r. rule_applies p st aud risk r \<and> rule_due start now r) (rm_rules p)"
  obtain new where new: "res_fold (plan_step demo start ver st aud risk p now) [] (rm_rules p) = Inr new"
    "map pl_rule_id new = map rr_rule_id ?rs"
    "map (\<lambda>pl. instant (pl_run_at pl)) new = map (\<lambda>r. instant start + rr_relative_to_start r) ?rs"
    "\<forall>pl\<in>set new. pl_audience pl = aud \<and> pl_session_version pl = ver \<and> pl_policy_version pl = rm_version p"
    using plan_loop [OF assms(2,3), of p st aud risk "rm_rules p" demo ver "[]"] assms(4) by (auto simp: list_all_iff)
  have keys: "map plan_key new = map (\<lambda>r. (instant start + rr_relative_to_start r, rr_rule_id r)) ?rs"
    using new(2,3) by (auto simp: plan_key_def [abs_def] list_eq_iff_nth_eq)
  have "length (map rr_rule_id (rm_rules p)) = card (set (map rr_rule_id (rm_rules p)))"
    using assms(1) by (simp add: reminder_policy_post_init_def Let_def split: if_splits)
  then have "distinct (map rr_rule_id (rm_rules p))" by (intro card_distinct) simp
  then have dist: "distinct (map pl_rule_id new)" unfolding new(2) by (rule distinct_map_filter)
  have "distinct (map pl_rule_id (sort_key plan_key new))"
    using dist mset_eq_imp_distinct_iff [of "map pl_rule_id (sort_key plan_key new)" "map pl_rule_id new"] by simp
  moreover have "set (map plan_key (sort_key plan_key new)) = set (map plan_key new)" by simp
  moreover have "instant now \<le> instant (pl_run_at pl)" if "pl \<in> set new" for pl
  proof -
    have "instant (pl_run_at pl) \<in> set (map (\<lambda>r. instant start + rr_relative_to_start r) ?rs)"
      unfolding new(3) [symmetric] using that by simp
    then show ?thesis by (auto simp: rule_due_def)
  qed
  ultimately show ?thesis
    using new(1,4) assms(2,3) unfolding keys
    by (intro exI [of _ "sort_key plan_key new"]) (auto simp: plan_reminders_def reminder_is_current_def)
qed

definition sample_rule :: "string \<Rightarrow> int \<Rightarrow> reminder_rule" where
  "sample_rule n t = \<lparr>rr_rule_id = n, rr_relative_to_start = t, rr_audiences = {TUTOR_AUDIENCE},
     rr_message_class = UTILITY, rr_channels = {WHATSAPP}, rr_template_ref = ''t'', rr_active_case_states = {''SCHEDULED''}\<rparr>"

definition sample_reminders :: reminder_policy where
  "sample_reminders = \<lparr>rm_version = ''v1'', rm_rules = [sample_rule ''late'' (- 10), sample_rule ''early'' (- 60)],
     rm_provider_retry_limit = 2, rm_risk_threshold = 5, rm_risk_rule_ids = {}\<rparr>"

theorem plan_reminders_exact_witness:
  "\<exists>plans. plan_reminders ''D1'' (Datetime 100 (Some 0)) 1 ''SCHEDULED'' TUTOR_AUDIENCE 0 sample_reminders (Datetime 20 (Some 0)) = Inr plans
     \<and> sorted (map plan_key plans) \<and> (40, ''early'') \<in> set (map plan_key plans)"
proof -
  have ok: "reminder_policy_post_init sample_reminders = Inr ()"
    "\<forall>r\<in>set (rm_rules sample_reminders). in_range (wall (Datetime 100 (Some 0)) + rr_relative_to_start r)"
    by (simp_all add: reminder_policy_post_init_def sample_reminders_def sample_rule_def blank_def strip_def
        lstrip_def is_space_def in_range_def)
  let ?r = "sample_rule ''early'' (- 60)"
  have "?r \<in> set (rm_rules sample_reminders)" "rule_applies sample_reminders ''SCHEDULED'' TUTOR_AUDIENCE 0 ?r"
    "rule_due (Datetime 100 (Some 0)) (Datetime 20 (Some 0)) ?r"
    "(40, ''early'') = (instant (Datetime 100 (Some 0)) + rr_relative_to_start ?r, rr_rule_id ?r)"
    by (simp_all add: sample_reminders_def sample_rule_def rule_applies_def rule_due_def)
  then have "(40, ''early'') \<in> {(instant (Datetime 100 (Some 0)) + rr_relative_to_start r, rr_rule_id r) | r.
      r \<in> set (rm_rules sample_reminders) \<and> rule_applies sample_reminders ''SCHEDULED'' TUTOR_AUDIENCE 0 r
      \<and> rule_due (Datetime 100 (Some 0)) (Datetime 20 (Some 0)) r}" by blast
  then show ?thesis
    using plan_reminders_exact [OF ok(1) _ _ ok(2), of "Datetime 20 (Some 0)" "''D1''" 1 "''SCHEDULED''" TUTOR_AUDIENCE 0]
    by auto
qed

text \<open>
  A no-show is never decided on too little or contested evidence.  Where the outcome is decided,
  a learner (tutor) no-show needs the configured number of signals about the learner (tutor), the
  decision delay to have passed, no dispute, no technical incident and too few signals against the
  other side; a human reviews exactly the disputed and technical outcomes.
\<close>

theorem no_show_needs_evidence:
  assumes "determine_no_show signals start policy now = Inr d"
  shows "(nd_requires_human_review d \<longleftrightarrow> nd_outcome d \<in> {DISPUTED, TECHNICAL_FAILURE})
    \<and> (nd_outcome d = LEARNER_NO_SHOW \<longleftrightarrow>
         OUTCOME_DISPUTED \<notin> signals \<and> TECHNICAL_INCIDENT \<notin> signals
         \<and> instant start + ns_decision_delay policy \<le> instant now
         \<and> ns_minimum_independent_signals policy \<le> int (card (signals \<inter> {LEARNER_CONFIRMED_ABSENT,
              TUTOR_CONFIRMED_LEARNER_ABSENT, CONSENTED_ATTENDANCE_LEARNER_MISSING}))
         \<and> int (card (signals \<inter> {TUTOR_CONFIRMED_ABSENT, LEARNER_CONFIRMED_TUTOR_ABSENT,
              CONSENTED_ATTENDANCE_TUTOR_MISSING})) < ns_minimum_independent_signals policy)
    \<and> (nd_outcome d = TUTOR_NO_SHOW \<longleftrightarrow>
         OUTCOME_DISPUTED \<notin> signals \<and> TECHNICAL_INCIDENT \<notin> signals
         \<and> instant start + ns_decision_delay policy \<le> instant now
         \<and> ns_minimum_independent_signals policy \<le> int (card (signals \<inter> {TUTOR_CONFIRMED_ABSENT,
              LEARNER_CONFIRMED_TUTOR_ABSENT, CONSENTED_ATTENDANCE_TUTOR_MISSING}))
         \<and> int (card (signals \<inter> {LEARNER_CONFIRMED_ABSENT, TUTOR_CONFIRMED_LEARNER_ABSENT,
              CONSENTED_ATTENDANCE_LEARNER_MISSING})) < ns_minimum_independent_signals policy)"
proof -
  let ?L = "int (card (signals \<inter> {LEARNER_CONFIRMED_ABSENT, TUTOR_CONFIRMED_LEARNER_ABSENT, CONSENTED_ATTENDANCE_LEARNER_MISSING}))"
  let ?T = "int (card (signals \<inter> {TUTOR_CONFIRMED_ABSENT, LEARNER_CONFIRMED_TUTOR_ABSENT, CONSENTED_ATTENDANCE_TUTOR_MISSING}))"
  show ?thesis
  proof (cases "OUTCOME_DISPUTED \<in> signals \<or> TECHNICAL_INCIDENT \<in> signals")
    case True
    then show ?thesis using assms by (auto simp: determine_no_show_def Let_def split: if_splits)
  next
    case False
    then obtain e where e: "dt_add start (ns_decision_delay policy) = Inr e" "aware e = aware now"
      "instant e = instant start + ns_decision_delay policy"
      using assms by (auto simp: determine_no_show_def Let_def res_simps instant_def aware_def)
    show ?thesis
      using assms False e(2,3) unfolding determine_no_show_def Let_def e(1) res_bind_simps
      by (cases "instant now < instant e"; cases "ns_minimum_independent_signals policy \<le> ?L";
          cases "ns_minimum_independent_signals policy \<le> ?T") (auto simp: dt_less_def not_le)
  qed
qed

theorem no_show_needs_evidence_witness:
  "\<exists>d. determine_no_show {LEARNER_CONFIRMED_ABSENT, TUTOR_CONFIRMED_LEARNER_ABSENT} (Datetime 0 (Some 0))
       \<lparr>ns_version = ''n1'', ns_minimum_independent_signals = 2, ns_decision_delay = 15\<rparr> (Datetime 20 (Some 0)) = Inr d
     \<and> nd_outcome d = LEARNER_NO_SHOW \<and> \<not> nd_requires_human_review d"
proof -
  obtain d where d: "determine_no_show {LEARNER_CONFIRMED_ABSENT, TUTOR_CONFIRMED_LEARNER_ABSENT} (Datetime 0 (Some 0))
       \<lparr>ns_version = ''n1'', ns_minimum_independent_signals = 2, ns_decision_delay = 15\<rparr> (Datetime 20 (Some 0)) = Inr d"
    "nd_outcome d = LEARNER_NO_SHOW"
    by (simp add: determine_no_show_def dt_add_def in_range_def Int_insert_left)
  then show ?thesis using no_show_needs_evidence [OF d(1)] by auto
qed

end
