(* ===== verification/Conversion.thy ===== *)
theory Conversion
  imports Messaging
begin

text \<open>
  \<open>modules/post_demo_conversion\<close>: the next best action after a demo, chosen by the first rule that
  applies, and the validation of a drafted message against approved sources.
\<close>

section \<open>The model\<close>

datatype demo_outcome =
    OUTCOME_COMPLETED | OUTCOME_LEARNER_NO_SHOW | OUTCOME_TUTOR_NO_SHOW | OUTCOME_TECHNICAL_FAILURE | OUTCOME_DISPUTED

datatype offer_approval = OFFER_NONE | OFFER_APPROVED | OFFER_PENDING | OFFER_REJECTED

record follow_up_rule =
  fr_rule_id :: string
  fr_outcomes :: "demo_outcome set"
  fr_delay :: timedelta
  fr_channel :: channel
  fr_message_class :: message_class
  fr_template_ref :: string
  fr_required_fact_refs :: "string set"
  fr_permitted_offer_approvals :: "offer_approval set"
  fr_requires_human_review :: bool

record conversion_policy =
  cv_version :: string
  cv_rules :: "follow_up_rule list"
  cv_allowed_after_opt_out :: "message_class set"
  cv_prohibited_claim_types :: "string set"

definition conversion_policy_post_init :: "conversion_policy \<Rightarrow> unit res" where
  "conversion_policy_post_init p =
     (let ids = map fr_rule_id (cv_rules p)
      in if blank (cv_version p) then Inl (ValueError ''conversion policy version is required'')
         else if length ids \<noteq> card (set ids) then Inl (ValueError ''conversion rule IDs must be unique'')
         else if list_ex (\<lambda>r. fr_delay r < 0) (cv_rules p)
         then Inl (ValueError ''follow-up delay cannot be negative'')
         else Inr ())"

record conversion_context =
  cc_outcome :: demo_outcome
  cc_outcome_verified :: bool
  cc_available_fact_refs :: "string set"
  cc_offer_approval :: offer_approval
  cc_opted_out :: bool
  cc_communication_allowed :: bool
  cc_high_risk_case :: bool

record next_best_action =
  na_follow_up :: bool
  na_rule_id :: "string option"
  na_execute_at :: "datetime option"
  na_channel :: "channel option"
  na_message_class :: "message_class option"
  na_template_ref :: "string option"
  na_required_fact_refs :: "string set"
  na_requires_human_review :: bool
  na_reason :: string
  na_policy_version :: string

record draft_claim =
  cl_text :: string
  cl_claim_type :: string
  cl_source_ref :: "string option"

record draft_validation =
  dv_approved :: bool
  dv_violations :: "string list"
  dv_content_source_refs :: "string set"

definition no_action :: "conversion_policy \<Rightarrow> bool \<Rightarrow> string \<Rightarrow> next_best_action" where
  "no_action policy review reason =
     \<lparr>na_follow_up = False, na_rule_id = None, na_execute_at = None, na_channel = None, na_message_class = None,
      na_template_ref = None, na_required_fact_refs = {}, na_requires_human_review = review, na_reason = reason,
      na_policy_version = cv_version policy\<rparr>"

text \<open>The loop over the rules, with its three \<open>continue\<close> statements.\<close>

fun choose_rule :: "conversion_context \<Rightarrow> conversion_policy \<Rightarrow> datetime \<Rightarrow> follow_up_rule list \<Rightarrow> next_best_action res" where
  "choose_rule context policy now [] = Inr (no_action policy (cc_high_risk_case context) ''no_applicable_rule'')"
| "choose_rule context policy now (rule # rules) =
     (if cc_outcome context \<notin> fr_outcomes rule then choose_rule context policy now rules
      else if cc_offer_approval context \<notin> fr_permitted_offer_approvals rule then choose_rule context policy now rules
      else if \<not> fr_required_fact_refs rule \<subseteq> cc_available_fact_refs context then choose_rule context policy now rules
      else if cc_opted_out context \<and> fr_message_class rule \<notin> cv_allowed_after_opt_out policy
      then Inr (no_action policy False ''recipient_opted_out'')
      else res_bind (dt_add now (fr_delay rule)) (\<lambda>execute_at.
        Inr \<lparr>na_follow_up = True, na_rule_id = Some (fr_rule_id rule), na_execute_at = Some execute_at,
             na_channel = Some (fr_channel rule), na_message_class = Some (fr_message_class rule),
             na_template_ref = Some (fr_template_ref rule), na_required_fact_refs = fr_required_fact_refs rule,
             na_requires_human_review = (fr_requires_human_review rule \<or> cc_high_risk_case context),
             na_reason = ''rule_selected'', na_policy_version = cv_version policy\<rparr>))"

definition choose_next_action :: "conversion_context \<Rightarrow> conversion_policy \<Rightarrow> datetime \<Rightarrow> next_best_action res" where
  "choose_next_action context policy now =
     (if \<not> aware now then Inl (ValueError ''conversion decision time must be timezone-aware'')
      else if \<not> cc_outcome_verified context then Inr (no_action policy True ''outcome_unverified'')
      else if \<not> cc_communication_allowed context then Inr (no_action policy False ''communication_not_allowed'')
      else choose_rule context policy now (cv_rules policy))"

definition check_claim ::
  "string set \<Rightarrow> conversion_policy \<Rightarrow> string list \<times> string set \<Rightarrow> draft_claim \<Rightarrow> string list \<times> string set" where
  "check_claim approved_source_refs policy = (\<lambda>(violations, used) claim.
     let v1 = (if cl_claim_type claim \<in> cv_prohibited_claim_types policy
               then violations @ [''prohibited_claim:'' @ cl_claim_type claim] else violations)
     in case cl_source_ref claim of
          None \<Rightarrow> (v1 @ [''ungrounded_claim:'' @ cl_claim_type claim], used)
        | Some ref \<Rightarrow> (if ref \<notin> approved_source_refs then (v1 @ [''ungrounded_claim:'' @ cl_claim_type claim], used)
                      else (v1, insert ref used)))"

definition validate_draft :: "draft_claim list \<Rightarrow> string set \<Rightarrow> conversion_policy \<Rightarrow> draft_validation" where
  "validate_draft claims approved_source_refs policy =
     (let (violations, used) = foldl (check_claim approved_source_refs policy) ([], {}) claims
      in \<lparr>dv_approved = (violations = []), dv_violations = violations, dv_content_source_refs = used\<rparr>)"

text \<open>\<open>NextBestActionUseCase.execute\<close>.\<close>

definition next_best_action_execute :: "conversion_policy \<Rightarrow> conversion_context \<Rightarrow> datetime \<Rightarrow> next_best_action res" where
  "next_best_action_execute policy context now = choose_next_action context policy now"

section \<open>Properties\<close>

definition rule_fits :: "conversion_context \<Rightarrow> follow_up_rule \<Rightarrow> bool" where
  "rule_fits context rule \<longleftrightarrow> cc_outcome context \<in> fr_outcomes rule
     \<and> cc_offer_approval context \<in> fr_permitted_offer_approvals rule
     \<and> fr_required_fact_refs rule \<subseteq> cc_available_fact_refs context"

lemma choose_rule_find:
  "choose_rule context policy now rules =
     (case List.find (rule_fits context) rules of
        None \<Rightarrow> Inr (no_action policy (cc_high_risk_case context) ''no_applicable_rule'')
      | Some rule \<Rightarrow> choose_rule context policy now [rule])"
  by (induction rules) (auto simp: rule_fits_def)

text \<open>
  A follow-up happens exactly for a verified outcome with communication allowed and a fitting
  rule whose message class the recipient still accepts; it is the first fitting rule of the policy,
  executed after its delay and never before now, with only available facts required of it; a
  high-risk case always gets human review.
\<close>

theorem next_action_first_rule:
  assumes "conversion_policy_post_init policy = Inr ()" "choose_next_action context policy now = Inr a"
  shows "(na_follow_up a \<longleftrightarrow> cc_outcome_verified context \<and> cc_communication_allowed context
       \<and> (\<exists>rule. List.find (rule_fits context) (cv_rules policy) = Some rule
            \<and> (cc_opted_out context \<longrightarrow> fr_message_class rule \<in> cv_allowed_after_opt_out policy)))
    \<and> (na_follow_up a \<longrightarrow> (\<exists>rule t. List.find (rule_fits context) (cv_rules policy) = Some rule
         \<and> na_rule_id a = Some (fr_rule_id rule) \<and> na_execute_at a = Some t
         \<and> instant t = instant now + fr_delay rule \<and> instant now \<le> instant t
         \<and> na_required_fact_refs a \<subseteq> cc_available_fact_refs context
         \<and> (cc_high_risk_case context \<longrightarrow> na_requires_human_review a)))
    \<and> (\<not> na_follow_up a \<longrightarrow> na_channel a = None \<and> na_template_ref a = None)"
proof (cases "cc_outcome_verified context \<and> cc_communication_allowed context")
  case False
  then show ?thesis using assms(2) by (auto simp: choose_next_action_def no_action_def split: if_splits)
next
  case True
  then have c: "choose_rule context policy now (cv_rules policy) = Inr a"
    using assms(2) by (auto simp: choose_next_action_def split: if_splits)
  show ?thesis
  proof (cases "List.find (rule_fits context) (cv_rules policy)")
    case None
    then show ?thesis using c by (auto simp: choose_rule_find [of _ _ _ "cv_rules policy"] no_action_def)
  next
    case (Some rule)
    then have fit: "rule_fits context rule" "rule \<in> set (cv_rules policy)"
      by (auto simp: find_Some_iff)
    then have "0 \<le> fr_delay rule"
      using assms(1) by (auto simp: conversion_policy_post_init_def Let_def list_ex_iff not_less split: if_splits)
    moreover have "choose_rule context policy now [rule] = Inr a"
      using c Some by (simp add: choose_rule_find [of _ _ _ "cv_rules policy"])
    ultimately show ?thesis
      using True Some fit(1) by (auto simp: rule_fits_def no_action_def dt_add_def instant_def split: if_splits)
  qed
qed

definition sample_follow_up :: follow_up_rule where
  "sample_follow_up = \<lparr>fr_rule_id = ''f1'', fr_outcomes = {OUTCOME_COMPLETED}, fr_delay = 30, fr_channel = EMAIL,
     fr_message_class = UTILITY, fr_template_ref = ''t1'', fr_required_fact_refs = {''plan''},
     fr_permitted_offer_approvals = {OFFER_NONE}, fr_requires_human_review = False\<rparr>"

definition sample_conversion :: conversion_policy where
  "sample_conversion = \<lparr>cv_version = ''c1'', cv_rules = [sample_follow_up], cv_allowed_after_opt_out = {},
     cv_prohibited_claim_types = {''guarantee''}\<rparr>"

definition sample_conversion_context :: conversion_context where
  "sample_conversion_context = \<lparr>cc_outcome = OUTCOME_COMPLETED, cc_outcome_verified = True,
     cc_available_fact_refs = {''plan'', ''price''}, cc_offer_approval = OFFER_NONE, cc_opted_out = False,
     cc_communication_allowed = True, cc_high_risk_case = True\<rparr>"

theorem next_action_first_rule_witness:
  "\<exists>a. choose_next_action sample_conversion_context sample_conversion (Datetime 0 (Some 0)) = Inr a
     \<and> na_follow_up a \<and> na_requires_human_review a"
proof -
  have ok: "conversion_policy_post_init sample_conversion = Inr ()"
    by (simp add: conversion_policy_post_init_def sample_conversion_def sample_follow_up_def blank_def strip_def
        lstrip_def is_space_def)
  obtain a where a: "choose_next_action sample_conversion_context sample_conversion (Datetime 0 (Some 0)) = Inr a" "na_follow_up a"
    by (simp add: choose_next_action_def sample_conversion_context_def sample_conversion_def sample_follow_up_def
        dt_add_def in_range_def)
  then show ?thesis
    using next_action_first_rule [OF ok a(1)] by (auto simp: sample_conversion_context_def)
qed

lemma check_claims:
  "foldl (check_claim ok policy) (vs, us) claims = (vs', us') \<Longrightarrow>
   (vs' = [] \<longleftrightarrow> vs = [] \<and> (\<forall>c\<in>set claims. cl_claim_type c \<notin> cv_prohibited_claim_types policy
       \<and> (\<exists>r. cl_source_ref c = Some r \<and> r \<in> ok)))
   \<and> us' = us \<union> {r. r \<in> ok \<and> (\<exists>c\<in>set claims. cl_source_ref c = Some r)}"
proof (induction claims arbitrary: vs us)
  case Nil
  then show ?case by simp
next
  case (Cons c claims)
  obtain v u where vu: "check_claim ok policy (vs, us) c = (v, u)" by (cases "check_claim ok policy (vs, us) c")
  have step: "(v = [] \<longleftrightarrow> vs = [] \<and> cl_claim_type c \<notin> cv_prohibited_claim_types policy
      \<and> (\<exists>r. cl_source_ref c = Some r \<and> r \<in> ok)) \<and> u = us \<union> {r. r \<in> ok \<and> cl_source_ref c = Some r}"
    using vu by (auto simp: check_claim_def Let_def split: option.splits if_splits)
  from Cons.prems vu have "foldl (check_claim ok policy) (v, u) claims = (vs', us')" by simp
  from Cons.IH [OF this] step show ?case by auto
qed

text \<open>
  A draft is approved exactly when every claim is of a permitted type and names an approved
  source; the sources reported are exactly the approved ones the claims name.
\<close>

theorem validate_draft_exact:
  "(dv_approved (validate_draft claims approved policy) \<longleftrightarrow>
     (\<forall>c\<in>set claims. cl_claim_type c \<notin> cv_prohibited_claim_types policy \<and> cl_source_ref c \<in> Some ` approved))
   \<and> (dv_approved (validate_draft claims approved policy) \<longleftrightarrow> dv_violations (validate_draft claims approved policy) = [])
   \<and> dv_content_source_refs (validate_draft claims approved policy)
      = approved \<inter> {r. \<exists>c\<in>set claims. cl_source_ref c = Some r}"
proof -
  obtain vs us where vu: "foldl (check_claim approved policy) ([], {}) claims = (vs, us)" by fastforce
  have d: "validate_draft claims approved policy
      = \<lparr>dv_approved = (vs = []), dv_violations = vs, dv_content_source_refs = us\<rparr>"
    by (simp add: validate_draft_def vu)
  show ?thesis using check_claims [OF vu] unfolding d by (auto simp: image_iff)
qed

theorem validate_draft_exact_witness:
  "dv_approved (validate_draft [\<lparr>cl_text = ''Ten sessions'', cl_claim_type = ''fact'', cl_source_ref = Some ''plan''\<rparr>]
     {''plan''} sample_conversion)"
  using validate_draft_exact [of "[\<lparr>cl_text = ''Ten sessions'', cl_claim_type = ''fact'', cl_source_ref = Some ''plan''\<rparr>]"
      "{''plan''}" sample_conversion]
  by (simp add: sample_conversion_def)

end
