(* ===== verification/Objections.thy ===== *)
theory Objections
  imports Decimal Digest
begin

text \<open>
  \<open>modules/objection_extraction\<close>: the rule-based extraction of objections from permitted evidence, and
  the validation every extracted objection passes before it is stored.
\<close>

section \<open>The model\<close>

datatype evidence_kind =
    WHATSAPP_MESSAGE | POST_DEMO_FEEDBACK | STRUCTURED_OUTCOME | CONSENTED_TRANSCRIPT | APPROVED_NOTE

datatype objection_expression = EXPLICIT | IMPLICIT

record objection_evidence =
  oe_evidence_ref :: string
  oe_kind :: evidence_kind
  oe_redacted_text :: string
  oe_permitted :: bool
  oe_transcription_consent :: bool

record fallback_rule =
  fb_rule_id :: string
  fb_category :: string
  fb_phrases :: "string list"
  fb_expression :: objection_expression
  fb_normalized_objection :: string
  fb_root_cause :: string
  fb_alternative_interpretation :: string
  fb_recommended_next_question :: string
  fb_confidence :: decimal

record objection_policy =
  op_version :: string
  op_taxonomy :: "string set"
  op_rules :: "fallback_rule list"
  op_implicit_confidence_threshold :: decimal
  op_human_review_threshold :: decimal
  op_maximum_evidence_items :: int
  op_fallback_prompt_version :: string
  op_fallback_model_version :: string

definition fallback_rule_check :: "string set \<Rightarrow> fallback_rule \<Rightarrow> unit res" where
  "fallback_rule_check taxonomy rule =
     (if fb_category rule \<notin> taxonomy then Inl (ValueError ''fallback rule category is outside taxonomy'')
      else if \<not> (0 \<le> fb_confidence rule \<and> fb_confidence rule \<le> 1)
      then Inl (ValueError ''fallback rule confidence must be between zero and one'')
      else if fb_phrases rule = [] then Inl (ValueError ''fallback rules require evidence phrases'')
      else Inr ())"

definition objection_policy_post_init :: "objection_policy \<Rightarrow> unit res" where
  "objection_policy_post_init p =
     (if blank (op_version p) \<or> op_taxonomy p = {}
      then Inl (ValueError ''objection policy version and taxonomy are required'')
      else if op_maximum_evidence_items p \<le> 0 then Inl (ValueError ''maximum evidence items must be positive'')
      else if list_ex (\<lambda>v. \<not> (0 \<le> v \<and> v \<le> 1)) [op_implicit_confidence_threshold p, op_human_review_threshold p]
      then Inl (ValueError ''objection thresholds must be between zero and one'')
      else res_fold (\<lambda>_. fallback_rule_check (op_taxonomy p)) () (op_rules p))"

record objection =
  ob_objection_id :: string
  ob_category :: string
  ob_expression :: objection_expression
  ob_normalized_objection :: string
  ob_root_cause :: string
  ob_evidence_refs :: "string list"
  ob_confidence :: decimal
  ob_alternative_interpretation :: string
  ob_recommended_next_question :: string
  ob_requires_human_review :: bool
  ob_prompt_version :: string
  ob_model_version :: string

definition permitted_evidence :: "objection_evidence list \<Rightarrow> objection_policy \<Rightarrow> objection_evidence list" where
  "permitted_evidence evidence policy =
     take (nat (op_maximum_evidence_items policy))
       (filter (\<lambda>item. oe_permitted item \<and> (oe_kind item \<noteq> CONSENTED_TRANSCRIPT \<or> oe_transcription_consent item)) evidence)"

definition rule_refs :: "objection_evidence list \<Rightarrow> fallback_rule \<Rightarrow> string list" where
  "rule_refs approved rule =
     map oe_evidence_ref (filter (\<lambda>item. list_ex (\<lambda>phrase.
       contains (casefold (oe_redacted_text item)) (casefold phrase)) (fb_phrases rule)) approved)"

definition extract_rule :: "objection_evidence list \<Rightarrow> objection_policy \<Rightarrow> fallback_rule \<Rightarrow> objection option" where
  "extract_rule approved policy rule =
     (let refs = rule_refs approved rule;
          implicit_below_threshold = (fb_expression rule = IMPLICIT
            \<and> fb_confidence rule < op_implicit_confidence_threshold policy);
          requires_review = (implicit_below_threshold \<or> fb_confidence rule < op_human_review_threshold policy)
      in if refs = [] then None
         else Some \<lparr>ob_objection_id = sha256 (op_version policy @ ''|'' @ fb_rule_id rule @ ''|'' @ join ''|'' refs),
                ob_category = fb_category rule, ob_expression = fb_expression rule,
                ob_normalized_objection = fb_normalized_objection rule, ob_root_cause = fb_root_cause rule,
                ob_evidence_refs = refs, ob_confidence = fb_confidence rule,
                ob_alternative_interpretation = fb_alternative_interpretation rule,
                ob_recommended_next_question = fb_recommended_next_question rule,
                ob_requires_human_review = requires_review,
                ob_prompt_version = op_fallback_prompt_version policy,
                ob_model_version = op_fallback_model_version policy\<rparr>)"

definition deterministic_extract :: "objection_evidence list \<Rightarrow> objection_policy \<Rightarrow> objection list" where
  "deterministic_extract evidence policy =
     (let approved = permitted_evidence evidence policy
      in List.map_filter (extract_rule approved policy) (op_rules policy))"

definition validate_extracted_objection :: "objection \<Rightarrow> string set \<Rightarrow> objection_policy \<Rightarrow> objection res" where
  "validate_extracted_objection obj stored_evidence_refs policy =
     (if ob_category obj \<notin> op_taxonomy policy
      then Inl (ValueError ''objection category is outside approved taxonomy'')
      else if ob_evidence_refs obj = [] \<or> \<not> set (ob_evidence_refs obj) \<subseteq> stored_evidence_refs
      then Inl (ValueError ''objection evidence is absent or ungrounded'')
      else if \<not> (0 \<le> ob_confidence obj \<and> ob_confidence obj \<le> 1)
      then Inl (ValueError ''objection confidence is invalid'')
      else let review = (ob_requires_human_review obj \<or> ob_confidence obj < op_human_review_threshold policy);
               review' = (if ob_expression obj = IMPLICIT \<and> ob_confidence obj < op_implicit_confidence_threshold policy
                          then True else review)
           in Inr (obj\<lparr>ob_requires_human_review := review'\<rparr>))"

text \<open>\<open>DeterministicObjectionFallback.execute\<close>.\<close>

definition objection_fallback_execute :: "objection_policy \<Rightarrow> objection_evidence list \<Rightarrow> objection list" where
  "objection_fallback_execute policy evidence = deterministic_extract evidence policy"

section \<open>Properties\<close>

lemma policy_rules_ok:
  assumes "objection_policy_post_init p = Inr ()" "rule \<in> set (op_rules p)"
  shows "fb_category rule \<in> op_taxonomy p" "0 \<le> fb_confidence rule" "fb_confidence rule \<le> 1"
proof -
  have "res_fold (\<lambda>_. fallback_rule_check (op_taxonomy p)) () rules = Inr () \<Longrightarrow> r \<in> set rules
      \<Longrightarrow> fallback_rule_check (op_taxonomy p) r = Inr ()" for rules r
    by (induction rules) (auto simp: res_simps)
  moreover have "res_fold (\<lambda>_. fallback_rule_check (op_taxonomy p)) () (op_rules p) = Inr ()"
    using assms(1) by (simp add: objection_policy_post_init_def split: if_splits)
  ultimately have "fallback_rule_check (op_taxonomy p) rule = Inr ()" using assms(2) by blast
  then show "fb_category rule \<in> op_taxonomy p" "0 \<le> fb_confidence rule" "fb_confidence rule \<le> 1"
    by (auto simp: fallback_rule_check_def split: if_splits)
qed

lemma deterministic_extract_set:
  "obj \<in> set (deterministic_extract evidence p) \<longleftrightarrow>
     (\<exists>rule\<in>set (op_rules p). extract_rule (permitted_evidence evidence p) p rule = Some obj)"
  by (auto simp: deterministic_extract_def List.map_filter_def Let_def intro: rev_image_eqI)

text \<open>
  (C32) Every objection the fallback extracts is grounded and consented: each of its references is an
  item that was permitted, consented to where it is a transcript, and contains a phrase of the rule
  in any case.  The objection passes the validation unchanged whenever the evidence is stored, so
  its review flag already is the one the thresholds demand.
\<close>

theorem deterministic_extract_valid:
  assumes "objection_policy_post_init p = Inr ()" "obj \<in> set (deterministic_extract evidence p)"
    and "oe_evidence_ref ` set evidence \<subseteq> stored"
  shows "validate_extracted_objection obj stored p = Inr obj
    \<and> ob_evidence_refs obj \<noteq> []
    \<and> (\<exists>rule\<in>set (op_rules p). ob_category obj = fb_category rule \<and> (\<forall>ref\<in>set (ob_evidence_refs obj). \<exists>item\<in>set evidence.
         oe_evidence_ref item = ref \<and> oe_permitted item \<and> (oe_kind item = CONSENTED_TRANSCRIPT \<longrightarrow> oe_transcription_consent item)
         \<and> (\<exists>phrase\<in>set (fb_phrases rule). contains (casefold (oe_redacted_text item)) (casefold phrase))))"
proof -
  obtain rule where rule: "rule \<in> set (op_rules p)" "extract_rule (permitted_evidence evidence p) p rule = Some obj"
    using assms(2) by (auto simp: deterministic_extract_set)
  let ?refs = "rule_refs (permitted_evidence evidence p) rule"
  have refs: "\<exists>item\<in>set evidence. oe_evidence_ref item = ref \<and> oe_permitted item
      \<and> (oe_kind item = CONSENTED_TRANSCRIPT \<longrightarrow> oe_transcription_consent item)
      \<and> (\<exists>phrase\<in>set (fb_phrases rule). contains (casefold (oe_redacted_text item)) (casefold phrase))"
    if "ref \<in> set ?refs" for ref
    using that by (auto simp: rule_refs_def permitted_evidence_def list_ex_iff dest!: in_set_takeD)
  have obj: "ob_evidence_refs obj = ?refs" "?refs \<noteq> []" "ob_category obj = fb_category rule" "ob_confidence obj = fb_confidence rule"
    "ob_expression obj = fb_expression rule" "ob_requires_human_review obj \<longleftrightarrow>
      fb_expression rule = IMPLICIT \<and> fb_confidence rule < op_implicit_confidence_threshold p
      \<or> fb_confidence rule < op_human_review_threshold p"
    using rule(2) by (auto simp: extract_rule_def Let_def split: if_splits)
  have "set (ob_evidence_refs obj) \<subseteq> stored" using refs assms(3) unfolding obj(1) by fastforce
  moreover have "obj\<lparr>ob_requires_human_review := ob_requires_human_review obj\<rparr> = obj" by simp
  ultimately have "validate_extracted_objection obj stored p = Inr obj"
    using policy_rules_ok [OF assms(1) rule(1)] obj by (auto simp: validate_extracted_objection_def Let_def)
  then show ?thesis using obj refs rule(1) by auto
qed

definition sample_objection_policy :: objection_policy where
  "sample_objection_policy = \<lparr>op_version = ''o1'', op_taxonomy = {''price''}, op_rules =
     [\<lparr>fb_rule_id = ''r1'', fb_category = ''price'', fb_phrases = [''expensive''], fb_expression = EXPLICIT,
       fb_normalized_objection = ''too expensive'', fb_root_cause = ''budget'', fb_alternative_interpretation = ''a'',
       fb_recommended_next_question = ''q'', fb_confidence = 1 / 2\<rparr>],
     op_implicit_confidence_threshold = 1, op_human_review_threshold = 3 / 4, op_maximum_evidence_items = 5,
     op_fallback_prompt_version = ''p'', op_fallback_model_version = ''m''\<rparr>"

definition sample_note :: objection_evidence where
  "sample_note = \<lparr>oe_evidence_ref = ''e1'', oe_kind = WHATSAPP_MESSAGE, oe_redacted_text = ''Too Expensive for us'',
     oe_permitted = True, oe_transcription_consent = False\<rparr>"

theorem deterministic_extract_valid_witness:
  "\<exists>obj\<in>set (deterministic_extract [sample_note] sample_objection_policy).
     validate_extracted_objection obj {''e1''} sample_objection_policy = Inr obj \<and> ob_evidence_refs obj = [''e1'']"
proof -
  have ok: "objection_policy_post_init sample_objection_policy = Inr ()"
    by (simp add: objection_policy_post_init_def sample_objection_policy_def fallback_rule_check_def blank_def
        strip_def lstrip_def is_space_def)
  have hit: "contains (casefold ''Too Expensive for us'') (casefold ''expensive'')"
    by code_simp
  have refs: "rule_refs (permitted_evidence [sample_note] sample_objection_policy) (hd (op_rules sample_objection_policy)) = [''e1'']"
    using hit by (simp add: rule_refs_def permitted_evidence_def sample_note_def sample_objection_policy_def)
  then obtain obj where obj: "extract_rule (permitted_evidence [sample_note] sample_objection_policy) sample_objection_policy
      (hd (op_rules sample_objection_policy)) = Some obj" "ob_evidence_refs obj = [''e1'']"
    by (auto simp: extract_rule_def Let_def)
  then have mem: "obj \<in> set (deterministic_extract [sample_note] sample_objection_policy)"
    by (auto simp: deterministic_extract_set sample_objection_policy_def)
  have "oe_evidence_ref ` set [sample_note] \<subseteq> {''e1''}" by (simp add: sample_note_def)
  then show ?thesis using deterministic_extract_valid [OF ok mem] obj(2) mem by auto
qed

end
