(* ===== verification/Regional.thy ===== *)
theory Regional
  imports Decimal Clock Digest
begin

text \<open>
  \<open>modules/regional_monitoring\<close>: which regions a principal may see or export, and when the decline
  of a metric in a region raises an alert.
\<close>

section \<open>Authorisation\<close>

datatype regional_role = SUPER_ADMIN | OPERATIONS_SUB_ADMIN | ANALYST

record principal_scope =
  ps_principal_ref :: string
  ps_tenant_id :: string
  ps_role :: regional_role
  ps_assigned_regions :: "string set"
  ps_global_scope_granted :: bool

record scope_request =
  sr_tenant_id :: string
  sr_requested_regions :: "string set"
  sr_export_requested :: bool

record regional_authorization_policy =
  ra_version :: string
  ra_global_roles :: "regional_role set"
  ra_export_roles :: "regional_role set"

record scope_decision =
  sd_authorized :: bool
  sd_tenant_id :: string
  sd_effective_regions :: "string set"
  sd_reason :: string
  sd_audit_required :: bool
  sd_policy_version :: string

definition authorize_scope :: "principal_scope \<Rightarrow> scope_request \<Rightarrow> regional_authorization_policy \<Rightarrow> scope_decision" where
  "authorize_scope who request policy =
     (let decide = (\<lambda>ok regions reason. \<lparr>sd_authorized = ok, sd_tenant_id = sr_tenant_id request,
            sd_effective_regions = regions, sd_reason = reason, sd_audit_required = True,
            sd_policy_version = ra_version policy\<rparr>);
          global_access = (ps_global_scope_granted who \<and> ps_role who \<in> ra_global_roles policy)
      in if ps_tenant_id who \<noteq> sr_tenant_id request then decide False {} ''tenant_scope_denied''
         else if sr_export_requested request \<and> ps_role who \<notin> ra_export_roles policy
         then decide False {} ''export_scope_denied''
         else if global_access then decide True (sr_requested_regions request) ''global_scope_authorized''
         else if sr_requested_regions request = {} \<or> \<not> sr_requested_regions request \<subseteq> ps_assigned_regions who
         then decide False {} ''region_scope_denied''
         else decide True (sr_requested_regions request) ''assigned_region_authorized'')"

text \<open>\<open>RegionalAuthorizationUseCase.execute\<close>.\<close>

definition regional_authorization_execute ::
  "regional_authorization_policy \<Rightarrow> principal_scope \<Rightarrow> scope_request \<Rightarrow> scope_decision" where
  "regional_authorization_execute policy who request = authorize_scope who request policy"

section \<open>Alerts\<close>

datatype alert_severity = WARNING | CRITICAL

record underperformance_policy =
  up_version :: string
  up_minimum_cohort_size :: int
  up_minimum_baseline_size :: int
  up_minimum_absolute_decline :: decimal
  up_minimum_relative_decline :: decimal
  up_critical_relative_decline :: decimal
  up_suppression_period :: timedelta
  up_owner_ref :: string

definition underperformance_policy_post_init :: "underperformance_policy \<Rightarrow> unit res" where
  "underperformance_policy_post_init p =
     (if up_minimum_cohort_size p \<le> 0 \<or> up_minimum_baseline_size p \<le> 0
      then Inl (ValueError ''alert sample thresholds must be positive'')
      else if list_ex (\<lambda>v. v < 0) [up_minimum_absolute_decline p, up_minimum_relative_decline p, up_critical_relative_decline p]
      then Inl (ValueError ''alert decline thresholds cannot be negative'')
      else if up_critical_relative_decline p < up_minimum_relative_decline p
      then Inl (ValueError ''critical threshold must not be lower than warning threshold'')
      else if up_suppression_period p < 0 \<or> blank (up_owner_ref p)
      then Inl (ValueError ''alert suppression and owner policy are invalid'')
      else Inr ())"

record metric_cohort =
  mc_tenant_id :: string
  mc_region_id :: string
  mc_metric_name :: string
  mc_cohort_definition :: string
  mc_window_ends_at :: datetime
  mc_sample_size :: int
  mc_value :: decimal
  mc_baseline_sample_size :: int
  mc_baseline_value :: decimal

record regional_alert_decision =
  al_create_alert :: bool
  al_deduplication_key :: "string option"
  al_severity :: "alert_severity option"
  al_owner_ref :: "string option"
  al_reason :: string
  al_absolute_decline :: "decimal option"
  al_relative_decline :: "decimal option"
  al_policy_version :: string

definition alert_key :: "metric_cohort \<Rightarrow> underperformance_policy \<Rightarrow> string" where
  "alert_key cohort policy = sha256 (join ''|'' [mc_tenant_id cohort, mc_region_id cohort, mc_metric_name cohort,
     mc_cohort_definition cohort, up_version policy])"

definition evaluate_underperformance ::
  "metric_cohort \<Rightarrow> underperformance_policy \<Rightarrow> datetime option \<Rightarrow> datetime \<Rightarrow> regional_alert_decision res" where
  "evaluate_underperformance cohort policy last_alert_at now =
     (let quiet = (\<lambda>reason absolute relative. Inr \<lparr>al_create_alert = False, al_deduplication_key = None,
            al_severity = None, al_owner_ref = None, al_reason = reason, al_absolute_decline = absolute,
            al_relative_decline = relative, al_policy_version = up_version policy\<rparr>)
      in if \<not> aware (mc_window_ends_at cohort) \<or> \<not> aware now
         then Inl (ValueError ''regional alert times must be timezone-aware'')
         else if mc_sample_size cohort < up_minimum_cohort_size policy
              \<or> mc_baseline_sample_size cohort < up_minimum_baseline_size policy
         then quiet ''sample_suppressed'' None None
         else res_bind (case last_alert_at of None \<Rightarrow> Inr False
              | Some t \<Rightarrow> res_bind (dt_add t (up_suppression_period policy)) (\<lambda>until. dt_less now until)) (\<lambda>recent.
           if recent then quiet ''alert_suppressed'' None None
           else let absolute = dec_sub (mc_baseline_value cohort) (mc_value cohort)
           in res_bind (if mc_baseline_value cohort = 0 then Inr 0
                        else dec_div absolute (dec_abs (mc_baseline_value cohort))) (\<lambda>relative.
             if absolute < up_minimum_absolute_decline policy \<or> relative < up_minimum_relative_decline policy
             then quiet ''practical_significance_not_met'' (Some absolute) (Some relative)
             else Inr \<lparr>al_create_alert = True, al_deduplication_key = Some (alert_key cohort policy),
               al_severity = Some (if relative \<ge> up_critical_relative_decline policy then CRITICAL else WARNING),
               al_owner_ref = Some (up_owner_ref policy), al_reason = ''underperformance_detected'',
               al_absolute_decline = Some absolute, al_relative_decline = Some relative,
               al_policy_version = up_version policy\<rparr>)))"

section \<open>Properties\<close>

text \<open>
  No one crosses tenants, exports without an export role or sees a region outside the assigned
  ones without a granted global role.  Access is authorised exactly under these rules; an authorised
  request gets exactly the regions it asked for, a denied one none, and every decision is audited.
\<close>

theorem authorize_scope_exact:
  "(sd_authorized (authorize_scope who request policy) \<longleftrightarrow>
      ps_tenant_id who = sr_tenant_id request
      \<and> (sr_export_requested request \<longrightarrow> ps_role who \<in> ra_export_roles policy)
      \<and> ((ps_global_scope_granted who \<and> ps_role who \<in> ra_global_roles policy)
         \<or> (sr_requested_regions request \<subseteq> ps_assigned_regions who \<and> (\<exists>g. g \<in> sr_requested_regions request))))
   \<and> sd_effective_regions (authorize_scope who request policy)
      = (if sd_authorized (authorize_scope who request policy) then sr_requested_regions request else {})
   \<and> sd_audit_required (authorize_scope who request policy)"
  by (auto simp: authorize_scope_def Let_def)

theorem authorize_scope_exact_witness:
  "\<not> sd_authorized (authorize_scope
     \<lparr>ps_principal_ref = ''p'', ps_tenant_id = ''t'', ps_role = ANALYST, ps_assigned_regions = {''IN-KA''}, ps_global_scope_granted = True\<rparr>
     \<lparr>sr_tenant_id = ''t'', sr_requested_regions = {''IN-KA''}, sr_export_requested = True\<rparr>
     \<lparr>ra_version = ''a1'', ra_global_roles = {SUPER_ADMIN}, ra_export_roles = {SUPER_ADMIN}\<rparr>)"
  by (simp add: authorize_scope_exact)

lemma relative_decline_total:
  assumes "b \<noteq> 0"
  shows "dec_div a (dec_abs b) = Inr (dec_round (a / dec_round \<bar>b\<bar>))"
proof -
  have "0 < dec_round \<bar>b\<bar>" using assms by (intro dec28.rnd_pos) simp
  then show ?thesis by (simp add: dec_div_def dec_abs_def)
qed

text \<open>
  Evaluating a metric never fails on aware, existing dates: an alert is raised exactly when both
  samples are large enough, no alert was raised within the suppression period and the decline is
  significant in absolute and in relative terms.  It is critical from the critical threshold on, it
  belongs to the owner of the policy, and a metric that did not fall below its baseline raises no
  alert where the policy demands a positive decline.
\<close>

theorem underperformance_alert_iff:
  assumes "aware (mc_window_ends_at cohort)" "aware now"
    and "case last_alert_at of None \<Rightarrow> True | Some t \<Rightarrow> aware t \<and> in_range (wall t + up_suppression_period policy)"
    and "absolute = dec_round (mc_baseline_value cohort - mc_value cohort)"
    and "relative = (if mc_baseline_value cohort = 0 then 0 else dec_round (absolute / dec_round \<bar>mc_baseline_value cohort\<bar>))"
  shows "\<exists>d. evaluate_underperformance cohort policy last_alert_at now = Inr d
    \<and> (al_create_alert d \<longleftrightarrow> up_minimum_cohort_size policy \<le> mc_sample_size cohort
         \<and> up_minimum_baseline_size policy \<le> mc_baseline_sample_size cohort
         \<and> (case last_alert_at of None \<Rightarrow> True | Some t \<Rightarrow> instant t + up_suppression_period policy \<le> instant now)
         \<and> up_minimum_absolute_decline policy \<le> absolute \<and> up_minimum_relative_decline policy \<le> relative)
    \<and> (al_create_alert d \<longrightarrow> al_owner_ref d = Some (up_owner_ref policy)
         \<and> (al_severity d = Some CRITICAL \<longleftrightarrow> up_critical_relative_decline policy \<le> relative))
    \<and> (al_create_alert d \<and> 0 < up_minimum_absolute_decline policy \<longrightarrow> mc_value cohort < mc_baseline_value cohort)"
proof -
  let ?recent = "case last_alert_at of None \<Rightarrow> False | Some t \<Rightarrow> instant now < instant t + up_suppression_period policy"
  have recent: "(case last_alert_at of None \<Rightarrow> Inr False
      | Some t \<Rightarrow> res_bind (dt_add t (up_suppression_period policy)) (\<lambda>until. dt_less now until)) = Inr ?recent"
    using assms(2,3) by (auto simp: dt_add_def dt_less_def aware_def instant_def split: option.splits)
  have rel: "(if mc_baseline_value cohort = 0 then Inr 0 else dec_div absolute (dec_abs (mc_baseline_value cohort)))
      = Inr relative"
    by (simp add: assms(5) relative_decline_total)
  have neg: "mc_value cohort < mc_baseline_value cohort" if "0 < absolute"
  proof (rule ccontr)
    assume "\<not> mc_value cohort < mc_baseline_value cohort"
    then have "absolute \<le> dec_round 0" unfolding assms(4) by (intro dec28.rnd_mono) simp
    then show False using that by simp
  qed
  show ?thesis
    unfolding evaluate_underperformance_def Let_def recent res_bind_simps dec_sub_def assms(4) [symmetric] rel
    using assms(1,2) neg by (cases last_alert_at) (auto simp: not_less)
qed

theorem underperformance_alert_iff_witness:
  "\<exists>d. evaluate_underperformance
       \<lparr>mc_tenant_id = ''t'', mc_region_id = ''IN-KA'', mc_metric_name = ''conversion'', mc_cohort_definition = ''weekly'',
        mc_window_ends_at = Datetime 0 (Some 0), mc_sample_size = 50, mc_value = 0, mc_baseline_sample_size = 80, mc_baseline_value = 1\<rparr>
       \<lparr>up_version = ''u1'', up_minimum_cohort_size = 30, up_minimum_baseline_size = 30, up_minimum_absolute_decline = 1 / 10,
        up_minimum_relative_decline = 1 / 10, up_critical_relative_decline = 1 / 2, up_suppression_period = 60, up_owner_ref = ''ops''\<rparr>
       (Some (Datetime 0 (Some 0))) (Datetime 100 (Some 0)) = Inr d
     \<and> al_create_alert d \<and> al_severity d = Some CRITICAL"
  using underperformance_alert_iff [where cohort = "\<lparr>mc_tenant_id = ''t'', mc_region_id = ''IN-KA'', mc_metric_name = ''conversion'',
        mc_cohort_definition = ''weekly'', mc_window_ends_at = Datetime 0 (Some 0), mc_sample_size = 50, mc_value = 0,
        mc_baseline_sample_size = 80, mc_baseline_value = 1\<rparr>" and now = "Datetime 100 (Some 0)"
      and last_alert_at = "Some (Datetime 0 (Some 0))"
      and policy = "\<lparr>up_version = ''u1'', up_minimum_cohort_size = 30, up_minimum_baseline_size = 30, up_minimum_absolute_decline = 1 / 10,
        up_minimum_relative_decline = 1 / 10, up_critical_relative_decline = 1 / 2, up_suppression_period = 60, up_owner_ref = ''ops''\<rparr>"
      and absolute = 1 and relative = 1]
  by (auto simp: in_range_def)

end
