(* ===== verification/RetryQueue.thy ===== *)
theory RetryQueue
  imports Prelude
begin

text \<open>
  What the inbox and the outbox share: rows that are attempted until they are finished or have used
  up their attempts.  The locale states the contract of one attempt; both tables are instances of
  it, and what follows for any number of attempts is proved here once.
\<close>

locale retry_queue =
  fixes finished :: "'row \<Rightarrow> bool"
    and attempts :: "'row \<Rightarrow> int"
    and maximum :: int
    and attempt :: "'row \<Rightarrow> 'row \<Rightarrow> bool"
  assumes attempt_pending: "attempt r r' \<Longrightarrow> \<not> finished r \<and> attempts r < maximum"
    and attempt_counts: "attempt r r' \<Longrightarrow> attempts r \<le> attempts r' \<and> attempts r' \<le> attempts r + 1"
    and attempt_progress: "attempt r r' \<Longrightarrow> finished r' \<or> attempts r' = attempts r + 1"
begin

lemma attempts_within: "(attempt ^^ n) r r' \<Longrightarrow> attempts r \<le> maximum \<Longrightarrow> attempts r' \<le> maximum"
proof (induction n arbitrary: r')
  case (Suc n)
  then obtain s where "(attempt ^^ n) r s" "attempt s r'" by auto
  then show ?case using attempt_pending [of s r'] attempt_counts [of s r'] by linarith
qed simp

text \<open>A finished row is never attempted again.\<close>

lemma finished_final: "finished r \<Longrightarrow> (attempt ^^ n) r r' \<Longrightarrow> n = 0 \<and> r' = r"
proof (cases n)
  case (Suc m)
  assume "finished r" "(attempt ^^ n) r r'"
  then obtain s where "attempt r s" using Suc relpowp_Suc_D2 [of m attempt r r'] by blast
  then show ?thesis using attempt_pending \<open>finished r\<close> by blast
qed simp

text \<open>A row is attempted at most as often as its remaining attempts allow.\<close>

lemma attempts_bounded: "(attempt ^^ n) r r' \<Longrightarrow> attempts r \<le> maximum \<Longrightarrow> int n \<le> maximum - attempts r"
proof (induction n arbitrary: r)
  case (Suc n)
  then obtain s where s: "attempt r s" "(attempt ^^ n) s r'" using relpowp_Suc_D2 by metis
  note p = attempt_pending [OF s(1)] and c = attempt_counts [OF s(1)]
  show ?case
  proof (cases "finished s")
    case True
    then show ?thesis using finished_final [OF True s(2)] p by simp
  next
    case False
    then have "attempts s = attempts r + 1" using attempt_progress [OF s(1)] by blast
    then show ?thesis using Suc.IH [OF s(2)] p c by linarith
  qed
qed simp

end

end
