(* ===== verification/Json.thy ===== *)
theory Json
  imports Digest
begin

text \<open>
  JSON values as \<open>json.loads\<close> returns them and the text \<open>json.dumps(value, sort_keys=True,
  separators=(",", ":"))\<close> writes, which is what the program hashes, signs and encrypts.  An object is
  the list of its entries with distinct keys; a float is given by its \<open>repr\<close>; characters outside the
  printable ASCII range are escaped.  The code 0x97, a control character nothing here uses, stands for
  the em dash of the reply texts.
\<close>

datatype json =
    JNull
  | JBool bool
  | JInt int
  | JFloat string
  | JString string
  | JArray "json list"
  | JObject "(string \<times> json) list"

type_synonym json_object = "(string \<times> json) list"

text \<open>\<open>obj.get(key)\<close>.\<close>

definition jget :: "json_object \<Rightarrow> string \<Rightarrow> json" where
  "jget obj key = (case map_of obj key of Some v \<Rightarrow> v | None \<Rightarrow> JNull)"

text \<open>\<open>value if isinstance(value, dict) else {}\<close>.\<close>

definition as_object :: "json \<Rightarrow> json_object" where
  "as_object j = (case j of JObject obj \<Rightarrow> obj | _ \<Rightarrow> [])"

definition escape_char :: "char \<Rightarrow> string" where
  "escape_char c =
     (if c = CHR 0x22 then [CHR 0x5C, CHR 0x22]
      else if c = CHR 0x5C then [CHR 0x5C, CHR 0x5C]
      else if c = CHR 0x0A then [CHR 0x5C, CHR ''n'']
      else if c = CHR 0x0D then [CHR 0x5C, CHR ''r'']
      else if c = CHR 0x09 then [CHR 0x5C, CHR ''t'']
      else if c = CHR 0x0C then [CHR 0x5C, CHR ''f'']
      else if c = CHR 0x08 then [CHR 0x5C, CHR ''b'']
      else if 32 \<le> cval c \<and> cval c \<le> 126 then [c]
      else if c = CHR 0x97 then CHR 0x5C # ''u2014''
      else [CHR 0x5C, CHR ''u'', CHR ''0'', CHR ''0''] @ hex [c])"

definition json_quote :: "string \<Rightarrow> string" where
  "json_quote s = [CHR 0x22] @ concat (map escape_char s) @ [CHR 0x22]"

fun dumps :: "json \<Rightarrow> string" where
  "dumps JNull = ''null''"
| "dumps (JBool b) = (if b then ''true'' else ''false'')"
| "dumps (JInt i) = show_int i"
| "dumps (JFloat r) = r"
| "dumps (JString s) = json_quote s"
| "dumps (JArray xs) = ''['' @ join '','' (map dumps xs) @ '']''"
| "dumps (JObject kvs) = ''{'' @ join '','' (map (\<lambda>(k, t). json_quote k @ '':'' @ t)
     (sort_key fst (map (\<lambda>(k, v). (k, dumps v)) kvs))) @ ''}''"

lemma dumps_sample:
  "dumps (JObject [(''b'', JArray [JInt (-3), JNull]), (''a'', JString [CHR ''x'', CHR 0x22])])
     = ''{'' @ json_quote ''a'' @ '':'' @ [CHR 0x22, CHR ''x'', CHR 0x5C, CHR 0x22, CHR 0x22] @ '','' @ json_quote ''b'' @ '':[-3,null]}''"
  by code_simp

end
