(* ===== verification/Outbox.thy ===== *)
theory Outbox
  imports RetryQueue Json
begin

text \<open>
  \<open>infrastructure/outbox/publisher.py\<close>: the durable outbox.  A batch selects pending rows that are
  due, hands each to the transport and records the outcome; the whole batch is one transaction.
  Timestamps are instants in microseconds.  The cipher, the JSON parser, the transport and the
  delivery recorder are what the publisher is constructed with, and here the fields of the record
  \<open>outbox_env\<close>; the recorder may change the rest of the database and add outbox rows.  Rows locked by
  another worker are skipped, and rows with equal \<open>available_at\<close> are taken in the order of the
  table.
\<close>

section \<open>The table\<close>

record outbox_row =
  ox_id :: nat
  ox_event_id :: string
  ox_event_type :: string
  ox_schema_version :: string
  ox_tenant_id :: string
  ox_target_agent :: string
  ox_idempotency_key :: string
  ox_correlation_id :: string
  ox_payload_ciphertext :: string
  ox_available_at :: int
  ox_published_at :: "int option"
  ox_provider_reference :: "string option"
  ox_attempts :: int
  ox_last_error_code :: "string option"

record 'w outbox_db =
  od_rows :: "outbox_row list"
  od_next_id :: nat
  od_rest :: 'w

text \<open>The unique constraints on the event id and on tenant and idempotency key.\<close>

definition outbox_unique :: "outbox_row list \<Rightarrow> bool" where
  "outbox_unique rows \<longleftrightarrow> distinct (map ox_event_id rows)
     \<and> distinct (map (\<lambda>r. (ox_tenant_id r, ox_idempotency_key r)) rows)"

fun insert_rows :: "outbox_row list \<Rightarrow> 'w outbox_db \<Rightarrow> 'w outbox_db" where
  "insert_rows [] db = db"
| "insert_rows (r # rs) db =
     insert_rows rs (db\<lparr>od_rows := od_rows db @ [r\<lparr>ox_id := od_next_id db\<rparr>], od_next_id := od_next_id db + 1\<rparr>)"

definition update_row :: "nat \<Rightarrow> (outbox_row \<Rightarrow> outbox_row) \<Rightarrow> 'w outbox_db \<Rightarrow> 'w outbox_db" where
  "update_row i f db = db\<lparr>od_rows := map (\<lambda>r. if ox_id r = i then f r else r) (od_rows db)\<rparr>"

section \<open>The publisher\<close>

datatype delivery = Reference string | OutboxDeliveryResult string json_object

record ('p, 'w) outbox_env =
  oe_decrypt :: "string \<Rightarrow> string \<Rightarrow> string res"
  oe_loads_object :: "string \<Rightarrow> 'p res"
  oe_publish :: "string \<Rightarrow> 'p \<Rightarrow> string \<Rightarrow> string \<Rightarrow> delivery res"
  oe_recorder :: "(outbox_row \<Rightarrow> 'p \<Rightarrow> string \<Rightarrow> json_object \<Rightarrow> 'w \<Rightarrow> unit res \<times> 'w \<times> outbox_row list) option"
  oe_blocked_targets :: "string set"
  oe_maximum_attempts :: int

definition outbox_associated_data :: "outbox_row \<Rightarrow> string" where
  "outbox_associated_data row = ox_tenant_id row @ '':'' @ ox_target_agent row @ '':'' @ ox_event_id row"

definition select_due :: "('p, 'w) outbox_env \<Rightarrow> int \<Rightarrow> nat set \<Rightarrow> nat \<Rightarrow> outbox_row list \<Rightarrow> outbox_row list" where
  "select_due env now locked batch_size rows =
     take batch_size (sort_key ox_available_at (filter (\<lambda>r. ox_published_at r = None \<and> ox_available_at r \<le> now
       \<and> ox_attempts r < oe_maximum_attempts env \<and> ox_target_agent r \<notin> oe_blocked_targets env
       \<and> ox_id r \<notin> locked) rows))"

text \<open>The body of the \<open>try\<close> block up to the recorder; the second component is the database afterwards.\<close>

definition deliver_row :: "('p, 'w) outbox_env \<Rightarrow> outbox_row \<Rightarrow> 'w outbox_db \<Rightarrow> string res \<times> 'w outbox_db" where
  "deliver_row env row db =
     (case res_bind (oe_decrypt env (ox_payload_ciphertext row) (outbox_associated_data row)) (\<lambda>plaintext.
             res_bind (oe_loads_object env plaintext) (\<lambda>payload.
             res_bind (oe_publish env (ox_target_agent row) payload (ox_idempotency_key row) (ox_correlation_id row))
               (\<lambda>d. Inr (payload, case d of Reference ref \<Rightarrow> (ref, []) | OutboxDeliveryResult ref details \<Rightarrow> (ref, details))))) of
        Inl e \<Rightarrow> (Inl e, db)
      | Inr (payload, ref, details) \<Rightarrow>
          (case oe_recorder env of
             None \<Rightarrow> (Inr ref, db)
           | Some record_delivery \<Rightarrow>
               (case record_delivery row payload ref details (od_rest db) of
                  (r, rest, new) \<Rightarrow> (res_bind r (\<lambda>_. Inr ref), insert_rows new (db\<lparr>od_rest := rest\<rparr>)))))"

definition mark_published :: "int \<Rightarrow> string \<Rightarrow> outbox_row \<Rightarrow> outbox_row" where
  "mark_published now ref row = row\<lparr>ox_published_at := Some now, ox_provider_reference := Some (take 255 ref),
     ox_last_error_code := None\<rparr>"

definition mark_failed :: "int \<Rightarrow> outbox_row \<Rightarrow> outbox_row" where
  "mark_failed now row = (let n = ox_attempts row + 1
     in row\<lparr>ox_attempts := n, ox_last_error_code := Some ''DCC_OUTBOX_DELIVERY_FAILED'',
            ox_available_at := now + min 300 (2 ^ nat n) * 1000000\<rparr>)"

definition publish_row ::
  "('p, 'w) outbox_env \<Rightarrow> int \<Rightarrow> int \<times> int \<times> 'w outbox_db \<Rightarrow> outbox_row \<Rightarrow> int \<times> int \<times> 'w outbox_db" where
  "publish_row env now = (\<lambda>(published, failed, db) row.
     case deliver_row env row db of
       (Inr ref, db') \<Rightarrow> (published + 1, failed, update_row (ox_id row) (mark_published now ref) db')
     | (Inl e, db') \<Rightarrow> (published, failed + 1, update_row (ox_id row) (mark_failed now) db'))"

record outbox_batch_result =
  or_published :: int
  or_failed :: int

text \<open>A violated constraint fails the commit, which rolls the batch back and raises.\<close>

definition publish_batch ::
  "('p, 'w) outbox_env \<Rightarrow> int \<Rightarrow> nat set \<Rightarrow> nat \<Rightarrow> 'w outbox_db \<Rightarrow> (outbox_batch_result \<times> 'w outbox_db) res" where
  "publish_batch env now locked batch_size db =
     (case foldl (publish_row env now) (0, 0, db) (select_due env now locked batch_size (od_rows db)) of
        (published, failed, db') \<Rightarrow>
          if \<not> outbox_unique (od_rows db') then Inl (IntegrityError ''agent_outbox_events'')
          else Inr (\<lparr>or_published = published, or_failed = failed\<rparr>, db'))"

section \<open>One batch\<close>

definition wf_outbox :: "'w outbox_db \<Rightarrow> bool" where
  "wf_outbox db \<longleftrightarrow> distinct (map ox_id (od_rows db)) \<and> (\<forall>i\<in>set (map ox_id (od_rows db)). i < od_next_id db)"

text \<open>One attempt on a row.\<close>

definition outbox_attempt :: "int \<Rightarrow> outbox_row \<Rightarrow> outbox_row \<Rightarrow> bool" where
  "outbox_attempt maximum r r' \<longleftrightarrow> ox_published_at r = None \<and> ox_attempts r < maximum
     \<and> (\<exists>now. ox_available_at r \<le> now \<and> ((\<exists>ref. r' = mark_published now ref r) \<or> r' = mark_failed now r))"

lemma mark_simps [simp]:
  "ox_id (mark_published now ref r) = ox_id r" "ox_id (mark_failed now r) = ox_id r"
  "ox_published_at (mark_published now ref r) = Some now" "ox_published_at (mark_failed now r) = ox_published_at r"
  "ox_attempts (mark_published now ref r) = ox_attempts r" "ox_attempts (mark_failed now r) = ox_attempts r + 1"
  by (simp_all add: mark_published_def mark_failed_def Let_def)

interpretation outbox_queue: retry_queue "\<lambda>r. ox_published_at r \<noteq> None" ox_attempts maximum "outbox_attempt maximum"
  by unfold_locales (auto simp: outbox_attempt_def)

text \<open>The row with a given id.\<close>

definition find_row :: "nat \<Rightarrow> outbox_row list \<Rightarrow> outbox_row option" where
  "find_row i rows = List.find (\<lambda>r. ox_id r = i) rows"

lemma find_row_Some: "find_row i rows = Some r \<Longrightarrow> r \<in> set rows \<and> ox_id r = i"
  by (auto simp: find_row_def find_Some_iff)

lemma find_row_id: "wf_outbox db \<Longrightarrow> find_row i (od_rows db) = Some r \<Longrightarrow> i < od_next_id db"
  using find_row_Some [of i "od_rows db" r] by (auto simp: wf_outbox_def)

lemma find_row_mem: "distinct (map ox_id rows) \<Longrightarrow> r \<in> set rows \<Longrightarrow> find_row (ox_id r) rows = Some r"
  unfolding find_row_def by (induction rows) (auto intro: rev_image_eqI)

lemma find_row_update:
  assumes "\<And>r. ox_id (f r) = ox_id r"
  shows "find_row i (od_rows (update_row j f db)) = (if i = j then map_option f (find_row i (od_rows db)) else find_row i (od_rows db))"
proof -
  have "List.find (\<lambda>r. ox_id r = i) (map (\<lambda>r. if ox_id r = j then f r else r) rows)
      = (if i = j then map_option f (List.find (\<lambda>r. ox_id r = i) rows) else List.find (\<lambda>r. ox_id r = i) rows)" for rows
    using assms by (induction rows) auto
  then show ?thesis by (simp add: find_row_def update_row_def)
qed

lemma insert_rows_facts:
  assumes "wf_outbox db"
  shows "wf_outbox (insert_rows new db) \<and> od_next_id db \<le> od_next_id (insert_rows new db)
    \<and> (\<exists>add. od_rows (insert_rows new db) = od_rows db @ add \<and> (\<forall>i\<in>set (map ox_id add). od_next_id db \<le> i))"
  using assms
proof (induction new arbitrary: db)
  case (Cons r new)
  let ?r = "r\<lparr>ox_id := od_next_id db\<rparr>"
  let ?db = "db\<lparr>od_rows := od_rows db @ [?r], od_next_id := od_next_id db + 1\<rparr>"
  have "wf_outbox ?db" using Cons.prems by (auto simp: wf_outbox_def less_Suc_eq)
  from Cons.IH [OF this] obtain add where add: "wf_outbox (insert_rows new ?db)"
    "Suc (od_next_id db) \<le> od_next_id (insert_rows new ?db)"
    "od_rows (insert_rows new ?db) = od_rows db @ ?r # add" "\<forall>i\<in>set (map ox_id add). Suc (od_next_id db) \<le> i" by auto
  have "od_next_id db \<le> i" if "i \<in> set (map ox_id (?r # add))" for i
    using that add(4) by (cases "i = od_next_id db") (auto intro: Suc_leD)
  then show ?case using add by (intro conjI exI [of _ "?r # add"]) simp_all
qed simp

lemma find_row_append:
  "find_row i (xs @ ys) = (case find_row i xs of None \<Rightarrow> find_row i ys | Some r \<Rightarrow> Some r)"
  unfolding find_row_def by (induction xs) auto

lemma find_row_None: "find_row i rows = None \<longleftrightarrow> i \<notin> ox_id ` set rows"
  by (auto simp: find_row_def find_None_iff)

lemma insert_rows_find:
  assumes "wf_outbox db" "i < od_next_id db"
  shows "find_row i (od_rows (insert_rows new db)) = find_row i (od_rows db)"
proof -
  obtain add where add: "od_rows (insert_rows new db) = od_rows db @ add" "\<forall>i\<in>set (map ox_id add). od_next_id db \<le> i"
    using insert_rows_facts [OF assms(1)] by blast
  then have "find_row i add = None" using assms(2) by (auto simp: find_row_None)
  then show ?thesis unfolding add(1) find_row_append by (simp split: option.splits)
qed

text \<open>The transport's answer, which the recorder may still turn into a failure.\<close>

definition transport_accepts :: "('p, 'w) outbox_env \<Rightarrow> outbox_row \<Rightarrow> bool" where
  "transport_accepts env row \<longleftrightarrow> (\<exists>plaintext payload d.
     oe_decrypt env (ox_payload_ciphertext row) (outbox_associated_data row) = Inr plaintext
     \<and> oe_loads_object env plaintext = Inr payload
     \<and> oe_publish env (ox_target_agent row) payload (ox_idempotency_key row) (ox_correlation_id row) = Inr d)"

lemma deliver_row_facts:
  assumes "deliver_row env row db = (r, db')" "wf_outbox db"
  shows "wf_outbox db' \<and> od_next_id db \<le> od_next_id db'
    \<and> (\<forall>i<od_next_id db. find_row i (od_rows db') = find_row i (od_rows db))
    \<and> (\<forall>ref. r = Inr ref \<longrightarrow> transport_accepts env row)
    \<and> (oe_recorder env = None \<longrightarrow> transport_accepts env row \<longrightarrow> (\<exists>ref. r = Inr ref))"
proof (cases "transport_accepts env row")
  case False
  then have "\<exists>e. deliver_row env row db = (Inl e, db)"
    unfolding deliver_row_def transport_accepts_def by (auto simp: res_bind_def split: sum.splits)
  then show ?thesis using assms False by auto
next
  case True
  then obtain plaintext payload a where a: "oe_decrypt env (ox_payload_ciphertext row) (outbox_associated_data row) = Inr plaintext"
    "oe_loads_object env plaintext = Inr payload"
    "oe_publish env (ox_target_agent row) payload (ox_idempotency_key row) (ox_correlation_id row) = Inr a"
    by (auto simp: transport_accepts_def)
  obtain ref details where "(case a of Reference ref \<Rightarrow> (ref, []) | OutboxDeliveryResult ref details \<Rightarrow> (ref, details)) = (ref, details)"
    by fastforce
  with a have d: "deliver_row env row db =
      (case oe_recorder env of None \<Rightarrow> (Inr ref, db)
       | Some record_delivery \<Rightarrow> (case record_delivery row payload ref details (od_rest db) of
           (r, rest, new) \<Rightarrow> (res_bind r (\<lambda>_. Inr ref), insert_rows new (db\<lparr>od_rest := rest\<rparr>))))"
    unfolding deliver_row_def by simp
  show ?thesis
  proof (cases "oe_recorder env")
    case None
    then show ?thesis using assms True d by auto
  next
    case (Some record_delivery)
    obtain r0 rest new where rec: "record_delivery row payload ref details (od_rest db) = (r0, rest, new)"
      by (cases "record_delivery row payload ref details (od_rest db)")
    have wf: "wf_outbox (db\<lparr>od_rest := rest\<rparr>)" using assms(2) by (simp add: wf_outbox_def)
    have "db' = insert_rows new (db\<lparr>od_rest := rest\<rparr>)" using assms(1) d Some rec by auto
    then show ?thesis
      using insert_rows_facts [OF wf, of new] insert_rows_find [OF wf, of _ new] Some True by auto
  qed
qed

lemma update_row_wf: "(\<And>r. ox_id (f r) = ox_id r) \<Longrightarrow> wf_outbox (update_row i f db) = wf_outbox db"
  by (simp add: wf_outbox_def update_row_def comp_def if_distrib [of ox_id] cong: if_cong)

lemma update_row_next [simp]: "od_next_id (update_row i f db) = od_next_id db"
  by (simp add: update_row_def)

definition row_outcome :: "('p, 'w) outbox_env \<Rightarrow> int \<Rightarrow> outbox_row \<Rightarrow> outbox_row \<Rightarrow> bool" where
  "row_outcome env now r r' \<longleftrightarrow>
     (r' = mark_failed now r \<and> \<not> (oe_recorder env = None \<and> transport_accepts env r)
      \<or> transport_accepts env r \<and> (\<exists>ref. r' = mark_published now ref r))"

lemma publish_row_facts:
  assumes "publish_row env now (p, f, db) row = (p', f', db')" "wf_outbox db"
    and "find_row (ox_id row) (od_rows db) = Some row" "ox_published_at row = None"
  shows "wf_outbox db' \<and> od_next_id db \<le> od_next_id db' \<and> p' + f' = p + f + 1
    \<and> (\<exists>r'. find_row (ox_id row) (od_rows db') = Some r' \<and> row_outcome env now row r'
         \<and> p' = p + (if ox_published_at r' = None then 0 else 1))
    \<and> (\<forall>i<od_next_id db. i \<noteq> ox_id row \<longrightarrow> find_row i (od_rows db') = find_row i (od_rows db))"
proof -
  obtain r db1 where d: "deliver_row env row db = (r, db1)" by (cases "deliver_row env row db")
  note facts = deliver_row_facts [OF d assms(2)]
  have "ox_id row < od_next_id db" using assms(2) find_row_Some [OF assms(3)] by (auto simp: wf_outbox_def)
  then have row: "find_row (ox_id row) (od_rows db1) = Some row" using facts assms(3) by simp
  show ?thesis
  proof (cases r)
    case (Inl e)
    then have "p' = p" "f' = f + 1" "db' = update_row (ox_id row) (mark_failed now) db1"
      using assms(1) d by (simp_all add: publish_row_def)
    moreover have "row_outcome env now row (mark_failed now row)" using facts Inl by (auto simp: row_outcome_def)
    ultimately show ?thesis using facts row assms(4) by (simp add: update_row_wf find_row_update)
  next
    case (Inr ref)
    then have "p' = p + 1" "f' = f" "db' = update_row (ox_id row) (mark_published now ref) db1"
      using assms(1) d by (simp_all add: publish_row_def)
    moreover have "row_outcome env now row (mark_published now ref row)" using facts Inr by (auto simp: row_outcome_def)
    ultimately show ?thesis using facts row by (simp add: update_row_wf find_row_update)
  qed
qed

lemma publish_loop:
  assumes "foldl (publish_row env now) (p, f, db) sel = (p', f', db')" "wf_outbox db"
    and "distinct (map ox_id sel)" "\<forall>r\<in>set sel. find_row (ox_id r) (od_rows db) = Some r \<and> ox_published_at r = None"
  shows "wf_outbox db' \<and> od_next_id db \<le> od_next_id db' \<and> p' + f' = p + f + int (length sel)
    \<and> (\<forall>i<od_next_id db. i \<notin> ox_id ` set sel \<longrightarrow> find_row i (od_rows db') = find_row i (od_rows db))
    \<and> (\<forall>r\<in>set sel. \<exists>r'. find_row (ox_id r) (od_rows db') = Some r' \<and> row_outcome env now r r')"
  using assms
proof (induction sel arbitrary: p f db)
  case Nil
  then show ?case by simp
next
  case (Cons row sel)
  obtain p1 f1 db1 where s: "publish_row env now (p, f, db) row = (p1, f1, db1)"
    by (cases "publish_row env now (p, f, db) row")
  have row: "find_row (ox_id row) (od_rows db) = Some row" "ox_published_at row = None" using Cons.prems(4) by auto
  note step = publish_row_facts [OF s Cons.prems(2) row]
  have ids: "ox_id r < od_next_id db" if "r \<in> set (row # sel)" for r
    using that Cons.prems(2,4) find_row_id by blast
  have "find_row (ox_id r) (od_rows db1) = Some r \<and> ox_published_at r = None" if "r \<in> set sel" for r
  proof -
    have "ox_id r \<noteq> ox_id row" using that Cons.prems(3) by (metis distinct.simps(2) image_eqI list.simps(9) list.set_map)
    then show ?thesis using step Cons.prems(4) ids [of r] that by simp
  qed
  with Cons.IH [of p1 f1 db1] Cons.prems(1,3) s step
  have rest: "wf_outbox db' \<and> od_next_id db1 \<le> od_next_id db' \<and> p' + f' = p1 + f1 + int (length sel)
    \<and> (\<forall>i<od_next_id db1. i \<notin> ox_id ` set sel \<longrightarrow> find_row i (od_rows db') = find_row i (od_rows db1))
    \<and> (\<forall>r\<in>set sel. \<exists>r'. find_row (ox_id r) (od_rows db') = Some r' \<and> row_outcome env now r r')" by simp
  have mine: "ox_id row < od_next_id db1" "ox_id row \<notin> ox_id ` set sel"
    using ids [of row] step Cons.prems(3) by auto
  have "find_row i (od_rows db') = find_row i (od_rows db)" if "i < od_next_id db" "i \<notin> ox_id ` set (row # sel)" for i
  proof -
    have "i < od_next_id db1" "i \<noteq> ox_id row" "i \<notin> ox_id ` set sel" using that step by auto
    then show ?thesis using rest step that(1) by simp
  qed
  moreover have "\<exists>r'. find_row (ox_id row) (od_rows db') = Some r' \<and> row_outcome env now row r'"
    using mine rest step by metis
  ultimately show ?case using rest step by (auto simp: Ball_def)
qed

section \<open>Properties\<close>

lemma select_due_facts:
  assumes "wf_outbox db"
  shows "distinct (map ox_id (select_due env now locked n (od_rows db)))"
    "length (select_due env now locked n (od_rows db)) \<le> n"
    "r \<in> set (select_due env now locked n (od_rows db)) \<Longrightarrow>
       r \<in> set (od_rows db) \<and> find_row (ox_id r) (od_rows db) = Some r \<and> ox_published_at r = None \<and> ox_available_at r \<le> now
       \<and> ox_attempts r < oe_maximum_attempts env \<and> ox_target_agent r \<notin> oe_blocked_targets env \<and> ox_id r \<notin> locked"
proof -
  let ?P = "\<lambda>r. ox_published_at r = None \<and> ox_available_at r \<le> now \<and> ox_attempts r < oe_maximum_attempts env
      \<and> ox_target_agent r \<notin> oe_blocked_targets env \<and> ox_id r \<notin> locked"
  have d: "distinct (map ox_id (od_rows db))" using assms by (simp add: wf_outbox_def)
  have "mset (map ox_id (sort_key ox_available_at (filter ?P (od_rows db)))) = mset (map ox_id (filter ?P (od_rows db)))" by simp
  then have "distinct (map ox_id (sort_key ox_available_at (filter ?P (od_rows db))))"
    using distinct_map_filter [OF d] mset_eq_imp_distinct_iff by blast
  then show "distinct (map ox_id (select_due env now locked n (od_rows db)))"
    unfolding select_due_def by (simp add: distinct_take flip: take_map)
  show "length (select_due env now locked n (od_rows db)) \<le> n" by (simp add: select_due_def)
  show "r \<in> set (od_rows db) \<and> find_row (ox_id r) (od_rows db) = Some r \<and> ox_published_at r = None \<and> ox_available_at r \<le> now
       \<and> ox_attempts r < oe_maximum_attempts env \<and> ox_target_agent r \<notin> oe_blocked_targets env \<and> ox_id r \<notin> locked"
    if "r \<in> set (select_due env now locked n (od_rows db))"
    using that d by (auto simp: select_due_def find_row_mem dest!: in_set_takeD)
qed

lemma publish_batch_facts:
  assumes "wf_outbox db" "publish_batch env now locked n db = Inr (res, db')"
  shows "wf_outbox db' \<and> or_published res + or_failed res = int (length (select_due env now locked n (od_rows db)))
    \<and> (\<forall>i<od_next_id db. i \<notin> ox_id ` set (select_due env now locked n (od_rows db)) \<longrightarrow>
         find_row i (od_rows db') = find_row i (od_rows db))
    \<and> (\<forall>r\<in>set (select_due env now locked n (od_rows db)).
         \<exists>r'. find_row (ox_id r) (od_rows db') = Some r' \<and> row_outcome env now r r')"
proof -
  let ?sel = "select_due env now locked n (od_rows db)"
  obtain p f where loop: "foldl (publish_row env now) (0, 0, db) ?sel = (p, f, db')"
    "res = \<lparr>or_published = p, or_failed = f\<rparr>"
    using assms(2) by (auto simp: publish_batch_def split: prod.splits if_splits)
  have "\<forall>r\<in>set ?sel. find_row (ox_id r) (od_rows db) = Some r \<and> ox_published_at r = None"
    using select_due_facts(3) [OF assms(1)] by blast
  from publish_loop [OF loop(1) assms(1) select_due_facts(1) [OF assms(1)] this] loop(2) show ?thesis by simp
qed


text \<open>A history of batches, and how often it attempts a row.\<close>

type_synonym ('p, 'w) outbox_batch = "('p, 'w) outbox_env \<times> int \<times> nat set \<times> nat"

definition batch_step :: "'w outbox_db \<Rightarrow> ('p, 'w) outbox_batch \<Rightarrow> 'w outbox_db res" where
  "batch_step db = (\<lambda>(env, now, locked, n). res_bind (publish_batch env now locked n db) (\<lambda>(res, db'). Inr db'))"

fun tries :: "nat \<Rightarrow> ('p, 'w) outbox_batch list \<Rightarrow> 'w outbox_db \<Rightarrow> nat" where
  "tries i [] db = 0"
| "tries i (b # bs) db =
     (case b of (env, now, locked, n) \<Rightarrow> if i \<in> ox_id ` set (select_due env now locked n (od_rows db)) then 1 else 0)
     + (case batch_step db b of Inl e \<Rightarrow> 0 | Inr db' \<Rightarrow> tries i bs db')"

lemma batch_step_attempt:
  assumes "wf_outbox db" "batch_step db (env, now, locked, n) = Inr db'" "oe_maximum_attempts env = maximum"
    and "find_row i (od_rows db) = Some r"
  shows "wf_outbox db' \<and> (\<exists>r'. find_row i (od_rows db') = Some r' \<and>
    (if i \<in> ox_id ` set (select_due env now locked n (od_rows db)) then outbox_attempt maximum r r' else r' = r))"
proof -
  let ?sel = "select_due env now locked n (od_rows db)"
  obtain res where b: "publish_batch env now locked n db = Inr (res, db')"
    using assms(2) by (auto simp: batch_step_def res_simps)
  note facts = publish_batch_facts [OF assms(1) b] and sel = select_due_facts(3) [OF assms(1)]
  show ?thesis
  proof (cases "i \<in> ox_id ` set ?sel")
    case True
    then have r: "r \<in> set ?sel" "ox_id r = i" using sel assms(4) by fastforce+
    then obtain r' where "find_row i (od_rows db') = Some r'" "row_outcome env now r r'" using facts by blast
    then show ?thesis
      using True facts sel [OF r(1)] assms(3) by (auto simp: row_outcome_def outbox_attempt_def)
  next
    case False
    then show ?thesis using facts assms(4) find_row_id [OF assms(1,4)] by simp
  qed
qed

lemma history_attempts:
  assumes "wf_outbox db" "res_fold batch_step db bs = Inr db'" "\<forall>(env, _)\<in>set bs. oe_maximum_attempts env = maximum"
    and "find_row i (od_rows db) = Some r"
  shows "\<exists>r'. find_row i (od_rows db') = Some r' \<and> (outbox_attempt maximum ^^ tries i bs db) r r'"
  using assms
proof (induction bs arbitrary: db r)
  case Nil
  then show ?case by auto
next
  case (Cons b bs)
  obtain env now locked n where b: "b = (env, now, locked, n)" by (cases b)
  from Cons.prems(2) obtain db1 where s: "batch_step db b = Inr db1" "res_fold batch_step db1 bs = Inr db'"
    by (auto simp: res_simps)
  have "oe_maximum_attempts env = maximum" using Cons.prems(3) b by auto
  from batch_step_attempt [OF Cons.prems(1) s(1) [unfolded b] this Cons.prems(4)] obtain r1 where
    r1: "wf_outbox db1" "find_row i (od_rows db1) = Some r1"
    "if i \<in> ox_id ` set (select_due env now locked n (od_rows db)) then outbox_attempt maximum r r1 else r1 = r" by blast
  have rest: "\<forall>(env, _)\<in>set bs. oe_maximum_attempts env = maximum" using Cons.prems(3) by simp
  from Cons.IH [OF r1(1) s(2) rest r1(2)] obtain r' where
    r': "find_row i (od_rows db') = Some r'" "(outbox_attempt maximum ^^ tries i bs db1) r1 r'" by blast
  have "(outbox_attempt maximum ^^ tries i (b # bs) db) r r'"
  proof (cases "i \<in> ox_id ` set (select_due env now locked n (od_rows db))")
    case True
    then have t: "tries i (b # bs) db = Suc (tries i bs db1)" using s(1) b by simp
    have "outbox_attempt maximum r r1" using r1(3) True by simp
    then show ?thesis unfolding t using r'(2) by (rule relpowp_Suc_I2)
  next
    case False
    then have "tries i (b # bs) db = tries i bs db1" using s(1) b by simp
    then show ?thesis using r1(3) r'(2) False by simp
  qed
  then show ?case using r'(1) by blast
qed

text \<open>
  Over any history of committed batches a row is handed to the transport at most as often as its
  remaining attempts allow, so never more than the configured maximum; its attempts stay within
  the maximum; and a published row is never attempted again and never changes.
\<close>

theorem outbox_attempts_bounded:
  assumes "wf_outbox db" "res_fold batch_step db bs = Inr db'" "\<forall>(env, _)\<in>set bs. oe_maximum_attempts env = maximum"
    and "find_row i (od_rows db) = Some r" "0 \<le> ox_attempts r" "ox_attempts r \<le> maximum"
  shows "int (tries i bs db) \<le> maximum - ox_attempts r
    \<and> (\<exists>r'. find_row i (od_rows db') = Some r' \<and> ox_attempts r' \<le> maximum
         \<and> (ox_published_at r \<noteq> None \<longrightarrow> r' = r \<and> tries i bs db = 0))"
proof -
  obtain r' where r': "find_row i (od_rows db') = Some r'" "(outbox_attempt maximum ^^ tries i bs db) r r'"
    using history_attempts [OF assms(1-4)] by blast
  then show ?thesis
    using outbox_queue.attempts_bounded [OF r'(2) assms(6)] outbox_queue.attempts_within [OF r'(2) assms(6)]
      outbox_queue.finished_final [OF _ r'(2)] by auto
qed

definition sample_outbox_row :: outbox_row where
  "sample_outbox_row = \<lparr>ox_id = 1, ox_event_id = ''e1'', ox_event_type = ''demo.reply.v1'', ox_schema_version = ''1'',
     ox_tenant_id = ''t'', ox_target_agent = ''lead-intake'', ox_idempotency_key = ''k1'', ox_correlation_id = ''c1'',
     ox_payload_ciphertext = ''x'', ox_available_at = 0, ox_published_at = None, ox_provider_reference = None,
     ox_attempts = 0, ox_last_error_code = None\<rparr>"

definition sample_outbox_env :: "bool \<Rightarrow> (string, unit) outbox_env" where
  "sample_outbox_env up = \<lparr>oe_decrypt = (\<lambda>c _. Inr c), oe_loads_object = Inr,
     oe_publish = (\<lambda>_ _ key _. if up then Inr (Reference key) else Inl (RuntimeError ''unavailable'')),
     oe_recorder = None, oe_blocked_targets = {}, oe_maximum_attempts = 8\<rparr>"

definition sample_outbox :: "unit outbox_db" where
  "sample_outbox = \<lparr>od_rows = [sample_outbox_row], od_next_id = 2, od_rest = ()\<rparr>"

lemma sample_outbox_wf: "wf_outbox sample_outbox"
  by (simp add: wf_outbox_def sample_outbox_def sample_outbox_row_def)

lemmas sample_outbox_defs = sample_outbox_def sample_outbox_row_def sample_outbox_env_def publish_batch_def
  select_due_def publish_row_def deliver_row_def update_row_def mark_failed_def mark_published_def outbox_unique_def


theorem outbox_attempts_bounded_witness:
  "\<exists>db'. res_fold batch_step sample_outbox [(sample_outbox_env False, 5, {}, 10), (sample_outbox_env True, 9000000, {}, 10)] = Inr db'
     \<and> tries 1 [(sample_outbox_env False, 5, {}, 10), (sample_outbox_env True, 9000000, {}, 10)] sample_outbox \<le> 8"
proof -
  let ?bs = "[(sample_outbox_env False, 5, {}, 10), (sample_outbox_env True, 9000000, {}, 10)]"
  obtain db' where b: "res_fold batch_step sample_outbox ?bs = Inr db'"
    by (simp add: batch_step_def sample_outbox_defs)
  have "find_row 1 (od_rows sample_outbox) = Some sample_outbox_row"
    by (simp add: find_row_def sample_outbox_def sample_outbox_row_def)
  moreover have "0 \<le> ox_attempts sample_outbox_row" "ox_attempts sample_outbox_row = 0"
    "\<forall>(env, _)\<in>set ?bs. oe_maximum_attempts env = 8"
    by (simp_all add: sample_outbox_row_def sample_outbox_env_def)
  ultimately show ?thesis using outbox_attempts_bounded [OF sample_outbox_wf b, of 8 1 sample_outbox_row] b by auto
qed

end
