(* ===== verification/Inbox.thy ===== *)
theory Inbox
  imports RetryQueue
begin

text \<open>
  \<open>infrastructure/inbox/durable_ingress.py\<close> and the queue part of \<open>infrastructure/inbox/processor.py\<close>:
  events are stored once, encrypted, and later handled one at a time, oldest first, each in its own
  transaction.  Timestamps are instants in microseconds.  The serialiser, the cipher, the validation
  of an envelope and the event handler are what these classes are constructed with or call, and are
  arguments of the model; a handler changes the rest of the database or raises.  Rows locked by
  another worker are skipped, and rows received at the same instant are taken in table order.
\<close>

section \<open>The table\<close>

record inbox_event =
  ev_event_id :: string
  ev_event_type :: string
  ev_schema_version :: string
  ev_source_agent :: string
  ev_tenant_id :: string
  ev_idempotency_key :: string
  ev_correlation_id :: string
  ev_body :: string

record inbox_row =
  ix_id :: nat
  ix_event_id :: string
  ix_event_type :: string
  ix_schema_version :: string
  ix_source_agent :: string
  ix_tenant_id :: string
  ix_idempotency_key :: string
  ix_correlation_id :: string
  ix_payload_ciphertext :: string
  ix_payload_key_reference :: string
  ix_received_at :: int
  ix_processed_at :: "int option"
  ix_processing_attempts :: int
  ix_error_code :: "string option"

record 'w inbox_db =
  id_rows :: "inbox_row list"
  id_next_id :: nat
  id_rest :: 'w

text \<open>The two unique constraints.\<close>

definition inbox_unique :: "inbox_row list \<Rightarrow> bool" where
  "inbox_unique rows \<longleftrightarrow> distinct (map (\<lambda>r. (ix_source_agent r, ix_event_id r, ix_schema_version r)) rows)
     \<and> distinct (map (\<lambda>r. (ix_tenant_id r, ix_idempotency_key r)) rows)"

section \<open>Ingress\<close>

datatype ingress_status = Accepted | Duplicate

record ingress_env =
  ie_dumps :: "inbox_event \<Rightarrow> string"
  ie_encrypt :: "string \<Rightarrow> string \<Rightarrow> string"
  ie_key_reference :: string

definition ingress_associated_data :: "inbox_event \<Rightarrow> string" where
  "ingress_associated_data event = ev_tenant_id event @ '':'' @ ev_source_agent event @ '':'' @ ev_event_id event"

definition ingress_row :: "ingress_env \<Rightarrow> int \<Rightarrow> nat \<Rightarrow> inbox_event \<Rightarrow> inbox_row" where
  "ingress_row env now i event =
     \<lparr>ix_id = i, ix_event_id = ev_event_id event, ix_event_type = ev_event_type event,
      ix_schema_version = ev_schema_version event, ix_source_agent = ev_source_agent event,
      ix_tenant_id = ev_tenant_id event, ix_idempotency_key = ev_idempotency_key event,
      ix_correlation_id = ev_correlation_id event,
      ix_payload_ciphertext = ie_encrypt env (ie_dumps env event) (ingress_associated_data event),
      ix_payload_key_reference = ie_key_reference env, ix_received_at = now, ix_processed_at = None,
      ix_processing_attempts = 0, ix_error_code = None\<rparr>"

definition is_duplicate :: "inbox_event \<Rightarrow> inbox_row \<Rightarrow> bool" where
  "is_duplicate event r \<longleftrightarrow>
     ix_source_agent r = ev_source_agent event \<and> ix_event_id r = ev_event_id event \<and> ix_schema_version r = ev_schema_version event
     \<or> ix_tenant_id r = ev_tenant_id event \<and> ix_idempotency_key r = ev_idempotency_key event"

record ingress_receipt =
  ir_event_id :: string
  ir_status :: ingress_status
  ir_correlation_id :: string

definition receipt :: "inbox_event \<Rightarrow> ingress_status \<Rightarrow> ingress_receipt" where
  "receipt event s = \<lparr>ir_event_id = ev_event_id event, ir_status = s, ir_correlation_id = ev_correlation_id event\<rparr>"

definition accept :: "ingress_env \<Rightarrow> int \<Rightarrow> inbox_event \<Rightarrow> 'w inbox_db \<Rightarrow> ingress_receipt res \<times> 'w inbox_db" where
  "accept env now event db =
     (let row = ingress_row env now (id_next_id db) event;
          rows' = id_rows db @ [row]
      in if inbox_unique rows'
         then (Inr (receipt event Accepted), db\<lparr>id_rows := rows', id_next_id := id_next_id db + 1\<rparr>)
         else if list_ex (is_duplicate event) (id_rows db) then (Inr (receipt event Duplicate), db)
         else (Inl (IntegrityError ''agent_inbox_events''), db))"

datatype event_state = EventFailed | EventProcessed | EventPending

record ingress_event_status =
  is_event_id :: string
  is_state :: event_state
  is_received_at :: int
  is_processed_at :: "int option"
  is_processing_attempts :: int
  is_error_code :: "string option"

definition row_status :: "inbox_row \<Rightarrow> ingress_event_status" where
  "row_status row =
     \<lparr>is_event_id = ix_event_id row,
      is_state = (if (case ix_error_code row of None \<Rightarrow> False | Some c \<Rightarrow> c \<noteq> '''') then EventFailed
                  else if ix_processed_at row \<noteq> None then EventProcessed else EventPending),
      is_received_at = ix_received_at row, is_processed_at = ix_processed_at row,
      is_processing_attempts = ix_processing_attempts row, is_error_code = ix_error_code row\<rparr>"

text \<open>\<open>one_or_none\<close> raises when the query has more than one result.\<close>

definition status :: "string \<Rightarrow> 'w inbox_db \<Rightarrow> ingress_event_status option res" where
  "status event_id db =
     (case filter (\<lambda>r. ix_event_id r = event_id) (id_rows db) of
        [] \<Rightarrow> Inr None
      | [row] \<Rightarrow> Inr (Some (row_status row))
      | _ \<Rightarrow> Inl (RuntimeError ''MultipleResultsFound''))"

section \<open>Processing\<close>

record ('e, 'w) inbox_env =
  ne_decrypt :: "string \<Rightarrow> string \<Rightarrow> string res"
  ne_validate :: "string \<Rightarrow> 'e res"
  ne_handle :: "'e \<Rightarrow> 'w \<Rightarrow> 'w res"
  ne_blocked_event_types :: "string set"
  ne_maximum_attempts :: int

definition inbox_associated_data :: "inbox_row \<Rightarrow> string" where
  "inbox_associated_data row = ix_tenant_id row @ '':'' @ ix_source_agent row @ '':'' @ ix_event_id row"

definition waiting :: "('e, 'w) inbox_env \<Rightarrow> nat set \<Rightarrow> inbox_row \<Rightarrow> bool" where
  "waiting env locked r \<longleftrightarrow> ix_processed_at r = None \<and> ix_processing_attempts r < ne_maximum_attempts env
     \<and> ix_event_type r \<notin> ne_blocked_event_types env \<and> ix_id r \<notin> locked"

definition next_row :: "('e, 'w) inbox_env \<Rightarrow> nat set \<Rightarrow> inbox_row list \<Rightarrow> inbox_row option" where
  "next_row env locked rows =
     (case sort_key ix_received_at (filter (waiting env locked) rows) of [] \<Rightarrow> None | r # _ \<Rightarrow> Some r)"

definition handle_row :: "('e, 'w) inbox_env \<Rightarrow> inbox_row \<Rightarrow> 'w \<Rightarrow> 'w res" where
  "handle_row env row rest =
     res_bind (ne_decrypt env (ix_payload_ciphertext row) (inbox_associated_data row)) (\<lambda>plaintext.
     res_bind (ne_validate env plaintext) (\<lambda>event. ne_handle env event rest))"

definition mark_processed :: "int \<Rightarrow> inbox_row \<Rightarrow> inbox_row" where
  "mark_processed now row = row\<lparr>ix_processed_at := Some now, ix_processing_attempts := ix_processing_attempts row + 1,
     ix_error_code := None\<rparr>"

definition mark_attempt_failed :: "inbox_row \<Rightarrow> inbox_row" where
  "mark_attempt_failed row = row\<lparr>ix_processing_attempts := ix_processing_attempts row + 1,
     ix_error_code := Some ''DCC_INBOX_PROCESSING_FAILED''\<rparr>"

definition update_inbox_row :: "nat \<Rightarrow> (inbox_row \<Rightarrow> inbox_row) \<Rightarrow> inbox_row list \<Rightarrow> inbox_row list" where
  "update_inbox_row i f rows = map (\<lambda>r. if ix_id r = i then f r else r) rows"

text \<open>
  An exception rolls the session back: what the handler did is undone, and the failure is recorded
  in a session of its own.
\<close>

definition process_one :: "('e, 'w) inbox_env \<Rightarrow> int \<Rightarrow> nat set \<Rightarrow> 'w inbox_db \<Rightarrow> bool option \<times> 'w inbox_db" where
  "process_one env now locked db =
     (case next_row env locked (id_rows db) of
        None \<Rightarrow> (None, db)
      | Some row \<Rightarrow>
          (case handle_row env row (id_rest db) of
             Inr rest \<Rightarrow> (Some True, db\<lparr>id_rows := update_inbox_row (ix_id row) (mark_processed now) (id_rows db), id_rest := rest\<rparr>)
           | Inl e \<Rightarrow> (Some False, db\<lparr>id_rows := update_inbox_row (ix_id row) mark_attempt_failed (id_rows db)\<rparr>)))"

fun process_batch ::
  "('e, 'w) inbox_env \<Rightarrow> (nat \<Rightarrow> int) \<Rightarrow> nat set \<Rightarrow> nat \<Rightarrow> int \<times> int \<times> 'w inbox_db \<Rightarrow> int \<times> int \<times> 'w inbox_db" where
  "process_batch env clock locked 0 s = s"
| "process_batch env clock locked (Suc n) (processed, failed, db) =
     (case process_one env (clock n) locked db of
        (None, db') \<Rightarrow> (processed, failed, db')
      | (Some ok, db') \<Rightarrow>
          process_batch env clock locked n (if ok then processed + 1 else processed, if ok then failed else failed + 1, db'))"

section \<open>The retry contract\<close>

definition inbox_attempt :: "int \<Rightarrow> inbox_row \<Rightarrow> inbox_row \<Rightarrow> bool" where
  "inbox_attempt maximum r r' \<longleftrightarrow> ix_processed_at r = None \<and> ix_processing_attempts r < maximum
     \<and> ((\<exists>now. r' = mark_processed now r) \<or> r' = mark_attempt_failed r)"

lemma inbox_mark_simps [simp]:
  "ix_id (mark_processed now r) = ix_id r" "ix_id (mark_attempt_failed r) = ix_id r"
  "ix_processed_at (mark_processed now r) = Some now" "ix_processed_at (mark_attempt_failed r) = ix_processed_at r"
  "ix_processing_attempts (mark_processed now r) = ix_processing_attempts r + 1"
  "ix_processing_attempts (mark_attempt_failed r) = ix_processing_attempts r + 1"
  "ix_event_type (mark_processed now r) = ix_event_type r" "ix_event_type (mark_attempt_failed r) = ix_event_type r"
  by (simp_all add: mark_processed_def mark_attempt_failed_def)

interpretation inbox_queue: retry_queue "\<lambda>r. ix_processed_at r \<noteq> None" ix_processing_attempts maximum "inbox_attempt maximum"
  by unfold_locales (auto simp: inbox_attempt_def)

section \<open>Ingress is idempotent\<close>

lemma duplicate_iff:
  assumes "inbox_unique rows"
  shows "inbox_unique (rows @ [ingress_row env now i event]) \<longleftrightarrow> \<not> list_ex (is_duplicate event) rows"
  using assms by (auto simp: inbox_unique_def ingress_row_def is_duplicate_def list_ex_iff image_iff)


definition sample_event :: inbox_event where
  "sample_event = \<lparr>ev_event_id = ''e1'', ev_event_type = ''demo.requested.v1'', ev_schema_version = ''1.0'',
     ev_source_agent = ''lead-intake'', ev_tenant_id = ''t'', ev_idempotency_key = ''k1'', ev_correlation_id = ''c1'', ev_body = ''{}''\<rparr>"

definition sample_ingress :: ingress_env where
  "sample_ingress = \<lparr>ie_dumps = ev_body, ie_encrypt = (\<lambda>p a. a @ p), ie_key_reference = ''v1''\<rparr>"

definition empty_inbox :: "nat inbox_db" where
  "empty_inbox = \<lparr>id_rows = [], id_next_id = 1, id_rest = 0\<rparr>"


text \<open>
  The event id alone is not unique: after two sources sent events with the same id, asking for the
  status of that id raises instead of answering.
\<close>

lemma status_ambiguous:
  "let other = sample_event\<lparr>ev_source_agent := ''onboarding-agent'', ev_idempotency_key := ''k2''\<rparr>;
       db1 = snd (accept sample_ingress 5 sample_event empty_inbox);
       db2 = snd (accept sample_ingress 6 other db1)
   in fst (accept sample_ingress 6 other db1) = Inr (receipt other Accepted)
      \<and> status ''e1'' db2 = Inl (RuntimeError ''MultipleResultsFound'')"
  by (simp add: accept_def Let_def inbox_unique_def empty_inbox_def sample_event_def ingress_row_def status_def)

section \<open>Processing is atomic and fair\<close>

lemma next_row_None [simp]: "next_row env locked rows = None \<longleftrightarrow> \<not> list_ex (waiting env locked) rows"
proof -
  have "sort_key ix_received_at (filter (waiting env locked) rows) = [] \<longleftrightarrow> \<not> list_ex (waiting env locked) rows"
    by (simp add: filter_empty_conv list_ex_iff Ball_def flip: set_empty)
  then show ?thesis by (auto simp: next_row_def split: list.splits)
qed

lemma next_row_Some:
  assumes "next_row env locked rows = Some row"
  shows "row \<in> set rows" "waiting env locked row"
    "\<And>r. r \<in> set rows \<Longrightarrow> waiting env locked r \<Longrightarrow> ix_received_at row \<le> ix_received_at r"
proof -
  obtain rest where s: "sort_key ix_received_at (filter (waiting env locked) rows) = row # rest"
    using assms by (auto simp: next_row_def split: list.splits)
  have "set (row # rest) = set (filter (waiting env locked) rows)" by (simp flip: s)
  then show "row \<in> set rows" "waiting env locked row" by auto
  fix r assume "r \<in> set rows" "waiting env locked r"
  then have "r \<in> set (row # rest)" by (simp flip: s)
  moreover have "sorted (map ix_received_at (row # rest))" by (metis s sorted_sort_key)
  ultimately show "ix_received_at row \<le> ix_received_at r" by auto
qed

lemma update_inbox_row_eq:
  assumes "distinct (map ix_id rows)" "row \<in> set rows"
  shows "update_inbox_row (ix_id row) f rows = map (\<lambda>r. if r = row then f r else r) rows"
  using assms by (auto simp: update_inbox_row_def distinct_map inj_on_def)


definition sample_inbox_env :: "(string, nat) inbox_env" where
  "sample_inbox_env = \<lparr>ne_decrypt = (\<lambda>c a. if take (length a) c = a then Inr (drop (length a) c) else Inl (ValueError ''tag'')),
     ne_validate = Inr, ne_handle = (\<lambda>e w. if e = ''{}'' then Inr (w + 1) else Inl (ValueError ''handler'')),
     ne_blocked_event_types = {''payment.verify''}, ne_maximum_attempts = 2\<rparr>"

definition sample_inbox :: "nat inbox_db" where
  "sample_inbox = \<lparr>id_rows =
     [ingress_row sample_ingress 7 1 (sample_event\<lparr>ev_body := ''bad''\<rparr>), ingress_row sample_ingress 5 2 sample_event],
     id_next_id = 3, id_rest = 0\<rparr>"

lemma next_row_sample: "next_row sample_inbox_env {} (id_rows sample_inbox) = Some (ingress_row sample_ingress 5 2 sample_event)"
  by (simp add: next_row_def sample_inbox_def ingress_row_def waiting_def sample_inbox_env_def sample_event_def)

lemma process_one_sample:
  "process_one sample_inbox_env 20 {} sample_inbox =
     (Some True, sample_inbox\<lparr>id_rows := update_inbox_row 2 (mark_processed 20) (id_rows sample_inbox), id_rest := 1\<rparr>)"
proof -
  have "handle_row sample_inbox_env (ingress_row sample_ingress 5 2 sample_event) 0 = Inr 1"
    by (simp add: handle_row_def sample_inbox_env_def ingress_row_def sample_ingress_def sample_event_def
        ingress_associated_data_def inbox_associated_data_def)
  then show ?thesis unfolding process_one_def next_row_sample by (simp add: sample_inbox_def ingress_row_def)
qed


section \<open>Draining\<close>

text \<open>The attempts the waiting rows still have.\<close>

definition attempts_left :: "('e, 'w) inbox_env \<Rightarrow> nat set \<Rightarrow> inbox_row \<Rightarrow> nat" where
  "attempts_left env locked r = (if waiting env locked r then nat (ne_maximum_attempts env - ix_processing_attempts r) else 0)"

definition work_left :: "('e, 'w) inbox_env \<Rightarrow> nat set \<Rightarrow> inbox_row list \<Rightarrow> nat" where
  "work_left env locked rows = sum_list (map (attempts_left env locked) rows)"

lemma attempts_left_pos [simp]: "0 < attempts_left env locked r \<longleftrightarrow> waiting env locked r"
  by (auto simp: attempts_left_def waiting_def)

lemma work_left_0 [simp]: "work_left env locked rows = 0 \<longleftrightarrow> \<not> list_ex (waiting env locked) rows"
proof -
  have "attempts_left env locked r = 0 \<longleftrightarrow> \<not> waiting env locked r" for r
    using attempts_left_pos [of env locked r] by linarith
  then show ?thesis by (simp add: work_left_def list_ex_iff)
qed

lemma attempts_left_marked:
  "attempts_left env locked (mark_processed now r) = 0"
  "attempts_left env locked (mark_attempt_failed r) = attempts_left env locked r - 1"
  by (auto simp: attempts_left_def waiting_def)

lemma work_left_update:
  assumes "row \<in> set rows" "waiting env locked row" "\<And>r. attempts_left env locked (f r) \<le> attempts_left env locked r - 1"
  shows "work_left env locked (update_inbox_row (ix_id row) f rows) < work_left env locked rows"
proof -
  let ?g = "\<lambda>r. attempts_left env locked (if ix_id r = ix_id row then f r else r)"
  obtain xs ys where rows: "rows = xs @ row # ys" using assms(1) by (auto simp: in_set_conv_decomp)
  have le: "?g r \<le> attempts_left env locked r" for r using assms(3) [of r] by auto
  have "0 < attempts_left env locked row" using assms(2) by simp
  then have "?g row < attempts_left env locked row" using assms(3) [of row] by (auto simp del: attempts_left_pos)
  moreover have "sum_list (map ?g zs) \<le> sum_list (map (attempts_left env locked) zs)" for zs
    by (rule sum_list_mono) (rule le)
  ultimately have "sum_list (map ?g rows) < sum_list (map (attempts_left env locked) rows)"
    unfolding rows by (simp add: add_le_less_mono add_less_le_mono)
  then show ?thesis by (simp add: work_left_def update_inbox_row_def comp_def)
qed

lemma process_one_progress:
  assumes "process_one env now locked db = (Some ok, db')"
  shows "work_left env locked (id_rows db') < work_left env locked (id_rows db)"
proof -
  obtain row where n: "next_row env locked (id_rows db) = Some row"
    using assms by (auto simp: process_one_def split: option.splits)
  note row = next_row_Some(1,2) [OF n]
  show ?thesis using assms n
    by (auto simp: process_one_def attempts_left_marked intro!: work_left_update [OF row] split: sum.splits)
qed

lemma process_one_None:
  assumes "process_one env now locked db = (None, db')"
  shows "db' = db" "work_left env locked (id_rows db) = 0"
  using assms by (auto simp: process_one_def split: option.splits sum.splits)

lemma process_batch_work:
  assumes "process_batch env clock locked n (p, f, db) = (p', f', db')"
  shows "int (work_left env locked (id_rows db')) + (p' + f') \<le> int (work_left env locked (id_rows db)) + (p + f)
    \<and> (work_left env locked (id_rows db') = 0 \<or> p' + f' = p + f + int n)"
  using assms
proof (induction n arbitrary: p f db)
  case (Suc n)
  obtain r db1 where one: "process_one env (clock n) locked db = (r, db1)" by (cases "process_one env (clock n) locked db")
  show ?case
  proof (cases r)
    case None
    then show ?thesis using one Suc.prems process_one_None [of env "clock n" locked db db1] by auto
  next
    case (Some ok)
    have "process_batch env clock locked n (if ok then p + 1 else p, if ok then f else f + 1, db1) = (p', f', db')"
      using Suc.prems one Some by simp
    from Suc.IH [OF this] process_one_progress [of env "clock n" locked db ok db1] one Some show ?thesis
      by (cases ok) auto
  qed
qed simp

text \<open>
  (C26) The worker drains the inbox: a batch as large as the attempts the waiting rows still have
  leaves no row waiting, whatever the payloads and the handler do, and the events it counts are at
  most those attempts.  A failing event cannot keep the worker busy beyond its own attempts.
\<close>

theorem process_batch_drains:
  assumes "work_left env locked (id_rows db) \<le> n"
    and "process_batch env clock locked n (0, 0, db) = (processed, failed, db')"
  shows "\<not> list_ex (waiting env locked) (id_rows db') \<and> processed + failed \<le> int (work_left env locked (id_rows db))"
  using process_batch_work [OF assms(2)] assms(1) unfolding work_left_0 [symmetric] by linarith

theorem process_batch_drains_witness:
  "\<exists>p f db'. process_batch sample_inbox_env int {} 4 (0, 0, sample_inbox) = (p, f, db')
     \<and> \<not> list_ex (waiting sample_inbox_env {}) (id_rows db') \<and> p + f \<le> 4"
proof -
  obtain p f db' where b: "process_batch sample_inbox_env int {} 4 (0, 0, sample_inbox) = (p, f, db')"
    by (cases "process_batch sample_inbox_env int {} 4 (0, 0, sample_inbox)")
  have w: "work_left sample_inbox_env {} (id_rows sample_inbox) = 4"
    by (simp add: work_left_def attempts_left_def waiting_def sample_inbox_def ingress_row_def sample_inbox_env_def sample_event_def)
  show ?thesis using process_batch_drains [OF _ b] b w by auto
qed

end
