(* ===== verification/PyText.thy ===== *)
theory PyText
  imports Prelude
begin

text \<open>
  The text functions of Python that the request handling uses: splitting at blanks and at a separator,
  encoding, and reading an integer.
\<close>

section \<open>Text\<close>

text \<open>\<open>text.encode("ascii")\<close>.\<close>

definition encode_ascii :: "string \<Rightarrow> string res" where
  "encode_ascii s = (if list_all (\<lambda>c. cval c < 128) s then Inr s else Inl (ValueError ''ordinal not in range(128)''))"

text \<open>\<open>text.split()\<close>: the maximal runs of characters that are not blank.\<close>

fun split_words :: "string \<Rightarrow> string \<Rightarrow> string list" where
  "split_words w [] = (if w = [] then [] else [rev w])"
| "split_words w (c # s) =
     (if is_space c then (if w = [] then split_words [] s else rev w # split_words [] s) else split_words (c # w) s)"

definition split_ws :: "string \<Rightarrow> string list" where
  "split_ws s = split_words [] s"

text \<open>\<open>text.split(sep)\<close> for a separator of one character.\<close>

fun split_on :: "char \<Rightarrow> string \<Rightarrow> string list" where
  "split_on sep [] = [[]]"
| "split_on sep (c # s) =
     (if c = sep then [] # split_on sep s
      else case split_on sep s of [] \<Rightarrow> [[c]] | w # ws \<Rightarrow> (c # w) # ws)"

text \<open>
  \<open>int(text)\<close>: blanks around it are ignored, a sign may lead, single underscores may stand between
  digits, and at most 4300 digits are accepted.
\<close>

fun digits_value :: "bool \<Rightarrow> int \<Rightarrow> nat \<Rightarrow> string \<Rightarrow> (int \<times> nat) option" where
  "digits_value after_digit v n [] = (if after_digit then Some (v, n) else None)"
| "digits_value after_digit v n (c # s) =
     (if is_digit c then digits_value True (10 * v + (int (cval c) - 48)) (Suc n) s
      else if c = CHR ''_'' \<and> after_digit \<and> s \<noteq> [] then digits_value False v n s else None)"

definition int_max_str_digits :: nat where
  "int_max_str_digits = 4300"

definition unsigned_value :: "string \<Rightarrow> int option" where
  "unsigned_value s = (case digits_value False 0 0 s of Some (v, n) \<Rightarrow> if n \<le> int_max_str_digits then Some v else None | None \<Rightarrow> None)"

definition py_int :: "string \<Rightarrow> int option" where
  "py_int text =
     (case strip text of
        [] \<Rightarrow> None
      | c # s \<Rightarrow> if c = CHR ''-'' then map_option uminus (unsigned_value s)
                else if c = CHR ''+'' then unsigned_value s else unsigned_value (c # s))"

section \<open>Splitting and joining\<close>

lemma split_words_word:
  "list_all (\<lambda>c. \<not> is_space c) x \<Longrightarrow> split_words w (x @ s) = split_words (rev x @ w) s"
  by (induction x arbitrary: w) auto

lemma split_join:
  assumes "\<forall>x \<in> set ws. x \<noteq> [] \<and> list_all (\<lambda>c. \<not> is_space c) x"
  shows "split_ws (join '' '' ws) = ws"
  using assms unfolding split_ws_def
proof (induction ws rule: induct_list012)
  case (2 x)
  then show ?case using split_words_word [of x "[]" "[]"] by simp
next
  case (3 x y zs)
  have "is_space (CHR '' '')" by (simp add: is_space_def)
  with 3 show ?case by (simp add: split_words_word)
qed simp

lemma split_on_word: "sep \<notin> set x \<Longrightarrow> split_on sep x = [x]"
  by (induction x) auto

lemma split_on_append: "sep \<notin> set x \<Longrightarrow> split_on sep (x @ sep # s) = x # split_on sep s"
  by (induction x) auto

lemma split_on_join:
  assumes "ws \<noteq> []" "\<forall>x \<in> set ws. sep \<notin> set x"
  shows "split_on sep (join [sep] ws) = ws"
  using assms by (induction ws rule: induct_list012) (auto simp: split_on_word split_on_append)

text \<open>Reading back the text of a number.\<close>

lemma digit_char: "k < 10 \<Longrightarrow> is_digit (char_of (48 + k :: nat)) \<and> cval (char_of (48 + k :: nat)) = 48 + k"
  by (simp add: is_digit_def)

lemma show_nat_nonempty [simp]: "show_nat m \<noteq> []"
  by (subst show_nat.simps) simp

lemma show_nat_digits: "list_all is_digit (show_nat m)"
proof (induction m rule: show_nat.induct)
  case (1 m)
  then show ?case using digit_char [of m] digit_char [of "m mod 10"] by (subst show_nat.simps) auto
qed

lemma digits_value_show:
  "digits_value b v n (show_nat m @ s) =
     digits_value True (10 ^ length (show_nat m) * v + int m) (n + length (show_nat m)) s"
proof (induction m arbitrary: b v n s rule: show_nat.induct)
  case (1 m)
  show ?case
  proof (cases "m < 10")
    case True
    then show ?thesis using digit_char [of m] by (simp add: show_nat.simps)
  next
    case False
    then have "int m = 10 * int (m div 10) + int (m mod 10)" by presburger
    with False 1 [OF False, of b v n] digit_char [of "m mod 10"] show ?thesis
      by (subst (1 2 3) show_nat.simps) (simp add: algebra_simps)
  qed
qed

lemma length_show_nat: "m < 10 ^ k \<Longrightarrow> 0 < k \<Longrightarrow> length (show_nat m) \<le> k"
proof (induction m arbitrary: k rule: show_nat.induct)
  case (1 m)
  show ?case
  proof (cases "m < 10")
    case False
    with 1(2) obtain k' where k: "k = Suc k'" "0 < k'" by (cases k; cases "k - 1") auto
    have "m div 10 < 10 ^ k'" using 1(2) k by (simp add: less_mult_imp_div_less mult.commute)
    with 1(1) [OF False _ k(2)] k False show ?thesis by (subst show_nat.simps) simp
  qed (use 1 in \<open>simp add: show_nat.simps\<close>)
qed

lemma py_int_show:
  assumes "0 \<le> n" "n < 10 ^ int_max_str_digits"
  shows "py_int (show_int n) = Some n"
proof -
  let ?s = "show_nat (nat n)"
  have digits: "\<forall>c \<in> set ?s. is_digit c" and ne: "?s \<noteq> []" using show_nat_digits [of "nat n"] by (auto simp: list_all_iff)
  have ns: "\<not> is_space (hd ?s)" "\<not> is_space (last ?s)" "hd ?s \<noteq> CHR ''-''" "hd ?s \<noteq> CHR ''+''"
    using bspec [OF digits hd_in_set [OF ne]] bspec [OF digits last_in_set [OF ne]]
    by (auto simp: is_digit_def is_space_def Let_def)
  then have st: "strip ?s = ?s" by (intro strip_id) simp
  have "nat n < 10 ^ int_max_str_digits" using assms by (simp add: nat_less_iff)
  moreover have "0 < int_max_str_digits" by (simp add: int_max_str_digits_def)
  ultimately have "unsigned_value ?s = Some n"
    using digits_value_show [of False 0 0 "nat n" "[]"] length_show_nat [of "nat n" int_max_str_digits] assms(1) by (simp add: unsigned_value_def)
  then show ?thesis using assms(1) ns(3,4) ne st by (cases ?s) (auto simp: py_int_def show_int_def)
qed

end
