(* ===== verification/InternalAuth.thy ===== *)
theory InternalAuth
  imports Digest PyText
begin

text \<open>
  \<open>security/authentication/internal_hmac.py\<close>, its use in \<open>api/dependencies/auth.py\<close> and the signer of
  \<open>integrations/http_security.py\<close>: requests between the agents carry a keyed signature over their
  method, path, time, nonce, source, audience, scopes and body.  Header values are Latin-1 strings,
  which is what the server decodes them to.  The wall clock is in seconds; the monotonic clock of the
  replay store counts \<open>ticks_per_second\<close> ticks a second.
\<close>

section \<open>Signatures\<close>

record signed_fields =
  sf_method :: string
  sf_path :: string
  sf_timestamp :: string
  sf_nonce :: string
  sf_source :: string
  sf_audience :: string
  sf_scopes :: string
  sf_body :: string

definition newline :: char where
  "newline = char_of (10::nat)"

definition canonical_fields :: "signed_fields \<Rightarrow> string list" where
  "canonical_fields f =
     [upper (sf_method f), sf_path f, sf_timestamp f, sf_nonce f, sf_source f, sf_audience f, sf_scopes f, sha256 (sf_body f)]"

definition canonical_request :: "signed_fields \<Rightarrow> string" where
  "canonical_request f = utf8 (join [newline] (canonical_fields f))"

definition sign_internal_request :: "string \<Rightarrow> string \<Rightarrow> string" where
  "sign_internal_request secret canonical = ''v1='' @ hmac_sha256 (utf8 secret) canonical"

section \<open>Replay stores\<close>

definition ticks_per_second :: int where
  "ticks_per_second = 1000000000"

type_synonym replay_expiries = "string \<rightharpoonup> int"

definition consume_in_memory :: "int \<Rightarrow> string \<Rightarrow> int \<Rightarrow> replay_expiries \<Rightarrow> bool \<times> replay_expiries" where
  "consume_in_memory now key ttl_seconds expires =
     (let kept = (\<lambda>item. case expires item of Some expiry \<Rightarrow> if expiry > now then Some expiry else None | None \<Rightarrow> None)
      in if kept key \<noteq> None then (False, kept)
         else (True, kept(key \<mapsto> now + ttl_seconds * ticks_per_second)))"

text \<open>
  The Redis store is one \<open>SET key 1 EX ttl NX\<close>; the server's answer and its new state are an argument.
\<close>

definition consume_redis ::
  "('r \<Rightarrow> string \<Rightarrow> string \<Rightarrow> int \<Rightarrow> bool \<Rightarrow> bool \<times> 'r) \<Rightarrow> string \<Rightarrow> int \<Rightarrow> 'r \<Rightarrow> bool \<times> 'r" where
  "consume_redis redis_set key ttl_seconds redis = redis_set redis key ''1'' ttl_seconds True"

section \<open>Verification\<close>

record internal_identity =
  ii_source :: string
  ii_audience :: string
  ii_scopes :: "string set"
  ii_key_id :: string
  ii_legacy :: bool

record hmac_key_grant =
  kg_secret :: string
  kg_source :: string
  kg_scopes :: "string set"

record hmac_request_verifier =
  hv_key_grants :: "string \<rightharpoonup> hmac_key_grant"
  hv_issuer :: string
  hv_audience :: string
  hv_replay_window :: int

definition mk_verifier :: "(string \<rightharpoonup> hmac_key_grant) \<Rightarrow> string \<Rightarrow> string \<Rightarrow> int \<Rightarrow> hmac_request_verifier" where
  "mk_verifier key_grants issuer audience replay_window_seconds =
     \<lparr>hv_key_grants = (\<lambda>key_id. case key_grants key_id of
          Some grant \<Rightarrow> if key_id \<noteq> [] \<and> kg_secret grant \<noteq> [] \<and> kg_source grant \<noteq> [] \<and> kg_scopes grant \<noteq> {} then Some grant else None
        | None \<Rightarrow> None),
      hv_issuer = issuer, hv_audience = audience, hv_replay_window = replay_window_seconds\<rparr>"

definition configured :: "hmac_request_verifier \<Rightarrow> bool" where
  "configured v \<longleftrightarrow> hv_key_grants v \<noteq> Map.empty \<and> hv_replay_window v > 0"

type_synonym headers = "string \<rightharpoonup> string"

definition header :: "headers \<Rightarrow> string \<Rightarrow> string" where
  "header headers name = (case headers name of Some v \<Rightarrow> v | None \<Rightarrow> [])"

definition scopes_value :: "headers \<Rightarrow> string" where
  "scopes_value headers = join '' '' (split_ws (header headers ''x-nxtutors-scopes''))"

record internal_request =
  iq_method :: string
  iq_path :: string
  iq_body :: string
  iq_headers :: headers

definition signed_of :: "internal_request \<Rightarrow> signed_fields" where
  "signed_of q = \<lparr>sf_method = iq_method q, sf_path = iq_path q,
     sf_timestamp = header (iq_headers q) ''x-nxtutors-timestamp'', sf_nonce = header (iq_headers q) ''x-nxtutors-nonce'',
     sf_source = header (iq_headers q) ''x-nxtutors-source'', sf_audience = header (iq_headers q) ''x-nxtutors-audience'',
     sf_scopes = scopes_value (iq_headers q), sf_body = iq_body q\<rparr>"

text \<open>The checks before the replay store is asked: the identity they establish and the key of the nonce.\<close>

definition auth_error :: "string \<Rightarrow> 'a res" where
  "auth_error message = Inl (InternalAuthenticationError message)"

definition authenticate ::
  "hmac_request_verifier \<Rightarrow> internal_request \<Rightarrow> string set \<Rightarrow> int \<Rightarrow> (internal_identity \<times> string) res" where
  "authenticate v q required_scopes now =
     (let h = header (iq_headers q);
          key_id = h ''x-nxtutors-key-id''; timestamp = h ''x-nxtutors-timestamp''; nonce = h ''x-nxtutors-nonce'';
          source = h ''x-nxtutors-source''; issuer = h ''x-nxtutors-issuer''; audience = h ''x-nxtutors-audience'';
          scopes_text = scopes_value (iq_headers q); signature = h ''x-nxtutors-signature''
      in if list_ex (\<lambda>s. s = []) [key_id, timestamp, nonce, source, issuer, audience, scopes_text, signature]
         then auth_error ''missing signed request headers''
         else if issuer \<noteq> hv_issuer v \<or> audience \<noteq> hv_audience v then auth_error ''invalid issuer or audience''
         else if length nonce < 16 \<or> length nonce > 128 then auth_error ''invalid nonce''
         else case py_int timestamp of None \<Rightarrow> auth_error ''invalid timestamp'' | Some signed_at \<Rightarrow>
           if \<bar>now - signed_at\<bar> > hv_replay_window v then auth_error ''request timestamp is outside the replay window''
           else case hv_key_grants v key_id of None \<Rightarrow> auth_error ''unknown signing key'' | Some grant \<Rightarrow>
             if source \<noteq> kg_source grant then auth_error ''signing key is not authorized for this source''
             else res_bind (encode_ascii signature) (\<lambda>supplied.
               if sign_internal_request (kg_secret grant) (canonical_request (signed_of q)) \<noteq> supplied
               then auth_error ''invalid signature''
               else let scopes = set (split_on (CHR '' '') scopes_text)
                 in if \<not> scopes \<subseteq> kg_scopes grant then auth_error ''signed scopes exceed the key grant''
                    else if \<not> required_scopes \<subseteq> scopes then auth_error ''insufficient scope''
                    else Inr (\<lparr>ii_source = source, ii_audience = audience, ii_scopes = scopes, ii_key_id = key_id, ii_legacy = False\<rparr>,
                              ''dcc:auth-replay:'' @ key_id @ '':'' @ source @ '':'' @ nonce)))"

definition verify ::
  "(string \<Rightarrow> int \<Rightarrow> 's \<Rightarrow> bool \<times> 's) \<Rightarrow> hmac_request_verifier \<Rightarrow> internal_request \<Rightarrow> string set \<Rightarrow> int \<Rightarrow> 's
     \<Rightarrow> internal_identity res \<times> 's" where
  "verify consume v q required_scopes now store =
     (case authenticate v q required_scopes now of
        Inl e \<Rightarrow> (Inl e, store)
      | Inr (identity, replay_key) \<Rightarrow>
          (let (fresh, store') = consume replay_key (hv_replay_window v) store
           in if fresh then (Inr identity, store') else (auth_error ''request replay detected'', store')))"

section \<open>The dependency of the internal routes\<close>

record auth_settings =
  as_lead_intake_shared_secret :: string
  as_internal_legacy_shared_secret_enabled :: bool
  as_internal_auth_audience :: string

definition authenticate_request ::
  "(string \<Rightarrow> int \<Rightarrow> 's \<Rightarrow> bool \<times> 's) \<Rightarrow> hmac_request_verifier \<Rightarrow> auth_settings \<Rightarrow> internal_request \<Rightarrow> string option
     \<Rightarrow> string set \<Rightarrow> int \<Rightarrow> 's \<Rightarrow> internal_identity res \<times> 's" where
  "authenticate_request consume v settings q legacy_secret required_scopes now store =
     (let configured_legacy = as_lead_intake_shared_secret settings;
          legacy_configured = as_internal_legacy_shared_secret_enabled settings \<and> configured_legacy \<noteq> []
      in if legacy_configured \<and> (case legacy_secret of Some s \<Rightarrow> s \<noteq> [] \<and> utf8 configured_legacy = utf8 s | None \<Rightarrow> False)
         then (Inr \<lparr>ii_source = ''legacy-lead-intake'', ii_audience = as_internal_auth_audience settings,
                    ii_scopes = required_scopes, ii_key_id = ''legacy'', ii_legacy = True\<rparr>, store)
         else if \<not> configured v \<and> \<not> legacy_configured
         then (Inl (HTTPException 503 ''Internal authentication is not configured''), store)
         else if \<not> configured v then (Inl (HTTPException 401 ''Internal authentication failed''), store)
         else case verify consume v q required_scopes now store of
             (Inl (InternalAuthenticationError _), store') \<Rightarrow> (Inl (HTTPException 401 ''Internal authentication failed''), store')
           | answer \<Rightarrow> answer)"

section \<open>The signer\<close>

record internal_request_signer =
  rs_key_id :: string
  rs_secret :: string
  rs_source :: string
  rs_issuer :: string
  rs_audience :: string

definition scope_text :: "string list \<Rightarrow> string" where
  "scope_text scopes = join '' '' (sorted_list_of_set (set scopes))"

definition signer_fields ::
  "internal_request_signer \<Rightarrow> string \<Rightarrow> string \<Rightarrow> string \<Rightarrow> string list \<Rightarrow> int \<Rightarrow> string \<Rightarrow> signed_fields" where
  "signer_fields signer meth path body scopes time nonce =
     \<lparr>sf_method = meth, sf_path = path, sf_timestamp = show_int time, sf_nonce = nonce,
      sf_source = rs_source signer, sf_audience = rs_audience signer, sf_scopes = scope_text scopes, sf_body = body\<rparr>"

text \<open>The clock, the random nonce and the random request id are arguments.\<close>

definition signer_headers ::
  "internal_request_signer \<Rightarrow> string \<Rightarrow> string \<Rightarrow> string \<Rightarrow> string list \<Rightarrow> string option \<Rightarrow> int \<Rightarrow> string \<Rightarrow> string
     \<Rightarrow> (string \<times> string) list" where
  "signer_headers signer meth path body scopes idempotency_key time nonce request_id =
     [(''Content-Type'', ''application/json''),
      (''X-NXTutors-Key-Id'', rs_key_id signer),
      (''X-NXTutors-Timestamp'', show_int time),
      (''X-NXTutors-Nonce'', nonce),
      (''X-NXTutors-Source'', rs_source signer),
      (''X-NXTutors-Issuer'', rs_issuer signer),
      (''X-NXTutors-Audience'', rs_audience signer),
      (''X-NXTutors-Scopes'', scope_text scopes),
      (''X-NXTutors-Signature'', sign_internal_request (rs_secret signer)
          (canonical_request (signer_fields signer meth path body scopes time nonce))),
      (''X-Request-ID'', request_id)]
     @ (case idempotency_key of Some k \<Rightarrow> if k = [] then [] else [(''Idempotency-Key'', k)] | None \<Rightarrow> [])"

text \<open>Header names are case-insensitive on the wire; the server looks them up in lower case.\<close>

definition received :: "(string \<times> string) list \<Rightarrow> headers" where
  "received hs = map_of (map (\<lambda>(n, v). (casefold n, v)) hs)"

section \<open>The contract of a replay store\<close>

locale replay_store =
  fixes consume :: "int \<Rightarrow> string \<Rightarrow> int \<Rightarrow> 's \<Rightarrow> bool \<times> 's"
    and live :: "'s \<Rightarrow> int \<Rightarrow> string \<Rightarrow> bool"
  assumes consume_fresh: "fst (consume t k ttl s) \<longleftrightarrow> \<not> live s t k"
    and consume_marks: "fst (consume t k ttl s) \<Longrightarrow> t \<le> t' \<Longrightarrow>
      live (snd (consume t k ttl s)) t' k \<longleftrightarrow> t' < t + ttl * ticks_per_second"
    and consume_keeps: "t \<le> t' \<Longrightarrow> k' \<noteq> k \<or> \<not> fst (consume t k ttl s) \<Longrightarrow>
      live (snd (consume t k ttl s)) t' k' \<longleftrightarrow> live s t' k'"
    and live_until: "live s t' k \<Longrightarrow> t \<le> t' \<Longrightarrow> live s t k"
begin

lemma verify_eq:
  "verify (consume t) v q required now s =
     (case authenticate v q required now of Inl e \<Rightarrow> (Inl e, s)
      | Inr (identity, key) \<Rightarrow>
          (if live s t key then auth_error ''request replay detected'' else Inr identity, snd (consume t key (hv_replay_window v) s)))"
  using consume_fresh [of t _ "hv_replay_window v" s]
  by (auto simp: verify_def split_beta split: sum.splits prod.splits)

lemma verify_accepts:
  "fst (verify (consume t) v q required now s) = Inr identity \<longleftrightarrow>
     (\<exists>key. authenticate v q required now = Inr (identity, key) \<and> \<not> live s t key)"
  by (auto simp: verify_eq auth_error_def split: sum.splits prod.splits)

text \<open>A live nonce stays live through whatever is verified before it expires.\<close>

lemma verify_keeps_live:
  assumes "live s t' k" "t \<le> t'"
  shows "live (snd (verify (consume t) v q required now s)) t' k"
proof (cases "authenticate v q required now")
  case (Inr a)
  obtain identity key where a: "a = (identity, key)" by (cases a)
  have "k \<noteq> key \<or> \<not> fst (consume t key (hv_replay_window v) s)"
    using consume_fresh [of t key "hv_replay_window v" s] live_until [OF assms] by auto
  from consume_keeps [OF assms(2) this] assms(1) Inr a show ?thesis by (simp add: verify_eq)
qed (use assms in \<open>simp add: verify_eq\<close>)

lemma verify_marks:
  assumes "authenticate v q required now = Inr (identity, key)" "\<not> live s t key"
    and "t \<le> t'" "t' < t + hv_replay_window v * ticks_per_second"
  shows "live (snd (verify (consume t) v q required now s)) t' key"
  using assms consume_marks [of t key "hv_replay_window v" s t'] consume_fresh [of t key "hv_replay_window v" s]
  by (simp add: verify_eq)

text \<open>A refused request leaves the store as good as unchanged: nobody can use up another's nonce.\<close>

lemma refused_keeps:
  assumes "fst (verify (consume t) v q required now s) = Inl e" "t \<le> t'"
  shows "live (snd (verify (consume t) v q required now s)) t' k \<longleftrightarrow> live s t' k"
proof (cases "authenticate v q required now")
  case (Inr a)
  obtain identity key where a: "a = (identity, key)" by (cases a)
  then have "\<not> fst (consume t key (hv_replay_window v) s)"
    using assms(1) Inr consume_fresh [of t key "hv_replay_window v" s] by (auto simp: verify_eq split: if_splits)
  from consume_keeps [OF assms(2), of k key] this Inr a show ?thesis by (simp add: verify_eq)
qed (simp add: verify_eq)

end

definition memory_live :: "replay_expiries \<Rightarrow> int \<Rightarrow> string \<Rightarrow> bool" where
  "memory_live expires now key \<longleftrightarrow> (case expires key of Some expiry \<Rightarrow> expiry > now | None \<Rightarrow> False)"

interpretation memory: replay_store consume_in_memory memory_live
  by unfold_locales (auto simp: consume_in_memory_def memory_live_def Let_def split: option.splits if_splits)

section \<open>What is accepted\<close>

lemma hex_digit_ascii: "n < 16 \<Longrightarrow> cval (hex_digit n) < 128"
  by (simp add: hex_digit_def)

lemma hex_ascii: "list_all (\<lambda>c. cval c < 128) (hex bs)"
proof -
  have "cval (hex_digit (cval c div 16)) < 128" "cval (hex_digit (cval c mod 16)) < 128" for c
    using cval_lt [of c] by (auto intro!: hex_digit_ascii simp: less_mult_imp_div_less)
  then show ?thesis by (induction bs) (auto simp: hex_def list_all_iff)
qed

lemma signature_ascii [simp]: "encode_ascii (sign_internal_request secret canonical) = Inr (sign_internal_request secret canonical)"
  using hex_ascii by (auto simp: encode_ascii_def sign_internal_request_def hmac_sha256_def list_all_iff)

lemma signature_nonempty [simp]:
  "sign_internal_request secret canonical \<noteq> []" "[] \<noteq> sign_internal_request secret canonical"
  by (simp_all add: sign_internal_request_def)

abbreviation hdr :: "internal_request \<Rightarrow> string \<Rightarrow> string" where
  "hdr q name \<equiv> header (iq_headers q) name"

definition replay_key :: "internal_request \<Rightarrow> string" where
  "replay_key q = ''dcc:auth-replay:'' @ hdr q ''x-nxtutors-key-id'' @ '':'' @ hdr q ''x-nxtutors-source'' @ '':'' @ hdr q ''x-nxtutors-nonce''"

definition signed_scopes :: "internal_request \<Rightarrow> string set" where
  "signed_scopes q = set (split_on (CHR '' '') (scopes_value (iq_headers q)))"

definition identity_of :: "internal_request \<Rightarrow> internal_identity" where
  "identity_of q = \<lparr>ii_source = hdr q ''x-nxtutors-source'', ii_audience = hdr q ''x-nxtutors-audience'',
     ii_scopes = signed_scopes q, ii_key_id = hdr q ''x-nxtutors-key-id'', ii_legacy = False\<rparr>"

text \<open>What a request must be: signed by a granted key, in time, for this service, within the grant.\<close>

definition properly_signed :: "hmac_request_verifier \<Rightarrow> internal_request \<Rightarrow> hmac_key_grant \<Rightarrow> bool" where
  "properly_signed v q grant \<longleftrightarrow>
     hv_key_grants v (hdr q ''x-nxtutors-key-id'') = Some grant
     \<and> hdr q ''x-nxtutors-signature'' = sign_internal_request (kg_secret grant) (canonical_request (signed_of q))
     \<and> hdr q ''x-nxtutors-source'' = kg_source grant
     \<and> hdr q ''x-nxtutors-issuer'' = hv_issuer v \<and> hdr q ''x-nxtutors-audience'' = hv_audience v
     \<and> list_all (\<lambda>name. hdr q name \<noteq> []) [''x-nxtutors-key-id'', ''x-nxtutors-timestamp'', ''x-nxtutors-source'',
          ''x-nxtutors-issuer'', ''x-nxtutors-audience'']
     \<and> scopes_value (iq_headers q) \<noteq> [] \<and> 16 \<le> length (hdr q ''x-nxtutors-nonce'') \<and> length (hdr q ''x-nxtutors-nonce'') \<le> 128
     \<and> signed_scopes q \<subseteq> kg_scopes grant"

definition in_time :: "hmac_request_verifier \<Rightarrow> internal_request \<Rightarrow> int \<Rightarrow> bool" where
  "in_time v q now \<longleftrightarrow>
     (case py_int (hdr q ''x-nxtutors-timestamp'') of Some signed_at \<Rightarrow> \<bar>now - signed_at\<bar> \<le> hv_replay_window v | None \<Rightarrow> False)"

lemma authenticate_iff:
  "authenticate v q required now = Inr (identity, key) \<longleftrightarrow>
     (\<exists>grant. properly_signed v q grant) \<and> in_time v q now \<and> required \<subseteq> signed_scopes q
     \<and> identity = identity_of q \<and> key = replay_key q"
proof -
  have asc: "encode_ascii s = Inr (sign_internal_request k c) \<longleftrightarrow> s = sign_internal_request k c" for s k c
    using signature_ascii [of k c] by (auto simp: encode_ascii_def split: if_splits)
  have len: "16 \<le> length (n :: string) \<Longrightarrow> n \<noteq> []" for n by auto
  show ?thesis
    by (auto simp: authenticate_def Let_def auth_error_def properly_signed_def in_time_def res_simps identity_of_def replay_key_def
        signed_scopes_def asc not_less dest: len split: option.splits if_splits)
qed

text \<open>
  (C11) A request is accepted exactly when it names a granted key, its signature is the one that key
  makes over its method, path, time, nonce, source, audience, scopes and body, it is addressed to this
  service, it was signed within the replay window, its scopes are within the grant and include the
  required ones, and its nonce is not live.  The identity is the signed one.  A refused request leaves
  every nonce as it was.
\<close>

theorem verify_exact:
  "(fst (verify (consume_in_memory t) v q required now s) = Inr identity \<longleftrightarrow>
      (\<exists>grant. properly_signed v q grant) \<and> in_time v q now \<and> required \<subseteq> signed_scopes q
      \<and> identity = identity_of q \<and> \<not> memory_live s t (replay_key q))
   \<and> (\<forall>e t' k. fst (verify (consume_in_memory t) v q required now s) = Inl e \<and> t \<le> t'
        \<longrightarrow> memory_live (snd (verify (consume_in_memory t) v q required now s)) t' k = memory_live s t' k)"
  using memory.refused_keeps [of t v q required now s] by (auto simp: memory.verify_accepts authenticate_iff)

section \<open>Replays\<close>

text \<open>Requests verified one after the other, each with its reading of the monotonic and the wall clock.\<close>

fun verify_all ::
  "hmac_request_verifier \<Rightarrow> (int \<times> int \<times> internal_request \<times> string set) list \<Rightarrow> replay_expiries \<Rightarrow> replay_expiries" where
  "verify_all v [] s = s"
| "verify_all v ((t, now, q, required) # rest) s = verify_all v rest (snd (verify (consume_in_memory t) v q required now s))"

lemma verify_all_keeps_live:
  "memory_live s t' k \<Longrightarrow> \<forall>(t, _) \<in> set rs. t \<le> t' \<Longrightarrow> memory_live (verify_all v rs s) t' k"
proof (induction rs arbitrary: s)
  case (Cons r rs)
  obtain t now q required where r: "r = (t, now, q, required)" by (cases r)
  with Cons show ?case using memory.verify_keeps_live [of s t' k t v q required now] by auto
qed simp

text \<open>The two clocks advance together: the wall clock reads whole seconds.\<close>

definition wall_clock :: "int \<Rightarrow> int \<Rightarrow> int" where
  "wall_clock offset t = (t + offset) div ticks_per_second"

lemma wall_clock_advances: "t + n * ticks_per_second \<le> t' \<Longrightarrow> wall_clock offset t + n \<le> wall_clock offset t'"
  using zdiv_mono1 [of "t + offset + n * ticks_per_second" "t' + offset" ticks_per_second]
  by (simp add: wall_clock_def ticks_per_second_def)

text \<open>
  (C12) A request signed before the second it is first accepted in is accepted once: whatever is verified
  in between, it is refused whenever it comes again, by its nonce while the nonce is live and by its time
  from then on.
\<close>

theorem accepted_once:
  assumes "fst (verify (consume_in_memory t1) v q required1 (wall_clock offset t1) s) = Inr identity1"
    and "py_int (hdr q ''x-nxtutors-timestamp'') = Some signed_at" "signed_at < wall_clock offset t1"
    and "t1 \<le> t2" "\<forall>(t, _) \<in> set between. t \<le> t2"
    and "s2 = verify_all v between (snd (verify (consume_in_memory t1) v q required1 (wall_clock offset t1) s))"
  shows "\<exists>e. fst (verify (consume_in_memory t2) v q required2 (wall_clock offset t2) s2) = Inl e"
proof (cases "t2 < t1 + hv_replay_window v * ticks_per_second")
  case True
  have "authenticate v q required1 (wall_clock offset t1) = Inr (identity_of q, replay_key q)" "\<not> memory_live s t1 (replay_key q)"
    using assms(1) by (auto simp: memory.verify_accepts authenticate_iff)
  from memory.verify_marks [OF this assms(4) True] have "memory_live s2 t2 (replay_key q)"
    unfolding assms(6) by (rule verify_all_keeps_live) (rule assms(5))
  then have "fst (verify (consume_in_memory t2) v q required2 (wall_clock offset t2) s2) \<noteq> Inr i" for i
    by (auto simp: memory.verify_accepts authenticate_iff)
  then show ?thesis by (metis sum.exhaust)
next
  case False
  then have "wall_clock offset t1 + hv_replay_window v \<le> wall_clock offset t2" by (intro wall_clock_advances) simp
  then have "\<not> in_time v q (wall_clock offset t2)" using assms(2,3) by (simp add: in_time_def)
  then have "fst (verify (consume_in_memory t2) v q required2 (wall_clock offset t2) s2) \<noteq> Inr i" for i
    by (auto simp: memory.verify_accepts authenticate_iff)
  then show ?thesis by (metis sum.exhaust)
qed

section \<open>The signer and the verifier agree\<close>

text \<open>
  The signature covers the fields themselves: texts without line breaks are told apart by the canonical
  form, the method up to case and the body up to its digest.
\<close>

lemma utf8_char_append: "utf8_char c @ s = utf8_char d @ t \<longleftrightarrow> c = d \<and> s = t"
proof
  have inj: "cval c = cval d \<Longrightarrow> c = d" by simp
  have split: "cval c div 64 = cval d div 64 \<Longrightarrow> cval c mod 64 = cval d mod 64 \<Longrightarrow> c = d"
    by (rule inj) (metis div_mult_mod_eq)
  assume eq: "utf8_char c @ s = utf8_char d @ t"
  have ne: "char_of (192 + cval x div 64) \<noteq> y" if "cval y < 128" for x y
  proof
    have "cval x div 64 < 4" using cval_lt [of x] by (simp add: less_mult_imp_div_less)
    then have "(192 + cval x div 64) mod 256 = 192 + cval x div 64" by (intro mod_less) simp
    moreover assume "char_of (192 + cval x div 64) = y"
    ultimately show False using that by auto
  qed
  have hi: "(char_of (192 + cval c div 64) :: char) = char_of (192 + cval d div 64) \<Longrightarrow> cval c div 64 = cval d div 64"
    using cval_char_of [of "192 + cval c div 64"] cval_char_of [of "192 + cval d div 64"] cval_lt [of c] cval_lt [of d] by simp
  have lo: "(char_of (128 + cval c mod 64) :: char) = char_of (128 + cval d mod 64) \<Longrightarrow> cval c mod 64 = cval d mod 64"
    using cval_char_of [of "128 + cval c mod 64"] cval_char_of [of "128 + cval d mod 64"] by simp
  consider "cval c < 128" "cval d < 128" | "cval c < 128" "\<not> cval d < 128" | "\<not> cval c < 128" "cval d < 128"
    | "\<not> cval c < 128" "\<not> cval d < 128" by blast
  then show "c = d \<and> s = t"
  proof cases
    case 2
    then have "char_of (192 + cval d div 64) = c" using eq by (simp add: utf8_char_def)
    with ne [OF 2(1)] show ?thesis by blast
  next
    case 3
    then have "char_of (192 + cval c div 64) = d" using eq by (simp add: utf8_char_def)
    with ne [OF 3(2)] show ?thesis by blast
  next
    case 4
    then show ?thesis using eq split [OF hi lo] by (auto simp: utf8_char_def)
  qed (use eq in \<open>simp add: utf8_char_def\<close>)
qed simp

lemma utf8_inj [simp]: "utf8 a = utf8 b \<longleftrightarrow> a = b"
proof (induction a arbitrary: b)
  case Nil
  then show ?case by (cases b) (auto simp: utf8_def utf8_char_def)
next
  case (Cons c a)
  have "utf8_char c \<noteq> []" by (simp add: utf8_char_def)
  with Cons show ?case by (cases b) (simp_all add: utf8_def utf8_char_append)
qed

lemma canonical_request_binds:
  assumes "\<forall>x \<in> set (canonical_fields f) \<union> set (canonical_fields g). newline \<notin> set x"
  shows "canonical_request f = canonical_request g \<longleftrightarrow> canonical_fields f = canonical_fields g"
proof -
  have "split_on newline (join [newline] (canonical_fields h)) = canonical_fields h" if "h = f \<or> h = g" for h
    using that assms by (intro split_on_join) (auto simp: canonical_fields_def)
  then show ?thesis by (metis canonical_request_def utf8_inj)
qed

lemma lower_names:
  "casefold ''Content-Type'' = ''content-type''" "casefold ''X-NXTutors-Key-Id'' = ''x-nxtutors-key-id''"
  "casefold ''X-NXTutors-Timestamp'' = ''x-nxtutors-timestamp''" "casefold ''X-NXTutors-Nonce'' = ''x-nxtutors-nonce''"
  "casefold ''X-NXTutors-Source'' = ''x-nxtutors-source''" "casefold ''X-NXTutors-Issuer'' = ''x-nxtutors-issuer''"
  "casefold ''X-NXTutors-Audience'' = ''x-nxtutors-audience''" "casefold ''X-NXTutors-Scopes'' = ''x-nxtutors-scopes''"
  "casefold ''X-NXTutors-Signature'' = ''x-nxtutors-signature''" "casefold ''X-Request-ID'' = ''x-request-id''"
  by code_simp+

definition signed_request ::
  "internal_request_signer \<Rightarrow> string \<Rightarrow> string \<Rightarrow> string \<Rightarrow> string list \<Rightarrow> string option \<Rightarrow> int \<Rightarrow> string \<Rightarrow> string \<Rightarrow> internal_request" where
  "signed_request signer meth path body scopes idempotency_key time nonce request_id =
     \<lparr>iq_method = meth, iq_path = path, iq_body = body,
      iq_headers = received (signer_headers signer meth path body scopes idempotency_key time nonce request_id)\<rparr>"

lemma signed_request_headers:
  assumes "q = signed_request signer meth path body scopes idempotency_key time nonce request_id"
  shows "hdr q ''x-nxtutors-key-id'' = rs_key_id signer" "hdr q ''x-nxtutors-timestamp'' = show_int time"
    "hdr q ''x-nxtutors-nonce'' = nonce" "hdr q ''x-nxtutors-source'' = rs_source signer"
    "hdr q ''x-nxtutors-issuer'' = rs_issuer signer" "hdr q ''x-nxtutors-audience'' = rs_audience signer"
    "hdr q ''x-nxtutors-scopes'' = scope_text scopes"
    "hdr q ''x-nxtutors-signature'' = sign_internal_request (rs_secret signer)
       (canonical_request (signer_fields signer meth path body scopes time nonce))"
  unfolding assms signed_request_def header_def received_def signer_headers_def by (simp_all add: lower_names)

text \<open>A scope is a word: not empty and without blanks.\<close>

definition scope_words :: "string list \<Rightarrow> bool" where
  "scope_words scopes \<longleftrightarrow> scopes \<noteq> [] \<and> (\<forall>x \<in> set scopes. x \<noteq> [] \<and> list_all (\<lambda>c. \<not> is_space c) x)"

text \<open>The verifier knows the signer's key, and both are configured for each other.\<close>

definition trusts :: "hmac_request_verifier \<Rightarrow> internal_request_signer \<Rightarrow> hmac_key_grant \<Rightarrow> bool" where
  "trusts v signer grant \<longleftrightarrow> hv_key_grants v (rs_key_id signer) = Some grant \<and> rs_key_id signer \<noteq> []
     \<and> kg_secret grant = rs_secret signer \<and> kg_source grant = rs_source signer \<and> rs_source signer \<noteq> []
     \<and> rs_issuer signer = hv_issuer v \<and> rs_issuer signer \<noteq> [] \<and> rs_audience signer = hv_audience v \<and> rs_audience signer \<noteq> []"

lemma join_nonempty: "x \<noteq> [] \<Longrightarrow> join sep (x # xs) \<noteq> []"
  by (cases xs) auto

lemma scope_text_words:
  assumes "scope_words scopes"
  shows "split_ws (scope_text scopes) = sorted_list_of_set (set scopes)"
    "set (split_on (CHR '' '') (scope_text scopes)) = set scopes" "scope_text scopes \<noteq> []"
proof -
  let ?ws = "sorted_list_of_set (set scopes)"
  have set: "set ?ws = set scopes" by simp
  then have ne: "?ws \<noteq> []" using assms by (metis scope_words_def set_empty)
  have words: "\<forall>x \<in> set ?ws. x \<noteq> [] \<and> list_all (\<lambda>c. \<not> is_space c) x" using assms set by (simp add: scope_words_def)
  show "split_ws (scope_text scopes) = ?ws" unfolding scope_text_def by (rule split_join [OF words])
  have "is_space (CHR '' '')" by (simp add: is_space_def)
  then have "\<forall>x \<in> set ?ws. CHR '' '' \<notin> set x" using words by (auto simp: list_all_iff)
  from split_on_join [OF ne this] show "set (split_on (CHR '' '') (scope_text scopes)) = set scopes" by (simp add: scope_text_def)
  obtain x xs where "?ws = x # xs" using ne by (cases ?ws) auto
  with words show "scope_text scopes \<noteq> []" using join_nonempty [of x "'' ''" xs] by (simp add: scope_text_def)
qed

lemma signed_request_ok:
  assumes "q = signed_request signer meth path body scopes idempotency_key time nonce request_id"
    and "trusts v signer grant" "scope_words scopes" "set scopes \<subseteq> kg_scopes grant" "16 \<le> length nonce" "length nonce \<le> 128"
    and "0 \<le> time" "time < 10 ^ int_max_str_digits"
  shows "properly_signed v q grant" "in_time v q now \<longleftrightarrow> \<bar>now - time\<bar> \<le> hv_replay_window v" "signed_scopes q = set scopes"
proof -
  note h = signed_request_headers [OF assms(1)]
  have sv: "scopes_value (iq_headers q) = scope_text scopes"
    using scope_text_words(1) [OF assms(3)] h(7) by (simp add: scopes_value_def scope_text_def)
  then show sc: "signed_scopes q = set scopes" using scope_text_words(2) [OF assms(3)] by (simp add: signed_scopes_def)
  have "signed_of q = signer_fields signer meth path body scopes time nonce"
    using h sv assms(1) by (simp add: signed_of_def signer_fields_def signed_request_def)
  moreover have "show_int time \<noteq> []" using assms(7) by (simp add: show_int_def)
  ultimately show "properly_signed v q grant"
    using h sv sc assms(2,4,5,6) scope_text_words(3) [OF assms(3)] by (auto simp: properly_signed_def trusts_def)
  show "in_time v q now \<longleftrightarrow> \<bar>now - time\<bar> \<le> hv_replay_window v"
    using h(2) py_int_show [OF assms(7,8)] by (simp add: in_time_def)
qed


text \<open>
  The edge of the replay window: a nonce is remembered for the window from its use, and a request
  is in time until the window after it was signed, both ends included.  So a request signed in the very
  second it arrives, or dated in the future, is accepted a second time when its nonce has just expired.
\<close>

theorem replay_at_window_edge:
  assumes "trusts v signer grant" "scope_words scopes" "set scopes \<subseteq> kg_scopes grant" "required \<subseteq> set scopes"
    and "16 \<le> length nonce" "length nonce \<le> 128" "0 \<le> time" "time < 10 ^ int_max_str_digits" "0 \<le> hv_replay_window v"
    and "q = signed_request signer meth path body scopes idempotency_key time nonce request_id"
    and "wall_clock offset t \<le> time" "time \<le> wall_clock offset t + hv_replay_window v"
    and "verify (consume_in_memory t) v q required (wall_clock offset t) Map.empty = (r1, s1)"
    and "verify (consume_in_memory (t + hv_replay_window v * ticks_per_second)) v q required
           (wall_clock offset (t + hv_replay_window v * ticks_per_second)) s1 = (r2, s2)"
  shows "\<exists>identity. r1 = Inr identity \<and> r2 = Inr identity"
proof -
  note ok = signed_request_ok [OF assms(10,1,2,3,5,6,7,8)]
  let ?t2 = "t + hv_replay_window v * ticks_per_second"
  have w: "wall_clock offset ?t2 = wall_clock offset t + hv_replay_window v"
    by (simp add: wall_clock_def ticks_per_second_def algebra_simps)
  have "\<not> memory_live s1 ?t2 (replay_key q)"
  proof -
    have "authenticate v q required (wall_clock offset t) = Inr (identity_of q, replay_key q)"
      using ok assms(4,11,12) by (auto simp: authenticate_iff)
    then have "s1 = snd (consume_in_memory t (replay_key q) (hv_replay_window v) Map.empty)"
      using assms(13) by (auto simp: memory.verify_eq)
    then show ?thesis by (simp add: consume_in_memory_def memory_live_def)
  qed
  then have "r2 = Inr (identity_of q)"
    using assms(14) memory.verify_accepts [of ?t2 v q required "wall_clock offset ?t2" s1 "identity_of q"] ok assms(4,11,12) w
    by (auto simp: authenticate_iff)
  moreover have "r1 = Inr (identity_of q)"
    using assms(13) memory.verify_accepts [of t v q required "wall_clock offset t" Map.empty "identity_of q"] ok assms(4,11,12)
    by (auto simp: authenticate_iff memory_live_def)
  ultimately show ?thesis by simp
qed

section \<open>The guard of the internal routes\<close>

text \<open>
  An internal route runs only for a caller that presented the shared secret, where that is enabled
  and set, or a request the verifier accepted, and always with the scopes the route requires.  Where
  neither way is configured every request is answered 503.
\<close>

theorem internal_route_guarded:
  assumes "authenticate_request (consume_in_memory t) v settings q legacy_secret required now s = (r, s')"
  shows "(\<forall>identity. r = Inr identity \<longrightarrow> required \<subseteq> ii_scopes identity
        \<and> (if ii_legacy identity
           then as_internal_legacy_shared_secret_enabled settings \<and> as_lead_intake_shared_secret settings \<noteq> []
              \<and> (\<exists>secret. legacy_secret = Some secret \<and> utf8 secret = utf8 (as_lead_intake_shared_secret settings)) \<and> s' = s
           else configured v \<and> (\<exists>grant. properly_signed v q grant) \<and> in_time v q now \<and> identity = identity_of q
              \<and> \<not> memory_live s t (replay_key q)))
    \<and> (\<not> configured v \<and> as_lead_intake_shared_secret settings = [] \<longrightarrow>
         r = Inl (HTTPException 503 ''Internal authentication is not configured'') \<and> s' = s)"
proof -
  have acc: "verify (consume_in_memory t) v q required now s = (Inr identity, s') \<Longrightarrow>
      (\<exists>grant. properly_signed v q grant) \<and> in_time v q now \<and> required \<subseteq> signed_scopes q \<and> identity = identity_of q
        \<and> \<not> memory_live s t (replay_key q)" for identity s'
    using memory.verify_accepts [of t v q required now s identity] by (auto simp: authenticate_iff)
  have nl: "ii_legacy (identity_of q) = False" "ii_scopes (identity_of q) = signed_scopes q" by (simp_all add: identity_of_def)
  show ?thesis using assms acc nl
    by (fastforce simp: authenticate_request_def Let_def split: option.splits if_splits prod.splits sum.splits py_error.splits)
qed

section \<open>Samples\<close>

definition sample_signer :: internal_request_signer where
  "sample_signer = \<lparr>rs_key_id = ''k1'', rs_secret = ''s3cret'', rs_source = ''lead-intake'', rs_issuer = ''nxtutors'', rs_audience = ''dcc''\<rparr>"

definition sample_grant :: hmac_key_grant where
  "sample_grant = \<lparr>kg_secret = ''s3cret'', kg_source = ''lead-intake'', kg_scopes = {''events:write'', ''events:read''}\<rparr>"

definition sample_verifier :: hmac_request_verifier where
  "sample_verifier = mk_verifier [''k1'' \<mapsto> sample_grant] ''nxtutors'' ''dcc'' 300"

definition sample_nonce :: string where
  "sample_nonce = ''0123456789abcdef''"

definition sample_signed :: "int \<Rightarrow> internal_request" where
  "sample_signed time = signed_request sample_signer ''POST'' ''/v1/events'' ''{}'' [''events:write''] None time sample_nonce ''r1''"

lemma sample_trusts: "trusts sample_verifier sample_signer sample_grant"
  by (simp add: trusts_def sample_verifier_def mk_verifier_def sample_signer_def sample_grant_def)

lemma sample_scopes: "scope_words [''events:write'']" "set [''events:write''] \<subseteq> kg_scopes sample_grant"
  by (simp_all add: scope_words_def is_space_def sample_grant_def)

lemma sample_nonce_length: "16 \<le> length sample_nonce" "length sample_nonce \<le> 128"
  by (simp_all add: sample_nonce_def)

lemma sample_window: "hv_replay_window sample_verifier = 300"
  by (simp add: sample_verifier_def mk_verifier_def)

lemma sample_time: "(1000 :: int) < 10 ^ int_max_str_digits"
proof -
  have "(10 :: int) ^ 4 \<le> 10 ^ int_max_str_digits" by (rule power_increasing) (simp_all add: int_max_str_digits_def)
  then show ?thesis by simp
qed

lemma sample_accepted:
  assumes "0 \<le> time" "time \<le> 1000" "\<bar>now - time\<bar> \<le> 300"
  shows "fst (verify (consume_in_memory t) sample_verifier (sample_signed time) {''events:write''} now Map.empty) = Inr (identity_of (sample_signed time))"
proof -
  have "time < 10 ^ int_max_str_digits" using assms sample_time by linarith
  note ok = signed_request_ok [OF sample_signed_def sample_trusts sample_scopes sample_nonce_length assms(1) this]
  show ?thesis using ok assms(3) sample_window by (auto simp: memory.verify_accepts authenticate_iff memory_live_def)
qed

theorem accepted_once_witness:
  "\<exists>e. fst (verify (consume_in_memory (1300 * ticks_per_second)) sample_verifier (sample_signed 999) {}
     (wall_clock 0 (1300 * ticks_per_second))
     (snd (verify (consume_in_memory (1000 * ticks_per_second)) sample_verifier (sample_signed 999) {''events:write''} 1000 Map.empty))) = Inl e"
proof -
  have w: "wall_clock 0 (1000 * ticks_per_second) = 1000" by (simp add: wall_clock_def ticks_per_second_def)
  have a: "fst (verify (consume_in_memory (1000 * ticks_per_second)) sample_verifier (sample_signed 999) {''events:write''}
      (wall_clock 0 (1000 * ticks_per_second)) Map.empty) = Inr (identity_of (sample_signed 999))"
    unfolding w by (rule sample_accepted) simp_all
  have p: "py_int (hdr (sample_signed 999) ''x-nxtutors-timestamp'') = Some 999"
    unfolding signed_request_headers(2) [OF sample_signed_def] by (rule py_int_show) (use sample_time in simp_all)
  show ?thesis
    using accepted_once [OF a p, of "1300 * ticks_per_second" "[]" _ "{}"] w by (simp add: ticks_per_second_def)
qed


theorem replay_at_window_edge_witness:
  "\<exists>identity s1 s2.
     verify (consume_in_memory (1000 * ticks_per_second)) sample_verifier (sample_signed 1000) {''events:write''} 1000 Map.empty = (Inr identity, s1)
     \<and> verify (consume_in_memory (1300 * ticks_per_second)) sample_verifier (sample_signed 1000) {''events:write''} 1300 s1 = (Inr identity, s2)"
proof -
  have w: "wall_clock 0 (1000 * ticks_per_second) = 1000" "1000 * ticks_per_second + 300 * ticks_per_second = 1300 * ticks_per_second"
    "wall_clock 0 (1300 * ticks_per_second) = 1300"
    by (simp_all add: wall_clock_def ticks_per_second_def)
  obtain r1 s1 where v1: "verify (consume_in_memory (1000 * ticks_per_second)) sample_verifier (sample_signed 1000) {''events:write''} 1000 Map.empty = (r1, s1)"
    by (meson surj_pair)
  obtain r2 s2 where v2: "verify (consume_in_memory (1300 * ticks_per_second)) sample_verifier (sample_signed 1000) {''events:write''} 1300 s1 = (r2, s2)"
    by (meson surj_pair)
  have "\<exists>identity. r1 = Inr identity \<and> r2 = Inr identity"
    by (rule replay_at_window_edge [OF sample_trusts sample_scopes _ sample_nonce_length _ sample_time _ sample_signed_def,
          of "{''events:write''}" 0 "1000 * ticks_per_second" r1 s1 r2 s2]) (use v1 v2 in \<open>simp_all add: w sample_window\<close>)
  then show ?thesis using v1 v2 by auto
qed

theorem internal_route_guarded_witness:
  "\<exists>identity s'. authenticate_request (consume_in_memory 5) sample_verifier
      \<lparr>as_lead_intake_shared_secret = [], as_internal_legacy_shared_secret_enabled = True, as_internal_auth_audience = ''dcc''\<rparr>
      (sample_signed 1000) None {''events:write''} 1200 Map.empty = (Inr identity, s') \<and> \<not> ii_legacy identity
      \<and> {''events:write''} \<subseteq> ii_scopes identity"
proof -
  let ?st = "\<lparr>as_lead_intake_shared_secret = [], as_internal_legacy_shared_secret_enabled = True, as_internal_auth_audience = ''dcc''\<rparr>"
  have c: "configured sample_verifier"
    by (auto simp: configured_def sample_verifier_def mk_verifier_def sample_grant_def fun_eq_iff)
  obtain s' where v: "verify (consume_in_memory 5) sample_verifier (sample_signed 1000) {''events:write''} 1200 Map.empty
      = (Inr (identity_of (sample_signed 1000)), s')"
    using sample_accepted [of 1000 1200 5] by (cases "verify (consume_in_memory 5) sample_verifier (sample_signed 1000) {''events:write''} 1200 Map.empty") simp
  then have "authenticate_request (consume_in_memory 5) sample_verifier ?st (sample_signed 1000) None {''events:write''} 1200 Map.empty
      = (Inr (identity_of (sample_signed 1000)), s')"
    using c by (simp add: authenticate_request_def)
  with internal_route_guarded [OF this] show ?thesis by (auto simp: identity_of_def)
qed

text \<open>A request without headers is refused, and uses up no nonce.\<close>

definition bare_request :: internal_request where
  "bare_request = \<lparr>iq_method = ''GET'', iq_path = ''/'', iq_body = [], iq_headers = Map.empty\<rparr>"

theorem verify_exact_witness:
  "memory_live (snd (verify (consume_in_memory 0) sample_verifier bare_request {} 1000 Map.empty)) 5 ''k'' = memory_live Map.empty 5 ''k''
   \<and> (\<exists>e. fst (verify (consume_in_memory 0) sample_verifier bare_request {} 1000 Map.empty) = Inl e)"
proof -
  have "\<not> (\<exists>grant. properly_signed sample_verifier bare_request grant)"
    by (simp add: properly_signed_def bare_request_def header_def)
  then have "fst (verify (consume_in_memory 0) sample_verifier bare_request {} 1000 Map.empty) \<noteq> Inr i" for i
    using verify_exact [of 0 sample_verifier bare_request "{}" 1000 Map.empty i] by blast
  then obtain e where e: "fst (verify (consume_in_memory 0) sample_verifier bare_request {} 1000 Map.empty) = Inl e"
    by (metis sum.exhaust)
  then show ?thesis using verify_exact [of 0 sample_verifier bare_request "{}" 1000 Map.empty] by auto
qed

end
