(* ===== verification/PyRegex.thy ===== *)
theory PyRegex
  imports PyText
begin

text \<open>
  Searching text the way the requirement extraction does: Python's backtracking regular expressions,
  as far as its patterns use them, and the string methods around them.  A matcher takes the character
  before the position and the rest of the text, and answers every way to match there in the order in
  which the backtracking tries them; the first way that completes the pattern is the match.
\<close>

section \<open>Matchers\<close>

type_synonym rx_state = "char option \<times> string"

type_synonym rx = "rx_state \<Rightarrow> (string \<times> rx_state) list"

definition advance :: "nat \<Rightarrow> rx_state \<Rightarrow> rx_state" where
  "advance n = (\<lambda>(p, s). (if n = 0 then p else Some (s ! (n - 1)), drop n s))"

definition rx_lit :: "string \<Rightarrow> rx" where
  "rx_lit w st = (if prefix w (snd st) then [(w, advance (length w) st)] else [])"

text \<open>\<open>[class]{lo,hi}\<close>, greedy; \<open>hi\<close> is \<open>None\<close> for no limit.\<close>

definition rx_many :: "(char \<Rightarrow> bool) \<Rightarrow> nat \<Rightarrow> nat option \<Rightarrow> rx" where
  "rx_many p lo hi st =
     (let run = length (takeWhile p (snd st));
          top = (case hi of None \<Rightarrow> run | Some h \<Rightarrow> min h run)
      in map (\<lambda>n. (take n (snd st), advance n st)) (rev [lo..<Suc top]))"

definition rx_seq :: "rx \<Rightarrow> rx \<Rightarrow> rx" where
  "rx_seq a b st = concat (map (\<lambda>(u, st'). map (\<lambda>(v, st''). (u @ v, st'')) (b st')) (a st))"

definition rx_alts :: "rx list \<Rightarrow> rx" where
  "rx_alts rs st = concat (map (\<lambda>r. r st) rs)"

definition rx_opt :: "rx \<Rightarrow> rx" where
  "rx_opt r = rx_alts [r, rx_lit []]"

definition is_alnum_lower :: "char \<Rightarrow> bool" where
  "is_alnum_lower c \<longleftrightarrow> is_lower c \<or> is_digit c"

definition is_word :: "char \<Rightarrow> bool" where
  "is_word c \<longleftrightarrow> is_alpha c \<or> is_digit c \<or> c = CHR ''_''"

definition opt_sat :: "(char \<Rightarrow> bool) \<Rightarrow> char option \<Rightarrow> bool" where
  "opt_sat p o' = (case o' of None \<Rightarrow> False | Some c \<Rightarrow> p c)"

definition next_char :: "string \<Rightarrow> char option" where
  "next_char s = (case s of [] \<Rightarrow> None | c # _ \<Rightarrow> Some c)"

text \<open>\<open>\b\<close>, \<open>(?<![class])\<close> and \<open>(?![class])\<close>.\<close>

definition rx_boundary :: rx where
  "rx_boundary st = (if opt_sat is_word (fst st) \<noteq> opt_sat is_word (next_char (snd st)) then [([], st)] else [])"

definition rx_not_behind :: "(char \<Rightarrow> bool) \<Rightarrow> rx" where
  "rx_not_behind p st = (if opt_sat p (fst st) then [] else [([], st)])"

definition rx_not_ahead :: "(char \<Rightarrow> bool) \<Rightarrow> rx" where
  "rx_not_ahead p st = (if opt_sat p (next_char (snd st)) then [] else [([], st)])"

text \<open>A pattern with one group: what the group matched, in the order of the backtracking.\<close>

definition rx_group :: "rx \<Rightarrow> rx \<Rightarrow> rx \<Rightarrow> rx_state \<Rightarrow> string list" where
  "rx_group a g b st = concat (map (\<lambda>(_, st1). concat (map (\<lambda>(x, st2). map (\<lambda>_. x) (b st2)) (g st1))) (a st))"

text \<open>\<open>re.search\<close>: the leftmost position where the pattern matches.\<close>

fun re_search :: "(rx_state \<Rightarrow> 'a list) \<Rightarrow> char option \<Rightarrow> string \<Rightarrow> 'a option" where
  "re_search f p s = (case f (p, s) of x # _ \<Rightarrow> Some x
     | [] \<Rightarrow> (case s of [] \<Rightarrow> None | c # r \<Rightarrow> re_search f (Some c) r))"

declare re_search.simps [simp del]

section \<open>String methods\<close>

text \<open>\<open>text.replace(old, new)\<close> for a non-empty \<open>old\<close>.\<close>

fun replace :: "string \<Rightarrow> string \<Rightarrow> string \<Rightarrow> string" where
  "replace old new [] = []"
| "replace old new (c # s) = (if prefix old (c # s) then new @ replace old new (drop (length old - 1) s)
     else c # replace old new s)"

text \<open>\<open>re.sub(r"\s+", " ", text)\<close>.\<close>

function collapse_ws :: "string \<Rightarrow> string" where
  "collapse_ws [] = []"
| "collapse_ws (c # s) = (if is_space c then CHR '' '' # collapse_ws (dropWhile is_space s) else c # collapse_ws s)"
  by pat_completeness auto
termination
  by (relation "measure length") (auto simp: less_Suc_eq_le length_dropWhile_le)

text \<open>\<open>text.strip(chars)\<close>.\<close>

definition strip_chars :: "string \<Rightarrow> string \<Rightarrow> string" where
  "strip_chars chars s = (let out = (\<lambda>c. c \<in> set chars) in rev (dropWhile out (rev (dropWhile out s))))"

text \<open>\<open>text.title()\<close>: a letter after another letter is lower case, any other letter upper case.\<close>

fun title_from :: "bool \<Rightarrow> string \<Rightarrow> string" where
  "title_from inside [] = []"
| "title_from inside (c # s) = (if inside then lower_char c else upper_char c) # title_from (is_alpha c) s"

definition title :: "string \<Rightarrow> string" where
  "title s = title_from False s"

text \<open>\<open>text.rsplit(sep, maxsplit=1)[-1]\<close>: what follows the last occurrence of the separator.\<close>

fun after_last :: "string \<Rightarrow> string \<Rightarrow> string option" where
  "after_last sep [] = None"
| "after_last sep (c # s) = (case after_last sep s of Some r \<Rightarrow> Some r
     | None \<Rightarrow> if prefix sep (c # s) then Some (drop (length sep) (c # s)) else None)"

definition rsplit_last :: "string \<Rightarrow> string \<Rightarrow> string" where
  "rsplit_last sep s = (case after_last sep s of Some r \<Rightarrow> r | None \<Rightarrow> s)"

definition removeprefix :: "string \<Rightarrow> string \<Rightarrow> string" where
  "removeprefix p s = (if prefix p s then drop (length p) s else s)"

section \<open>What a search finds\<close>

text \<open>The states a search visits: each split of the text, with the character before it.\<close>

definition at_split :: "char option \<Rightarrow> string \<Rightarrow> string \<Rightarrow> rx_state" where
  "at_split p u v = (if u = [] then p else Some (last u), v)"

lemma at_split_simps: "at_split p [] v = (p, v)" "at_split p (c # u) v = at_split (Some c) u v"
  by (simp_all add: at_split_def)

lemma all_splits_Cons: "(\<forall>u v. c # s = u @ v \<longrightarrow> P u v) \<longleftrightarrow> P [] (c # s) \<and> (\<forall>u v. s = u @ v \<longrightarrow> P (c # u) v)"
  by (auto simp: Cons_eq_append_conv)

lemma re_search_None: "re_search f p s = None \<longleftrightarrow> (\<forall>u v. s = u @ v \<longrightarrow> f (at_split p u v) = [])"
proof (induction s arbitrary: p)
  case Nil
  then show ?case by (simp add: re_search.simps at_split_simps split: list.splits)
next
  case (Cons c s)
  have "re_search f p (c # s) = None \<longleftrightarrow> f (p, c # s) = [] \<and> re_search f (Some c) s = None"
    by (simp add: re_search.simps [of f p "c # s"] split: list.splits)
  also have "\<dots> \<longleftrightarrow> (\<forall>u v. c # s = u @ v \<longrightarrow> f (at_split p u v) = [])"
    unfolding Cons.IH all_splits_Cons at_split_simps ..
  finally show ?case .
qed

lemma re_search_SomeD:
  "re_search f p s = Some x \<Longrightarrow> \<exists>u v. s = u @ v \<and> x \<in> set (f (at_split p u v))"
proof (induction s arbitrary: p)
  case Nil
  then show ?case by (force simp: re_search.simps at_split_simps split: list.splits)
next
  case (Cons c s)
  show ?case
  proof (cases "f (p, c # s)")
    case Nil
    then have "re_search f (Some c) s = Some x" using Cons.prems by (simp add: re_search.simps [of f p "c # s"])
    then obtain u v where "s = u @ v" "x \<in> set (f (at_split (Some c) u v))" using Cons.IH by blast
    then have "c # s = (c # u) @ v \<and> x \<in> set (f (at_split p (c # u) v))" by (simp add: at_split_simps)
    then show ?thesis by blast
  next
    case (Cons y ys)
    then have "x \<in> set (f (at_split p [] (c # s)))" using Cons.prems by (simp add: re_search.simps [of f p "c # s"] at_split_def)
    then show ?thesis by blast
  qed
qed

lemma set_rx_group: "x \<in> set (rx_group a g b st) \<Longrightarrow> \<exists>st1 st2. (x, st2) \<in> set (g st1)"
  by (auto simp: rx_group_def)

lemma rx_many_matches: "(x, st') \<in> set (rx_many p lo hi st) \<Longrightarrow> list_all p x \<and> lo \<le> length x \<and> (\<forall>h. hi = Some h \<longrightarrow> length x \<le> h)"
proof -
  assume "(x, st') \<in> set (rx_many p lo hi st)"
  then obtain n where "n \<in> {lo..<Suc (case hi of None \<Rightarrow> length (takeWhile p (snd st)) | Some h \<Rightarrow> min h (length (takeWhile p (snd st))))}"
    and n: "x = take n (snd st)"
    by (auto simp: rx_many_def Let_def simp del: upt_Suc)
  then have n: "lo \<le> n" "n \<le> length (takeWhile p (snd st))" "\<forall>h. hi = Some h \<longrightarrow> n \<le> h" "x = take n (snd st)"
    by (auto split: option.splits)
  then have "x = take n (takeWhile p (snd st))" by (metis takeWhile_eq_take take_take min_absorb1)
  moreover have "list_all p (take n (takeWhile p (snd st)))" by (metis list.pred_set set_takeWhileD set_take_subset subsetD)
  ultimately show ?thesis using n by auto
qed


end
