(* ===== verification/Envelope.thy ===== *)
theory Envelope
  imports Transitions Json Clock
begin

text \<open>
  \<open>glue/envelopes/agent_event.py\<close>: the envelope in which agents exchange events, with its field
  constraints and validators.  Decoding the JSON text into the fields is the argument of what receives
  an envelope; the constraints are checked here.
\<close>

datatype pii_classification = PII_NONE | PII_LOW | PII_RESTRICTED

record event_actor =
  ea_type :: actor_type
  ea_id :: string

record event_subject =
  es_lead_id :: "string option"
  es_user_id :: "string option"
  es_tutor_id :: "string option"
  es_demo_id :: "string option"

record agent_event =
  ae_event_id :: string
  ae_event_type :: string
  ae_schema_version :: string
  ae_occurred_at :: datetime
  ae_source_agent :: string
  ae_target_agent :: string
  ae_tenant_id :: string
  ae_region_id :: "string option"
  ae_correlation_id :: string
  ae_causation_id :: "string option"
  ae_conversation_id :: string
  ae_actor :: event_actor
  ae_subject :: event_subject
  ae_idempotency_key :: string
  ae_traceparent :: "string option"
  ae_pii_classification :: pii_classification
  ae_payload :: json_object

definition length_in :: "nat \<Rightarrow> nat \<Rightarrow> string \<Rightarrow> bool" where
  "length_in lo hi s \<longleftrightarrow> lo \<le> length s \<and> length s \<le> hi"

definition optional_max :: "nat \<Rightarrow> string option \<Rightarrow> bool" where
  "optional_max hi s = (case s of Some t \<Rightarrow> length t \<le> hi | None \<Rightarrow> True)"

text \<open>The pattern \<open>[a-z][a-z0-9_.-]+\.v[1-9][0-9]*\<close>; the version is what follows the last dot.\<close>

definition event_type_pattern :: "string \<Rightarrow> bool" where
  "event_type_pattern s \<longleftrightarrow>
     (let version = rev (takeWhile (\<lambda>c. c \<noteq> CHR ''.'') (rev s));
          name = take (length s - length version - 1) s
      in length version < length s
       \<and> length version \<ge> 2 \<and> hd version = CHR ''v'' \<and> list_all is_digit (tl version) \<and> hd (tl version) \<noteq> CHR ''0''
       \<and> length name \<ge> 2 \<and> is_lower (hd name)
       \<and> list_all (\<lambda>c. is_lower c \<or> is_digit c \<or> c \<in> {CHR ''_'', CHR ''.'', CHR ''-''}) (tl name))"

definition envelope_fields_ok :: "agent_event \<Rightarrow> bool" where
  "envelope_fields_ok e \<longleftrightarrow> event_type_pattern (ae_event_type e) \<and> ae_schema_version e = ''1.0''
     \<and> length_in 1 100 (ae_source_agent e) \<and> length_in 1 100 (ae_target_agent e) \<and> length_in 1 100 (ae_tenant_id e)
     \<and> optional_max 100 (ae_region_id e) \<and> length_in 1 128 (ae_correlation_id e) \<and> optional_max 128 (ae_causation_id e)
     \<and> length_in 1 255 (ae_conversation_id e) \<and> length_in 1 255 (ea_id (ae_actor e))
     \<and> optional_max 255 (es_lead_id (ae_subject e)) \<and> optional_max 255 (es_user_id (ae_subject e))
     \<and> optional_max 255 (es_tutor_id (ae_subject e)) \<and> optional_max 255 (es_demo_id (ae_subject e))
     \<and> length_in 8 255 (ae_idempotency_key e) \<and> optional_max 256 (ae_traceparent e)"

definition occurred_at_must_be_utc :: "datetime \<Rightarrow> datetime res" where
  "occurred_at_must_be_utc d = (if \<not> aware d then Inl (ValueError ''occurred_at must be timezone-aware'') else to_utc d)"

definition restricted_payload_is_explicit :: "agent_event \<Rightarrow> agent_event res" where
  "restricted_payload_is_explicit e =
     (if ae_pii_classification e = PII_NONE
        \<and> list_ex (\<lambda>key. key \<in> fst ` set (ae_payload e)) [''phone'', ''email'', ''message_text'', ''meeting_link'']
      then Inl (ValueError ''payload contains PII but pii_classification is none'') else Inr e)"

definition validate_envelope :: "agent_event \<Rightarrow> agent_event res" where
  "validate_envelope e =
     (if \<not> envelope_fields_ok e then Inl (ValueError ''validation error'')
      else res_bind (occurred_at_must_be_utc (ae_occurred_at e)) (\<lambda>occurred_at.
        restricted_payload_is_explicit (e\<lparr>ae_occurred_at := occurred_at\<rparr>)))"

lemma event_type_samples:
  "event_type_pattern ''whatsapp.handoff.demo.v1''" "\<not> event_type_pattern ''whatsapp.handoff.demo.v01''"
  "\<not> event_type_pattern ''.v1''" "event_type_pattern ''a-b.v12''"
  by code_simp+

text \<open>
  A validated envelope is in UTC and declares the personal data it carries, and validating it again
  changes nothing.
\<close>

lemma validated_envelope:
  assumes "validate_envelope e = Inr e'"
  shows "envelope_fields_ok e'" "utcoff (ae_occurred_at e') = Some 0" "instant (ae_occurred_at e') = instant (ae_occurred_at e)"
    "ae_pii_classification e' = PII_NONE \<longrightarrow> {''phone'', ''email'', ''message_text'', ''meeting_link''} \<inter> fst ` set (ae_payload e') = {}"
    "validate_envelope e' = Inr e'"
proof -
  have *: "envelope_fields_ok e" "aware (ae_occurred_at e)" "in_range (instant (ae_occurred_at e))"
    "e' = e\<lparr>ae_occurred_at := Datetime (instant (ae_occurred_at e)) (Some 0)\<rparr>"
    "ae_pii_classification e = PII_NONE \<longrightarrow> {''phone'', ''email'', ''message_text'', ''meeting_link''} \<inter> fst ` set (ae_payload e) = {}"
    using assms by (auto simp: validate_envelope_def occurred_at_must_be_utc_def restricted_payload_is_explicit_def to_utc_def
        res_simps split: if_splits)
  then show "envelope_fields_ok e'" "utcoff (ae_occurred_at e') = Some 0" "instant (ae_occurred_at e') = instant (ae_occurred_at e)"
    "ae_pii_classification e' = PII_NONE \<longrightarrow> {''phone'', ''email'', ''message_text'', ''meeting_link''} \<inter> fst ` set (ae_payload e') = {}"
    by (simp_all add: envelope_fields_ok_def instant_def)
  then show "validate_envelope e' = Inr e'" using *
    by (auto simp: validate_envelope_def occurred_at_must_be_utc_def restricted_payload_is_explicit_def to_utc_def aware_def instant_def)
qed

end
