(* ===== verification/Store.thy ===== *)
theory Store
  imports Outbox Envelope
begin

text \<open>
  The tables of \<open>infrastructure/database/models\<close> that the conversation, payment and onboarding steps
  share, and the session they run in.  A session is a state-passing computation that may raise; what was changed
  before it raised stays in its state, and the caller decides whether to commit or to roll back.  Ids
  that the database or \<open>uuid4\<close> makes are drawn from a stream; columns only the retention job reads,
  columns no step sets, and the audit columns \<open>created_at\<close> and \<open>updated_at\<close> are left out, and so are foreign keys, since none of
  these steps deletes a row.
\<close>

section \<open>Sessions\<close>

type_synonym ('s, 'a) sess = "'s \<Rightarrow> 'a res \<times> 's"

definition s_return :: "'a \<Rightarrow> ('s, 'a) sess" where
  "s_return x s = (Inr x, s)"

definition s_raise :: "py_error \<Rightarrow> ('s, 'a) sess" where
  "s_raise e s = (Inl e, s)"

definition s_bind :: "('s, 'a) sess \<Rightarrow> ('a \<Rightarrow> ('s, 'b) sess) \<Rightarrow> ('s, 'b) sess" where
  "s_bind m f s = (case m s of (Inl e, s') \<Rightarrow> (Inl e, s') | (Inr x, s') \<Rightarrow> f x s')"

definition s_get :: "('s \<Rightarrow> 'a) \<Rightarrow> ('s, 'a) sess" where
  "s_get f s = (Inr (f s), s)"

definition s_modify :: "('s \<Rightarrow> 's) \<Rightarrow> ('s, unit) sess" where
  "s_modify f s = (Inr (), f s)"

definition s_lift :: "'a res \<Rightarrow> ('s, 'a) sess" where
  "s_lift r s = (r, s)"

text \<open>\<open>if condition: raise error\<close>.\<close>

definition s_raise_if :: "bool \<Rightarrow> py_error \<Rightarrow> ('s, unit) sess" where
  "s_raise_if b e = (if b then s_raise e else s_return ())"

lemma sess_simps [simp]:
  "s_return x s = (Inr x, s)" "s_raise e s = (Inl e, s)" "s_get f s = (Inr (f s), s)"
  "s_modify m s = (Inr (), m s)" "s_lift r s = (r, s)"
  "s_raise_if b e s = (if b then (Inl e, s) else (Inr (), s))"
  by (simp_all add: s_return_def s_raise_def s_get_def s_modify_def s_lift_def s_raise_if_def)

lemma s_bind_Inr: "s_bind m f s = (Inr y, s') \<longleftrightarrow> (\<exists>x t. m s = (Inr x, t) \<and> f x t = (Inr y, s'))"
  by (cases "m s"; cases "fst (m s)") (auto simp: s_bind_def)

lemma s_bind_Inl: "s_bind m f s = (Inl e, s') \<longleftrightarrow> m s = (Inl e, s') \<or> (\<exists>x t. m s = (Inr x, t) \<and> f x t = (Inl e, s'))"
  by (cases "m s"; cases "fst (m s)") (auto simp: s_bind_def)

lemma s_bind_simps [simp]:
  "s_bind (s_return x) f1 s = f1 x s" "s_bind (s_raise e) f2 s = (Inl e, s)" "s_bind (s_get get) f3 s = f3 (get s) s"
  "s_bind (s_modify m) f4 s = f4 () (m s)" "s_bind (s_lift (Inr y)) f5 s = f5 y s" "s_bind (s_lift (Inl e)) f6 s = (Inl e, s)"
  "s_bind (s_raise_if b e) f7 s = (if b then (Inl e, s) else f7 () s)"
  by (simp_all add: s_bind_def)

text \<open>What a step keeps of the state, whether it returns or raises.\<close>

definition s_keeps :: "('s \<Rightarrow> bool) \<Rightarrow> ('s, 'a) sess \<Rightarrow> bool" where
  "s_keeps I m \<longleftrightarrow> (\<forall>s. I s \<longrightarrow> I (snd (m s)))"

lemma s_keepsD: "s_keeps I m \<Longrightarrow> I s \<Longrightarrow> m s = (r, s') \<Longrightarrow> I s'"
  unfolding s_keeps_def by (metis snd_conv)

lemma s_keeps_bind: "s_keeps I m \<Longrightarrow> (\<And>x. s_keeps I (f x)) \<Longrightarrow> s_keeps I (s_bind m f)"
  by (fastforce simp: s_keeps_def s_bind_def split: prod.splits sum.splits)

lemma s_keeps_simps [simp]:
  "s_keeps I (s_return x)" "s_keeps I (s_raise e)" "s_keeps I (s_get get)" "s_keeps I (s_lift r)" "s_keeps I (s_raise_if b e')"
  by (auto simp: s_keeps_def)

section \<open>Rows\<close>

record demo_case =
  dc_id :: string
  dc_tenant_id :: string
  dc_region_id :: "string option"
  dc_external_lead_id :: "string option"
  dc_external_user_id :: "string option"
  dc_conversation_id :: string
  dc_state :: string
  dc_participant_timezone :: string
  dc_flow_version :: string
  dc_version :: int

record state_transition =
  tr_demo_case_id :: string
  tr_state_before :: string
  tr_state_after :: string
  tr_command :: string
  tr_actor_type :: string
  tr_actor_ref :: string
  tr_reason_code :: "string option"
  tr_occurred_at :: datetime
  tr_correlation_id :: string
  tr_idempotency_key :: string
  tr_flow_version :: string
  tr_policy_version :: "string option"
  tr_side_effects_requested :: "string list"
  tr_side_effects_completed :: "string list"

record payment_order =
  py_id :: string
  py_tenant_id :: string
  py_demo_case_id :: string
  py_domain_order_id :: string
  py_provider :: string
  py_provider_order_id :: "string option"
  py_user_ref :: string
  py_customer_ref :: string
  py_plan_ref :: string
  py_plan_version :: string
  py_offer_id :: "string option"
  py_amount_minor :: int
  py_currency :: string
  py_purpose :: string
  py_provider_environment :: string
  py_status :: string
  py_creation_idempotency_key :: string
  py_correlation_id :: string
  py_expires_at :: datetime
  py_reconcile_after :: "datetime option"
  py_paid_at :: "datetime option"
  py_version :: int

record checkout_session =
  cs_payment_order_id :: string
  cs_session_ciphertext :: string
  cs_key_reference :: string
  cs_expires_at :: datetime

record provider_request =
  pr_tenant_id :: string
  pr_provider :: string
  pr_operation :: string
  pr_idempotency_key :: string
  pr_correlation_id :: string
  pr_request_hash :: string
  pr_provider_reference :: "string option"
  pr_status :: string
  pr_attempt_count :: int

record webhook_event =
  we_id :: nat
  we_tenant_id :: string
  we_provider :: string
  we_provider_event_id :: string
  we_event_type :: string
  we_payload_hash :: string
  we_payload_ciphertext :: string
  we_payload_key_reference :: string
  we_occurred_at :: datetime
  we_processed_at :: "datetime option"
  we_status :: string

record payment_attempt =
  pa_payment_order_id :: string
  pa_provider :: string
  pa_provider_payment_id :: string
  pa_provider_webhook_event_id :: nat
  pa_status :: string
  pa_amount_minor :: int
  pa_currency :: string
  pa_occurred_at :: datetime

record paid_transition =
  pt_id :: string
  pt_payment_order_id :: string
  pt_provider_payment_id :: string
  pt_website_activation_key :: string
  pt_verified_amount_minor :: int
  pt_verified_currency :: string
  pt_verification_source :: string
  pt_transitioned_at :: datetime

record onboarding_handoff =
  oh_id :: string
  oh_tenant_id :: string
  oh_paid_transition_id :: string
  oh_idempotency_key :: string
  oh_onboarding_required :: bool
  oh_status :: string
  oh_acknowledgement_ref :: "string option"
  oh_attempt_count :: int
  oh_acknowledged_at :: "datetime option"
  oh_welcome_message_id :: "string option"

record communication_message =
  cm_id :: string
  cm_tenant_id :: string
  cm_demo_case_id :: "string option"
  cm_direction :: string
  cm_channel :: string
  cm_recipient_ref :: string
  cm_message_category :: string
  cm_template_ref :: "string option"
  cm_content_source_refs :: "string list"
  cm_policy_version :: string
  cm_message_version :: string
  cm_idempotency_key :: string
  cm_approved_by :: "string option"
  cm_service_window_ends_at :: "datetime option"

record consent_record =
  cr_tenant_id :: string
  cr_subject_ref :: string
  cr_purpose :: string
  cr_status :: string
  cr_evidence_ref :: string

record demo_requirement =
  rq_demo_case_id :: string
  rq_board :: "string option"
  rq_class_level :: "string option"
  rq_subject :: "string option"
  rq_learning_goal :: "string option"
  rq_mode :: "string option"
  rq_location_region :: "string option"
  rq_timezone :: string
  rq_preferred_times :: "json list"
  rq_missing_fields :: "string list"
  rq_version :: int

record conversation_state =
  cv_tenant_id :: string
  cv_demo_case_id :: "string option"
  cv_conversation_id :: string
  cv_current_step :: string
  cv_safe_summary :: "string option"
  cv_flow_version :: string
  cv_version :: int

record identity_mapping =
  im_tenant_id :: string
  im_system :: string
  im_entity_type :: string
  im_external_id :: string
  im_internal_id :: string
  im_last_verified_at :: "datetime option"

record stored_tutor_candidate =
  tc_demo_case_id :: string
  tc_website_tutor_ref :: string
  tc_ranking_version :: string
  tc_rank :: int
  tc_score :: rat
  tc_hard_constraints_met :: bool
  tc_reason_codes :: "string list"
  tc_source_version :: "string option"
  tc_source_fetched_at :: datetime
  tc_selected_at :: "datetime option"

text \<open>\<open>st_outbox\<close> holds the outbox rows these steps added, as they were added; the publisher works on its own copy.\<close>

record store =
  st_demos :: "demo_case list"
  st_transitions :: "state_transition list"
  st_orders :: "payment_order list"
  st_checkouts :: "checkout_session list"
  st_requests :: "provider_request list"
  st_webhooks :: "webhook_event list"
  st_attempts :: "payment_attempt list"
  st_paid :: "paid_transition list"
  st_handoffs :: "onboarding_handoff list"
  st_messages :: "communication_message list"
  st_consents :: "consent_record list"
  st_requirements :: "demo_requirement list"
  st_conversations :: "conversation_state list"
  st_mappings :: "identity_mapping list"
  st_candidates :: "stored_tutor_candidate list"
  st_outbox :: "outbox_row list"
  st_next :: nat

section \<open>Constraints\<close>

text \<open>A unique constraint on columns of which one may be null: rows with a null never collide.\<close>

definition unique_some :: "('r \<Rightarrow> 'k option) \<Rightarrow> 'r list \<Rightarrow> bool" where
  "unique_some key rows \<longleftrightarrow> distinct (List.map_filter key rows)"

definition constraints_ok :: "store \<Rightarrow> bool" where
  "constraints_ok st \<longleftrightarrow>
     distinct (map dc_id (st_demos st)) \<and> (\<forall>d \<in> set (st_demos st). dc_version d \<ge> 1)
   \<and> distinct (map (\<lambda>t. (tr_demo_case_id t, tr_idempotency_key t)) (st_transitions st))
   \<and> distinct (map py_id (st_orders st))
   \<and> distinct (map (\<lambda>p. (py_tenant_id p, py_domain_order_id p)) (st_orders st))
   \<and> unique_some (\<lambda>p. map_option (\<lambda>i. (py_provider p, i)) (py_provider_order_id p)) (st_orders st)
   \<and> distinct (map (\<lambda>p. (py_tenant_id p, py_creation_idempotency_key p)) (st_orders st))
   \<and> (\<forall>p \<in> set (st_orders st). py_amount_minor p > 0)
   \<and> distinct (map cs_payment_order_id (st_checkouts st))
   \<and> distinct (map (\<lambda>r. (pr_tenant_id r, pr_provider r, pr_idempotency_key r)) (st_requests st))
   \<and> distinct (map (\<lambda>w. (we_provider w, we_provider_event_id w)) (st_webhooks st))
   \<and> distinct (map (\<lambda>w. (we_provider w, we_payload_hash w)) (st_webhooks st))
   \<and> distinct (map (\<lambda>a. (pa_provider a, pa_provider_payment_id a)) (st_attempts st))
   \<and> distinct (map pa_provider_webhook_event_id (st_attempts st))
   \<and> distinct (map pt_id (st_paid st)) \<and> distinct (map pt_payment_order_id (st_paid st))
   \<and> distinct (map pt_provider_payment_id (st_paid st)) \<and> distinct (map pt_website_activation_key (st_paid st))
   \<and> distinct (map oh_id (st_handoffs st)) \<and> distinct (map oh_paid_transition_id (st_handoffs st))
   \<and> distinct (map (\<lambda>h. (oh_tenant_id h, oh_idempotency_key h)) (st_handoffs st))
   \<and> distinct (map cm_id (st_messages st)) \<and> distinct (map (\<lambda>m. (cm_tenant_id m, cm_idempotency_key m)) (st_messages st))
   \<and> distinct (map rq_demo_case_id (st_requirements st))
   \<and> distinct (map (\<lambda>c. (cv_tenant_id c, cv_conversation_id c)) (st_conversations st))
   \<and> distinct (map (\<lambda>m. (im_tenant_id m, im_system m, im_entity_type m, im_external_id m)) (st_mappings st))
   \<and> distinct (map (\<lambda>c. (tc_demo_case_id c, tc_website_tutor_ref c, tc_ranking_version c)) (st_candidates st))
   \<and> outbox_unique (st_outbox st)"

section \<open>Reading and writing rows\<close>

definition update_by :: "('r \<Rightarrow> 'k) \<Rightarrow> 'k \<Rightarrow> ('r \<Rightarrow> 'r) \<Rightarrow> 'r list \<Rightarrow> 'r list" where
  "update_by key k f rows = map (\<lambda>r. if key r = k then f r else r) rows"

definition update_demo :: "string \<Rightarrow> (demo_case \<Rightarrow> demo_case) \<Rightarrow> store \<Rightarrow> store" where
  "update_demo i f st = st\<lparr>st_demos := update_by dc_id i f (st_demos st)\<rparr>"

definition update_order :: "string \<Rightarrow> (payment_order \<Rightarrow> payment_order) \<Rightarrow> store \<Rightarrow> store" where
  "update_order i f st = st\<lparr>st_orders := update_by py_id i f (st_orders st)\<rparr>"

definition update_handoff :: "string \<Rightarrow> (onboarding_handoff \<Rightarrow> onboarding_handoff) \<Rightarrow> store \<Rightarrow> store" where
  "update_handoff i f st = st\<lparr>st_handoffs := update_by oh_id i f (st_handoffs st)\<rparr>"

definition update_webhook :: "nat \<Rightarrow> (webhook_event \<Rightarrow> webhook_event) \<Rightarrow> store \<Rightarrow> store" where
  "update_webhook i f st = st\<lparr>st_webhooks := update_by we_id i f (st_webhooks st)\<rparr>"

definition request_key_of :: "provider_request \<Rightarrow> string \<times> string \<times> string" where
  "request_key_of r = (pr_tenant_id r, pr_provider r, pr_idempotency_key r)"

definition update_request :: "string \<times> string \<times> string \<Rightarrow> (provider_request \<Rightarrow> provider_request) \<Rightarrow> store \<Rightarrow> store" where
  "update_request k f st = st\<lparr>st_requests := update_by request_key_of k f (st_requests st)\<rparr>"

definition add_transition :: "state_transition \<Rightarrow> store \<Rightarrow> store" where
  "add_transition t st = st\<lparr>st_transitions := st_transitions st @ [t]\<rparr>"

definition add_outbox :: "outbox_row \<Rightarrow> store \<Rightarrow> store" where
  "add_outbox r st = st\<lparr>st_outbox := st_outbox st @ [r]\<rparr>"

definition find_demo :: "string \<Rightarrow> store \<Rightarrow> demo_case option" where
  "find_demo i st = List.find (\<lambda>d. dc_id d = i) (st_demos st)"

definition find_order :: "string \<Rightarrow> store \<Rightarrow> payment_order option" where
  "find_order i st = List.find (\<lambda>p. py_id p = i) (st_orders st)"

lemma update_by_simps [simp]:
  "map g (update_by key k f rows) = map (\<lambda>r. g (if key r = k then f r else r)) rows"
  "length (update_by key k f rows) = length rows"
  by (simp_all add: update_by_def)

lemma set_update_by: "r' \<in> set (update_by key k f rows) \<longleftrightarrow> (\<exists>r \<in> set rows. r' = (if key r = k then f r else r))"
  by (induction rows) (auto simp: update_by_def)

lemma find_update_by:
  assumes "\<And>r. key (f r) = key r"
  shows "List.find (\<lambda>r. key r = i) (update_by key k f rows) =
    (if i = k then map_option f (List.find (\<lambda>r. key r = i) rows) else List.find (\<lambda>r. key r = i) rows)"
  using assms by (induction rows) (auto simp: update_by_def)

lemma find_demo_update:
  assumes "\<And>d. dc_id (f d) = dc_id d"
  shows "find_demo i (update_demo k f st) = (if i = k then map_option f (find_demo i st) else find_demo i st)"
  unfolding find_demo_def update_demo_def by (simp add: find_update_by [of dc_id f, OF assms])

lemma find_order_update:
  assumes "\<And>d. py_id (f d) = py_id d"
  shows "find_order i (update_order k f st) = (if i = k then map_option f (find_order i st) else find_order i st)"
  unfolding find_order_def update_order_def by (simp add: find_update_by [of py_id f, OF assms])

lemma find_demo_Some: "find_demo i st = Some d \<Longrightarrow> d \<in> set (st_demos st) \<and> dc_id d = i"
  by (auto simp: find_demo_def find_Some_iff)

lemma find_order_Some: "find_order i st = Some d \<Longrightarrow> d \<in> set (st_orders st) \<and> py_id d = i"
  by (auto simp: find_order_def find_Some_iff)

lemma find_demo_mem: "distinct (map dc_id (st_demos st)) \<Longrightarrow> d \<in> set (st_demos st) \<Longrightarrow> find_demo (dc_id d) st = Some d"
proof -
  have "distinct (map dc_id xs) \<Longrightarrow> d \<in> set xs \<Longrightarrow> List.find (\<lambda>d'. dc_id d' = dc_id d) xs = Some d" for xs
    by (induction xs) (auto intro: rev_image_eqI)
  then show "distinct (map dc_id (st_demos st)) \<Longrightarrow> d \<in> set (st_demos st) \<Longrightarrow> find_demo (dc_id d) st = Some d"
    by (simp add: find_demo_def)
qed

text \<open>The state of a demo as the state machine has it.\<close>

definition case_state :: "store \<Rightarrow> string \<Rightarrow> demo_state option" where
  "case_state st i = (case find_demo i st of Some d \<Rightarrow> demo_state_of (dc_state d) | None \<Rightarrow> None)"

end
