(* ===== verification/Requirements.thy ===== *)
theory Requirements
  imports PyRegex Store
begin

text \<open>
  \<open>infrastructure/inbox/processor.py\<close>, first part: what a WhatsApp message says about the class, the
  subject, the place, the mode and the time of a demo, the requirement row it updates, and the text of
  the replies.
\<close>

section \<open>Vocabulary\<close>

definition REQUIRED_DEMO_FIELDS :: "string list" where
  "REQUIRED_DEMO_FIELDS = [''class_level'', ''subject'', ''location_region'', ''mode'', ''preferred_times'']"

type_synonym aliases = "(string \<times> string) list"

definition SUBJECT_ALIASES :: aliases where
  "SUBJECT_ALIASES =
     [(''math'', ''Mathematics''), (''maths'', ''Mathematics''), (''mathematics'', ''Mathematics''),
      (''science'', ''Science''), (''physics'', ''Physics''), (''chemistry'', ''Chemistry''),
      (''biology'', ''Biology''), (''english'', ''English''), (''hindi'', ''Hindi''),
      (''accounts'', ''Accounts''), (''accountancy'', ''Accountancy''), (''economics'', ''Economics''),
      (''business studies'', ''Business Studies''), (''computer'', ''Computer Science''),
      (''computer science'', ''Computer Science''), (''coding'', ''Coding''),
      (''programming'', ''Programming''), (''skating'', ''Skating'')]"

definition CITY_ALIASES :: aliases where
  "CITY_ALIASES =
     [(''gurgaon'', ''Gurugram''), (''gurugram'', ''Gurugram''), (''delhi'', ''Delhi''), (''new delhi'', ''New Delhi''),
      (''noida'', ''Noida''), (''faridabad'', ''Faridabad''), (''ghaziabad'', ''Ghaziabad''), (''mumbai'', ''Mumbai''),
      (''bangalore'', ''Bengaluru''), (''bengaluru'', ''Bengaluru''), (''pune'', ''Pune''), (''hyderabad'', ''Hyderabad''),
      (''chennai'', ''Chennai''), (''kolkata'', ''Kolkata'')]"

definition BOARD_ALIASES :: aliases where
  "BOARD_ALIASES =
     [(''cbse'', ''CBSE''), (''icse'', ''ICSE''), (''ib'', ''IB''), (''igcse'', ''IGCSE''), (''state board'', ''State Board'')]"

definition MODE_ALIASES :: aliases where
  "MODE_ALIASES =
     [(''home'', ''home''), (''home tuition'', ''home''), (''offline'', ''home''), (''online'', ''online''),
      (''online classes'', ''online''), (''either'', ''either'')]"

definition TIME_ALIASES :: aliases where
  "TIME_ALIASES =
     [(''morning'', ''morning''), (''afternoon'', ''afternoon''), (''evening'', ''evening''), (''weekend'', ''weekend'')]"

definition CLASS_WORDS :: "(string \<times> int) list" where
  "CLASS_WORDS =
     [(''one'', 1), (''first'', 1), (''two'', 2), (''second'', 2), (''three'', 3), (''third'', 3), (''four'', 4), (''fourth'', 4),
      (''five'', 5), (''fifth'', 5), (''six'', 6), (''sixth'', 6), (''seven'', 7), (''seventh'', 7), (''eight'', 8), (''eighth'', 8),
      (''nine'', 9), (''ninth'', 9), (''ten'', 10), (''tenth'', 10), (''eleven'', 11), (''eleventh'', 11),
      (''twelve'', 12), (''twelfth'', 12)]"

section \<open>Reading a message\<close>

definition normalise_text :: "string option \<Rightarrow> string" where
  "normalise_text text =
     (case text of None \<Rightarrow> []
      | Some t \<Rightarrow> if t = [] then []
          else strip (collapse_ws (replace ''sgart'' ''start'' (replace ''feom'' ''from''
            (replace [CHR ''d'', CHR ''o'', CHR ''n'', CHR 0x27, CHR ''t''] ''dont'' (casefold t))))))"

definition contains_negation :: "string \<Rightarrow> bool" where
  "contains_negation text \<longleftrightarrow> list_ex (contains text)
     ['' no '', ''no '', '' not '', ''dont want'', ''do not want'', ''wrong'', ''change'', ''instead'']"

text \<open>The longest alias first; equally long ones in the order of the table.\<close>

definition longest_first :: "(string \<times> 'a) list \<Rightarrow> (string \<times> 'a) list" where
  "longest_first table = sort_key (\<lambda>item. - int (length (fst item))) table"

definition alias_at :: "string \<Rightarrow> rx" where
  "alias_at raw = rx_seq (rx_not_behind is_alnum_lower) (rx_seq (rx_lit raw) (rx_not_ahead is_alnum_lower))"

definition extract_alias :: "string \<Rightarrow> aliases \<Rightarrow> string option" where
  "extract_alias text table =
     map_option snd (List.find (\<lambda>(raw, _). re_search (alias_at raw) None text \<noteq> None) (longest_first table))"

definition subject_char :: "char \<Rightarrow> bool" where
  "subject_char c \<longleftrightarrow> is_lower c \<or> c \<in> {CHR '' '', CHR ''&'', CHR ''+'', CHR ''-''}"

definition subject_lead :: rx where
  "subject_lead = rx_seq (rx_alts
     [rx_lit ''for'', rx_lit ''subject is'', rx_lit ''subject'', rx_seq (rx_lit ''want'') (rx_opt (rx_lit '' to do'')),
      rx_seq (rx_lit ''need'') (rx_opt (rx_lit '' tutor for''))]) (rx_many is_space 1 None)"

definition subject_group :: rx where
  "subject_group = rx_seq (rx_many is_lower 1 (Some 1)) (rx_many subject_char 2 (Some 40))"

definition named_subject :: "string \<Rightarrow> string option" where
  "named_subject candidate =
     (if list_ex (contains candidate) ['' it '', ''begin'', ''start'', ''from start''] then None
      else case extract_alias candidate SUBJECT_ALIASES of
        Some aliased \<Rightarrow> Some aliased
      | None \<Rightarrow> if candidate \<notin> {''demo'', ''teacher'', ''tutor'', ''classes'', ''online'', ''home''} then Some (title candidate) else None)"

definition subject_from_free_text :: "string \<Rightarrow> string option" where
  "subject_from_free_text text =
     (case re_search (rx_group subject_lead subject_group (rx_lit [])) None text of
        None \<Rightarrow> extract_alias text SUBJECT_ALIASES
      | Some g \<Rightarrow> (case named_subject (strip_chars '' .,!?:;-'' g) of
          Some s \<Rightarrow> Some s
        | None \<Rightarrow> extract_alias text SUBJECT_ALIASES))"

definition class_noun :: rx where
  "class_noun = rx_alts [rx_lit ''class'', rx_lit ''grade'', rx_lit ''std'', rx_lit ''standard'']"

definition class_number :: rx where
  "class_number = rx_many is_digit 1 (Some 2)"

definition ordinal_suffix :: rx where
  "ordinal_suffix = rx_opt (rx_alts [rx_lit ''st'', rx_lit ''nd'', rx_lit ''rd'', rx_lit ''th''])"

definition class_word :: rx where
  "class_word = rx_alts (map (\<lambda>(w, _). rx_lit w) (longest_first CLASS_WORDS))"

definition spaces :: rx where
  "spaces = rx_many is_space 0 None"

definition class_patterns :: "(rx_state \<Rightarrow> string list) list" where
  "class_patterns =
     [rx_group rx_boundary class_number (rx_seq ordinal_suffix (rx_seq spaces (rx_seq class_noun rx_boundary))),
      rx_group (rx_seq rx_boundary (rx_seq class_noun spaces)) class_number (rx_seq ordinal_suffix rx_boundary),
      rx_group (rx_seq rx_boundary (rx_seq class_noun spaces)) class_word rx_boundary,
      rx_group rx_boundary class_word (rx_seq spaces (rx_seq class_noun rx_boundary))]"

definition class_value :: "string \<Rightarrow> int option" where
  "class_value raw = (let r = casefold raw in if isdigit r then py_int r else map_of CLASS_WORDS r)"

fun class_level_by :: "(rx_state \<Rightarrow> string list) list \<Rightarrow> string \<Rightarrow> string option" where
  "class_level_by [] text = None"
| "class_level_by (pattern # ps) text =
     (case re_search pattern None text of
        None \<Rightarrow> class_level_by ps text
      | Some raw \<Rightarrow>
          (case class_value raw of
             Some v \<Rightarrow> if 1 \<le> v \<and> v \<le> 12 then Some (''Class '' @ show_int v) else class_level_by ps text
           | None \<Rightarrow> class_level_by ps text))"

definition class_level_from_text :: "string \<Rightarrow> string option" where
  "class_level_from_text text = class_level_by class_patterns text"

definition mode_from_text :: "string \<Rightarrow> string \<Rightarrow> string option" where
  "mode_from_text text current_step =
     (if current_step = ''collect_mode'' \<and> text = ''1'' then Some ''home''
      else if current_step = ''collect_mode'' \<and> text = ''2'' then Some ''online''
      else if current_step = ''collect_mode'' \<and> text = ''3'' then Some ''either''
      else extract_alias text MODE_ALIASES)"

definition time_by_number :: aliases where
  "time_by_number = [(''1'', ''morning''), (''2'', ''afternoon''), (''3'', ''evening''), (''4'', ''weekend'')]"

definition preferred_time_from_text :: "string \<Rightarrow> string \<Rightarrow> string option" where
  "preferred_time_from_text text current_step =
     (case (if current_step = ''collect_preferred_times'' then map_of time_by_number text else None) of
        Some t \<Rightarrow> Some t
      | None \<Rightarrow> extract_alias text TIME_ALIASES)"

section \<open>Updates of the requirement\<close>

datatype field_value = FNone | FText string | FList "json list"

type_synonym updates = "(string \<times> field_value) list"

text \<open>\<open>d[k] = v\<close>.\<close>

definition dict_set :: "'k \<Rightarrow> 'v \<Rightarrow> ('k \<times> 'v) list \<Rightarrow> ('k \<times> 'v) list" where
  "dict_set k v d = (if k \<in> fst ` set d then map (\<lambda>(k', v'). if k' = k then (k', v) else (k', v')) d else d @ [(k, v)])"

definition set_text :: "string \<Rightarrow> string option \<Rightarrow> updates \<Rightarrow> updates" where
  "set_text k v d = (case v of None \<Rightarrow> d | Some s \<Rightarrow> dict_set k (FText s) d)"

definition negated_subject :: "string \<Rightarrow> string option \<Rightarrow> bool" where
  "negated_subject normalised current_subject =
     (case current_subject of None \<Rightarrow> False
      | Some s \<Rightarrow> s \<noteq> [] \<and> contains_negation ('' '' @ normalised @ '' '')
          \<and> (contains normalised (normalise_text (Some s)) \<or> extract_alias normalised SUBJECT_ALIASES = Some s))"

definition subject_text :: "bool \<Rightarrow> string \<Rightarrow> string" where
  "subject_text negated normalised =
     (let padded = '' '' @ normalised @ '' ''
      in if negated \<and> contains padded '' want '' then rsplit_last '' want '' normalised
         else if negated \<and> contains padded '' instead '' then rsplit_last '' instead '' normalised
         else if negated \<and> contains padded '' change '' then rsplit_last '' change '' normalised
         else normalised)"

definition extract_requirement_updates :: "string option \<Rightarrow> string \<Rightarrow> string option \<Rightarrow> updates" where
  "extract_requirement_updates text current_step current_subject =
     (let normalised = normalise_text text
      in if normalised = [] then []
         else
           let negated = negated_subject normalised current_subject;
               subject = subject_from_free_text (subject_text negated normalised);
               d0 = (if negated then [(''subject'', FNone)] else []);
               d1 = set_text ''class_level'' (class_level_from_text normalised) d0;
               d2 = set_text ''board'' (extract_alias normalised BOARD_ALIASES) d1;
               d3 = set_text ''location_region'' (extract_alias normalised CITY_ALIASES) d2;
               d4 = set_text ''subject'' (if negated \<and> subject = current_subject then None else subject) d3;
               d5 = set_text ''mode'' (mode_from_text normalised current_step) d4;
               d6 = (case preferred_time_from_text normalised current_step of None \<Rightarrow> d5
                     | Some t \<Rightarrow> dict_set ''preferred_times'' (FList [JObject [(''label'', JString t)]]) d5)
           in if list_ex (contains normalised) [''beginning'', ''from start'', ''starting'']
              then dict_set ''learning_goal'' (FText ''Start from the beginning'') d6 else d6)"

text \<open>\<open>getattr\<close> and \<open>setattr\<close> on the columns the updates name.\<close>

definition text_value :: "string option \<Rightarrow> field_value" where
  "text_value o' = (case o' of None \<Rightarrow> FNone | Some s \<Rightarrow> FText s)"

definition value_text :: "field_value \<Rightarrow> string option" where
  "value_text v = (case v of FText s \<Rightarrow> Some s | _ \<Rightarrow> None)"

definition value_list :: "field_value \<Rightarrow> json list" where
  "value_list v = (case v of FList xs \<Rightarrow> xs | _ \<Rightarrow> [])"

definition get_field :: "demo_requirement \<Rightarrow> string \<Rightarrow> field_value" where
  "get_field r k =
     (if k = ''class_level'' then text_value (rq_class_level r)
      else if k = ''board'' then text_value (rq_board r)
      else if k = ''location_region'' then text_value (rq_location_region r)
      else if k = ''subject'' then text_value (rq_subject r)
      else if k = ''mode'' then text_value (rq_mode r)
      else if k = ''learning_goal'' then text_value (rq_learning_goal r)
      else FList (rq_preferred_times r))"

definition set_field :: "string \<Rightarrow> field_value \<Rightarrow> demo_requirement \<Rightarrow> demo_requirement" where
  "set_field k v r =
     (if k = ''class_level'' then r\<lparr>rq_class_level := value_text v\<rparr>
      else if k = ''board'' then r\<lparr>rq_board := value_text v\<rparr>
      else if k = ''location_region'' then r\<lparr>rq_location_region := value_text v\<rparr>
      else if k = ''subject'' then r\<lparr>rq_subject := value_text v\<rparr>
      else if k = ''mode'' then r\<lparr>rq_mode := value_text v\<rparr>
      else if k = ''learning_goal'' then r\<lparr>rq_learning_goal := value_text v\<rparr>
      else r\<lparr>rq_preferred_times := value_list v\<rparr>)"

fun apply_requirement_updates :: "demo_requirement \<Rightarrow> updates \<Rightarrow> demo_requirement \<times> string set" where
  "apply_requirement_updates r [] = (r, {})"
| "apply_requirement_updates r ((k, v) # rest) =
     (let (r', changed) = apply_requirement_updates (if get_field r k \<noteq> v then set_field k v r else r) rest
      in (r', if get_field r k \<noteq> v then insert k changed else changed))"

definition truthy :: "string option \<Rightarrow> bool" where
  "truthy s \<longleftrightarrow> s \<noteq> None \<and> s \<noteq> Some []"

definition missing_requirement_fields :: "demo_requirement \<Rightarrow> string list" where
  "missing_requirement_fields r =
     (if truthy (rq_class_level r) then [] else [''class_level''])
     @ (if truthy (rq_subject r) then [] else [''subject''])
     @ (if truthy (rq_location_region r) then [] else [''location_region''])
     @ (if truthy (rq_mode r) then [] else [''mode''])
     @ (if rq_preferred_times r \<noteq> [] then [] else [''preferred_times''])"

definition next_requirement_step :: "string list \<Rightarrow> string" where
  "next_requirement_step missing =
     (if ''class_level'' \<in> set missing \<or> ''location_region'' \<in> set missing then ''collect_class_city''
      else if ''subject'' \<in> set missing then ''collect_subject''
      else if ''mode'' \<in> set missing then ''collect_mode''
      else if ''preferred_times'' \<in> set missing then ''collect_preferred_times''
      else ''requirements_complete'')"

section \<open>Replies\<close>

definition preferred_time_label :: "demo_requirement \<Rightarrow> string option" where
  "preferred_time_label r =
     (case rq_preferred_times r of
        JObject first # _ \<Rightarrow> (case jget first ''label'' of JString s \<Rightarrow> Some s | _ \<Rightarrow> None)
      | _ \<Rightarrow> None)"

definition safe_requirement_summary :: "demo_requirement \<Rightarrow> string" where
  "safe_requirement_summary r =
     (let summary = join '' | '' (map the (filter truthy
            [rq_class_level r, rq_subject r, rq_location_region r, rq_mode r, preferred_time_label r]))
      in if summary = [] then ''Demo requested; requirements pending.'' else summary)"

definition line_break :: string where
  "line_break = [CHR 0x0A]"

definition em_dash :: string where
  "em_dash = [CHR 0x97]"

definition reply_body :: "demo_requirement \<Rightarrow> string set \<Rightarrow> string" where
  "reply_body r changed =
     (let summary = safe_requirement_summary r; missing = rq_missing_fields r
      in if ''subject'' \<in> changed \<and> rq_subject r = None
         then ''Got it '' @ em_dash @ '' I removed the earlier subject. Which subject or skill should we arrange the tutor/demo for?''
         else if ''class_level'' \<in> set missing \<or> ''location_region'' \<in> set missing
         then ''Got it. Which class is the student in, and which city should we arrange this in?''
         else if ''subject'' \<in> set missing
         then ''Got it. I have noted '' @ summary @ ''. Which subject or skill is this for?''
         else if ''mode'' \<in> set missing
         then ''Got it. I have noted '' @ summary @ ''. Do you prefer home tuition or online classes?'' @ line_break @ line_break
           @ ''1. Home tuition'' @ line_break @ ''2. Online classes'' @ line_break @ ''3. Either is fine'' @ line_break @ ''4. Talk to counsellor''
         else if ''preferred_times'' \<in> set missing
         then ''Got it. I have noted '' @ summary @ ''. What timing works best? How soon would you like to start?'' @ line_break @ line_break
           @ ''1. Morning'' @ line_break @ ''2. Afternoon'' @ line_break @ ''3. Evening'' @ line_break @ ''4. Weekend'' @ line_break @ ''5. Type custom time''
         else ''Perfect, I have the key details for '' @ summary
           @ ''. I will verify suitable tutor options and move this ahead.'')"

definition reply_variables :: "demo_requirement \<Rightarrow> string set \<Rightarrow> (string \<times> string) list" where
  "reply_variables r changed =
     [(''body'', reply_body r changed), (''missing_fields'', join '','' (rq_missing_fields r)),
      (''summary'', safe_requirement_summary r), (''current_step'', next_requirement_step (rq_missing_fields r))]"

text \<open>\<open>{**variables, "body": body}\<close>.\<close>

definition with_body :: "string \<Rightarrow> (string \<times> string) list \<Rightarrow> (string \<times> string) list" where
  "with_body body variables = dict_set ''body'' body variables"

definition selected_candidate_rank :: "string option \<Rightarrow> int option" where
  "selected_candidate_rank text =
     (let normalised = normalise_text text
      in if normalised \<in> {''1'', ''2'', ''3''} then py_int normalised
         else case re_search (rx_group (rx_seq (rx_alts [rx_lit ''option'', rx_lit ''tutor'']) spaces)
                     (rx_many (\<lambda>c. 49 \<le> cval c \<and> cval c \<le> 51) 1 (Some 1)) (rx_lit [])) None normalised of
           None \<Rightarrow> None
         | Some g \<Rightarrow> py_int g)"

definition looks_like_whatsapp_recipient :: "string \<Rightarrow> bool" where
  "looks_like_whatsapp_recipient value =
     (let normalized = strip (removeprefix ''+'' value) in isdigit normalized \<and> 8 \<le> length normalized \<and> length normalized \<le> 15)"

definition reply_recipient_ref :: "agent_event \<Rightarrow> string" where
  "reply_recipient_ref event =
     (let actor_ref = strip (ea_id (ae_actor event))
      in if looks_like_whatsapp_recipient actor_ref then actor_ref else ae_conversation_id event)"

end
