(* ===== verification/PaymentOrders.thy ===== *)
theory PaymentOrders
  imports Store
begin

text \<open>
  \<open>infrastructure/payments\<close>: a payment order is requested for a demo (\<open>order_jobs.py\<close>), created when the
  website's quote for the plan was fetched, and completed when the provider acknowledged its order
  (\<open>outbox_recorder.py\<close>, run by the publisher when an outbox row was delivered).  The cipher, \<open>uuid5\<close>
  and the decoding of a payload into the fields of \<open>contracts.py\<close> are arguments; the constraints on the
  fields are those of that file.
\<close>

section \<open>Contracts\<close>

record plan_quote_request =
  qr_event_type :: string
  qr_request_id :: string
  qr_demo_ref :: string
  qr_website_user_ref :: string
  qr_plan_ref :: string
  qr_customer_phone :: string
  qr_purpose :: string
  qr_correlation_id :: string

record plan_quote =
  pq_plan_id :: string
  pq_name :: "string option"
  pq_amount_minor :: int
  pq_currency :: string
  pq_duration_days :: "int option"
  pq_eligible :: bool
  pq_updated_at :: "string option"
  pq_plan_version :: string
  pq_user_ref :: string
  pq_expires_at :: datetime

record cashfree_order_payload =
  co_event_type :: string
  co_request_id :: string
  co_payment_order_id :: string
  co_order_reference :: string
  co_amount_minor :: int
  co_currency :: string
  co_customer_ref :: string
  co_customer_phone :: string
  co_purpose :: string
  co_correlation_id :: string
  co_expires_at :: datetime

record cashfree_acknowledgement =
  ca_provider_order_id :: string
  ca_payment_session_id :: string
  ca_status :: string

definition valid_phone :: "string \<Rightarrow> bool" where
  "valid_phone phone \<longleftrightarrow> \<not> (length phone < 9 \<or> length phone > 16 \<or> take 1 phone \<noteq> ''+''
     \<or> \<not> isdigit (drop 1 phone) \<or> phone ! 1 = CHR ''0'')"

text \<open>The patterns \<open>[1-9][0-9]{0,18}\<close>, \<open>[A-Z]{3}\<close> and \<open>[a-f0-9]{64}\<close>.\<close>

definition plan_ref_pattern :: "string \<Rightarrow> bool" where
  "plan_ref_pattern s \<longleftrightarrow> s \<noteq> [] \<and> length s \<le> 19 \<and> list_all is_digit s \<and> hd s \<noteq> CHR ''0''"

definition currency_pattern :: "string \<Rightarrow> bool" where
  "currency_pattern s \<longleftrightarrow> length s = 3 \<and> list_all is_upper s"

definition digest_pattern :: "string \<Rightarrow> bool" where
  "digest_pattern s \<longleftrightarrow> length s = 64 \<and> list_all (\<lambda>c. is_digit c \<or> 97 \<le> cval c \<and> cval c \<le> 102) s"

definition plan_quote_request_ok :: "plan_quote_request \<Rightarrow> bool" where
  "plan_quote_request_ok r \<longleftrightarrow> qr_event_type r = ''payment.plan-quote.requested.v1''
     \<and> length_in 1 255 (qr_website_user_ref r) \<and> plan_ref_pattern (qr_plan_ref r) \<and> qr_purpose r = ''demo_conversion''
     \<and> length_in 1 128 (qr_correlation_id r) \<and> valid_phone (qr_customer_phone r)"

definition plan_quote_ok :: "plan_quote \<Rightarrow> bool" where
  "plan_quote_ok q \<longleftrightarrow> plan_ref_pattern (pq_plan_id q) \<and> pq_amount_minor q > 0 \<and> currency_pattern (pq_currency q)
     \<and> (case pq_duration_days q of Some d \<Rightarrow> d \<ge> 0 | None \<Rightarrow> True) \<and> digest_pattern (pq_plan_version q)
     \<and> length_in 1 255 (pq_user_ref q) \<and> aware (pq_expires_at q)"

definition cashfree_order_payload_ok :: "cashfree_order_payload \<Rightarrow> bool" where
  "cashfree_order_payload_ok r \<longleftrightarrow> co_event_type r = ''payment.cashfree-order.requested.v1''
     \<and> length_in 1 100 (co_order_reference r) \<and> co_amount_minor r > 0 \<and> currency_pattern (co_currency r)
     \<and> length_in 1 255 (co_customer_ref r) \<and> co_purpose r = ''demo_conversion'' \<and> length_in 1 128 (co_correlation_id r)
     \<and> valid_phone (co_customer_phone r) \<and> aware (co_expires_at r)"

definition cashfree_acknowledgement_ok :: "cashfree_acknowledgement \<Rightarrow> bool" where
  "cashfree_acknowledgement_ok a \<longleftrightarrow> length_in 1 255 (ca_provider_order_id a) \<and> length_in 1 32 (ca_status a)
     \<and> ca_payment_session_id a \<noteq> []"

definition validated :: "('a \<Rightarrow> bool) \<Rightarrow> 'a res \<Rightarrow> 'a res" where
  "validated ok decoded = res_bind decoded (\<lambda>x. if ok x then Inr x else Inl (ValueError ''validation error''))"

record payment_env =
  px_quote_request :: "json_object \<Rightarrow> plan_quote_request res"
  px_quote :: "json_object \<Rightarrow> plan_quote res"
  px_cashfree_order :: "json_object \<Rightarrow> cashfree_order_payload res"
  px_acknowledgement :: "json_object \<Rightarrow> cashfree_acknowledgement res"
  px_encrypt :: "string \<Rightarrow> string \<Rightarrow> string"
  px_decrypt :: "string \<Rightarrow> string \<Rightarrow> string res"
  px_uuid5 :: "string \<Rightarrow> string \<Rightarrow> string"

definition utc_at :: "int \<Rightarrow> datetime" where
  "utc_at now = Datetime now (Some 0)"

text \<open>\<open>uuid.hex\<close>.\<close>

definition uuid_hex :: "string \<Rightarrow> string" where
  "uuid_hex u = filter (\<lambda>c. c \<noteq> CHR ''-'') u"

section \<open>Requesting an order\<close>

record payment_order_command =
  pc_request_id :: string
  pc_demo_ref :: string
  pc_website_user_ref :: string
  pc_plan_ref :: string
  pc_customer_phone :: string

record payment_order_job =
  pj_request_id :: string
  pj_status :: string
  pj_provider_order_ref :: "string option"
  pj_payment_session_id :: "string option"

record payment_order_job_service =
  ps_request_hash_key :: string
  ps_tenant_id :: string

definition website_gateway :: string where
  "website_gateway = ''nxtutors-website-gateway''"

definition job_associated_data :: "string \<Rightarrow> string \<Rightarrow> string \<Rightarrow> string" where
  "job_associated_data tenant_id target event_id = tenant_id @ '':'' @ target @ '':'' @ event_id"

definition checkout_associated_data :: "string \<Rightarrow> string \<Rightarrow> string" where
  "checkout_associated_data tenant_id payment_order_id = ''payment-checkout-session:'' @ tenant_id @ '':'' @ payment_order_id"

definition request_hash :: "payment_order_job_service \<Rightarrow> payment_order_command \<Rightarrow> string" where
  "request_hash svc command = hmac_sha256 (utf8 (ps_request_hash_key svc)) (dumps (JObject
     [(''request_id'', JString (pc_request_id command)),
      (''demo_ref'', JString (pc_demo_ref command)),
      (''website_user_ref'', JString (pc_website_user_ref command)),
      (''plan_ref'', JString (pc_plan_ref command)),
      (''customer_phone'', JString (pc_customer_phone command))]))"

definition find_request :: "string \<Rightarrow> string \<Rightarrow> string \<Rightarrow> store \<Rightarrow> provider_request option" where
  "find_request tenant provider key st = List.find (\<lambda>r. request_key_of r = (tenant, provider, key)) (st_requests st)"

definition validate_replay :: "provider_request \<Rightarrow> string \<Rightarrow> unit res" where
  "validate_replay existing hash =
     (if pr_request_hash existing \<noteq> hash
      then Inl (ServiceError ''DCC_IDEMPOTENCY_CONFLICT'' ''The payment request ID was already used for different input'')
      else Inr ())"

definition order_by_creation_key :: "string \<Rightarrow> string \<Rightarrow> store \<Rightarrow> payment_order option" where
  "order_by_creation_key tenant key st =
     List.find (\<lambda>p. py_tenant_id p = tenant \<and> py_creation_idempotency_key p = key) (st_orders st)"

definition payment_job :: "payment_env \<Rightarrow> payment_order_job_service \<Rightarrow> int \<Rightarrow> string \<Rightarrow> store \<Rightarrow> payment_order_job res" where
  "payment_job env svc now request_id st =
     (let job = (\<lambda>state provider_order session. \<lparr>pj_request_id = request_id, pj_status = state,
            pj_provider_order_ref = provider_order, pj_payment_session_id = session\<rparr>)
      in case order_by_creation_key (ps_tenant_id svc) request_id st of
           None \<Rightarrow> Inr (job ''quote_pending'' None None)
         | Some order \<Rightarrow>
           (case List.find (\<lambda>c. cs_payment_order_id c = py_id order) (st_checkouts st) of
              None \<Rightarrow> Inr (job (if py_status order \<in> {''failed'', ''payment_review'', ''paid''} then py_status order else ''provider_pending'')
                          (py_provider_order_id order) None)
            | Some checkout \<Rightarrow>
              res_bind (dt_le (cs_expires_at checkout) (utc_at now)) (\<lambda>expired.
              if expired \<or> py_status order = ''expired'' then Inr (job ''expired'' (py_provider_order_id order) None)
              else if py_status order \<noteq> ''pending''
              then Inr (job (if py_status order \<in> {''failed'', ''payment_review'', ''paid''} then py_status order else ''failed'')
                          (py_provider_order_id order) None)
              else res_bind (px_decrypt env (cs_session_ciphertext checkout)
                       (checkout_associated_data (ps_tenant_id svc) (py_id order))) (\<lambda>plaintext.
                     Inr (job ''ready'' (py_provider_order_id order) (Some plaintext))))))"

definition active_order_statuses :: "string set" where
  "active_order_statuses = {''creating'', ''pending'', ''reconciling'', ''reconciliation_required'', ''payment_review''}"

definition quote_request_row :: "payment_order_job_service \<Rightarrow> payment_order_command \<Rightarrow> string \<Rightarrow> provider_request" where
  "quote_request_row svc command correlation_id =
     \<lparr>pr_tenant_id = ps_tenant_id svc, pr_provider = website_gateway, pr_operation = ''fetch_authoritative_plan_quote'',
      pr_idempotency_key = pc_request_id command, pr_correlation_id = correlation_id,
      pr_request_hash = request_hash svc command, pr_provider_reference = Some (pc_demo_ref command),
      pr_status = ''queued'', pr_attempt_count = 0\<rparr>"

definition outbox_event ::
  "string \<Rightarrow> string \<Rightarrow> string \<Rightarrow> string \<Rightarrow> string \<Rightarrow> string \<Rightarrow> string \<Rightarrow> int \<Rightarrow> outbox_row" where
  "outbox_event event_id event_type tenant target key correlation_id ciphertext now =
     \<lparr>ox_id = 0, ox_event_id = event_id, ox_event_type = event_type, ox_schema_version = ''1.0'', ox_tenant_id = tenant,
      ox_target_agent = target, ox_idempotency_key = key, ox_correlation_id = correlation_id,
      ox_payload_ciphertext = ciphertext, ox_available_at = now, ox_published_at = None, ox_provider_reference = None,
      ox_attempts = 0, ox_last_error_code = None\<rparr>"

definition quote_request_payload :: "payment_order_command \<Rightarrow> string \<Rightarrow> json_object" where
  "quote_request_payload command correlation_id =
     [(''event_type'', JString ''payment.plan-quote.requested.v1''),
      (''request_id'', JString (pc_request_id command)),
      (''demo_ref'', JString (pc_demo_ref command)),
      (''website_user_ref'', JString (pc_website_user_ref command)),
      (''plan_ref'', JString (pc_plan_ref command)),
      (''customer_phone'', JString (pc_customer_phone command)),
      (''purpose'', JString ''demo_conversion''),
      (''correlation_id'', JString correlation_id)]"

definition quote_request_outbox :: "payment_env \<Rightarrow> payment_order_job_service \<Rightarrow> payment_order_command \<Rightarrow> string \<Rightarrow> int \<Rightarrow> outbox_row" where
  "quote_request_outbox env svc command correlation_id now =
     outbox_event (pc_request_id command) ''payment.plan-quote.requested.v1'' (ps_tenant_id svc) website_gateway
       (pc_request_id command) correlation_id
       (px_encrypt env (dumps (JObject (quote_request_payload command correlation_id)))
          (job_associated_data (ps_tenant_id svc) website_gateway (pc_request_id command))) now"

text \<open>The transaction: a replayed request answers with its job, a new one is checked and queued.\<close>

definition request_transaction ::
  "payment_env \<Rightarrow> payment_order_job_service \<Rightarrow> payment_order_command \<Rightarrow> string \<Rightarrow> int \<Rightarrow> (store, payment_order_job option) sess" where
  "request_transaction env svc command correlation_id now =
     s_bind (s_get (find_request (ps_tenant_id svc) website_gateway (pc_request_id command))) (\<lambda>existing.
     case existing of
       Some request \<Rightarrow>
         s_bind (s_lift (validate_replay request (request_hash svc command))) (\<lambda>_.
         s_bind (s_get (payment_job env svc now (pc_request_id command))) (\<lambda>r. s_lift (res_bind r (\<lambda>job. Inr (Some job)))))
     | None \<Rightarrow>
         s_bind (s_get (\<lambda>st. List.find (\<lambda>d. dc_id d = pc_demo_ref command \<and> dc_tenant_id d = ps_tenant_id svc) (st_demos st))) (\<lambda>found.
         case found of
           None \<Rightarrow> s_raise (ServiceError ''DCC_POLICY_REJECTED'' ''The demo does not exist'')
         | Some demo \<Rightarrow>
             s_bind (s_raise_if (dc_external_user_id demo \<noteq> Some (pc_website_user_ref command))
               (ServiceError ''DCC_PAYMENT_MISMATCH'' ''The website user is not bound to this demo'')) (\<lambda>_.
             s_bind (s_get (\<lambda>st. list_ex (\<lambda>p. py_tenant_id p = ps_tenant_id svc \<and> py_demo_case_id p = pc_demo_ref command
                \<and> py_status p \<in> active_order_statuses) (st_orders st))) (\<lambda>active_order.
             s_bind (s_raise_if active_order
               (ServiceError ''DCC_CONCURRENCY_CONFLICT'' ''The demo already has an active payment order'')) (\<lambda>_.
             s_bind (s_raise_if (dc_state demo \<noteq> demo_state_value CONVERSION_FOLLOW_UP)
               (ServiceError ''DCC_INVALID_TRANSITION'' ''A standard-price payment can only start from conversion follow-up'')) (\<lambda>_.
             s_bind (s_get (\<lambda>st. list_ex (\<lambda>r. pr_tenant_id r = ps_tenant_id svc \<and> pr_provider r = website_gateway
                \<and> pr_operation r = ''fetch_authoritative_plan_quote'' \<and> pr_provider_reference r = Some (pc_demo_ref command)
                \<and> pr_status r \<in> {''queued'', ''quote_verified''}) (st_requests st))) (\<lambda>active_request.
             s_bind (s_raise_if active_request
               (ServiceError ''DCC_CONCURRENCY_CONFLICT'' ''The demo already has an active payment request'')) (\<lambda>_.
             s_bind (s_modify (\<lambda>st. add_outbox (quote_request_outbox env svc command correlation_id now)
                (st\<lparr>st_requests := st_requests st @ [quote_request_row svc command correlation_id]\<rparr>))) (\<lambda>_.
             s_return None)))))))))"

text \<open>A violated constraint at commit rolls back; the request that won is then looked up once more.\<close>

definition request_order ::
  "payment_env \<Rightarrow> payment_order_job_service \<Rightarrow> payment_order_command \<Rightarrow> string \<Rightarrow> int \<Rightarrow> (store, payment_order_job) sess" where
  "request_order env svc command correlation_id now st =
     (if ps_request_hash_key svc = []
      then (Inl (ServiceError ''DCC_PROVIDER_UNAVAILABLE'' ''Payment request hashing is not configured''), st)
      else case request_transaction env svc command correlation_id now st of
        (Inl e, _) \<Rightarrow> (Inl e, st)
      | (Inr (Some job), _) \<Rightarrow> (Inr job, st)
      | (Inr None, st') \<Rightarrow>
          if constraints_ok st'
          then (Inr \<lparr>pj_request_id = pc_request_id command, pj_status = ''quote_pending'',
                     pj_provider_order_ref = None, pj_payment_session_id = None\<rparr>, st')
          else (case find_request (ps_tenant_id svc) website_gateway (pc_request_id command) st of
                  None \<Rightarrow> Inl (ServiceError ''DCC_CONCURRENCY_CONFLICT'' ''Payment request collided with another operation'')
                | Some existing \<Rightarrow> res_bind (validate_replay existing (request_hash svc command)) (\<lambda>_.
                    payment_job env svc now (pc_request_id command) st), st))"

definition order_status :: "payment_env \<Rightarrow> payment_order_job_service \<Rightarrow> int \<Rightarrow> string \<Rightarrow> store \<Rightarrow> payment_order_job option res" where
  "order_status env svc now request_id st =
     (case find_request (ps_tenant_id svc) website_gateway request_id st of
        None \<Rightarrow> Inr None
      | Some _ \<Rightarrow> res_bind (payment_job env svc now request_id st) (\<lambda>job. Inr (Some job)))"

section \<open>Recording deliveries\<close>

record payment_recorder =
  rc_key_reference :: string
  rc_cashfree_environment :: string
  rc_payment_expiry :: timedelta

definition validate_existing_order :: "payment_order \<Rightarrow> plan_quote_request \<Rightarrow> plan_quote \<Rightarrow> unit res" where
  "validate_existing_order order request quote =
     (if py_demo_case_id order \<noteq> qr_demo_ref request
         \<or> py_user_ref order \<noteq> qr_website_user_ref request
         \<or> py_customer_ref order \<noteq> qr_website_user_ref request
         \<or> py_plan_ref order \<noteq> qr_plan_ref request
         \<or> py_plan_version order \<noteq> pq_plan_version quote
         \<or> py_amount_minor order \<noteq> pq_amount_minor quote
         \<or> py_currency order \<noteq> pq_currency quote
         \<or> py_purpose order \<noteq> qr_purpose request
      then Inl (ServiceError ''DCC_IDEMPOTENCY_CONFLICT'' ''The payment request replay does not match its persisted order'')
      else Inr ())"

definition payment_order_uuid :: "payment_env \<Rightarrow> string \<Rightarrow> string" where
  "payment_order_uuid env request_id = px_uuid5 env request_id ''nxtutors:payment-order''"

definition cashfree_event_uuid :: "payment_env \<Rightarrow> string \<Rightarrow> string" where
  "cashfree_event_uuid env request_id = px_uuid5 env request_id ''nxtutors:cashfree-create-order''"

definition new_order ::
  "payment_env \<Rightarrow> payment_recorder \<Rightarrow> outbox_row \<Rightarrow> plan_quote_request \<Rightarrow> plan_quote \<Rightarrow> demo_case \<Rightarrow> datetime \<Rightarrow> payment_order" where
  "new_order env rc row request quote demo expires_at =
     \<lparr>py_id = payment_order_uuid env (qr_request_id request), py_tenant_id = ox_tenant_id row, py_demo_case_id = dc_id demo,
      py_domain_order_id = ''dcc-'' @ uuid_hex (dc_id demo) @ ''-'' @ take 16 (uuid_hex (qr_request_id request)),
      py_provider = ''cashfree'', py_provider_order_id = None, py_user_ref = qr_website_user_ref request,
      py_customer_ref = qr_website_user_ref request, py_plan_ref = qr_plan_ref request, py_plan_version = pq_plan_version quote,
      py_offer_id = None, py_amount_minor = pq_amount_minor quote, py_currency = pq_currency quote, py_purpose = qr_purpose request,
      py_provider_environment = rc_cashfree_environment rc, py_status = ''creating'',
      py_creation_idempotency_key = ox_idempotency_key row, py_correlation_id = ox_correlation_id row,
      py_expires_at = expires_at, py_reconcile_after = None, py_paid_at = None, py_version = 1\<rparr>"

definition cashfree_order_json :: "plan_quote_request \<Rightarrow> payment_order \<Rightarrow> json_object" where
  "cashfree_order_json request order =
     [(''event_type'', JString ''payment.cashfree-order.requested.v1''),
      (''request_id'', JString (qr_request_id request)),
      (''payment_order_id'', JString (py_id order)),
      (''order_reference'', JString (py_domain_order_id order)),
      (''amount_minor'', JInt (py_amount_minor order)),
      (''currency'', JString (py_currency order)),
      (''customer_ref'', JString (py_customer_ref order)),
      (''customer_phone'', JString (qr_customer_phone request)),
      (''purpose'', JString (py_purpose order)),
      (''correlation_id'', JString (py_correlation_id order)),
      (''expires_at'', JString (isoformat (py_expires_at order)))]"

definition cashfree_order_outbox :: "payment_env \<Rightarrow> plan_quote_request \<Rightarrow> payment_order \<Rightarrow> int \<Rightarrow> outbox_row" where
  "cashfree_order_outbox env request order now =
     (let event_id = cashfree_event_uuid env (qr_request_id request)
      in outbox_event event_id ''payment.cashfree-order.requested.v1'' (py_tenant_id order) ''cashfree'' event_id
           (py_correlation_id order)
           (px_encrypt env (dumps (JObject (cashfree_order_json request order)))
              (job_associated_data (py_tenant_id order) ''cashfree'' event_id)) now)"

definition payment_requested_transition :: "outbox_row \<Rightarrow> plan_quote_request \<Rightarrow> plan_quote \<Rightarrow> demo_case \<Rightarrow> int \<Rightarrow> state_transition" where
  "payment_requested_transition row request quote demo now =
     \<lparr>tr_demo_case_id = dc_id demo, tr_state_before = demo_state_value CONVERSION_FOLLOW_UP,
      tr_state_after = demo_state_value PAYMENT_PENDING, tr_command = transition_command_value REQUEST_PAYMENT,
      tr_actor_type = ''user'', tr_actor_ref = qr_website_user_ref request,
      tr_reason_code = Some ''AUTHORITATIVE_QUOTE_VERIFIED'', tr_occurred_at = utc_at now,
      tr_correlation_id = ox_correlation_id row, tr_idempotency_key = ''payment-request:'' @ qr_request_id request,
      tr_flow_version = dc_flow_version demo, tr_policy_version = Some (pq_plan_version quote),
      tr_side_effects_requested = [''create_cashfree_order''], tr_side_effects_completed = [''fetch_authoritative_quote'']\<rparr>"

definition set_state :: "demo_state \<Rightarrow> demo_case \<Rightarrow> demo_case" where
  "set_state s d = d\<lparr>dc_state := demo_state_value s, dc_version := dc_version d + 1\<rparr>"

definition quote_bound :: "outbox_row \<Rightarrow> plan_quote_request \<Rightarrow> plan_quote \<Rightarrow> bool" where
  "quote_bound row request quote \<longleftrightarrow> ox_event_id row = qr_request_id request \<and> ox_target_agent row = website_gateway
     \<and> qr_request_id request = ox_idempotency_key row \<and> qr_correlation_id request = ox_correlation_id row
     \<and> pq_plan_id quote = qr_plan_ref request \<and> pq_user_ref quote = qr_website_user_ref request \<and> pq_eligible quote"

definition create_order ::
  "payment_env \<Rightarrow> payment_recorder \<Rightarrow> outbox_row \<Rightarrow> plan_quote_request \<Rightarrow> plan_quote \<Rightarrow> demo_case \<Rightarrow> datetime \<Rightarrow> int \<Rightarrow> store \<Rightarrow> store" where
  "create_order env rc row request quote demo expires_at now st =
     (let order = new_order env rc row request quote demo expires_at
      in update_request (ox_tenant_id row, website_gateway, ox_idempotency_key row)
           (\<lambda>r. r\<lparr>pr_status := ''quote_verified'', pr_provider_reference := Some (pq_plan_version quote)\<rparr>)
         (add_transition (payment_requested_transition row request quote demo now)
         (update_demo (dc_id demo) (set_state PAYMENT_PENDING)
         (add_outbox (cashfree_order_outbox env request order now)
         (st\<lparr>st_orders := st_orders st @ [order]\<rparr>)))))"

definition record_quote ::
  "payment_env \<Rightarrow> payment_recorder \<Rightarrow> int \<Rightarrow> outbox_row \<Rightarrow> json_object \<Rightarrow> json_object \<Rightarrow> (store, unit) sess" where
  "record_quote env rc now row raw_request raw_quote =
     s_bind (s_lift (validated plan_quote_request_ok (px_quote_request env raw_request))) (\<lambda>request.
     s_bind (s_lift (validated plan_quote_ok (px_quote env raw_quote))) (\<lambda>quote.
     s_bind (s_raise_if (\<not> quote_bound row request quote)
       (ServiceError ''DCC_PAYMENT_MISMATCH'' ''The authoritative plan quote is not bound to this payment request'')) (\<lambda>_.
     s_bind (s_lift (dt_le (pq_expires_at quote) (utc_at now))) (\<lambda>expired.
     s_bind (s_raise_if expired (ServiceError ''DCC_POLICY_REJECTED'' ''The authoritative plan quote expired'')) (\<lambda>_.
     s_bind (s_get (order_by_creation_key (ox_tenant_id row) (ox_idempotency_key row))) (\<lambda>existing.
     case existing of
       Some order \<Rightarrow> s_lift (validate_existing_order order request quote)
     | None \<Rightarrow>
         s_bind (s_get (\<lambda>st. List.find (\<lambda>d. dc_id d = qr_demo_ref request \<and> dc_tenant_id d = ox_tenant_id row) (st_demos st))) (\<lambda>found.
         case found of
           None \<Rightarrow> s_raise (ServiceError ''DCC_POLICY_REJECTED'' ''The demo does not exist'')
         | Some demo \<Rightarrow>
             s_bind (s_raise_if (dc_external_user_id demo \<noteq> Some (qr_website_user_ref request))
               (ServiceError ''DCC_PAYMENT_MISMATCH'' ''The website user is not bound to this demo'')) (\<lambda>_.
             s_bind (s_raise_if (dc_state demo \<noteq> demo_state_value CONVERSION_FOLLOW_UP)
               (ServiceError ''DCC_INVALID_TRANSITION'' ''A standard-price payment can only start from conversion follow-up'')) (\<lambda>_.
             s_bind (s_lift (dt_add (utc_at now) (rc_payment_expiry rc))) (\<lambda>latest.
             s_bind (s_lift (dt_less latest (pq_expires_at quote))) (\<lambda>sooner.
             s_modify (create_order env rc row request quote demo (if sooner then latest else pq_expires_at quote) now))))))))))))"

definition acknowledgement_bound :: "payment_env \<Rightarrow> outbox_row \<Rightarrow> cashfree_order_payload \<Rightarrow> cashfree_acknowledgement \<Rightarrow> string \<Rightarrow> bool" where
  "acknowledgement_bound env row request ack provider_reference \<longleftrightarrow>
     co_payment_order_id request = payment_order_uuid env (co_request_id request)
     \<and> ox_event_id row = cashfree_event_uuid env (co_request_id request)
     \<and> ox_idempotency_key row = cashfree_event_uuid env (co_request_id request)
     \<and> ox_target_agent row = ''cashfree'' \<and> co_correlation_id request = ox_correlation_id row
     \<and> ca_provider_order_id ack = provider_reference"

definition order_matches_payload :: "payment_order \<Rightarrow> cashfree_order_payload \<Rightarrow> bool" where
  "order_matches_payload order request \<longleftrightarrow> py_domain_order_id order = co_order_reference request
     \<and> py_creation_idempotency_key order = co_request_id request \<and> py_amount_minor order = co_amount_minor request
     \<and> py_currency order = co_currency request \<and> py_customer_ref order = co_customer_ref request
     \<and> py_purpose order = co_purpose request \<and> dt_eq (py_expires_at order) (co_expires_at request)"

definition store_checkout :: "payment_env \<Rightarrow> payment_recorder \<Rightarrow> string \<Rightarrow> payment_order \<Rightarrow> string \<Rightarrow> store \<Rightarrow> store" where
  "store_checkout env rc tenant order session_id st =
     (let row = \<lparr>cs_payment_order_id = py_id order,
            cs_session_ciphertext = px_encrypt env (utf8 session_id) (checkout_associated_data tenant (py_id order)),
            cs_key_reference = rc_key_reference rc, cs_expires_at = py_expires_at order\<rparr>
      in if list_ex (\<lambda>c. cs_payment_order_id c = py_id order) (st_checkouts st)
         then st\<lparr>st_checkouts := update_by cs_payment_order_id (py_id order) (\<lambda>_. row) (st_checkouts st)\<rparr>
         else st\<lparr>st_checkouts := st_checkouts st @ [row]\<rparr>)"

definition record_cashfree_order ::
  "payment_env \<Rightarrow> payment_recorder \<Rightarrow> int \<Rightarrow> outbox_row \<Rightarrow> json_object \<Rightarrow> string \<Rightarrow> json_object \<Rightarrow> (store, unit) sess" where
  "record_cashfree_order env rc now row raw_request provider_reference raw_acknowledgement =
     s_bind (s_lift (validated cashfree_order_payload_ok (px_cashfree_order env raw_request))) (\<lambda>request.
     s_bind (s_lift (validated cashfree_acknowledgement_ok (px_acknowledgement env raw_acknowledgement))) (\<lambda>ack.
     s_bind (s_raise_if (\<not> acknowledgement_bound env row request ack provider_reference)
       (ServiceError ''DCC_PAYMENT_MISMATCH'' ''Cashfree order acknowledgement is not bound to its durable request'')) (\<lambda>_.
     s_bind (s_get (\<lambda>st. List.find (\<lambda>p. py_id p = co_payment_order_id request \<and> py_tenant_id p = ox_tenant_id row) (st_orders st))) (\<lambda>found.
     case found of
       None \<Rightarrow> s_raise (ServiceError ''DCC_PAYMENT_MISMATCH'' ''Cashfree order acknowledgement failed local binding checks'')
     | Some order \<Rightarrow>
         s_bind (s_raise_if (\<not> order_matches_payload order request)
           (ServiceError ''DCC_PAYMENT_MISMATCH'' ''Cashfree order acknowledgement failed local binding checks'')) (\<lambda>_.
         if upper (ca_status ack) \<noteq> ''ACTIVE''
         then s_bind (s_modify (update_order (py_id order) (\<lambda>p. p\<lparr>py_status := ''payment_review''\<rparr>))) (\<lambda>_.
           s_raise (ServiceError ''DCC_HUMAN_REVIEW_REQUIRED'' ''Cashfree created an order in an unexpected state''))
         else s_bind (s_raise_if (py_provider_order_id order \<notin> {None, Some (ca_provider_order_id ack)})
           (ServiceError ''DCC_IDEMPOTENCY_CONFLICT'' ''The local payment order already has another provider order'')) (\<lambda>_.
         s_bind (s_modify (update_order (py_id order) (\<lambda>p. p\<lparr>py_provider_order_id := Some (ca_provider_order_id ack),
           py_status := ''pending'', py_reconcile_after := Some (utc_at now), py_version := py_version p + 1\<rparr>))) (\<lambda>_.
         s_bind (s_modify (store_checkout env rc (ox_tenant_id row) order (ca_payment_session_id ack))) (\<lambda>_.
         s_modify (update_request (ox_tenant_id row, website_gateway, co_request_id request)
           (\<lambda>r. r\<lparr>pr_status := ''ready'', pr_provider_reference := Some (ca_provider_order_id ack)\<rparr>))))))))))"

definition record_payment_delivery ::
  "payment_env \<Rightarrow> payment_recorder \<Rightarrow> int \<Rightarrow> outbox_row \<Rightarrow> json_object \<Rightarrow> string \<Rightarrow> json_object \<Rightarrow> (store, unit) sess" where
  "record_payment_delivery env rc now row payload provider_reference restricted_details =
     (if ox_event_type row = ''payment.plan-quote.requested.v1''
      then record_quote env rc now row payload restricted_details
      else if ox_event_type row = ''payment.cashfree-order.requested.v1''
      then record_cashfree_order env rc now row payload provider_reference restricted_details
      else s_return ())"

text \<open>The composite recorder runs its recorders in order; the first that raises ends it.\<close>

fun composite_record ::
  "(outbox_row \<Rightarrow> json_object \<Rightarrow> string \<Rightarrow> json_object \<Rightarrow> (store, unit) sess) list
     \<Rightarrow> outbox_row \<Rightarrow> json_object \<Rightarrow> string \<Rightarrow> json_object \<Rightarrow> (store, unit) sess" where
  "composite_record [] row payload reference details = s_return ()"
| "composite_record (r # rs) row payload reference details =
     s_bind (r row payload reference details) (\<lambda>_. composite_record rs row payload reference details)"

end
