(* ===== verification/PyNumber.thy ===== *)
theory PyNumber
  imports Decimal PyText Json
begin

text \<open>
  Numbers as text: \<open>str\<close> of a JSON value, reading a decimal, and the double-precision values of JSON
  floats.  Floats are finite.
\<close>

section \<open>Text of a value\<close>

text \<open>\<open>str(value)\<close> of a JSON value; the text of a list or an object is the argument's.\<close>

definition py_str :: "(json \<Rightarrow> string) \<Rightarrow> json \<Rightarrow> string" where
  "py_str repr j = (case j of JNull \<Rightarrow> ''None'' | JBool b \<Rightarrow> if b then ''True'' else ''False'' | JInt i \<Rightarrow> show_int i
     | JFloat r \<Rightarrow> r | JString s \<Rightarrow> s | JArray _ \<Rightarrow> repr j | JObject _ \<Rightarrow> repr j)"

section \<open>Decimals\<close>

text \<open>
  \<open>Decimal(text)\<close> of a finite number: blanks around it and underscores are ignored; a sign, digits with
  at most one point, and an exponent.  Infinities and NaNs are refused by what follows, so they are
  refused here.
\<close>

definition digits_nat :: "string \<Rightarrow> int" where
  "digits_nat s = foldl (\<lambda>v c. 10 * v + (int (cval c) - 48)) 0 s"

definition split_sign :: "string \<Rightarrow> bool \<times> string" where
  "split_sign s = (case s of [] \<Rightarrow> (False, []) | c # r \<Rightarrow>
     if c = CHR ''-'' then (True, r) else if c = CHR ''+'' then (False, r) else (False, s))"

definition parse_exponent :: "string \<Rightarrow> int option" where
  "parse_exponent s = (case s of [] \<Rightarrow> Some 0 | c # r \<Rightarrow>
     if c = CHR ''e'' \<or> c = CHR ''E''
     then (let (neg, d) = split_sign r in if d \<noteq> [] \<and> list_all is_digit d then Some (if neg then - digits_nat d else digits_nat d) else None)
     else None)"

definition scale10 :: "int \<Rightarrow> int \<Rightarrow> rat" where
  "scale10 n e = (if e \<ge> 0 then of_int n * 10 ^ nat e else of_int n / 10 ^ nat (- e))"

definition parse_decimal :: "string \<Rightarrow> rat option" where
  "parse_decimal text =
     (let (neg, u) = split_sign (filter (\<lambda>c. c \<noteq> CHR ''_'') (strip text));
          whole = takeWhile is_digit u;
          r = dropWhile is_digit u;
          frac = (if take 1 r = ''.'' then takeWhile is_digit (drop 1 r) else []);
          tail = (if take 1 r = ''.'' then dropWhile is_digit (drop 1 r) else r)
      in if whole @ frac = [] then None
         else case parse_exponent tail of None \<Rightarrow> None
           | Some e \<Rightarrow> Some ((if neg then - 1 else 1) * scale10 (digits_nat (whole @ frac)) (e - int (length frac))))"

section \<open>Floats\<close>

text \<open>
  The double nearest to a rational: a coefficient of 53 bits, ties to even.  Subnormal numbers and
  overflow are left out.
\<close>

function bit_count :: "int \<Rightarrow> int" where
  "bit_count n = (if n \<le> 0 then 0 else bit_count (n div 2) + 1)"
  by auto
termination by (relation "measure nat") auto

declare bit_count.simps [simp del]

definition half_even_div :: "int \<Rightarrow> int \<Rightarrow> int" where
  "half_even_div n d = (let k = n div d; r = n mod d in if 2 * r < d \<or> 2 * r = d \<and> even k then k else k + 1)"

definition to_double :: "rat \<Rightarrow> rat" where
  "to_double x =
     (let (p, q) = quotient_of x;
          e0 = bit_count \<bar>p\<bar> - bit_count q - 53;
          e = (if \<bar>p\<bar> * 2 ^ nat (- e0) \<ge> 2 ^ 53 * q * 2 ^ nat e0 then e0 + 1 else e0)
      in Fract (half_even_div (p * 2 ^ nat (- e)) (q * 2 ^ nat e) * 2 ^ nat e) (2 ^ nat (- e)))"

text \<open>The value of a JSON number, as \<open>isinstance(value, int | float)\<close> has it: booleans are numbers.\<close>

definition float_of :: "json \<Rightarrow> rat option" where
  "float_of j = (case j of JInt i \<Rightarrow> Some (to_double (of_int i)) | JFloat r \<Rightarrow> map_option to_double (parse_decimal r)
     | JBool b \<Rightarrow> Some (if b then 1 else 0) | _ \<Rightarrow> None)"

text \<open>\<open>f"{x:.1f}"\<close> of a positive number.\<close>

definition format_1f :: "rat \<Rightarrow> string" where
  "format_1f x = (let n = round_half_even (x * 10) in show_int (n div 10) @ ''.'' @ show_int (n mod 10))"

lemma float_samples:
  "to_double (9 / 2) = 9 / 2" "map_option format_1f (float_of (JFloat ''4.35'')) = Some ''4.3''"
  "map_option format_1f (float_of (JFloat ''4.25'')) = Some ''4.2''" "map_option format_1f (float_of (JInt 5)) = Some ''5.0''"
  by code_simp+

end
