(* ===== verification/PaidSaga.thy ===== *)
theory PaidSaga
  imports PaymentOrders Payments PyNumber
begin

text \<open>
  The steps from a paid order to a converted learner: the payment webhook and the onboarding events of
  \<open>infrastructure/inbox/processor.py\<close>, and \<open>infrastructure/outbox/lifecycle.py\<close>, which the publisher runs
  when the website activation and the onboarding hand-over were delivered.  The cipher, the id
  generators, \<open>repr\<close> and the decoding of the onboarding payloads are arguments.
\<close>

section \<open>Reading the webhook\<close>

definition required_string :: "json \<Rightarrow> string \<Rightarrow> string res" where
  "required_string j field =
     (case j of JString s \<Rightarrow> if strip s = [] then Inl (ValueError (''Cashfree webhook is missing '' @ field)) else Inr (strip s)
      | _ \<Rightarrow> Inl (ValueError (''Cashfree webhook is missing '' @ field)))"

definition required_reference :: "json \<Rightarrow> string \<Rightarrow> string res" where
  "required_reference j field =
     (case j of
        JString s \<Rightarrow> if strip s = [] then Inl (ValueError (''Cashfree webhook is missing '' @ field)) else Inr (strip s)
      | JInt i \<Rightarrow> Inr (show_int i)
      | _ \<Rightarrow> Inl (ValueError (''Cashfree webhook is missing '' @ field)))"

text \<open>\<open>_money_minor\<close>: the amount in hundredths, rounded half up, of at most 28 digits.\<close>

definition money_minor :: "(json \<Rightarrow> string) \<Rightarrow> json \<Rightarrow> int res" where
  "money_minor repr j =
     (case parse_decimal (py_str repr j) of
        None \<Rightarrow> Inl (ValueError ''payment amount is invalid'')
      | Some amount \<Rightarrow>
          if amount < 0 then Inl (ValueError ''payment amount is invalid'')
          else let minor = \<lfloor>dec_mul amount 100 + 1/2\<rfloor>
               in if minor \<ge> 10 ^ 28 then Inl (ValueError ''payment amount is invalid'') else Inr minor)"

section \<open>The handler\<close>

record onboarding_accepted_payload =
  oa_demo_ref :: string
  oa_user_ref :: string
  oa_onboarding_ref :: string
  oa_inbox_ref :: string
  oa_capability_version :: string

record onboarding_completed_payload =
  oc_demo_ref :: string
  oc_user_ref :: string
  oc_onboarding_ref :: string
  oc_completion_status :: string

definition onboarding_accepted_ok :: "onboarding_accepted_payload \<Rightarrow> bool" where
  "onboarding_accepted_ok p \<longleftrightarrow> length_in 1 255 (oa_demo_ref p) \<and> length_in 1 255 (oa_user_ref p)
     \<and> length_in 1 255 (oa_onboarding_ref p) \<and> length_in 1 255 (oa_inbox_ref p) \<and> length_in 1 64 (oa_capability_version p)"

definition onboarding_completed_ok :: "onboarding_completed_payload \<Rightarrow> bool" where
  "onboarding_completed_ok p \<longleftrightarrow> length_in 1 255 (oc_demo_ref p) \<and> length_in 1 255 (oc_user_ref p)
     \<and> length_in 1 255 (oc_onboarding_ref p) \<and> oc_completion_status p = ''completed''"

record handoff_message =
  hm_type :: string
  hm_text :: "string option"

record demo_handoff_payload =
  hp_provider_message_ref :: string
  hp_intent :: string
  hp_lead_ref :: "string option"
  hp_user_ref :: "string option"
  hp_message :: handoff_message
  hp_last_user_message_at :: datetime
  hp_expires_at :: datetime
  hp_consent_refs :: "string list"

definition demo_handoff_ok :: "demo_handoff_payload \<Rightarrow> bool" where
  "demo_handoff_ok p \<longleftrightarrow> length_in 1 255 (hp_provider_message_ref p) \<and> hp_intent p = ''demo_request''
     \<and> optional_max 255 (hp_lead_ref p) \<and> optional_max 255 (hp_user_ref p)
     \<and> hm_type (hp_message p) \<in> {''text'', ''interactive'', ''unknown''} \<and> optional_max 4096 (hm_text (hp_message p))
     \<and> length (hp_consent_refs p) \<le> 20"

record tutor_search_query =
  ts_subject :: "string option"
  ts_board :: "string option"
  ts_class_level :: "string option"
  ts_mode :: "string option"
  ts_city :: "string option"
  ts_district :: "string option"
  ts_state :: "string option"
  ts_class_type :: "string option"
  ts_page :: int
  ts_per_page :: int

text \<open>The handler's fields; the payment policy is the one its payment statuses and version make.\<close>

record saga_env =
  sg_default_timezone :: string
  sg_handoff :: "json_object \<Rightarrow> demo_handoff_payload res"
  sg_website :: "(tutor_search_query \<Rightarrow> json list res) option"
  sg_shortlist_limit :: int
  sg_ranking_policy_version :: string
  sg_encrypt :: "string \<Rightarrow> string \<Rightarrow> string"
  sg_uuid5 :: "string \<Rightarrow> string \<Rightarrow> string"
  sg_uuid4 :: "nat \<Rightarrow> string"
  sg_uuid :: "string \<Rightarrow> string res"
  sg_repr :: "json \<Rightarrow> string"
  sg_accepted :: "json_object \<Rightarrow> onboarding_accepted_payload res"
  sg_completed :: "json_object \<Rightarrow> onboarding_completed_payload res"
  sg_key_reference :: string
  sg_cashfree_environment :: string
  sg_onboarding_policy_reference :: "string option"
  sg_message_policy_reference :: "string option"
  sg_welcome_template_reference :: "string option"
  sg_welcome_message_version :: "string option"
  sg_payment_policy :: payment_verification_policy

definition namespace_url :: string where
  "namespace_url = ''6ba7b811-9dad-11d1-80b4-00c04fd430c8''"

definition flush :: "(store, unit) sess" where
  "flush = s_bind (s_get constraints_ok) (\<lambda>ok. s_raise_if (\<not> ok) (IntegrityError ''flush''))"

definition webhook_row :: "saga_env \<Rightarrow> agent_event \<Rightarrow> string \<Rightarrow> string \<Rightarrow> nat \<Rightarrow> webhook_event" where
  "webhook_row env event provider status i =
     (let raw = dumps (JObject (ae_payload event))
      in \<lparr>we_id = i, we_tenant_id = ae_tenant_id event, we_provider = provider, we_provider_event_id = ae_event_id event,
          we_event_type = ae_event_type event, we_payload_hash = sha256 raw,
          we_payload_ciphertext = sg_encrypt env raw (provider @ '':'' @ ae_event_id event),
          we_payload_key_reference = sg_key_reference env, we_occurred_at = ae_occurred_at event,
          we_processed_at = None, we_status = status\<rparr>)"

definition add_webhook :: "saga_env \<Rightarrow> agent_event \<Rightarrow> string \<Rightarrow> string \<Rightarrow> (store, nat) sess" where
  "add_webhook env event provider status st =
     (Inr (st_next st), st\<lparr>st_webhooks := st_webhooks st @ [webhook_row env event provider status (st_next st)],
                           st_next := Suc (st_next st)\<rparr>)"

definition new_provider_event :: "saga_env \<Rightarrow> agent_event \<Rightarrow> (store, nat) sess" where
  "new_provider_event env event =
     s_bind (add_webhook env event ''cashfree'' ''processing'') (\<lambda>i. s_bind flush (\<lambda>_. s_return i))"

definition record_provider_event :: "saga_env \<Rightarrow> agent_event \<Rightarrow> (store, unit) sess" where
  "record_provider_event env event =
     s_bind (add_webhook env event (if ae_source_agent event = ''cashfree'' then ''cashfree'' else ''meta'') ''recorded'') (\<lambda>_. s_return ())"

fun decision_kind_value :: "payment_decision_kind \<Rightarrow> string" where
  "decision_kind_value TRANSITION_PAID = ''transition_paid''"
| "decision_kind_value DUPLICATE = ''duplicate''"
| "decision_kind_value REVIEW = ''review''"
| "decision_kind_value RECONCILE = ''reconcile''"
| "decision_kind_value payment_decision_kind.FAILED = ''failed''"
| "decision_kind_value payment_decision_kind.PAYMENT_EXPIRED = ''expired''"
| "decision_kind_value payment_decision_kind.PAYMENT_PENDING = ''pending''"
| "decision_kind_value REJECTED_EVIDENCE = ''rejected_evidence''"

section \<open>Paid\<close>

definition paid_row :: "saga_env \<Rightarrow> agent_event \<Rightarrow> payment_order \<Rightarrow> string \<Rightarrow> string \<Rightarrow> nat \<Rightarrow> paid_transition" where
  "paid_row env event order provider_payment_id activation_key i =
     \<lparr>pt_id = sg_uuid4 env i, pt_payment_order_id = py_id order, pt_provider_payment_id = provider_payment_id,
      pt_website_activation_key = activation_key, pt_verified_amount_minor = py_amount_minor order,
      pt_verified_currency = py_currency order, pt_verification_source = ''signed_webhook'',
      pt_transitioned_at = ae_occurred_at event\<rparr>"

definition payment_verified_transition :: "saga_env \<Rightarrow> agent_event \<Rightarrow> demo_case \<Rightarrow> state_transition" where
  "payment_verified_transition env event demo =
     \<lparr>tr_demo_case_id = dc_id demo, tr_state_before = dc_state demo, tr_state_after = demo_state_value PAID,
      tr_command = transition_command_value VERIFY_PAYMENT, tr_actor_type = ''provider'', tr_actor_ref = ''cashfree'',
      tr_reason_code = Some ''VERIFIED_TERMINAL_SUCCESS'', tr_occurred_at = ae_occurred_at event,
      tr_correlation_id = ae_correlation_id event, tr_idempotency_key = ae_idempotency_key event,
      tr_flow_version = dc_flow_version demo, tr_policy_version = Some (pp_version (sg_payment_policy env)),
      tr_side_effects_requested = [''activate_website_subscription''], tr_side_effects_completed = []\<rparr>"

definition activation_payload :: "agent_event \<Rightarrow> payment_order \<Rightarrow> demo_case \<Rightarrow> int \<Rightarrow> string \<Rightarrow> string \<Rightarrow> json_object" where
  "activation_payload event order demo plan_id provider_payment_id activation_key =
     [(''event_type'', JString ''demo.payment.verified.v1''),
      (''demo_ref'', JString (dc_id demo)),
      (''website_user_ref'', JString (py_user_ref order)),
      (''plan_id'', JInt plan_id),
      (''plan_version'', JString (py_plan_version order)),
      (''amount_minor'', JInt (py_amount_minor order)),
      (''currency'', JString (py_currency order)),
      (''provider_order_ref'', case py_provider_order_id order of Some i \<Rightarrow> JString i | None \<Rightarrow> JNull),
      (''payment_evidence_ref'', JString provider_payment_id),
      (''payment_verified_at'', JString (isoformat (ae_occurred_at event))),
      (''correlation_id'', JString (py_correlation_id order)),
      (''activation_key'', JString activation_key)]"

definition activation_outbox ::
  "saga_env \<Rightarrow> int \<Rightarrow> agent_event \<Rightarrow> payment_order \<Rightarrow> demo_case \<Rightarrow> int \<Rightarrow> string \<Rightarrow> string \<Rightarrow> string \<Rightarrow> outbox_row" where
  "activation_outbox env now event order demo plan_id provider_payment_id activation_key outbox_key =
     (let event_id = sg_uuid5 env namespace_url (''nxtutors:paid:'' @ py_id order)
      in outbox_event event_id ''demo.payment.verified.v1'' (py_tenant_id order) website_gateway outbox_key (py_correlation_id order)
           (sg_encrypt env (dumps (JObject (activation_payload event order demo plan_id provider_payment_id activation_key)))
              (job_associated_data (py_tenant_id order) website_gateway event_id)) now)"

definition apply_paid_transition ::
  "saga_env \<Rightarrow> int \<Rightarrow> agent_event \<Rightarrow> payment_order \<Rightarrow> string \<Rightarrow> string \<Rightarrow> string \<Rightarrow> (store, unit) sess" where
  "apply_paid_transition env now event order provider_payment_id activation_key outbox_key =
     s_bind (s_get (find_demo (py_demo_case_id order))) (\<lambda>found.
     let review = s_modify (update_order (py_id order) (\<lambda>p. p\<lparr>py_status := ''payment_review''\<rparr>))
     in case found of
       None \<Rightarrow> review
     | Some demo \<Rightarrow>
         if dc_state demo \<notin> {demo_state_value demo_state.PAYMENT_PENDING, demo_state_value demo_state.PAYMENT_REVIEW} then review
         else
           s_bind (s_modify (update_demo (dc_id demo) (set_state PAID))) (\<lambda>_.
           s_bind (s_modify (update_order (py_id order) (\<lambda>p. p\<lparr>py_status := ''paid'', py_paid_at := Some (ae_occurred_at event),
             py_version := py_version p + 1\<rparr>))) (\<lambda>_.
           s_bind (s_modify (\<lambda>st. st\<lparr>st_paid := st_paid st @ [paid_row env event order provider_payment_id activation_key (st_next st)],
             st_next := Suc (st_next st)\<rparr>)) (\<lambda>_.
           s_bind (s_modify (add_transition (payment_verified_transition env event demo))) (\<lambda>_.
           case py_int (py_plan_ref order) of
             None \<Rightarrow> s_raise (ValueError ''payment order is not bound to a numeric website plan ID'')
           | Some plan_id \<Rightarrow>
               s_bind (s_raise_if (plan_id \<le> 0) (ValueError ''payment order is not bound to a positive website plan ID'')) (\<lambda>_.
               s_modify (add_outbox (activation_outbox env now event order demo plan_id provider_payment_id activation_key outbox_key))))))))"

text \<open>The fields of the webhook, read in the order of the code.\<close>

record cashfree_fields =
  cf_domain_order_id :: string
  cf_provider_order_id :: string
  cf_provider_payment_id :: string
  cf_status :: string
  cf_currency :: string
  cf_customer_ref :: string
  cf_purpose :: string
  cf_environment :: string
  cf_amount :: json

definition str_or :: "saga_env \<Rightarrow> json_object \<Rightarrow> string \<Rightarrow> string \<Rightarrow> string" where
  "str_or env obj key otherwise = (case map_of obj key of Some v \<Rightarrow> py_str (sg_repr env) v | None \<Rightarrow> otherwise)"

definition cashfree_fields_of :: "saga_env \<Rightarrow> json_object \<Rightarrow> cashfree_fields res" where
  "cashfree_fields_of env payload =
     (let data = as_object (jget payload ''data'');
          payment = as_object (jget data ''payment'');
          provider_order = as_object (jget data ''order'');
          customer = as_object (jget data ''customer_details'');
          tags = as_object (jget provider_order ''order_tags'')
      in res_bind (required_string (jget provider_order ''order_id'') ''order_id'') (\<lambda>domain_order_id.
         res_bind (required_reference (jget provider_order ''cf_order_id'') ''cf_order_id'') (\<lambda>provider_order_id.
         res_bind (required_reference (jget payment ''cf_payment_id'') ''cf_payment_id'') (\<lambda>provider_payment_id.
         res_bind (required_string (jget payment ''payment_status'') ''payment_status'') (\<lambda>status.
         res_bind (required_string (jget payment ''payment_currency'') ''payment_currency'') (\<lambda>currency.
         Inr \<lparr>cf_domain_order_id = domain_order_id, cf_provider_order_id = provider_order_id,
              cf_provider_payment_id = provider_payment_id, cf_status = upper status, cf_currency = upper currency,
              cf_customer_ref = str_or env customer ''customer_id'' [], cf_purpose = str_or env tags ''purpose'' [],
              cf_environment = str_or env tags ''environment'' (sg_cashfree_environment env),
              cf_amount = jget payment ''payment_amount''\<rparr>))))))"

definition order_binding :: "payment_order \<Rightarrow> string \<Rightarrow> money \<Rightarrow> payment_order_binding" where
  "order_binding order evidence_provider_order_id amount =
     \<lparr>po_domain_order_id = py_domain_order_id order, po_provider_order_id = evidence_provider_order_id,
      po_demo_id = py_demo_case_id order, po_user_id = py_user_ref order, po_customer_ref = py_customer_ref order,
      po_plan_ref = py_plan_ref order, po_offer_ref = py_offer_id order, po_amount = amount,
      po_purpose = py_purpose order, po_environment = py_provider_environment order, po_expires_at = py_expires_at order\<rparr>"

definition webhook_evidence :: "agent_event \<Rightarrow> cashfree_fields \<Rightarrow> string \<Rightarrow> money \<Rightarrow> payment_evidence" where
  "webhook_evidence event f order_provider_id amount =
     \<lparr>pe_provider_event_id = ae_event_id event, pe_provider_order_id = order_provider_id, pe_source = SIGNED_WEBHOOK,
      pe_status = cf_status f, pe_amount = amount, pe_customer_ref = cf_customer_ref f, pe_purpose = cf_purpose f,
      pe_environment = cf_environment f, pe_occurred_at = ae_occurred_at event, pe_signature_verified = True,
      pe_replay_window_verified = True, pe_provider_authentication_verified = False\<rparr>"

definition webhook_decision ::
  "saga_env \<Rightarrow> int \<Rightarrow> agent_event \<Rightarrow> cashfree_fields \<Rightarrow> payment_order \<Rightarrow> string \<Rightarrow> int \<Rightarrow> bool \<Rightarrow> payment_decision res" where
  "webhook_decision env now event f order order_provider_id minor already_paid =
     res_bind (mk_money (py_amount_minor order) (py_currency order)) (\<lambda>order_amount.
     res_bind (mk_money minor (cf_currency f)) (\<lambda>evidence_amount.
     res_bind (payment_policy_post_init (sg_payment_policy env)) (\<lambda>_.
     verify_payment (order_binding order (cf_provider_order_id f) order_amount)
       (webhook_evidence event f order_provider_id evidence_amount) (sg_payment_policy env) {} already_paid (utc_at now))))"

definition attempt_row :: "agent_event \<Rightarrow> cashfree_fields \<Rightarrow> payment_order \<Rightarrow> nat \<Rightarrow> int \<Rightarrow> payment_attempt" where
  "attempt_row event f order webhook_id minor =
     \<lparr>pa_payment_order_id = py_id order, pa_provider = ''cashfree'', pa_provider_payment_id = cf_provider_payment_id f,
      pa_provider_webhook_event_id = webhook_id, pa_status = cf_status f, pa_amount_minor = minor,
      pa_currency = cf_currency f, pa_occurred_at = ae_occurred_at event\<rparr>"

definition set_order_status :: "payment_order \<Rightarrow> string \<Rightarrow> (store, unit) sess" where
  "set_order_status order status = s_modify (update_order (py_id order) (\<lambda>p. p\<lparr>py_status := status\<rparr>))"

definition apply_decision ::
  "saga_env \<Rightarrow> int \<Rightarrow> agent_event \<Rightarrow> cashfree_fields \<Rightarrow> payment_order \<Rightarrow> payment_decision \<Rightarrow> (store, unit) sess" where
  "apply_decision env now event f order decision =
     (case pd_kind decision of
        TRANSITION_PAID \<Rightarrow>
          (case (pd_activation_key decision, pd_paid_outbox_key decision) of
             (Some activation_key, Some outbox_key) \<Rightarrow>
               apply_paid_transition env now event order (cf_provider_payment_id f) activation_key outbox_key
           | _ \<Rightarrow> s_raise (ValueError ''paid decision omitted exactly-once keys''))
      | REVIEW \<Rightarrow> set_order_status order ''payment_review''
      | REJECTED_EVIDENCE \<Rightarrow> set_order_status order ''payment_review''
      | payment_decision_kind.FAILED \<Rightarrow> set_order_status order ''failed''
      | payment_decision_kind.PAYMENT_EXPIRED \<Rightarrow> set_order_status order ''expired''
      | RECONCILE \<Rightarrow> set_order_status order ''reconciliation_required''
      | _ \<Rightarrow> s_return ())"

text \<open>The decision on a recorded attempt and what follows from it.\<close>

definition settle_webhook ::
  "saga_env \<Rightarrow> int \<Rightarrow> agent_event \<Rightarrow> cashfree_fields \<Rightarrow> payment_order \<Rightarrow> string \<Rightarrow> int \<Rightarrow> nat \<Rightarrow> (store, unit) sess" where
  "settle_webhook env now event f order order_provider_id minor webhook_id =
     s_bind (s_get (\<lambda>st. list_ex (\<lambda>p. pt_payment_order_id p = py_id order) (st_paid st))) (\<lambda>already_paid.
     s_bind (s_lift (webhook_decision env now event f order order_provider_id minor already_paid)) (\<lambda>decision.
     s_bind (s_modify (update_webhook webhook_id (\<lambda>w. w\<lparr>we_status := decision_kind_value (pd_kind decision),
        we_processed_at := Some (utc_at now)\<rparr>))) (\<lambda>_.
     apply_decision env now event f order decision)))"

definition process_cashfree_event :: "saga_env \<Rightarrow> int \<Rightarrow> agent_event \<Rightarrow> (store, unit) sess" where
  "process_cashfree_event env now event =
     s_bind (new_provider_event env event) (\<lambda>webhook_id.
     s_bind (s_lift (cashfree_fields_of env (ae_payload event))) (\<lambda>f.
     s_bind (s_get (\<lambda>st. List.find (\<lambda>p. py_domain_order_id p = cf_domain_order_id f) (st_orders st))) (\<lambda>found.
     case found of
       None \<Rightarrow> s_raise (ValueError ''Cashfree webhook has no bound local payment order'')
     | Some order \<Rightarrow>
       (case py_provider_order_id order of
          None \<Rightarrow> s_raise (ValueError ''Cashfree webhook has no bound local payment order'')
        | Some order_provider_id \<Rightarrow>
          s_bind (s_lift (money_minor (sg_repr env) (cf_amount f))) (\<lambda>minor.
          s_bind (s_modify (\<lambda>st. st\<lparr>st_attempts := st_attempts st @ [attempt_row event f order webhook_id minor]\<rparr>)) (\<lambda>_.
          s_bind flush (\<lambda>_.
          settle_webhook env now event f order order_provider_id minor webhook_id)))))))"

section \<open>Onboarding\<close>

record lifecycle_recorder =
  lr_source_agent :: string
  lr_onboarding_locale :: string
  lr_onboarding_policy_reference :: string

definition required_text :: "json_object \<Rightarrow> string \<Rightarrow> string res" where
  "required_text payload field =
     (case jget payload field of JString s \<Rightarrow> if s = [] then Inl (ValueError (''outbox payload is missing '' @ field)) else Inr s
      | _ \<Rightarrow> Inl (ValueError (''outbox payload is missing '' @ field)))"

definition onboarding_payload :: "lifecycle_recorder \<Rightarrow> demo_case \<Rightarrow> payment_order \<Rightarrow> string \<Rightarrow> string \<Rightarrow> string list \<Rightarrow> json_object" where
  "onboarding_payload lr demo order activation_ref payment_ref consent_refs =
     [(''demo_ref'', JString (dc_id demo)),
      (''user_ref'', JString (py_user_ref order)),
      (''activation_ref'', JString activation_ref),
      (''payment_ref'', JString payment_ref),
      (''plan_ref'', JString (py_plan_ref order)),
      (''locale'', JString (lr_onboarding_locale lr)),
      (''consent_refs'', JArray (map JString consent_refs)),
      (''requested_flow'', JString ''existing_account'')]"

text \<open>\<open>model_dump(mode="json")\<close> writes the envelope out; how is the argument \<open>dump\<close>.\<close>

definition onboarding_event ::
  "saga_env \<Rightarrow> lifecycle_recorder \<Rightarrow> int \<Rightarrow> outbox_row \<Rightarrow> demo_case \<Rightarrow> payment_order \<Rightarrow> string \<Rightarrow> json_object \<Rightarrow> agent_event" where
  "onboarding_event env lr now row demo order operation_key payload =
     \<lparr>ae_event_id = sg_uuid5 env namespace_url (''nxtutors:'' @ operation_key),
      ae_event_type = ''onboarding.paid-user.requested.v1'', ae_schema_version = ''1.0'', ae_occurred_at = utc_at now,
      ae_source_agent = lr_source_agent lr, ae_target_agent = ''onboarding-agent'', ae_tenant_id = ox_tenant_id row,
      ae_region_id = dc_region_id demo, ae_correlation_id = ox_correlation_id row, ae_causation_id = Some (ox_event_id row),
      ae_conversation_id = dc_conversation_id demo,
      ae_actor = \<lparr>ea_type = ActorSYSTEM, ea_id = lr_source_agent lr\<rparr>,
      ae_subject = \<lparr>es_lead_id = None, es_user_id = Some (py_user_ref order), es_tutor_id = None, es_demo_id = Some (dc_id demo)\<rparr>,
      ae_idempotency_key = operation_key, ae_traceparent = None, ae_pii_classification = PII_LOW, ae_payload = payload\<rparr>"

definition handoff_row :: "saga_env \<Rightarrow> outbox_row \<Rightarrow> paid_transition \<Rightarrow> string \<Rightarrow> nat \<Rightarrow> onboarding_handoff" where
  "handoff_row env row paid operation_key i =
     \<lparr>oh_id = sg_uuid4 env i, oh_tenant_id = ox_tenant_id row, oh_paid_transition_id = pt_id paid,
      oh_idempotency_key = operation_key, oh_onboarding_required = True, oh_status = ''pending'',
      oh_acknowledgement_ref = None, oh_attempt_count = 0, oh_acknowledged_at = None, oh_welcome_message_id = None\<rparr>"

definition onboarding_outbox :: "saga_env \<Rightarrow> (agent_event \<Rightarrow> json) \<Rightarrow> int \<Rightarrow> outbox_row \<Rightarrow> agent_event \<Rightarrow> outbox_row" where
  "onboarding_outbox env dump now row event =
     outbox_event (ae_event_id event) (ae_event_type event) (ox_tenant_id row) (ae_target_agent event)
       (ae_idempotency_key event) (ox_correlation_id row)
       (sg_encrypt env (dumps (dump event)) (ox_tenant_id row @ '':onboarding-agent:'' @ ae_event_id event)) now"

definition queue_onboarding ::
  "saga_env \<Rightarrow> lifecycle_recorder \<Rightarrow> (agent_event \<Rightarrow> json) \<Rightarrow> int \<Rightarrow> outbox_row \<Rightarrow> json_object \<Rightarrow> string \<Rightarrow> (store, unit) sess" where
  "queue_onboarding env lr dump now row payload activation_ref =
     s_bind (s_lift (required_text payload ''provider_order_ref'')) (\<lambda>provider_order_ref.
     s_bind (s_lift (required_text payload ''payment_evidence_ref'')) (\<lambda>payment_ref.
     s_bind (s_lift (required_text payload ''demo_ref'')) (\<lambda>demo_ref.
     s_bind (s_lift (sg_uuid env demo_ref)) (\<lambda>demo_id.
     s_bind (s_get (\<lambda>st. List.find (\<lambda>p. py_tenant_id p = ox_tenant_id row \<and> py_provider_order_id p = Some provider_order_ref
       \<and> py_demo_case_id p = demo_id) (st_orders st))) (\<lambda>found.
     case found of
       None \<Rightarrow> s_raise (ValueError ''website activation has no bound payment order'')
     | Some order \<Rightarrow>
         s_bind (s_get (\<lambda>st. List.find (\<lambda>t. pt_payment_order_id t = py_id order) (st_paid st))) (\<lambda>found_paid.
         case found_paid of
           None \<Rightarrow> s_raise (ValueError ''website activation preceded the durable paid transition'')
         | Some paid \<Rightarrow>
             let operation_key = ''onboarding-paid:'' @ pt_id paid
             in s_bind (s_get (\<lambda>st. list_ex (\<lambda>h. oh_tenant_id h = ox_tenant_id row \<and> oh_idempotency_key h = operation_key)
                    (st_handoffs st))) (\<lambda>existing.
                if existing then s_return ()
                else s_bind (s_get (find_demo (py_demo_case_id order))) (\<lambda>found_demo.
                  case found_demo of
                    None \<Rightarrow> s_raise (ValueError ''onboarding can only be queued from PAID'')
                  | Some demo \<Rightarrow>
                      s_bind (s_raise_if (dc_state demo \<noteq> demo_state_value PAID)
                        (ValueError ''onboarding can only be queued from PAID'')) (\<lambda>_.
                      s_bind (s_get (\<lambda>st. take 20 (map cr_evidence_ref (filter (\<lambda>c. cr_tenant_id c = ox_tenant_id row
                         \<and> cr_subject_ref c = py_user_ref order \<and> cr_status c = ''granted'') (st_consents st))))) (\<lambda>consent_refs.
                      s_bind (s_lift (validate_envelope (onboarding_event env lr now row demo order operation_key
                         (onboarding_payload lr demo order activation_ref payment_ref consent_refs)))) (\<lambda>event.
                      s_bind (s_modify (\<lambda>st. st\<lparr>st_handoffs := st_handoffs st @ [handoff_row env row paid operation_key (st_next st)],
                         st_next := Suc (st_next st)\<rparr>)) (\<lambda>_.
                      s_modify (add_outbox (onboarding_outbox env dump now row event))))))))))))))"

definition onboarding_transition ::
  "demo_case \<Rightarrow> string \<Rightarrow> string \<Rightarrow> datetime \<Rightarrow> string \<Rightarrow> string \<Rightarrow> string \<Rightarrow> state_transition" where
  "onboarding_transition demo actor actor_ref occurred_at correlation_id key policy =
     \<lparr>tr_demo_case_id = dc_id demo, tr_state_before = dc_state demo, tr_state_after = demo_state_value ONBOARDING_HANDOFF,
      tr_command = transition_command_value HANDOFF_ONBOARDING, tr_actor_type = actor, tr_actor_ref = actor_ref,
      tr_reason_code = Some ''ONBOARDING_DURABLY_ACCEPTED'', tr_occurred_at = occurred_at, tr_correlation_id = correlation_id,
      tr_idempotency_key = key, tr_flow_version = dc_flow_version demo, tr_policy_version = Some policy,
      tr_side_effects_requested = [''await_onboarding_completion''], tr_side_effects_completed = [''publish_onboarding_handoff'']\<rparr>"

text \<open>The publisher's side of the acceptance; the changes to the hand-over come before the last check.\<close>

definition record_onboarding_acceptance ::
  "lifecycle_recorder \<Rightarrow> int \<Rightarrow> outbox_row \<Rightarrow> string \<Rightarrow> (store, unit) sess" where
  "record_onboarding_acceptance lr now row acknowledgement_ref =
     s_bind (s_get (\<lambda>st. List.find (\<lambda>h. oh_tenant_id h = ox_tenant_id row \<and> oh_idempotency_key h = ox_idempotency_key row) (st_handoffs st))) (\<lambda>found.
     case found of
       None \<Rightarrow> s_raise (ValueError ''onboarding acknowledgement has no durable handoff'')
     | Some handoff \<Rightarrow>
         s_bind (s_get (\<lambda>st. List.find (\<lambda>t. pt_id t = oh_paid_transition_id handoff) (st_paid st))) (\<lambda>found_paid.
         case found_paid of
           None \<Rightarrow> s_raise (ValueError ''onboarding handoff lost its paid transition'')
         | Some paid \<Rightarrow>
             s_bind (s_get (find_order (pt_payment_order_id paid))) (\<lambda>found_order.
             case found_order of
               None \<Rightarrow> s_raise (ValueError ''onboarding handoff lost its payment order'')
             | Some order \<Rightarrow>
                 s_bind (s_get (find_demo (py_demo_case_id order))) (\<lambda>found_demo.
                 case found_demo of
                   None \<Rightarrow> s_raise (ValueError ''onboarding handoff lost its demo'')
                 | Some demo \<Rightarrow>
                     s_bind (s_modify (update_handoff (oh_id handoff) (\<lambda>h. h\<lparr>oh_status := ''accepted'',
                       oh_acknowledgement_ref := Some (take 255 acknowledgement_ref), oh_attempt_count := oh_attempt_count h + 1,
                       oh_acknowledged_at := Some (utc_at now)\<rparr>))) (\<lambda>_.
                     if dc_state demo = demo_state_value ONBOARDING_HANDOFF then s_return ()
                     else s_bind (s_raise_if (dc_state demo \<noteq> demo_state_value PAID)
                       (ValueError ''onboarding acknowledgement arrived in an invalid demo state'')) (\<lambda>_.
                     s_bind (s_modify (update_demo (dc_id demo) (set_state ONBOARDING_HANDOFF))) (\<lambda>_.
                     s_modify (add_transition (onboarding_transition demo (actor_type_value ActorSYSTEM) (lr_source_agent lr) (utc_at now)
                       (ox_correlation_id row) (''onboarding-accepted:'' @ oh_id handoff) (lr_onboarding_policy_reference lr))))))))))"

definition record_lifecycle_delivery ::
  "saga_env \<Rightarrow> lifecycle_recorder \<Rightarrow> (agent_event \<Rightarrow> json) \<Rightarrow> int \<Rightarrow> outbox_row \<Rightarrow> json_object \<Rightarrow> string \<Rightarrow> json_object \<Rightarrow> (store, unit) sess" where
  "record_lifecycle_delivery env lr dump now row payload provider_reference restricted_details =
     (if ox_event_type row = ''demo.payment.verified.v1'' then queue_onboarding env lr dump now row payload provider_reference
      else if ox_event_type row = ''onboarding.paid-user.requested.v1'' then record_onboarding_acceptance lr now row provider_reference
      else s_return ())"

text \<open>The inbox's side: the rows an onboarding event refers to.\<close>

definition load_onboarding_context ::
  "saga_env \<Rightarrow> string \<Rightarrow> string \<Rightarrow> string \<Rightarrow> (store, onboarding_handoff \<times> payment_order \<times> demo_case) sess" where
  "load_onboarding_context env tenant_id demo_ref user_ref =
     s_bind (s_lift (sg_uuid env demo_ref)) (\<lambda>demo_id.
     s_bind (s_get (\<lambda>st. take 2 (filter (\<lambda>p. py_tenant_id p = tenant_id \<and> py_demo_case_id p = demo_id \<and> py_user_ref p = user_ref)
       (st_orders st)))) (\<lambda>orders.
     case orders of
       [] \<Rightarrow> s_raise (ValueError ''onboarding event has no bound payment order'')
     | [order] \<Rightarrow>
         s_bind (s_get (\<lambda>st. List.find (\<lambda>t. pt_payment_order_id t = py_id order) (st_paid st))) (\<lambda>found_paid.
         case found_paid of
           None \<Rightarrow> s_raise (ValueError ''onboarding event has no durable paid transition'')
         | Some paid \<Rightarrow>
             s_bind (s_get (\<lambda>st. List.find (\<lambda>h. oh_paid_transition_id h = pt_id paid) (st_handoffs st))) (\<lambda>found_handoff.
             s_bind (s_get (find_demo demo_id)) (\<lambda>found_demo.
             case (found_handoff, found_demo) of
               (Some handoff, Some demo) \<Rightarrow> s_return (handoff, order, demo)
             | _ \<Rightarrow> s_raise (ValueError ''onboarding event has no durable handoff''))))
     | _ \<Rightarrow> s_raise (ValueError ''onboarding event matches multiple payment orders'')))"

definition accept_onboarding :: "saga_env \<Rightarrow> agent_event \<Rightarrow> (store, unit) sess" where
  "accept_onboarding env event =
     s_bind (s_lift (validated onboarding_accepted_ok (sg_accepted env (ae_payload event)))) (\<lambda>payload.
     case sg_onboarding_policy_reference env of
       None \<Rightarrow> s_raise (ValueError ''onboarding handoff policy is not configured'')
     | Some policy \<Rightarrow>
         s_bind (load_onboarding_context env (ae_tenant_id event) (oa_demo_ref payload) (oa_user_ref payload)) (\<lambda>(handoff, order, demo).
         s_bind (s_modify (update_handoff (oh_id handoff) (\<lambda>h. h\<lparr>oh_status := ''accepted'',
           oh_acknowledgement_ref := Some (oa_onboarding_ref payload), oh_acknowledged_at := Some (ae_occurred_at event)\<rparr>))) (\<lambda>_.
         if dc_state demo = demo_state_value ONBOARDING_HANDOFF then s_return ()
         else s_bind (s_raise_if (dc_state demo \<noteq> demo_state_value PAID \<or> py_status order \<noteq> ''paid'')
           (ValueError ''onboarding acceptance arrived before verified payment'')) (\<lambda>_.
         s_bind (s_modify (update_demo (dc_id demo) (set_state ONBOARDING_HANDOFF))) (\<lambda>_.
         s_modify (add_transition (onboarding_transition demo (actor_type_value (ea_type (ae_actor event))) (ea_id (ae_actor event))
           (ae_occurred_at event) (ae_correlation_id event) (ae_idempotency_key event) policy)))))))"

definition completed_transition :: "agent_event \<Rightarrow> demo_case \<Rightarrow> string \<Rightarrow> state_transition" where
  "completed_transition event demo policy =
     \<lparr>tr_demo_case_id = dc_id demo, tr_state_before = dc_state demo, tr_state_after = demo_state_value CONVERTED,
      tr_command = transition_command_value COMPLETE_ONBOARDING, tr_actor_type = actor_type_value (ea_type (ae_actor event)),
      tr_actor_ref = ea_id (ae_actor event), tr_reason_code = Some ''ONBOARDING_COMPLETED'', tr_occurred_at = ae_occurred_at event,
      tr_correlation_id = ae_correlation_id event, tr_idempotency_key = ae_idempotency_key event,
      tr_flow_version = dc_flow_version demo, tr_policy_version = Some policy,
      tr_side_effects_requested = [''request_welcome_delivery''], tr_side_effects_completed = [''onboarding_completed'']\<rparr>"

definition welcome_message ::
  "agent_event \<Rightarrow> demo_case \<Rightarrow> string \<Rightarrow> string \<Rightarrow> string \<Rightarrow> string \<Rightarrow> string \<Rightarrow> string \<Rightarrow> communication_message" where
  "welcome_message event demo message_id template onboarding_ref policy version send_key =
     \<lparr>cm_id = message_id, cm_tenant_id = ae_tenant_id event, cm_demo_case_id = Some (dc_id demo), cm_direction = ''outbound'',
      cm_channel = ''whatsapp'', cm_recipient_ref = dc_conversation_id demo, cm_message_category = ''utility'',
      cm_template_ref = Some template, cm_content_source_refs = [onboarding_ref], cm_policy_version = policy,
      cm_message_version = version, cm_idempotency_key = send_key, cm_approved_by = Some ''deterministic-policy'',
      cm_service_window_ends_at = Some (ae_occurred_at event)\<rparr>"

definition welcome_outbox :: "saga_env \<Rightarrow> int \<Rightarrow> agent_event \<Rightarrow> demo_case \<Rightarrow> string \<Rightarrow> string \<Rightarrow> string \<Rightarrow> outbox_row" where
  "welcome_outbox env now event demo template onboarding_ref send_key =
     (let event_id = sg_uuid5 env namespace_url (''nxtutors:outbox:'' @ send_key);
          payload = [(''event_id'', JString event_id), (''event_type'', JString ''outbound.delivery.requested.v1''),
            (''demo_id'', JString (dc_id demo)), (''recipient_ref'', JString (dc_conversation_id demo)),
            (''template_or_message_ref'', JString template),
            (''variables'', JObject [(''onboarding_ref'', JString onboarding_ref)]), (''message_category'', JString ''utility''),
            (''service_window_expires_at'', JString (isoformat (ae_occurred_at event))), (''send_key'', JString send_key)]
      in outbox_event event_id ''outbound.delivery.requested.v1'' (ae_tenant_id event) ''lead-intake-agent'' send_key
           (ae_correlation_id event)
           (sg_encrypt env (dumps (JObject payload)) (ae_tenant_id event @ '':lead-intake-agent:'' @ event_id)) now)"

text \<open>\<open>all([...])\<close> over the configured references: none may be missing or empty.\<close>

definition configured_ref :: "string option \<Rightarrow> string option" where
  "configured_ref r = (case r of Some s \<Rightarrow> if s = [] then None else Some s | None \<Rightarrow> None)"

definition complete_onboarding :: "saga_env \<Rightarrow> int \<Rightarrow> agent_event \<Rightarrow> (store, unit) sess" where
  "complete_onboarding env now event =
     s_bind (s_lift (validated onboarding_completed_ok (sg_completed env (ae_payload event)))) (\<lambda>payload.
     case (configured_ref (sg_message_policy_reference env), configured_ref (sg_welcome_template_reference env),
           configured_ref (sg_welcome_message_version env)) of
       (Some policy, Some template, Some version) \<Rightarrow>
         s_bind (load_onboarding_context env (ae_tenant_id event) (oc_demo_ref payload) (oc_user_ref payload)) (\<lambda>(handoff, order, demo).
         if oh_status handoff = ''completed'' \<and> dc_state demo = demo_state_value CONVERTED then s_return ()
         else s_bind (s_raise_if (oh_status handoff \<noteq> ''accepted'' \<or> dc_state demo \<noteq> demo_state_value ONBOARDING_HANDOFF)
           (ValueError ''onboarding completion arrived before durable acceptance'')) (\<lambda>_.
         let send_key = ''welcome:'' @ oh_id handoff;
             message_id = sg_uuid5 env namespace_url (''nxtutors:message:'' @ send_key)
         in s_bind (s_modify (update_demo (dc_id demo) (set_state CONVERTED))) (\<lambda>_.
            s_bind (s_modify (update_handoff (oh_id handoff) (\<lambda>h. h\<lparr>oh_status := ''completed'', oh_welcome_message_id := Some message_id\<rparr>))) (\<lambda>_.
            s_bind (s_modify (\<lambda>st. st\<lparr>st_messages := st_messages st @
               [welcome_message event demo message_id template (oc_onboarding_ref payload) policy version send_key]\<rparr>)) (\<lambda>_.
            s_bind (s_modify (add_transition (completed_transition event demo policy))) (\<lambda>_.
            s_modify (add_outbox (welcome_outbox env now event demo template (oc_onboarding_ref payload) send_key))))))))
     | _ \<Rightarrow> s_raise (ValueError ''welcome delivery policy is not configured''))"

end
