(* ===== verification/Shortlist.thy ===== *)
theory Shortlist
  imports Requirements PaidSaga
begin

text \<open>
  \<open>infrastructure/inbox/processor.py\<close>, second part: reading the website's tutor candidates and storing
  the shortlist of a demo.  A stored row is the ORM object the code shares: the shortlist refers to rows
  by their key, so that a tutor who is listed twice shows the state the second occurrence left.
\<close>

section \<open>Reading a candidate\<close>

definition json_truthy :: "json \<Rightarrow> bool" where
  "json_truthy j = (case j of JNull \<Rightarrow> False | JBool b \<Rightarrow> b | JInt i \<Rightarrow> i \<noteq> 0 | JFloat r \<Rightarrow> float_of j \<noteq> Some 0
     | JString s \<Rightarrow> s \<noteq> [] | JArray xs \<Rightarrow> xs \<noteq> [] | JObject kvs \<Rightarrow> kvs \<noteq> [])"

definition nonblank_text :: "json \<Rightarrow> string option" where
  "nonblank_text j = (case j of JString s \<Rightarrow> if strip s = [] then None else Some (strip s) | _ \<Rightarrow> None)"

definition candidate_items_from_payload :: "json list \<Rightarrow> json_object list" where
  "candidate_items_from_payload candidates = List.map_filter (\<lambda>j. case j of JObject obj \<Rightarrow> Some obj | _ \<Rightarrow> None) candidates"

definition reference_text :: "json \<Rightarrow> string option" where
  "reference_text j = (case j of JInt i \<Rightarrow> Some (show_int i) | JBool b \<Rightarrow> Some (if b then ''True'' else ''False'') | _ \<Rightarrow> nonblank_text j)"

definition candidate_ref :: "json_object \<Rightarrow> string option" where
  "candidate_ref candidate =
     (case List.map_filter (\<lambda>key. reference_text (jget candidate key)) [''tutor_ref'', ''register_ref'', ''id''] of
        [] \<Rightarrow> None | ref # _ \<Rightarrow> Some ref)"

definition candidate_display_name :: "json_object \<Rightarrow> int \<Rightarrow> string" where
  "candidate_display_name candidate rank =
     (let value = (if json_truthy (jget candidate ''display_name'') then jget candidate ''display_name'' else jget candidate ''name'')
      in case nonblank_text value of Some s \<Rightarrow> take 80 s | None \<Rightarrow> ''Tutor option '' @ show_int rank)"

text \<open>\<open>dict.fromkeys(parts)\<close>: each part where it first occurs.\<close>

definition unique_parts :: "'a list \<Rightarrow> 'a list" where
  "unique_parts xs = rev (remdups (rev xs))"

definition candidate_location :: "json_object \<Rightarrow> string option" where
  "candidate_location candidate =
     (case jget candidate ''location'' of
        JObject location \<Rightarrow>
          (let text = join '', '' (unique_parts (List.map_filter (\<lambda>key. nonblank_text (jget location key)) [''city'', ''district'', ''state'']))
           in if text = [] then None else Some text)
      | _ \<Rightarrow> None)"

definition positive_count :: "json \<Rightarrow> string option" where
  "positive_count j = (case j of JInt i \<Rightarrow> if i > 0 then Some (show_int i) else None | JBool b \<Rightarrow> if b then Some ''True'' else None | _ \<Rightarrow> None)"

definition candidate_review_label :: "json_object \<Rightarrow> string option" where
  "candidate_review_label candidate =
     (case jget candidate ''review_summary'' of
        JObject review \<Rightarrow>
          (let count = positive_count (jget review ''approved_review_count'');
               by_count = map_option (\<lambda>n. n @ '' approved review(s)'') count
           in case float_of (jget review ''average_rating'') of
                Some rating \<Rightarrow> if rating > 0
                  then Some (format_1f rating @ ''/5'' @ (case count of Some n \<Rightarrow> '' from '' @ n @ '' approved review(s)'' | None \<Rightarrow> []))
                  else by_count
              | None \<Rightarrow> by_count)
      | _ \<Rightarrow> None)"

definition opt_list :: "'a option \<Rightarrow> 'a list" where
  "opt_list x = (case x of None \<Rightarrow> [] | Some v \<Rightarrow> [v])"

definition candidate_reason_codes :: "json_object \<Rightarrow> int \<Rightarrow> string list" where
  "candidate_reason_codes candidate rank =
     [candidate_display_name candidate rank,
      join ''; ''
        (opt_list (map_option (\<lambda>e. take 60 e @ '' experience'') (nonblank_text (jget candidate ''experience'')))
         @ opt_list (map_option (take 60) (nonblank_text (jget candidate ''education'')))
         @ opt_list (candidate_location candidate)
         @ opt_list (map_option (\<lambda>r. ''rating '' @ r) (candidate_review_label candidate))
         @ [''availability pending teacher confirmation''])]"

definition candidate_quality_score :: "json_object \<Rightarrow> rat" where
  "candidate_quality_score candidate =
     (case jget candidate ''review_summary'' of
        JObject review \<Rightarrow> (case float_of (jget review ''average_rating'') of
            Some rating \<Rightarrow> max 0 (min 1 (to_double (rating / 5)))
          | None \<Rightarrow> 1 / 2)
      | _ \<Rightarrow> 1 / 2)"

definition candidate_source_version :: "json_object \<Rightarrow> string" where
  "candidate_source_version candidate =
     (case nonblank_text (jget candidate ''source_version'') of
        Some v \<Rightarrow> take 100 v
      | None \<Rightarrow> sha256 (dumps (JObject candidate)))"

definition candidate_name_from_row :: "stored_tutor_candidate \<Rightarrow> string" where
  "candidate_name_from_row c = (case tc_reason_codes c of name # _ \<Rightarrow> name | [] \<Rightarrow> ''tutor option '' @ show_int (tc_rank c))"

section \<open>Texts\<close>

definition shortlist_line :: "stored_tutor_candidate \<Rightarrow> string" where
  "shortlist_line c =
     (let name = (case tc_reason_codes c of n # _ \<Rightarrow> n | [] \<Rightarrow> ''Tutor option '' @ show_int (tc_rank c));
          detail = (case tc_reason_codes c of _ # d # _ \<Rightarrow> d | _ \<Rightarrow> ''Profile matched'')
      in show_int (tc_rank c) @ ''. '' @ name @ '' '' @ em_dash @ '' '' @ detail)"

definition shortlist_body :: "demo_requirement \<Rightarrow> stored_tutor_candidate list \<Rightarrow> string" where
  "shortlist_body requirement candidates =
     join line_break (
       [''I found potential tutor matches for '' @ safe_requirement_summary requirement @ ''.'',
        ''Availability is not confirmed yet '' @ em_dash @ '' I will ask the selected tutor first before any Google Meet is scheduled.'',
        []]
       @ map shortlist_line (sort_key tc_rank candidates)
       @ [[], ''Reply with 1, 2, or 3 to choose a tutor, or type a different timing/mode if you want to adjust.''])"

definition no_shortlist_body :: "demo_requirement \<Rightarrow> string" where
  "no_shortlist_body requirement =
     ''I checked for '' @ safe_requirement_summary requirement
     @ '', but I do not have a verified tutor match to show yet. I am moving this to the demo team so they can confirm options safely.''"

definition shortlist_unavailable_body :: "demo_requirement \<Rightarrow> string" where
  "shortlist_unavailable_body requirement =
     ''I have the details for '' @ safe_requirement_summary requirement
     @ '', but tutor search is temporarily unavailable. I am moving this to the demo team so they can help without losing your request.''"

section \<open>Storing the shortlist\<close>

definition candidate_key :: "stored_tutor_candidate \<Rightarrow> string \<times> string \<times> string" where
  "candidate_key c = (tc_demo_case_id c, tc_website_tutor_ref c, tc_ranking_version c)"

definition candidate_row :: "saga_env \<Rightarrow> int \<Rightarrow> string \<Rightarrow> string \<Rightarrow> int \<Rightarrow> json_object \<Rightarrow> stored_tutor_candidate" where
  "candidate_row env now demo_id tutor_ref rank candidate =
     \<lparr>tc_demo_case_id = demo_id, tc_website_tutor_ref = tutor_ref, tc_ranking_version = sg_ranking_policy_version env,
      tc_rank = rank, tc_score = candidate_quality_score candidate, tc_hard_constraints_met = True,
      tc_reason_codes = candidate_reason_codes candidate rank, tc_source_version = Some (candidate_source_version candidate),
      tc_source_fetched_at = utc_at now, tc_selected_at = None\<rparr>"

text \<open>An existing row keeps its selection; every other column is written anew.\<close>

definition store_candidate :: "saga_env \<Rightarrow> int \<Rightarrow> string \<Rightarrow> int \<Rightarrow> string \<Rightarrow> json_object \<Rightarrow> store \<Rightarrow> store" where
  "store_candidate env now demo_id rank tutor_ref candidate st =
     (let row = candidate_row env now demo_id tutor_ref rank candidate
      in if list_ex (\<lambda>c. candidate_key c = candidate_key row) (st_candidates st)
         then st\<lparr>st_candidates := update_by candidate_key (candidate_key row) (\<lambda>c. row\<lparr>tc_selected_at := tc_selected_at c\<rparr>) (st_candidates st)\<rparr>
         else st\<lparr>st_candidates := st_candidates st @ [row]\<rparr>)"

fun store_candidates :: "saga_env \<Rightarrow> int \<Rightarrow> string \<Rightarrow> int \<Rightarrow> json_object list \<Rightarrow> (store, string list) sess" where
  "store_candidates env now demo_id rank [] = s_return []"
| "store_candidates env now demo_id rank (candidate # rest) =
     (case candidate_ref candidate of
        None \<Rightarrow> store_candidates env now demo_id (rank + 1) rest
      | Some tutor_ref \<Rightarrow>
          s_bind (s_modify (store_candidate env now demo_id rank tutor_ref candidate)) (\<lambda>_.
          s_bind (store_candidates env now demo_id (rank + 1) rest) (\<lambda>refs. s_return (tutor_ref # refs))))"

text \<open>\<open>xs[:limit]\<close>.\<close>

definition slice_to :: "int \<Rightarrow> 'a list \<Rightarrow> 'a list" where
  "slice_to limit xs = (if limit < 0 then take (nat (int (length xs) + limit)) xs else take (nat limit) xs)"

definition search_query :: "saga_env \<Rightarrow> demo_requirement \<Rightarrow> tutor_search_query" where
  "search_query env requirement =
     \<lparr>ts_subject = rq_subject requirement, ts_board = rq_board requirement, ts_class_level = rq_class_level requirement,
      ts_mode = (if rq_mode requirement = Some ''either'' then None else rq_mode requirement),
      ts_city = rq_location_region requirement, ts_district = None, ts_state = None, ts_class_type = None, ts_page = 1,
      ts_per_page = max (sg_shortlist_limit env) 3\<rparr>"

text \<open>The rows of the shortlist, in the order of the candidates.\<close>

definition shortlist_rows :: "saga_env \<Rightarrow> string \<Rightarrow> string list \<Rightarrow> store \<Rightarrow> stored_tutor_candidate list" where
  "shortlist_rows env demo_id refs st =
     List.map_filter (\<lambda>ref. List.find (\<lambda>c. candidate_key c = (demo_id, ref, sg_ranking_policy_version env)) (st_candidates st)) refs"

definition create_tutor_shortlist :: "saga_env \<Rightarrow> int \<Rightarrow> string \<Rightarrow> demo_requirement \<Rightarrow> (store, stored_tutor_candidate list) sess" where
  "create_tutor_shortlist env now demo_id requirement =
     (case sg_website env of
        None \<Rightarrow> s_return []
      | Some search \<Rightarrow>
          s_bind (s_lift (search (search_query env requirement))) (\<lambda>raw_candidates.
          s_bind (store_candidates env now demo_id 1 (slice_to (sg_shortlist_limit env) (candidate_items_from_payload raw_candidates)))
            (\<lambda>refs. s_get (shortlist_rows env demo_id refs))))"

end
