(* ===== verification/Conversation.thy ===== *)
theory Conversation
  imports Shortlist
begin

text \<open>
  \<open>infrastructure/inbox/processor.py\<close>, third part: the WhatsApp conversation of a demo, from the first
  message to the choice of a tutor, and the dispatch of the handler over all its events.
\<close>

section \<open>Rows\<close>

definition conversation_key :: "conversation_state \<Rightarrow> string \<times> string" where
  "conversation_key c = (cv_tenant_id c, cv_conversation_id c)"

definition update_conversation :: "string \<times> string \<Rightarrow> (conversation_state \<Rightarrow> conversation_state) \<Rightarrow> store \<Rightarrow> store" where
  "update_conversation k f st = st\<lparr>st_conversations := update_by conversation_key k f (st_conversations st)\<rparr>"

definition find_conversation :: "string \<times> string \<Rightarrow> store \<Rightarrow> conversation_state option" where
  "find_conversation k st = List.find (\<lambda>c. conversation_key c = k) (st_conversations st)"

definition set_step :: "string \<Rightarrow> conversation_state \<Rightarrow> conversation_state" where
  "set_step step c = c\<lparr>cv_current_step := step\<rparr>"

definition update_requirement :: "string \<Rightarrow> demo_requirement \<Rightarrow> store \<Rightarrow> store" where
  "update_requirement i r st = st\<lparr>st_requirements := update_by rq_demo_case_id i (\<lambda>_. r) (st_requirements st)\<rparr>"

section \<open>Transitions and replies\<close>

text \<open>The state is written and logged whatever it was before, unless it is the target already.\<close>

definition demo_transition ::
  "saga_env \<Rightarrow> agent_event \<Rightarrow> demo_case \<Rightarrow> transition_command \<Rightarrow> demo_state \<Rightarrow> string \<Rightarrow> string list \<Rightarrow> string list \<Rightarrow> state_transition" where
  "demo_transition env event demo command after reason requested completed =
     \<lparr>tr_demo_case_id = dc_id demo, tr_state_before = dc_state demo, tr_state_after = demo_state_value after,
      tr_command = transition_command_value command, tr_actor_type = ''system'', tr_actor_ref = ''demo-command-center-agent'',
      tr_reason_code = Some reason, tr_occurred_at = ae_occurred_at event, tr_correlation_id = ae_correlation_id event,
      tr_idempotency_key = ae_idempotency_key event @ '':'' @ transition_command_value command @ '':'' @ demo_state_value after,
      tr_flow_version = dc_flow_version demo, tr_policy_version = Some (sg_ranking_policy_version env),
      tr_side_effects_requested = requested, tr_side_effects_completed = completed\<rparr>"

definition transition_demo_state ::
  "saga_env \<Rightarrow> string \<Rightarrow> agent_event \<Rightarrow> transition_command \<Rightarrow> demo_state \<Rightarrow> string \<Rightarrow> string list \<Rightarrow> string list \<Rightarrow> (store, unit) sess" where
  "transition_demo_state env demo_id event command after reason requested completed =
     s_bind (s_get (find_demo demo_id)) (\<lambda>found.
     case found of
       None \<Rightarrow> s_return ()
     | Some demo \<Rightarrow>
         if dc_state demo = demo_state_value after then s_return ()
         else s_modify (\<lambda>st. add_transition (demo_transition env event demo command after reason requested completed)
           (update_demo demo_id (set_state after) st)))"

definition reply_payload :: "agent_event \<Rightarrow> string \<Rightarrow> string \<Rightarrow> datetime \<Rightarrow> string \<Rightarrow> (string \<times> string) list \<Rightarrow> json_object" where
  "reply_payload event event_id demo_id expires_at template variables =
     [(''event_id'', JString event_id), (''event_type'', JString ''outbound.delivery.requested.v1''),
      (''demo_id'', JString demo_id), (''recipient_ref'', JString (reply_recipient_ref event)),
      (''template_or_message_ref'', JString template), (''variables'', JObject (map (\<lambda>(k, v). (k, JString v)) variables)),
      (''message_category'', JString ''service''), (''service_window_expires_at'', JString (isoformat expires_at)),
      (''send_key'', JString (''demo-reply:'' @ ae_event_id event))]"

definition reply_outbox ::
  "saga_env \<Rightarrow> int \<Rightarrow> agent_event \<Rightarrow> string \<Rightarrow> string \<Rightarrow> datetime \<Rightarrow> string \<Rightarrow> (string \<times> string) list \<Rightarrow> outbox_row" where
  "reply_outbox env now event demo_id target expires_at template variables =
     (let event_id = sg_uuid5 env namespace_url (''nxtutors:demo-reply:'' @ ae_event_id event)
      in outbox_event event_id ''outbound.delivery.requested.v1'' (ae_tenant_id event) target (''demo-reply:'' @ ae_event_id event)
           (ae_correlation_id event)
           (sg_encrypt env (dumps (JObject (reply_payload event event_id demo_id expires_at template variables)))
              (ae_tenant_id event @ '':'' @ ae_source_agent event @ '':'' @ event_id)) now)"

definition add_demo_reply_outbox ::
  "saga_env \<Rightarrow> int \<Rightarrow> agent_event \<Rightarrow> string \<Rightarrow> string \<Rightarrow> datetime \<Rightarrow> string \<Rightarrow> (string \<times> string) list \<Rightarrow> (store, unit) sess" where
  "add_demo_reply_outbox env now event demo_id target expires_at template variables =
     s_modify (add_outbox (reply_outbox env now event demo_id target expires_at template variables))"

section \<open>After the requirements\<close>

text \<open>\<open>except (ServiceError, TimeoutError, ValueError)\<close>.\<close>

fun search_failure :: "py_error \<Rightarrow> bool" where
  "search_failure (ServiceError _ _) = True"
| "search_failure (TimeoutError _) = True"
| "search_failure (ValueError _) = True"
| "search_failure (LocalTimeError _) = True"
| "search_failure (UnsupportedEventError _) = True"
| "search_failure (InternalAuthenticationError _) = True"
| "search_failure _ = False"

text \<open>\<open>try\<close>: what was changed before the exception stays in the session.\<close>

definition s_try :: "('s, 'a) sess \<Rightarrow> (py_error \<Rightarrow> bool) \<Rightarrow> ('s, 'b) sess \<Rightarrow> ('a \<Rightarrow> ('s, 'b) sess) \<Rightarrow> ('s, 'b) sess" where
  "s_try m catch handler k st = (case m st of
      (Inr x, st') \<Rightarrow> k x st'
    | (Inl e, st') \<Rightarrow> if catch e then handler st' else (Inl e, st'))"

definition escalate ::
  "saga_env \<Rightarrow> int \<Rightarrow> agent_event \<Rightarrow> string \<Rightarrow> string \<Rightarrow> datetime \<Rightarrow> string \<Rightarrow> string \<Rightarrow> (string \<times> string) list \<Rightarrow> (store, unit) sess" where
  "escalate env now event demo_id target expires_at reason template variables =
     s_bind (transition_demo_state env demo_id event ESCALATE_HUMAN HUMAN_HANDOFF reason [''human_follow_up''] []) (\<lambda>_.
     add_demo_reply_outbox env now event demo_id target expires_at template variables)"

definition repeat_body :: string where
  "repeat_body = ''Please reply with one of the tutor option numbers I shared, or type a different timing/mode if you want to adjust the search.''"

definition offer_shortlist ::
  "saga_env \<Rightarrow> int \<Rightarrow> agent_event \<Rightarrow> string \<Rightarrow> demo_requirement \<Rightarrow> string \<times> string \<Rightarrow> string \<Rightarrow> datetime \<Rightarrow> string set
     \<Rightarrow> stored_tutor_candidate list \<Rightarrow> (store, unit) sess" where
  "offer_shortlist env now event demo_id requirement conversation target expires_at changed shortlist =
     s_bind (transition_demo_state env demo_id event COMPLETE_QUALIFICATION TUTOR_MATCHING ''REQUIREMENTS_COMPLETE''
       [''request_tutor_candidates''] [''website_tutor_candidates_fetched'']) (\<lambda>_.
     s_bind (transition_demo_state env demo_id event COMPLETE_MATCHING TUTOR_SHORTLISTED ''AUTHORITATIVE_TUTOR_CANDIDATES_PRESENT''
       [] [''tutor_shortlist_stored'']) (\<lambda>_.
     s_bind (s_modify (update_conversation conversation (set_step ''select_tutor_candidate''))) (\<lambda>_.
     add_demo_reply_outbox env now event demo_id target expires_at ''demo.tutor_shortlist.v1''
       (with_body (shortlist_body requirement shortlist) (reply_variables requirement changed)))))"

definition advance_demo_after_requirements ::
  "saga_env \<Rightarrow> int \<Rightarrow> agent_event \<Rightarrow> string \<Rightarrow> demo_requirement \<Rightarrow> string \<times> string \<Rightarrow> string \<Rightarrow> string \<Rightarrow> datetime \<Rightarrow> string set
     \<Rightarrow> (store, unit) sess" where
  "advance_demo_after_requirements env now event demo_id requirement conversation current_step target expires_at changed =
     (let reply = add_demo_reply_outbox env now event demo_id target expires_at;
          variables = reply_variables requirement changed
      in if rq_missing_fields requirement \<noteq> [] then reply ''demo.collect_requirements.v1'' variables
         else if current_step \<in> {''select_tutor_candidate'', ''awaiting_tutor_confirmation''}
         then reply ''demo.tutor_shortlist.repeat.v1'' (with_body repeat_body variables)
         else if sg_website env = None then reply ''demo.collect_requirements.v1'' variables
         else s_try (create_tutor_shortlist env now demo_id requirement) search_failure
           (escalate env now event demo_id target expires_at ''TUTOR_SEARCH_UNAVAILABLE'' ''demo.tutor_search_unavailable.v1''
              (with_body (shortlist_unavailable_body requirement) variables))
           (\<lambda>shortlist.
              if shortlist = []
              then escalate env now event demo_id target expires_at ''NO_TUTOR_SHORTLIST'' ''demo.no_tutor_shortlist.v1''
                (with_body (no_shortlist_body requirement) variables)
              else offer_shortlist env now event demo_id requirement conversation target expires_at changed shortlist))"

section \<open>A reply in a running conversation\<close>

definition selected_body :: "stored_tutor_candidate \<Rightarrow> string" where
  "selected_body selected =
     ''Great '' @ em_dash @ '' I selected '' @ candidate_name_from_row selected
     @ ''. The next safe step is teacher confirmation. Once the tutor accepts, the Google Meet link can be created and sent to both sides.''"

definition find_ranked :: "string \<Rightarrow> int \<Rightarrow> store \<Rightarrow> stored_tutor_candidate option" where
  "find_ranked demo_id rank st = List.find (\<lambda>c. tc_demo_case_id c = demo_id \<and> tc_rank c = rank) (st_candidates st)"

definition select_tutor ::
  "saga_env \<Rightarrow> int \<Rightarrow> agent_event \<Rightarrow> string \<Rightarrow> demo_requirement \<Rightarrow> string \<times> string \<Rightarrow> datetime \<Rightarrow> stored_tutor_candidate \<Rightarrow> (store, unit) sess" where
  "select_tutor env now event demo_id requirement conversation expires_at selected =
     s_bind (s_modify (\<lambda>st. st\<lparr>st_candidates := update_by candidate_key (candidate_key selected)
       (\<lambda>c. c\<lparr>tc_selected_at := Some (utc_at now)\<rparr>) (st_candidates st)\<rparr>)) (\<lambda>_.
     s_bind (transition_demo_state env demo_id event ACCEPT_SHORTLIST SLOT_NEGOTIATING ''TUTOR_SHORTLIST_ACCEPTED''
       [''request_tutor_confirmation''] []) (\<lambda>_.
     s_bind (s_modify (update_conversation conversation (set_step ''awaiting_tutor_confirmation''))) (\<lambda>_.
     add_demo_reply_outbox env now event demo_id (ae_source_agent event) expires_at ''demo.tutor_selected.v1''
       (with_body (selected_body selected) (reply_variables requirement {})))))"

text \<open>The requirement with what the message says, and the fields that changed.\<close>

definition updated_requirement :: "demo_requirement \<Rightarrow> updates \<Rightarrow> demo_requirement \<times> string set" where
  "updated_requirement requirement updates =
     (let (r, changed) = apply_requirement_updates requirement updates
      in (r\<lparr>rq_missing_fields := missing_requirement_fields r\<rparr>, changed))"

definition continue_demo ::
  "saga_env \<Rightarrow> int \<Rightarrow> agent_event \<Rightarrow> demo_handoff_payload \<Rightarrow> datetime \<Rightarrow> conversation_state \<Rightarrow> (store, unit) sess" where
  "continue_demo env now event payload expires_at conversation =
     (case cv_demo_case_id conversation of
        None \<Rightarrow> s_raise (ValueError ''WhatsApp demo reply has no durable conversation state'')
      | Some demo_id \<Rightarrow>
          s_bind (s_get (\<lambda>st. List.find (\<lambda>r. rq_demo_case_id r = demo_id) (st_requirements st))) (\<lambda>found.
          case found of
            None \<Rightarrow> s_raise (ValueError ''WhatsApp demo reply has no durable requirements row'')
          | Some stored \<Rightarrow>
              let previous_step = cv_current_step conversation;
                  text = hm_text (hp_message payload);
                  updates = extract_requirement_updates text previous_step (rq_subject stored);
                  (r, changed) = updated_requirement stored updates;
                  requirement = r\<lparr>rq_version := rq_version r + 1\<rparr>;
                  current_step = (if previous_step \<in> {''select_tutor_candidate'', ''awaiting_tutor_confirmation''} \<and> updates = []
                    then previous_step else next_requirement_step (rq_missing_fields requirement));
                  key = conversation_key conversation;
                  go_on = advance_demo_after_requirements env now event demo_id requirement key current_step (ae_source_agent event)
                    expires_at changed
              in s_bind (s_modify (update_requirement demo_id requirement)) (\<lambda>_.
                 s_bind (s_modify (update_conversation key (\<lambda>c. c\<lparr>cv_current_step := current_step,
                   cv_safe_summary := Some (safe_requirement_summary requirement), cv_version := cv_version c + 1\<rparr>))) (\<lambda>_.
                 if previous_step = ''select_tutor_candidate'' \<and> current_step = ''select_tutor_candidate''
                 then (case selected_candidate_rank text of
                         None \<Rightarrow> go_on
                       | Some rank \<Rightarrow>
                           s_bind (s_get (find_ranked demo_id rank)) (\<lambda>selected.
                           case selected of
                             None \<Rightarrow> go_on
                           | Some s \<Rightarrow> select_tutor env now event demo_id requirement key expires_at s))
                 else go_on))))"

section \<open>The first message\<close>

definition initial_requirement :: "saga_env \<Rightarrow> string \<Rightarrow> string option \<Rightarrow> demo_requirement" where
  "initial_requirement env demo_id text =
     fst (updated_requirement
       \<lparr>rq_demo_case_id = demo_id, rq_board = None, rq_class_level = None, rq_subject = None, rq_learning_goal = None,
        rq_mode = None, rq_location_region = None, rq_timezone = sg_default_timezone env, rq_preferred_times = [],
        rq_missing_fields = REQUIRED_DEMO_FIELDS, rq_version = 1\<rparr>
       (extract_requirement_updates text ''collect_requirements'' None))"

definition new_demo :: "saga_env \<Rightarrow> agent_event \<Rightarrow> demo_handoff_payload \<Rightarrow> string \<Rightarrow> demo_case" where
  "new_demo env event payload demo_id =
     \<lparr>dc_id = demo_id, dc_tenant_id = ae_tenant_id event, dc_region_id = ae_region_id event,
      dc_external_lead_id = hp_lead_ref payload, dc_external_user_id = hp_user_ref payload,
      dc_conversation_id = ae_conversation_id event, dc_state = demo_state_value QUALIFYING,
      dc_participant_timezone = sg_default_timezone env, dc_flow_version = ''demo-flow-v1'', dc_version = 1\<rparr>"

definition new_conversation :: "agent_event \<Rightarrow> demo_requirement \<Rightarrow> string \<Rightarrow> conversation_state" where
  "new_conversation event requirement demo_id =
     \<lparr>cv_tenant_id = ae_tenant_id event, cv_demo_case_id = Some demo_id, cv_conversation_id = ae_conversation_id event,
      cv_current_step = next_requirement_step (rq_missing_fields requirement),
      cv_safe_summary = Some (safe_requirement_summary requirement), cv_flow_version = ''demo-flow-v1'', cv_version = 1\<rparr>"

definition mapping_key :: "identity_mapping \<Rightarrow> string \<times> string \<times> string \<times> string" where
  "mapping_key m = (im_tenant_id m, im_system m, im_entity_type m, im_external_id m)"

definition record_mapping :: "agent_event \<Rightarrow> string \<Rightarrow> string \<Rightarrow> string \<Rightarrow> string option \<Rightarrow> store \<Rightarrow> store" where
  "record_mapping event demo_id system entity external st =
     (if \<not> truthy external then st
      else let row = \<lparr>im_tenant_id = ae_tenant_id event, im_system = system, im_entity_type = entity, im_external_id = the external,
                 im_internal_id = demo_id, im_last_verified_at = Some (ae_occurred_at event)\<rparr>
           in if list_ex (\<lambda>m. mapping_key m = mapping_key row) (st_mappings st)
              then st\<lparr>st_mappings := update_by mapping_key (mapping_key row) (\<lambda>m. m\<lparr>im_last_verified_at := Some (ae_occurred_at event)\<rparr>) (st_mappings st)\<rparr>
              else st\<lparr>st_mappings := st_mappings st @ [row]\<rparr>)"

definition started_transition :: "agent_event \<Rightarrow> string \<Rightarrow> state_transition" where
  "started_transition event demo_id =
     \<lparr>tr_demo_case_id = demo_id, tr_state_before = demo_state_value NEW, tr_state_after = demo_state_value QUALIFYING,
      tr_command = transition_command_value START_QUALIFICATION, tr_actor_type = actor_type_value (ea_type (ae_actor event)),
      tr_actor_ref = ea_id (ae_actor event), tr_reason_code = Some ''DEMO_HANDOFF_ACCEPTED'', tr_occurred_at = ae_occurred_at event,
      tr_correlation_id = ae_correlation_id event, tr_idempotency_key = ae_idempotency_key event, tr_flow_version = ''demo-flow-v1'',
      tr_policy_version = Some ''handoff-policy-v1'', tr_side_effects_requested = [''request_missing_requirements''],
      tr_side_effects_completed = []\<rparr>"

definition open_demo :: "saga_env \<Rightarrow> int \<Rightarrow> agent_event \<Rightarrow> demo_handoff_payload \<Rightarrow> string \<Rightarrow> (store, unit) sess" where
  "open_demo env now event payload demo_id =
     (let requirement = initial_requirement env demo_id (hm_text (hp_message payload));
          conversation = new_conversation event requirement demo_id
      in s_bind (s_modify (\<lambda>st. st\<lparr>st_demos := st_demos st @ [new_demo env event payload demo_id]\<rparr>)) (\<lambda>_.
         s_bind flush (\<lambda>_.
         s_bind (s_modify (\<lambda>st. st\<lparr>st_requirements := st_requirements st @ [requirement],
           st_conversations := st_conversations st @ [conversation]\<rparr>)) (\<lambda>_.
         s_bind (s_modify (record_mapping event demo_id ''lead-intake'' ''lead'' (hp_lead_ref payload))) (\<lambda>_.
         s_bind (s_modify (record_mapping event demo_id ''nxtutors-website'' ''user'' (hp_user_ref payload))) (\<lambda>_.
         s_bind (s_modify (add_transition (started_transition event demo_id))) (\<lambda>_.
         advance_demo_after_requirements env now event demo_id requirement (conversation_key conversation)
           (cv_current_step conversation) (ae_source_agent event) (hp_expires_at payload) {})))))))"

definition start_demo :: "saga_env \<Rightarrow> int \<Rightarrow> agent_event \<Rightarrow> (store, unit) sess" where
  "start_demo env now event =
     s_bind (s_lift (validated demo_handoff_ok (sg_handoff env (ae_payload event)))) (\<lambda>payload.
     s_bind (s_get (find_conversation (ae_tenant_id event, ae_conversation_id event))) (\<lambda>existing.
     case existing of
       Some conversation \<Rightarrow> continue_demo env now event payload (hp_expires_at payload) conversation
     | None \<Rightarrow>
         let demo_id = sg_uuid5 env namespace_url (''nxtutors:demo:'' @ ae_event_id event)
         in s_bind (s_get (find_demo demo_id)) (\<lambda>found.
            if found \<noteq> None then s_return () else open_demo env now event payload demo_id)))"

section \<open>The handler\<close>

definition handle_event :: "saga_env \<Rightarrow> int \<Rightarrow> agent_event \<Rightarrow> (store, unit) sess" where
  "handle_event env now event =
     (if ae_event_type event = ''whatsapp.handoff.demo.v1'' then start_demo env now event
      else if ae_event_type event = ''cashfree.payment.webhook.received.v1'' then process_cashfree_event env now event
      else if ae_event_type event = ''meta.whatsapp.webhook.received.v1'' then record_provider_event env event
      else if ae_event_type event = ''onboarding.handoff.accepted.v1'' then accept_onboarding env event
      else if ae_event_type event = ''onboarding.completed.v1'' then complete_onboarding env now event
      else s_raise (UnsupportedEventError (''unsupported event type: '' @ ae_event_type event)))"

end
