(* ===== verification/History.thy ===== *)
theory History
  imports Conversation
begin

text \<open>
  The history of a case: every change of its state is logged, so that the log of a case is a chain
  from NEW to the state it is in.  Sessions are described by what they may do, whether they return or
  raise, and the descriptions compose along the session.
\<close>

section \<open>Sessions step by step\<close>

lemma s_bind_assoc [simp]: "s_bind (s_bind m f) g = s_bind m (\<lambda>x. s_bind (f x) g)"
  by (rule ext) (auto simp: s_bind_def split: prod.splits sum.splits)

lemma s_bind_return [simp]: "s_bind m s_return = m"
  by (rule ext) (auto simp: s_bind_def split: prod.splits sum.splits)

lemma s_bind_lift: "s_bind (s_lift r) f s = (case r of Inl e \<Rightarrow> (Inl e, s) | Inr x \<Rightarrow> f x s)"
  by (cases r) simp_all

lemma s_bind_add_webhook [simp]:
  "s_bind (add_webhook env event provider status) f st =
     f (st_next st) (st\<lparr>st_webhooks := st_webhooks st @ [webhook_row env event provider status (st_next st)], st_next := Suc (st_next st)\<rparr>)"
  by (simp add: s_bind_def add_webhook_def)

lemma s_bind_flush [simp]:
  "s_bind flush f st = (if constraints_ok st then f () st else (Inl (IntegrityError ''flush''), st))"
  by (simp add: flush_def)

text \<open>A session every run of which relates the state before to the state after.\<close>

definition effects :: "('s \<Rightarrow> 's \<Rightarrow> bool) \<Rightarrow> ('s, 'a) sess \<Rightarrow> bool" where
  "effects R m \<longleftrightarrow> (\<forall>s. R s (snd (m s)))"

lemma effectsD: "effects R m \<Longrightarrow> m s = (r, s') \<Longrightarrow> R s s'"
  unfolding effects_def by (metis snd_conv)

locale step_relation =
  fixes R :: "'s \<Rightarrow> 's \<Rightarrow> bool"
  assumes refl: "R s s"
    and trans: "R s t \<Longrightarrow> R t u \<Longrightarrow> R s u"
begin

lemma effects_simps:
  "effects R (s_return x)" "effects R (s_raise e)" "effects R (s_get get)" "effects R (s_lift r)" "effects R (s_raise_if b e')"
  by (simp_all add: effects_def refl)

lemma effects_modify: "(\<And>s. R s (f s)) \<Longrightarrow> effects R (s_modify f)"
  by (simp add: effects_def)

lemma effects_bind: "effects R m \<Longrightarrow> (\<And>x. effects R (f x)) \<Longrightarrow> effects R (s_bind m f)"
  unfolding effects_def s_bind_def
  by (auto split: prod.splits sum.splits) (metis snd_conv trans)+

lemma effects_get: "(\<And>x. effects R (f x)) \<Longrightarrow> effects R (s_bind (s_get get) f)"
  by (simp add: effects_def)

lemma effects_try: "effects R m \<Longrightarrow> effects R h \<Longrightarrow> (\<And>x. effects R (k x)) \<Longrightarrow> effects R (s_try m c h k)"
  unfolding effects_def s_try_def
  by (auto split: prod.splits sum.splits) (metis snd_conv trans)+

lemma effects_if: "(b \<Longrightarrow> effects R m) \<Longrightarrow> (\<not> b \<Longrightarrow> effects R m') \<Longrightarrow> effects R (if b then m else m')"
  by simp

lemmas effects_intros = effects_simps effects_modify effects_get effects_bind effects_try effects_if

end

section \<open>Logged changes\<close>

definition log_of :: "store \<Rightarrow> string \<Rightarrow> state_transition list" where
  "log_of st i = filter (\<lambda>t. tr_demo_case_id t = i) (st_transitions st)"

inductive logged :: "store \<Rightarrow> store \<Rightarrow> bool" where
  same: "st_demos st' = st_demos st \<Longrightarrow> st_transitions st' = st_transitions st \<Longrightarrow> logged st st'"
| move: "d \<in> set (st_demos st) \<Longrightarrow> st_demos st' = update_by dc_id (dc_id d) (set_state s) (st_demos st)
    \<Longrightarrow> st_transitions st' = st_transitions st @ [t] \<Longrightarrow> tr_demo_case_id t = dc_id d
    \<Longrightarrow> tr_state_before t = dc_state d \<Longrightarrow> tr_state_after t = demo_state_value s \<Longrightarrow> logged st st'"
| opened: "dc_id d \<notin> dc_id ` set (st_demos st) \<Longrightarrow> st_demos st' = st_demos st @ [d]
    \<Longrightarrow> st_transitions st' = st_transitions st @ [t] \<Longrightarrow> tr_demo_case_id t = dc_id d
    \<Longrightarrow> tr_state_before t = demo_state_value NEW \<Longrightarrow> tr_state_after t = dc_state d \<Longrightarrow> logged st st'"
| chained: "logged st st1 \<Longrightarrow> logged st1 st' \<Longrightarrow> logged st st'"

text \<open>The log of a case starts at NEW, each entry continues where the one before ended, and the case is where its log ends.\<close>

definition case_history :: "store \<Rightarrow> demo_case \<Rightarrow> bool" where
  "case_history st d \<longleftrightarrow>
     (let entries = log_of st (dc_id d)
      in entries \<noteq> [] \<and> tr_state_before (hd entries) = demo_state_value NEW \<and> tr_state_after (last entries) = dc_state d
       \<and> successively (\<lambda>a b. tr_state_after a = tr_state_before b) entries)"

definition history_ok :: "store \<Rightarrow> bool" where
  "history_ok st \<longleftrightarrow> distinct (map dc_id (st_demos st)) \<and> (\<forall>d \<in> set (st_demos st). case_history st d)
     \<and> tr_demo_case_id ` set (st_transitions st) \<subseteq> dc_id ` set (st_demos st)"

lemma set_state_id [simp]: "dc_id (set_state s d) = dc_id d" "dc_state (set_state s d) = demo_state_value s"
  by (simp_all add: set_state_def)

lemma log_of_snoc: "st_transitions st' = st_transitions st @ [t] \<Longrightarrow> log_of st' i = log_of st i @ (if tr_demo_case_id t = i then [t] else [])"
  by (simp add: log_of_def)

lemma case_history_snoc:
  assumes "st_transitions st' = st_transitions st @ [t]"
  shows "tr_demo_case_id t \<noteq> dc_id d \<Longrightarrow> case_history st' d = case_history st d"
    and "tr_demo_case_id t = dc_id d \<Longrightarrow> case_history st d \<Longrightarrow> tr_state_before t = dc_state d \<Longrightarrow> dc_id d' = dc_id d
      \<Longrightarrow> tr_state_after t = dc_state d' \<Longrightarrow> case_history st' d'"
  using assms by (auto simp: case_history_def Let_def log_of_snoc successively_append_iff)

lemma logged_history: "logged st st' \<Longrightarrow> history_ok st \<Longrightarrow> history_ok st'"
proof (induction rule: logged.induct)
  case (same st' st)
  then show ?case by (simp add: history_ok_def case_history_def log_of_def)
next
  case (move d st st' s t)
  have ids: "map dc_id (st_demos st') = map dc_id (st_demos st)" using move(2) by (auto cong: map_cong)
  have "case_history st' e" if e: "e \<in> set (st_demos st')" for e
  proof -
    obtain e0 where e0: "e0 \<in> set (st_demos st)" "e = (if dc_id e0 = dc_id d then set_state s e0 else e0)"
      using e move(2) by (auto simp: set_update_by)
    have h: "case_history st e0" using e0 move(7) by (simp add: history_ok_def)
    show ?thesis
    proof (cases "dc_id e0 = dc_id d")
      case True
      then have "e0 = d" using move(1,7) e0(1) by (meson eq_key_imp_eq_value history_ok_def inj_on_def distinct_map)
      then show ?thesis using case_history_snoc(2) [OF move(3), of d e] h move e0 by simp
    next
      case False
      then show ?thesis using case_history_snoc(1) [OF move(3), of e0] h move(4) e0 by simp
    qed
  qed
  moreover have "dc_id ` set (st_demos st') = dc_id ` set (st_demos st)" using ids by (metis set_map)
  moreover have "distinct (map dc_id (st_demos st'))" using ids move(7) by (metis history_ok_def)
  ultimately show ?case using move(1,3,4,7) by (auto simp: history_ok_def)
next
  case (opened d st st' t)
  have "tr_demo_case_id u \<noteq> dc_id d" if "u \<in> set (st_transitions st)" for u
    using opened(1,7) that unfolding history_ok_def by (metis image_eqI subsetD)
  then have "log_of st (dc_id d) = []" by (simp add: log_of_def filter_empty_conv)
  then have "case_history st' d" using opened by (simp add: case_history_def log_of_snoc)
  moreover have "case_history st' e" if "e \<in> set (st_demos st)" for e
    using case_history_snoc(1) [OF opened(3), of e] opened that by (auto simp: history_ok_def)
  ultimately show ?case using opened by (auto simp: history_ok_def)
qed blast

section \<open>Steps that leave the payments alone\<close>

text \<open>The outbox rows that ask the website to activate a subscription.\<close>

definition activations :: "store \<Rightarrow> outbox_row list" where
  "activations st = filter (\<lambda>r. ox_event_type r = ''demo.payment.verified.v1'') (st_outbox st)"

definition is_verification :: "state_transition \<Rightarrow> bool" where
  "is_verification t \<longleftrightarrow> tr_command t = transition_command_value VERIFY_PAYMENT"

text \<open>The log entries of verified payments.\<close>

definition verified_entries :: "store \<Rightarrow> state_transition list" where
  "verified_entries st = filter is_verification (st_transitions st)"

definition off_ledger :: "store \<Rightarrow> store \<Rightarrow> bool" where
  "off_ledger st st' \<longleftrightarrow> st_orders st' = st_orders st \<and> st_paid st' = st_paid st \<and> st_attempts st' = st_attempts st
     \<and> activations st' = activations st \<and> verified_entries st' = verified_entries st"

definition converses :: "store \<Rightarrow> store \<Rightarrow> bool" where
  "converses st st' \<longleftrightarrow> logged st st' \<and> off_ledger st st'"

interpretation chat: step_relation converses
  by unfold_locales (auto simp: converses_def off_ledger_def intro: logged.same logged.chained)

end
