(* ===== verification/ConversationProofs.thy ===== *)
theory ConversationProofs
  imports History
begin

text \<open>
  What the conversation does to the shared tables: every change of a case's state is logged, and the
  payments are left alone.
\<close>

section \<open>What a message changes\<close>

lemma converses_same: 
  assumes "st_demos st' = st_demos st" "st_transitions st' = st_transitions st" "st_orders st' = st_orders st" "st_paid st' = st_paid st"
    "st_attempts st' = st_attempts st" "activations st' = activations st"
  shows "converses st st'"
  using assms by (simp add: converses_def off_ledger_def verified_entries_def logged.same)

lemma store_candidates_chat: "effects converses (store_candidates env now demo_id rank candidates)"
  by (induction env now demo_id rank candidates rule: store_candidates.induct)
    (auto intro!: chat.effects_intros converses_same simp: store_candidate_def Let_def activations_def simp del: sess_simps
      split: option.splits)

lemma create_tutor_shortlist_chat: "effects converses (create_tutor_shortlist env now demo_id requirement)"
  unfolding create_tutor_shortlist_def
  by (auto intro!: chat.effects_intros store_candidates_chat split: option.splits)

lemma reply_chat: "effects converses (add_demo_reply_outbox env now event demo_id target expires_at template variables)"
  unfolding add_demo_reply_outbox_def
  by (intro chat.effects_modify converses_same) (simp_all add: add_outbox_def activations_def reply_outbox_def outbox_event_def Let_def)

lemma transition_chat:
  assumes "command \<noteq> VERIFY_PAYMENT"
  shows "effects converses (transition_demo_state env demo_id event command after reason requested completed)"
proof -
  have v: "\<not> is_verification (demo_transition env event d command after reason requested completed)" for d
    using assms by (cases command) (simp_all add: is_verification_def demo_transition_def)
  have "converses st (add_transition (demo_transition env event d command after reason requested completed) (update_demo demo_id (set_state after) st))"
    if "find_demo demo_id st = Some d" for st d
    using find_demo_Some [OF that] v [of d]
    by (auto simp: converses_def off_ledger_def verified_entries_def activations_def add_transition_def update_demo_def
        intro!: logged.move [of d _ _ after "demo_transition env event d command after reason requested completed"])
      (simp_all add: demo_transition_def)
  then show ?thesis
    by (auto simp: transition_demo_state_def effects_def chat.refl split: option.splits)
qed

lemma step_chat: "effects converses (s_modify (update_conversation k f))"
  by (intro chat.effects_modify converses_same) (simp_all add: update_conversation_def activations_def)

lemma escalate_chat: "effects converses (escalate env now event demo_id target expires_at reason template variables)"
  unfolding escalate_def by (intro chat.effects_bind transition_chat reply_chat) simp

lemma offer_chat: "effects converses (offer_shortlist env now event demo_id requirement conversation target expires_at changed shortlist)"
  unfolding offer_shortlist_def by (intro chat.effects_bind transition_chat reply_chat step_chat) simp_all

lemma advance_chat:
  "effects converses (advance_demo_after_requirements env now event demo_id requirement conversation step target expires_at changed)"
  unfolding advance_demo_after_requirements_def Let_def
  by (intro chat.effects_if chat.effects_try reply_chat create_tutor_shortlist_chat escalate_chat offer_chat)

lemma select_tutor_chat: "effects converses (select_tutor env now event demo_id requirement conversation expires_at selected)"
  unfolding select_tutor_def
  by (intro chat.effects_bind chat.effects_modify transition_chat reply_chat step_chat converses_same)
    (simp_all add: activations_def)

lemma continue_demo_chat: "effects converses (continue_demo env now event payload expires_at conversation)"
proof -
  have "effects converses (s_modify (update_requirement i r))" for i r
    by (intro chat.effects_modify converses_same) (simp_all add: update_requirement_def activations_def)
  then show ?thesis
    unfolding continue_demo_def Let_def
    by (auto intro!: chat.effects_get chat.effects_bind [where m = "s_modify _"] step_chat advance_chat select_tutor_chat chat.effects_simps
        split: option.splits prod.splits)
qed

text \<open>A case is opened under an id no case has.\<close>

definition opened_store :: "saga_env \<Rightarrow> agent_event \<Rightarrow> demo_handoff_payload \<Rightarrow> string \<Rightarrow> store \<Rightarrow> store" where
  "opened_store env event payload demo_id st =
     (let requirement = initial_requirement env demo_id (hm_text (hp_message payload))
      in add_transition (started_transition event demo_id)
         (record_mapping event demo_id ''nxtutors-website'' ''user'' (hp_user_ref payload)
         (record_mapping event demo_id ''lead-intake'' ''lead'' (hp_lead_ref payload)
           (st\<lparr>st_demos := st_demos st @ [new_demo env event payload demo_id],
               st_requirements := st_requirements st @ [requirement],
               st_conversations := st_conversations st @ [new_conversation event requirement demo_id]\<rparr>))))"

lemma record_mapping_fields [simp]:
  "st_demos (record_mapping event demo_id s e x t) = st_demos t" "st_transitions (record_mapping event demo_id s e x t) = st_transitions t"
  "st_orders (record_mapping event demo_id s e x t) = st_orders t" "st_paid (record_mapping event demo_id s e x t) = st_paid t"
  "st_attempts (record_mapping event demo_id s e x t) = st_attempts t" "st_outbox (record_mapping event demo_id s e x t) = st_outbox t"
  "st_requirements (record_mapping event demo_id s e x t) = st_requirements t"
  "st_conversations (record_mapping event demo_id s e x t) = st_conversations t"
  by (simp_all add: record_mapping_def Let_def)

lemma opened_store_fields [simp]:
  "st_demos (opened_store env event payload demo_id st) = st_demos st @ [new_demo env event payload demo_id]"
  "st_transitions (opened_store env event payload demo_id st) = st_transitions st @ [started_transition event demo_id]"
  "st_orders (opened_store env event payload demo_id st) = st_orders st" "st_paid (opened_store env event payload demo_id st) = st_paid st"
  "st_attempts (opened_store env event payload demo_id st) = st_attempts st" "st_outbox (opened_store env event payload demo_id st) = st_outbox st"
  "st_requirements (opened_store env event payload demo_id st)
     = st_requirements st @ [initial_requirement env demo_id (hm_text (hp_message payload))]"
  "st_conversations (opened_store env event payload demo_id st) = st_conversations st
     @ [new_conversation event (initial_requirement env demo_id (hm_text (hp_message payload))) demo_id]"
  by (simp_all add: opened_store_def add_transition_def Let_def)

lemma open_demo_eq:
  "open_demo env now event payload demo_id st =
     (let requirement = initial_requirement env demo_id (hm_text (hp_message payload));
          conversation = new_conversation event requirement demo_id;
          added = st\<lparr>st_demos := st_demos st @ [new_demo env event payload demo_id]\<rparr>
      in if constraints_ok added
         then advance_demo_after_requirements env now event demo_id requirement (conversation_key conversation)
           (cv_current_step conversation) (ae_source_agent event) (hp_expires_at payload) {} (opened_store env event payload demo_id st)
         else (Inl (IntegrityError ''flush''), added))"
  by (simp add: open_demo_def opened_store_def Let_def)

lemma open_demo_chat:
  assumes "open_demo env now event payload demo_id st = (Inr (), st')" "find_demo demo_id st = None"
  shows "converses st st'"
proof -
  define st1 where "st1 = opened_store env event payload demo_id st"
  have "converses st1 st'" using assms(1) effectsD [OF advance_chat]
    by (simp add: open_demo_eq Let_def st1_def split: if_splits)
  moreover have "converses st st1"
  proof -
    have "demo_id \<notin> dc_id ` set (st_demos st)" using assms(2) by (auto simp: find_demo_def find_None_iff)
    then have "logged st st1"
      by (intro logged.opened [of "new_demo env event payload demo_id" _ _ "started_transition event demo_id"])
        (simp_all add: st1_def new_demo_def started_transition_def)
    then show ?thesis
      by (simp add: converses_def off_ledger_def verified_entries_def activations_def st1_def is_verification_def
          started_transition_def)
  qed
  ultimately show ?thesis by (rule chat.trans [rotated])
qed

lemma start_demo_chat:
  assumes "start_demo env now event st = (Inr (), st')"
  shows "converses st st'"
  using assms effectsD [OF continue_demo_chat] open_demo_chat
  by (fastforce simp: start_demo_def Let_def s_bind_lift chat.refl split: sum.splits option.splits if_splits)

end
