(* ===== verification/SagaProofs.thy ===== *)
theory SagaProofs
  imports History
begin

text \<open>
  What the payment and onboarding steps do to the shared tables, whether they return or raise, and the
  invariants of every history of committed steps.
\<close>

section \<open>What each step changes\<close>

text \<open>The columns of an order that are fixed when it is created.\<close>

definition order_core :: "payment_order \<Rightarrow> string \<times> string \<times> string \<times> string \<times> string \<times> string \<times> string \<times> int \<times> string" where
  "order_core p = (py_id p, py_tenant_id p, py_demo_case_id p, py_correlation_id p, py_user_ref p, py_customer_ref p, py_plan_ref p, py_amount_minor p, py_currency p)"

text \<open>A step that leaves the cases, their history and the paid transitions alone.\<close>

definition quiet :: "store \<Rightarrow> store \<Rightarrow> bool" where
  "quiet st st' \<longleftrightarrow> st_demos st' = st_demos st \<and> st_transitions st' = st_transitions st \<and> st_paid st' = st_paid st
     \<and> activations st' = activations st \<and> map order_core (st_orders st') = map order_core (st_orders st)
     \<and> (\<exists>more. st_attempts st' = st_attempts st @ more)"

text \<open>A step that takes one case through one rule of the table and records it.\<close>

definition moves :: "store \<Rightarrow> store \<Rightarrow> demo_case \<Rightarrow> demo_state \<Rightarrow> transition_command \<Rightarrow> actor_type \<Rightarrow> demo_state \<Rightarrow> bool" where
  "moves st st' d s c a s' \<longleftrightarrow> d \<in> set (st_demos st) \<and> dc_state d = demo_state_value s
     \<and> st_demos st' = update_by dc_id (dc_id d) (set_state s') (st_demos st)
     \<and> (\<exists>t. st_transitions st' = st_transitions st @ [t] \<and> tr_demo_case_id t = dc_id d
          \<and> tr_state_before t = demo_state_value s \<and> tr_state_after t = demo_state_value s'
          \<and> tr_command t = transition_command_value c \<and> tr_actor_type t = actor_type_value a)"

lemma quiet_refl [simp]: "quiet st st"
  by (simp add: quiet_def)

lemma order_core_simps [simp]:
  "order_core (p\<lparr>py_status := s\<rparr>) = order_core p" "order_core (p\<lparr>py_version := n\<rparr>) = order_core p"
  "order_core (p\<lparr>py_provider_order_id := k\<rparr>) = order_core p" "order_core (p\<lparr>py_reconcile_after := t\<rparr>) = order_core p"
  "order_core (p\<lparr>py_paid_at := t\<rparr>) = order_core p"
  by (simp_all add: order_core_def)

lemma request_order_cases:
  assumes "request_order env svc command correlation_id now st = (r, st')"
  shows "quiet st st'"
  using assms unfolding request_order_def request_transaction_def
  by (auto simp: quiet_def activations_def add_outbox_def quote_request_outbox_def outbox_event_def s_bind_lift
      split: if_splits option.splits sum.splits prod.splits)

lemma record_quote_cases:
  assumes "record_quote env rc now row raw_request raw_quote st = (r, st')"
  obtains "st' = st"
  | request q demo expires where "demo \<in> set (st_demos st)" "dc_state demo = demo_state_value CONVERSION_FOLLOW_UP"
      "dc_external_user_id demo = Some (qr_website_user_ref request)" "plan_quote_ok q" "quote_bound row request q"
      "order_by_creation_key (ox_tenant_id row) (ox_idempotency_key row) st = None"
      "st' = create_order env rc row request q demo expires now st"
proof -
  have "st' = st \<or> (\<exists>request q demo expires. demo \<in> set (st_demos st) \<and> dc_state demo = demo_state_value CONVERSION_FOLLOW_UP
      \<and> dc_external_user_id demo = Some (qr_website_user_ref request) \<and> plan_quote_ok q \<and> quote_bound row request q
      \<and> order_by_creation_key (ox_tenant_id row) (ox_idempotency_key row) st = None
      \<and> st' = create_order env rc row request q demo expires now st)"
    using assms unfolding record_quote_def validated_def
    by (force simp: s_bind_lift res_simps find_Some_iff simp del: demo_state_value.simps split: if_splits option.splits sum.splits)
  then show thesis using that by blast
qed

lemma record_cashfree_order_cases:
  assumes "record_cashfree_order env rc now row raw_request provider_reference raw_acknowledgement st = (r, st')"
  shows "quiet st st'"
  using assms unfolding record_cashfree_order_def
  by (auto simp: quiet_def activations_def update_order_def store_checkout_def update_request_def s_bind_lift Let_def
      cong: map_cong split: if_splits option.splits sum.splits)

lemma record_payment_delivery_cases:
  assumes "record_payment_delivery env rc now row payload reference details st = (r, st')"
  obtains "quiet st st'"
  | request q demo expires where "demo \<in> set (st_demos st)" "dc_state demo = demo_state_value CONVERSION_FOLLOW_UP"
      "dc_external_user_id demo = Some (qr_website_user_ref request)" "plan_quote_ok q" "quote_bound row request q"
      "order_by_creation_key (ox_tenant_id row) (ox_idempotency_key row) st = None"
      "st' = create_order env rc row request q demo expires now st"
proof (cases "ox_event_type row = ''payment.plan-quote.requested.v1''")
  case True
  then have "record_quote env rc now row payload details st = (r, st')" using assms by (simp add: record_payment_delivery_def)
  then show thesis by (rule record_quote_cases) (use that in auto)
next
  case False
  then show thesis using assms that(1) record_cashfree_order_cases [of env rc now row payload reference details st r st']
    by (auto simp: record_payment_delivery_def split: if_splits)
qed

lemma create_order_effects:
  "st_demos (create_order env rc row request q demo expires now st) = update_by dc_id (dc_id demo) (set_state demo_state.PAYMENT_PENDING) (st_demos st)"
  "st_transitions (create_order env rc row request q demo expires now st) = st_transitions st @ [payment_requested_transition row request q demo now]"
  "st_paid (create_order env rc row request q demo expires now st) = st_paid st"
  "st_attempts (create_order env rc row request q demo expires now st) = st_attempts st"
  "st_orders (create_order env rc row request q demo expires now st) = st_orders st @ [new_order env rc row request q demo expires]"
  "activations (create_order env rc row request q demo expires now st) = activations st"
  by (simp_all add: create_order_def Let_def update_request_def add_transition_def update_demo_def add_outbox_def activations_def
      cashfree_order_outbox_def outbox_event_def)

text \<open>The payment decision is the only way to paid.\<close>

lemma apply_paid_transition_cases:
  assumes "apply_paid_transition env now event order provider_payment_id activation_key outbox_key st = (r, st')"
  obtains "quiet st st'"
  | demo s where "demo \<in> set (st_demos st)" "dc_id demo = py_demo_case_id order" "dc_state demo = demo_state_value s"
      "s \<in> {demo_state.PAYMENT_PENDING, demo_state.PAYMENT_REVIEW}"
      "moves st st' demo s VERIFY_PAYMENT ActorPROVIDER PAID"
      "st_paid st' = st_paid st @ [paid_row env event order provider_payment_id activation_key (st_next st)]"
      "map order_core (st_orders st') = map order_core (st_orders st)" "st_attempts st' = st_attempts st"
      "r = Inr () \<Longrightarrow> \<exists>plan_id. activations st' = activations st
         @ [activation_outbox env now event order demo plan_id provider_payment_id activation_key outbox_key]"
proof (cases "find_demo (py_demo_case_id order) st")
  case None
  then have "quiet st st'" using assms
    by (auto simp: apply_paid_transition_def Let_def quiet_def update_order_def activations_def cong: map_cong)
  then show thesis by (rule that(1))
next
  case (Some demo)
  note d = find_demo_Some [OF Some]
  show thesis
  proof (cases "\<exists>s. dc_state demo = demo_state_value s \<and> s \<in> {demo_state.PAYMENT_PENDING, demo_state.PAYMENT_REVIEW}")
    case False
    then have "dc_state demo \<noteq> demo_state_value demo_state.PAYMENT_PENDING \<and> dc_state demo \<noteq> demo_state_value demo_state.PAYMENT_REVIEW"
      by blast
    then have "quiet st st'" using assms Some
      by (auto simp: apply_paid_transition_def Let_def quiet_def update_order_def activations_def simp del: demo_state_value.simps cong: map_cong)
    then show thesis by (rule that(1))
  next
    case True
    then obtain s where s: "dc_state demo = demo_state_value s" "s \<in> {demo_state.PAYMENT_PENDING, demo_state.PAYMENT_REVIEW}" by blast
    have "moves st st' demo s VERIFY_PAYMENT ActorPROVIDER PAID"
      and "st_paid st' = st_paid st @ [paid_row env event order provider_payment_id activation_key (st_next st)]"
      and "map order_core (st_orders st') = map order_core (st_orders st)" "st_attempts st' = st_attempts st"
      and "r = Inr () \<Longrightarrow> \<exists>plan_id. activations st' = activations st
         @ [activation_outbox env now event order demo plan_id provider_payment_id activation_key outbox_key]"
      using assms Some s d
      by (auto simp: apply_paid_transition_def Let_def moves_def update_order_def update_demo_def add_transition_def add_outbox_def
          activations_def payment_verified_transition_def activation_outbox_def outbox_event_def
          simp del: demo_state_value.simps transition_command_value.simps cong: map_cong split: option.splits if_splits)
    then show thesis using that(2) d s by blast
  qed
qed

text \<open>What a decision to transition to paid rests on.\<close>

definition paid_evidence :: "saga_env \<Rightarrow> cashfree_fields \<Rightarrow> payment_order \<Rightarrow> string \<Rightarrow> int \<Rightarrow> bool" where
  "paid_evidence env f order order_provider_id minor \<longleftrightarrow> minor = py_amount_minor order
     \<and> upper (strip (cf_currency f)) = upper (strip (py_currency order)) \<and> cf_provider_order_id f = order_provider_id
     \<and> cf_customer_ref f = py_customer_ref order \<and> cf_purpose f = py_purpose order
     \<and> cf_environment f = py_provider_environment order
     \<and> cf_status f \<in> pp_successful_terminal_statuses (sg_payment_policy env)"

lemma webhook_decision_paid:
  assumes "webhook_decision env now event f order order_provider_id minor already_paid = Inr d" "pd_kind d = TRANSITION_PAID"
  shows "\<not> already_paid" "paid_evidence env f order order_provider_id minor"
    "pd_activation_key d = Some (payment_operation_key ''activation'' (order_binding order (cf_provider_order_id f)
        (Money (py_amount_minor order) (upper (strip (py_currency order))))))"
proof -
  have "mk_money a c = Inr m \<Longrightarrow> m = Money a (upper (strip c))" for a c m
    by (auto simp: mk_money_def Let_def split: if_splits)
  then have v: "verify_payment (order_binding order (cf_provider_order_id f) (Money (py_amount_minor order) (upper (strip (py_currency order)))))
      (webhook_evidence event f order_provider_id (Money minor (upper (strip (cf_currency f))))) (sg_payment_policy env) {} already_paid (utc_at now) = Inr d"
    using assms(1) by (auto simp: webhook_decision_def res_simps)
  with assms(2) have "\<not> already_paid \<and> paid_evidence env f order order_provider_id minor
    \<and> pd_activation_key d = Some (payment_operation_key ''activation'' (order_binding order (cf_provider_order_id f)
        (Money (py_amount_minor order) (upper (strip (py_currency order))))))"
    by (auto simp: verify_payment_def Let_def mismatches_empty matches_def order_binding_def webhook_evidence_def paid_evidence_def
        res_simps split: if_splits)
  then show "\<not> already_paid" "paid_evidence env f order order_provider_id minor"
    "pd_activation_key d = Some (payment_operation_key ''activation'' (order_binding order (cf_provider_order_id f)
        (Money (py_amount_minor order) (upper (strip (py_currency order))))))" by blast+
qed

lemma apply_decision_quiet:
  assumes "apply_decision env now event f order decision st = (r, st')" "pd_kind decision \<noteq> TRANSITION_PAID"
  shows "quiet st st'"
  using assms by (cases "pd_kind decision")
    (auto simp: apply_decision_def set_order_status_def quiet_def update_order_def activations_def cong: map_cong)

lemma find_in_set: "List.find P xs = Some x \<Longrightarrow> x \<in> set xs \<and> P x"
  by (auto simp: find_Some_iff)

lemma settle_webhook_cases:
  assumes "settle_webhook env now event f order order_provider_id minor webhook_id st = (r, st')" "\<not> quiet st st'"
  obtains demo s key outbox_key i where
      "paid_evidence env f order order_provider_id minor" "\<not> list_ex (\<lambda>p. pt_payment_order_id p = py_id order) (st_paid st)"
      "dc_id demo = py_demo_case_id order" "s \<in> {demo_state.PAYMENT_PENDING, demo_state.PAYMENT_REVIEW}"
      "moves st st' demo s VERIFY_PAYMENT ActorPROVIDER PAID"
      "st_paid st' = st_paid st @ [paid_row env event order (cf_provider_payment_id f) key i]"
      "map order_core (st_orders st') = map order_core (st_orders st)" "st_attempts st' = st_attempts st"
      "r = Inr () \<Longrightarrow> \<exists>plan_id. activations st' = activations st
         @ [activation_outbox env now event order demo plan_id (cf_provider_payment_id f) key outbox_key]"
proof -
  obtain d where d: "webhook_decision env now event f order order_provider_id minor
      (list_ex (\<lambda>p. pt_payment_order_id p = py_id order) (st_paid st)) = Inr d"
    using assms by (auto simp: settle_webhook_def s_bind_lift split: sum.splits)
  define st1 where "st1 = update_webhook webhook_id
      (\<lambda>w. w\<lparr>we_status := decision_kind_value (pd_kind d), we_processed_at := Some (utc_at now)\<rparr>) st"
  have st1: "st_demos st1 = st_demos st" "st_transitions st1 = st_transitions st" "st_paid st1 = st_paid st" "st_orders st1 = st_orders st"
    "activations st1 = activations st" "st_attempts st1 = st_attempts st"
    by (simp_all add: st1_def update_webhook_def activations_def)
  have app: "apply_decision env now event f order d st1 = (r, st')" using assms(1) d by (simp add: settle_webhook_def st1_def)
  have nq: "\<not> quiet st1 st'" using assms(2) st1 by (auto simp: quiet_def)
  then have paid: "pd_kind d = TRANSITION_PAID" using apply_decision_quiet [OF app] by blast
  note ev = webhook_decision_paid [OF d paid]
  obtain key outbox_key where ap: "apply_paid_transition env now event order (cf_provider_payment_id f) key outbox_key st1 = (r, st')"
    using app paid nq by (auto simp: apply_decision_def split: option.splits)
  show thesis
    using ap
  proof (rule apply_paid_transition_cases)
    fix demo s
    assume a: "dc_id demo = py_demo_case_id order" "s \<in> {demo_state.PAYMENT_PENDING, demo_state.PAYMENT_REVIEW}"
      "moves st1 st' demo s VERIFY_PAYMENT ActorPROVIDER PAID"
      "st_paid st' = st_paid st1 @ [paid_row env event order (cf_provider_payment_id f) key (st_next st1)]"
      "map order_core (st_orders st') = map order_core (st_orders st1)" "st_attempts st' = st_attempts st1"
      "r = Inr () \<Longrightarrow> \<exists>plan_id. activations st' = activations st1
         @ [activation_outbox env now event order demo plan_id (cf_provider_payment_id f) key outbox_key]"
    have m: "moves st st' demo s VERIFY_PAYMENT ActorPROVIDER PAID" using a(3) st1 by (simp add: moves_def)
    show thesis using that [OF ev(2,1) a(1,2) m, of key "st_next st1" outbox_key] a st1 by simp
  qed (use nq in blast)
qed

lemma process_cashfree_event_cases:
  assumes "process_cashfree_event env now event st = (r, st')"
  obtains "quiet st st'"
  | order demo s f order_provider_id minor key outbox_key i where
      "order \<in> set (st_orders st)" "py_provider_order_id order = Some order_provider_id"
      "paid_evidence env f order order_provider_id minor" "\<not> list_ex (\<lambda>p. pt_payment_order_id p = py_id order) (st_paid st)"
      "dc_id demo = py_demo_case_id order" "s \<in> {demo_state.PAYMENT_PENDING, demo_state.PAYMENT_REVIEW}"
      "moves st st' demo s VERIFY_PAYMENT ActorPROVIDER PAID"
      "st_paid st' = st_paid st @ [paid_row env event order (cf_provider_payment_id f) key i]"
      "map order_core (st_orders st') = map order_core (st_orders st)"
      "st_attempts st' = st_attempts st @ [attempt_row event f order (st_next st) minor]"
      "r = Inr () \<Longrightarrow> \<exists>plan_id. activations st' = activations st
         @ [activation_outbox env now event order demo plan_id (cf_provider_payment_id f) key outbox_key]"
proof (cases "quiet st st'")
  case False
  define st1 where "st1 = st\<lparr>st_webhooks := st_webhooks st @ [webhook_row env event ''cashfree'' ''processing'' (st_next st)], st_next := Suc (st_next st)\<rparr>"
  define st2 where "st2 f order minor = st1\<lparr>st_attempts := st_attempts st @ [attempt_row event f order (st_next st) minor]\<rparr>" for f order minor
  have "quiet st st1" "quiet st (st2 f order minor)" for f order minor
    by (simp_all add: quiet_def activations_def st1_def st2_def)
  then obtain f order order_provider_id minor where
    order: "order \<in> set (st_orders st)" "py_provider_order_id order = Some order_provider_id" and
    settle: "settle_webhook env now event f order order_provider_id minor (st_next st) (st2 f order minor) = (r, st')"
    using assms False
    by (auto simp: process_cashfree_event_def new_provider_event_def s_bind_lift st1_def st2_def dest: find_in_set
        split: if_splits option.splits sum.splits)
  have st2: "st_demos (st2 f order minor) = st_demos st" "st_transitions (st2 f order minor) = st_transitions st"
    "st_paid (st2 f order minor) = st_paid st" "st_orders (st2 f order minor) = st_orders st"
    "activations (st2 f order minor) = activations st"
    "st_attempts (st2 f order minor) = st_attempts st @ [attempt_row event f order (st_next st) minor]"
    by (simp_all add: st1_def st2_def activations_def)
  from settle have "\<not> quiet (st2 f order minor) st'" using False st2 by (auto simp: quiet_def)
  from settle_webhook_cases [OF settle this] show thesis
  proof cases
    case (1 demo s key outbox_key i)
    have m: "moves st st' demo s VERIFY_PAYMENT ActorPROVIDER PAID" using 1(5) st2 by (simp add: moves_def)
    show thesis using that(2) [OF order 1(1) _ 1(3,4) m, of key i outbox_key] 1 st2 by simp
  qed
qed (rule that(1))

text \<open>A step that moves a case and leaves the payments alone.\<close>

definition hands_over :: "store \<Rightarrow> store \<Rightarrow> demo_case \<Rightarrow> demo_state \<Rightarrow> transition_command \<Rightarrow> actor_type \<Rightarrow> demo_state \<Rightarrow> bool" where
  "hands_over st st' d s c a s' \<longleftrightarrow> moves st st' d s c a s' \<and> st_paid st' = st_paid st \<and> activations st' = activations st
     \<and> st_orders st' = st_orders st \<and> st_attempts st' = st_attempts st"

lemma validate_envelope_type: "validate_envelope e = Inr e' \<Longrightarrow> ae_event_type e' = ae_event_type e"
  by (auto simp: validate_envelope_def restricted_payload_is_explicit_def res_simps split: if_splits)

lemma queue_onboarding_cases:
  assumes "queue_onboarding env lr dump now row payload activation_ref st = (r, st')"
  shows "quiet st st'"
  using assms unfolding queue_onboarding_def Let_def
  by (auto simp: quiet_def activations_def add_outbox_def onboarding_outbox_def outbox_event_def s_bind_lift onboarding_event_def
      dest: validate_envelope_type split: if_splits option.splits sum.splits)

lemma record_onboarding_acceptance_cases:
  assumes "record_onboarding_acceptance lr now row acknowledgement_ref st = (r, st')"
  shows "quiet st st' \<or> (\<exists>demo. hands_over st st' demo PAID HANDOFF_ONBOARDING ActorSYSTEM ONBOARDING_HANDOFF)"
  using assms unfolding record_onboarding_acceptance_def
  by (auto simp: quiet_def activations_def hands_over_def moves_def update_handoff_def update_demo_def add_transition_def
      onboarding_transition_def simp del: demo_state_value.simps transition_command_value.simps actor_type_value.simps
      dest!: find_demo_Some split: if_splits option.splits)

lemma record_lifecycle_delivery_cases:
  assumes "record_lifecycle_delivery env lr dump now row payload reference details st = (r, st')"
  shows "quiet st st' \<or> (\<exists>demo. hands_over st st' demo PAID HANDOFF_ONBOARDING ActorSYSTEM ONBOARDING_HANDOFF)"
  using assms queue_onboarding_cases [of env lr dump now row payload reference st r st']
    record_onboarding_acceptance_cases [of lr now row reference st r st']
  by (auto simp: record_lifecycle_delivery_def split: if_splits)

lemma load_onboarding_context_cases:
  assumes "load_onboarding_context env tenant demo_ref user_ref st = (r, st')"
  shows "st' = st" "\<And>handoff order demo. r = Inr (handoff, order, demo) \<Longrightarrow> demo \<in> set (st_demos st)"
  using assms unfolding load_onboarding_context_def
  by (auto simp: s_bind_lift dest!: find_demo_Some split: sum.splits list.splits option.splits)

lemma s_bind_context:
  "s_bind (load_onboarding_context env tenant demo_ref user_ref) f st =
     (case fst (load_onboarding_context env tenant demo_ref user_ref st) of Inl e \<Rightarrow> (Inl e, st) | Inr x \<Rightarrow> f x st)"
  using load_onboarding_context_cases(1) [of env tenant demo_ref user_ref st]
  by (auto simp: s_bind_def split: prod.splits sum.splits)

lemma context_demo: "fst (load_onboarding_context env tenant demo_ref user_ref st) = Inr (handoff, order, demo) \<Longrightarrow> demo \<in> set (st_demos st)"
  using load_onboarding_context_cases(2) [of env tenant demo_ref user_ref st] by (metis prod.collapse)

definition handed_over :: "store \<Rightarrow> store \<Rightarrow> demo_state \<Rightarrow> transition_command \<Rightarrow> actor_type \<Rightarrow> demo_state \<Rightarrow> bool" where
  "handed_over st st' s c a s' \<longleftrightarrow> (\<exists>demo. hands_over st st' demo s c a s')"

lemma hands_over_intro:
  assumes "d \<in> set (st_demos st)" "dc_state d = demo_state_value s"
    and "st_demos st' = update_by dc_id (dc_id d) (set_state s') (st_demos st)" "st_transitions st' = st_transitions st @ [t]"
    and "tr_demo_case_id t = dc_id d" "tr_state_before t = dc_state d" "tr_state_after t = demo_state_value s'"
      "tr_command t = transition_command_value c" "tr_actor_type t = actor_type_value a"
    and "st_paid st' = st_paid st" "activations st' = activations st" "st_orders st' = st_orders st" "st_attempts st' = st_attempts st"
  shows "handed_over st st' s c a s'"
  unfolding handed_over_def hands_over_def moves_def using assms by (intro exI [of _ d]) simp

lemma accept_onboarding_cases:
  assumes "accept_onboarding env event st = (r, st')"
  shows "quiet st st' \<or> (handed_over st st' PAID HANDOFF_ONBOARDING (ea_type (ae_actor event)) ONBOARDING_HANDOFF)"
proof -
  have q: "quiet st (update_handoff i f st)" for i f by (simp add: quiet_def update_handoff_def activations_def)
  have ho: "handed_over st (add_transition (onboarding_transition d (actor_type_value a) ar t c k p)
       (update_demo (dc_id d) (set_state ONBOARDING_HANDOFF) (update_handoff i f st))) PAID HANDOFF_ONBOARDING a ONBOARDING_HANDOFF"
    if "d \<in> set (st_demos st)" "dc_state d = demo_state_value PAID" for d a ar t c k p i f
    using that by (intro hands_over_intro [where d = d and t = "onboarding_transition d (actor_type_value a) ar t c k p"])
      (simp_all add: update_handoff_def update_demo_def add_transition_def onboarding_transition_def activations_def)
  show ?thesis using assms
    by (auto simp: accept_onboarding_def s_bind_lift s_bind_context q ho simp del: demo_state_value.simps
        dest!: context_demo split: if_splits option.splits sum.splits)
qed

lemma complete_onboarding_cases:
  assumes "complete_onboarding env now event st = (r, st')"
  shows "quiet st st' \<or> (handed_over st st' ONBOARDING_HANDOFF COMPLETE_ONBOARDING (ea_type (ae_actor event)) CONVERTED)"
proof -
  have ho: "handed_over st (add_outbox (welcome_outbox env now event d tpl oref key) (add_transition (completed_transition event d p)
       ((update_handoff i f (update_demo (dc_id d) (set_state CONVERTED) st))\<lparr>st_messages := ms\<rparr>)))
       ONBOARDING_HANDOFF COMPLETE_ONBOARDING (ea_type (ae_actor event)) CONVERTED"
    if "d \<in> set (st_demos st)" "dc_state d = demo_state_value ONBOARDING_HANDOFF" for d tpl oref key p i f ms
    using that by (intro hands_over_intro [where d = d and t = "completed_transition event d p"])
      (simp_all add: update_handoff_def update_demo_def add_transition_def add_outbox_def completed_transition_def activations_def
        welcome_outbox_def outbox_event_def Let_def)
  show ?thesis using assms
    by (auto simp: complete_onboarding_def s_bind_lift s_bind_context Let_def ho simp del: demo_state_value.simps
        dest!: context_demo split: if_splits option.splits sum.splits)
qed

end
