(* ===== verification/Saga.thy ===== *)
theory Saga
  imports ConversationProofs SagaProofs
begin

text \<open>
  Every history of the service on its tables: payment requests, deliveries recorded by the publisher
  and events handled from the inbox, in any order, under any configuration.  A payment request commits
  or leaves the tables alone; a recorder's changes are committed even when it raised, an event's only
  when its handler returned; a commit that violates a constraint does not happen.
\<close>

section \<open>Histories\<close>

datatype saga_label = Requested payment_order_command | Recorded outbox_row | Handled agent_event

inductive saga_step :: "store \<Rightarrow> saga_label \<Rightarrow> store \<Rightarrow> bool" where
  requested: "request_order penv svc command correlation_id now st = (r, st') \<Longrightarrow> saga_step st (Requested command) st'"
| recorded: "composite_record [record_payment_delivery penv rc now, record_lifecycle_delivery env lr dump now]
      row payload reference details st = (r, st')
    \<Longrightarrow> constraints_ok st' \<Longrightarrow> saga_step st (Recorded row) st'"
| handled: "handle_event env now event st = (Inr (), st') \<Longrightarrow> constraints_ok st' \<Longrightarrow> saga_step st (Handled event) st'"

inductive saga :: "store \<Rightarrow> saga_label list \<Rightarrow> store \<Rightarrow> bool" where
  start: "saga st [] st"
| step: "saga st ls st1 \<Longrightarrow> saga_step st1 l st2 \<Longrightarrow> saga st (ls @ [l]) st2"

section \<open>The ledger\<close>

text \<open>
  What a paid transition stands for: an order it settles at its amount and currency, an attempt of that
  amount with the same provider payment, the log entry of the order's case, and the activation of the
  subscription sent in the order's name.
\<close>

definition settles_order :: "payment_order \<Rightarrow> payment_attempt \<Rightarrow> paid_transition \<Rightarrow> state_transition \<Rightarrow> outbox_row \<Rightarrow> bool" where
  "settles_order q a p t r \<longleftrightarrow>
     pt_payment_order_id p = py_id q \<and> pt_verified_amount_minor p = py_amount_minor q \<and> pt_verified_currency p = py_currency q
     \<and> tr_demo_case_id t = py_demo_case_id q \<and> ox_tenant_id r = py_tenant_id q \<and> ox_correlation_id r = py_correlation_id q
     \<and> pa_payment_order_id a = py_id q \<and> pa_provider_payment_id a = pt_provider_payment_id p \<and> pa_amount_minor a = py_amount_minor q
     \<and> upper (strip (pa_currency a)) = upper (strip (py_currency q))"

definition paid_entry :: "store \<Rightarrow> paid_transition \<Rightarrow> state_transition \<Rightarrow> outbox_row \<Rightarrow> bool" where
  "paid_entry st p t r \<longleftrightarrow> (\<exists>q \<in> set (st_orders st). \<exists>a \<in> set (st_attempts st). settles_order q a p t r)"

text \<open>Paid transitions, verification entries and activations correspond one to one.\<close>

definition ledger_ok :: "store \<Rightarrow> bool" where
  "ledger_ok st \<longleftrightarrow> length (verified_entries st) = length (st_paid st) \<and> length (activations st) = length (st_paid st)
     \<and> (\<forall>k < length (st_paid st). paid_entry st (st_paid st ! k) (verified_entries st ! k) (activations st ! k))"

text \<open>Orders keep what was fixed when they were created, and attempts stay.\<close>

definition grows :: "store \<Rightarrow> store \<Rightarrow> bool" where
  "grows st st' \<longleftrightarrow> order_core ` set (st_orders st) \<subseteq> order_core ` set (st_orders st') \<and> set (st_attempts st) \<subseteq> set (st_attempts st')"

definition ledger_step :: "store \<Rightarrow> store \<Rightarrow> bool" where
  "ledger_step st st' \<longleftrightarrow> grows st st' \<and>
     (st_paid st' = st_paid st \<and> verified_entries st' = verified_entries st \<and> activations st' = activations st
      \<or> (\<exists>p t r. st_paid st' = st_paid st @ [p] \<and> verified_entries st' = verified_entries st @ [t]
           \<and> activations st' = activations st @ [r] \<and> paid_entry st' p t r))"

lemma order_core_eqD:
  assumes "order_core q = order_core p"
  shows "py_id q = py_id p" "py_tenant_id q = py_tenant_id p" "py_demo_case_id q = py_demo_case_id p" "py_correlation_id q = py_correlation_id p"
    "py_amount_minor q = py_amount_minor p" "py_currency q = py_currency p"
  using assms by (simp_all add: order_core_def)

lemma grows_order: "grows st st' \<Longrightarrow> q \<in> set (st_orders st) \<Longrightarrow> \<exists>q' \<in> set (st_orders st'). order_core q' = order_core q"
proof -
  assume "grows st st'" "q \<in> set (st_orders st)"
  then have "order_core q \<in> order_core ` set (st_orders st')" unfolding grows_def by blast
  then show ?thesis by (rule imageE) (rule bexI, rule sym)
qed

lemma paid_entry_mono:
  assumes "grows st st'" "paid_entry st p t r"
  shows "paid_entry st' p t r"
proof -
  obtain q a where q: "q \<in> set (st_orders st)" "a \<in> set (st_attempts st)" "settles_order q a p t r"
    using assms(2) unfolding paid_entry_def by blast
  obtain q' where q': "q' \<in> set (st_orders st')" "order_core q' = order_core q" using grows_order [OF assms(1) q(1)] by blast
  have "settles_order q' a p t r" using q(3) order_core_eqD [OF q'(2)] by (simp add: settles_order_def)
  moreover have "a \<in> set (st_attempts st')" using assms(1) q(2) by (auto simp: grows_def)
  ultimately show ?thesis unfolding paid_entry_def using q'(1) by blast
qed

lemma ledger_step_ok: "ledger_step st st' \<Longrightarrow> ledger_ok st \<Longrightarrow> ledger_ok st'"
  unfolding ledger_step_def ledger_ok_def using paid_entry_mono [of st st'] by (auto simp: nth_append less_Suc_eq)

lemma verification_iff: "tr_command t = transition_command_value c \<Longrightarrow> is_verification t \<longleftrightarrow> c = VERIFY_PAYMENT"
  by (cases c) (simp_all add: is_verification_def)

lemma moves_verified:
  assumes "moves st st' d s c a s'"
  obtains t where "verified_entries st' = verified_entries st @ (if c = VERIFY_PAYMENT then [t] else [])" "tr_demo_case_id t = dc_id d"
proof -
  from assms obtain t where t: "st_transitions st' = st_transitions st @ [t]" "tr_demo_case_id t = dc_id d" "tr_command t = transition_command_value c"
    by (auto simp: moves_def)
  show thesis using that [of t] t verification_iff [OF t(3)] by (simp add: verified_entries_def)
qed

lemma moves_logged: "moves st st' d s c a s' \<Longrightarrow> logged st st'"
  by (auto simp: moves_def intro: logged.move)

lemma quiet_steps: "quiet st st' \<Longrightarrow> logged st st' \<and> ledger_step st st'"
  by (auto simp: quiet_def ledger_step_def grows_def verified_entries_def intro: logged.same) (metis image_set image_eqI)

lemma hands_over_steps: "handed_over st st' s c a s' \<Longrightarrow> c \<noteq> VERIFY_PAYMENT \<Longrightarrow> logged st st' \<and> ledger_step st st'"
proof -
  assume "handed_over st st' s c a s'" "c \<noteq> VERIFY_PAYMENT"
  then obtain d where d: "moves st st' d s c a s'" "st_paid st' = st_paid st" "activations st' = activations st" "st_orders st' = st_orders st"
    "st_attempts st' = st_attempts st" by (auto simp: handed_over_def hands_over_def)
  then have "verified_entries st' = verified_entries st" using \<open>c \<noteq> VERIFY_PAYMENT\<close> by (metis append_Nil2 moves_verified)
  then show ?thesis using d moves_logged [OF d(1)] by (simp add: ledger_step_def grows_def)
qed

lemma converses_steps: "converses st st' \<Longrightarrow> logged st st' \<and> ledger_step st st'"
  by (simp add: converses_def off_ledger_def ledger_step_def grows_def)

text \<open>A recorded quote moves its case and opens an order.\<close>

lemma create_order_moves:
  assumes "demo \<in> set (st_demos st)" "dc_state demo = demo_state_value CONVERSION_FOLLOW_UP"
  shows "moves st (create_order env rc row request q demo expires now st) demo CONVERSION_FOLLOW_UP REQUEST_PAYMENT ActorUSER demo_state.PAYMENT_PENDING"
  using assms by (simp add: moves_def create_order_effects payment_requested_transition_def)

lemma create_order_steps:
  assumes "demo \<in> set (st_demos st)" "dc_state demo = demo_state_value CONVERSION_FOLLOW_UP"
  shows "logged st (create_order env rc row request q demo expires now st) \<and> ledger_step st (create_order env rc row request q demo expires now st)"
proof
  note m = create_order_moves [OF assms, of env rc row request q expires now]
  show "logged st (create_order env rc row request q demo expires now st)" by (rule moves_logged [OF m])
  from m obtain t where "verified_entries (create_order env rc row request q demo expires now st) = verified_entries st"
    by (rule moves_verified) simp
  then show "ledger_step st (create_order env rc row request q demo expires now st)"
    by (auto simp: ledger_step_def grows_def create_order_effects)
qed

text \<open>A settled webhook adds one entry to the ledger.\<close>

lemma process_cashfree_event_steps:
  assumes "process_cashfree_event env now event st = (Inr (), st')"
  shows "logged st st' \<and> ledger_step st st'"
  using assms
proof (cases rule: process_cashfree_event_cases)
  case 1
  then show ?thesis by (rule quiet_steps)
next
  case (2 order demo s f order_provider_id minor key outbox_key i)
  from 2(11) obtain plan_id where act: "activations st' = activations st
      @ [activation_outbox env now event order demo plan_id (cf_provider_payment_id f) key outbox_key]" by blast
  from 2(7) obtain t where t: "verified_entries st' = verified_entries st @ [t]" "tr_demo_case_id t = dc_id demo"
    by (rule moves_verified) simp
  have g: "grows st st'" using 2(9,10) unfolding grows_def by (metis Un_upper1 image_set set_append subset_refl)
  obtain q where q: "q \<in> set (st_orders st')" "order_core q = order_core order" using grows_order [OF g 2(1)] by blast
  have "paid_entry st' (paid_row env event order (cf_provider_payment_id f) key i) t
      (activation_outbox env now event order demo plan_id (cf_provider_payment_id f) key outbox_key)"
    unfolding paid_entry_def
  proof (intro bexI [of _ q] bexI [of _ "attempt_row event f order (st_next st) minor"])
  qed (use q 2(3,5,10) t(2) order_core_eqD [OF q(2)] in
      \<open>simp_all add: paid_row_def activation_outbox_def outbox_event_def attempt_row_def paid_evidence_def settles_order_def Let_def\<close>)
  then show ?thesis using 2(8) act t(1) g moves_logged [OF 2(7)] unfolding ledger_step_def by blast
qed

lemma record_step:
  assumes "composite_record [record_payment_delivery penv rc now, record_lifecycle_delivery env lr dump now] row payload reference details st = (r, st')"
  shows "(\<exists>r'. record_payment_delivery penv rc now row payload reference details st = (r', st')
        \<and> (r = Inr () \<longrightarrow> ox_event_type row \<notin> {''demo.payment.verified.v1'', ''onboarding.paid-user.requested.v1''}))
    \<or> record_lifecycle_delivery env lr dump now row payload reference details st = (r, st')"
  using assms by (auto simp: s_bind_def record_payment_delivery_def record_lifecycle_delivery_def split: prod.splits sum.splits if_splits)

lemma recorded_steps:
  assumes "composite_record [record_payment_delivery penv rc now, record_lifecycle_delivery env lr dump now] row payload reference details st = (r, st')"
  shows "logged st st' \<and> ledger_step st st'"
  using record_step [OF assms]
proof
  assume "\<exists>r'. record_payment_delivery penv rc now row payload reference details st = (r', st')
        \<and> (r = Inr () \<longrightarrow> ox_event_type row \<notin> {''demo.payment.verified.v1'', ''onboarding.paid-user.requested.v1''})"
  then obtain r' where "record_payment_delivery penv rc now row payload reference details st = (r', st')" by blast
  then show ?thesis by (cases rule: record_payment_delivery_cases) (simp_all add: quiet_steps create_order_steps)
next
  assume "record_lifecycle_delivery env lr dump now row payload reference details st = (r, st')"
  from record_lifecycle_delivery_cases [OF this] show ?thesis
    using quiet_steps hands_over_steps unfolding handed_over_def [symmetric] by blast
qed

lemma handled_steps:
  assumes "handle_event env now event st = (Inr (), st')"
  shows "logged st st' \<and> ledger_step st st'"
proof -
  have "quiet st (snd (record_provider_event env event st))"
    by (simp add: record_provider_event_def quiet_def activations_def)
  then show ?thesis using assms start_demo_chat [of env now event st st'] converses_steps [of st st'] quiet_steps [of st st']
      process_cashfree_event_steps [of env now event st st'] accept_onboarding_cases [of env event st "Inr ()" st']
      complete_onboarding_cases [of env now event st "Inr ()" st'] hands_over_steps [of st st']
    by (auto simp: handle_event_def split: if_splits)
qed

lemma saga_step_steps:
  assumes "saga_step st l st'"
  shows "logged st st' \<and> ledger_step st st'"
  using assms
proof (cases rule: saga_step.cases)
qed (blast dest: request_order_cases quiet_steps recorded_steps handled_steps)+

lemma saga_step_constraints: "saga_step st l st' \<Longrightarrow> constraints_ok st \<Longrightarrow> constraints_ok st'"
  by (erule saga_step.cases) (auto simp: request_order_def split: if_splits prod.splits sum.splits option.splits)

text \<open>The invariant rule for histories.\<close>

lemma saga_invariant:
  assumes "saga st0 ls st" "I st0" "\<And>st l st'. I st \<Longrightarrow> saga_step st l st' \<Longrightarrow> I st'"
  shows "I st"
  using assms by (induction rule: saga.induct) auto

end
