(* ===== verification/SagaProperties.thy ===== *)
theory SagaProperties
  imports Saga
begin

text \<open>
  What holds along every history of the service: exactly-once payments, chained case logs, moves by the
  transition table, idempotent payment requests.  The theorems are evaluated at a small instance of the
  tables and of the configuration: one learner, one case, one order.
\<close>

definition sample_saga_policy :: payment_verification_policy where
  "sample_saga_policy = \<lparr>pp_version = ''cashfree-payment-v1'', pp_successful_terminal_statuses = {''SUCCESS''},
     pp_failed_terminal_statuses = {''FAILED'', ''USER_DROPPED''}, pp_expired_terminal_statuses = {''EXPIRED''},
     pp_review_statuses = {''FLAGGED'', ''DISPUTED'', ''REFUNDED'', ''PARTIALLY_PAID''}\<rparr>"

text \<open>An onboarding payload is read field by field; a WhatsApp payload carries its text.\<close>

definition text_of :: "json_object \<Rightarrow> string \<Rightarrow> string" where
  "text_of obj key = (case jget obj key of JString s \<Rightarrow> s | _ \<Rightarrow> [])"

definition sample_accepted :: "json_object \<Rightarrow> onboarding_accepted_payload res" where
  "sample_accepted obj = Inr \<lparr>oa_demo_ref = text_of obj ''demo_ref'', oa_user_ref = text_of obj ''user_ref'',
     oa_onboarding_ref = text_of obj ''onboarding_ref'', oa_inbox_ref = text_of obj ''inbox_ref'', oa_capability_version = ''1''\<rparr>"

definition sample_completed :: "json_object \<Rightarrow> onboarding_completed_payload res" where
  "sample_completed obj = Inr \<lparr>oc_demo_ref = text_of obj ''demo_ref'', oc_user_ref = text_of obj ''user_ref'',
     oc_onboarding_ref = text_of obj ''onboarding_ref'', oc_completion_status = text_of obj ''completion_status''\<rparr>"

definition sample_handoff :: "json_object \<Rightarrow> demo_handoff_payload res" where
  "sample_handoff obj = Inr \<lparr>hp_provider_message_ref = ''m'', hp_intent = ''demo_request'', hp_lead_ref = Some ''lead-1'', hp_user_ref = Some ''user-1'',
     hp_message = \<lparr>hm_type = ''text'', hm_text = Some (text_of obj ''text'')\<rparr>,
     hp_last_user_message_at = Datetime 0 (Some 0), hp_expires_at = Datetime 1000 (Some 0), hp_consent_refs = []\<rparr>"

definition sample_env :: saga_env where
  "sample_env = \<lparr>sg_default_timezone = ''Asia/Kolkata'', sg_handoff = sample_handoff, sg_website = Some (\<lambda>_. Inr []), sg_shortlist_limit = 3,
     sg_ranking_policy_version = ''website-filtered-shortlist-v1'', sg_encrypt = (\<lambda>p a. p), sg_uuid5 = (\<lambda>n s. s),
     sg_uuid4 = (\<lambda>n. ''uuid-'' @ show_nat n), sg_uuid = Inr, sg_repr = (\<lambda>_. []), sg_accepted = sample_accepted,
     sg_completed = sample_completed, sg_key_reference = ''key'', sg_cashfree_environment = ''sandbox'',
     sg_onboarding_policy_reference = Some ''onboarding-v1'', sg_message_policy_reference = Some ''message-v1'',
     sg_welcome_template_reference = Some ''welcome'', sg_welcome_message_version = Some ''1'', sg_payment_policy = sample_saga_policy\<rparr>"

definition sample_event :: "string \<Rightarrow> string \<Rightarrow> json_object \<Rightarrow> agent_event" where
  "sample_event event_id event_type payload = \<lparr>ae_event_id = event_id, ae_event_type = event_type, ae_schema_version = ''1.0'',
     ae_occurred_at = Datetime 100 (Some 0), ae_source_agent = ''lead-intake-agent'', ae_target_agent = ''demo-command-center-agent'',
     ae_tenant_id = ''nxtutors'', ae_region_id = None, ae_correlation_id = ''corr-1'', ae_causation_id = None, ae_conversation_id = ''conv-1'',
     ae_actor = \<lparr>ea_type = ActorSYSTEM, ea_id = ''onboarding-agent''\<rparr>,
     ae_subject = \<lparr>es_lead_id = None, es_user_id = None, es_tutor_id = None, es_demo_id = None\<rparr>,
     ae_idempotency_key = ''key:'' @ event_id, ae_traceparent = None, ae_pii_classification = PII_RESTRICTED, ae_payload = payload\<rparr>"

definition sample_case :: "demo_state \<Rightarrow> demo_case" where
  "sample_case s = \<lparr>dc_id = ''demo-1'', dc_tenant_id = ''nxtutors'', dc_region_id = None, dc_external_lead_id = Some ''lead-1'',
     dc_external_user_id = Some ''user-1'', dc_conversation_id = ''conv-1'', dc_state = demo_state_value s,
     dc_participant_timezone = ''Asia/Kolkata'', dc_flow_version = ''demo-flow-v1'', dc_version = 1\<rparr>"

definition sample_payment_order :: "string \<Rightarrow> payment_order" where
  "sample_payment_order status = \<lparr>py_id = ''order-1'', py_tenant_id = ''nxtutors'', py_demo_case_id = ''demo-1'', py_domain_order_id = ''dcc-1'',
     py_provider = ''cashfree'', py_provider_order_id = Some ''cf-1'', py_user_ref = ''user-1'', py_customer_ref = ''user-1'', py_plan_ref = ''7'',
     py_plan_version = ''v1'', py_offer_id = None, py_amount_minor = 49900, py_currency = ''INR'', py_purpose = ''demo_conversion'',
     py_provider_environment = ''sandbox'', py_status = status, py_creation_idempotency_key = ''request-1'', py_correlation_id = ''corr-1'',
     py_expires_at = Datetime 900 (Some 0), py_reconcile_after = None, py_paid_at = None, py_version = 1\<rparr>"

definition sample_webhook :: "string \<Rightarrow> string \<Rightarrow> json_object" where
  "sample_webhook payment_id status =
     [(''data'', JObject
        [(''payment'', JObject [(''cf_payment_id'', JString payment_id), (''payment_status'', JString status),
            (''payment_currency'', JString ''INR''), (''payment_amount'', JInt 499)]),
         (''order'', JObject [(''order_id'', JString ''dcc-1''), (''cf_order_id'', JString ''cf-1''),
            (''order_tags'', JObject [(''purpose'', JString ''demo_conversion''), (''environment'', JString ''sandbox'')])]),
         (''customer_details'', JObject [(''customer_id'', JString ''user-1'')])])]"

definition empty_store :: store where
  "empty_store = \<lparr>st_demos = [], st_transitions = [], st_orders = [], st_checkouts = [], st_requests = [], st_webhooks = [], st_attempts = [],
     st_paid = [], st_handoffs = [], st_messages = [], st_consents = [], st_requirements = [], st_conversations = [], st_mappings = [],
     st_candidates = [], st_outbox = [], st_next = 1\<rparr>"

text \<open>A case that waits for its payment.\<close>

definition pending_store :: store where
  "pending_store = empty_store\<lparr>st_demos := [sample_case demo_state.PAYMENT_PENDING],
     st_transitions := [started_transition (sample_event ''e0'' ''whatsapp.handoff.demo.v1'' []) ''demo-1'',
       (started_transition (sample_event ''e1'' ''whatsapp.handoff.demo.v1'' []) ''demo-1'')\<lparr>tr_state_before := ''QUALIFYING'', tr_state_after := ''PAYMENT_PENDING''\<rparr>],
     st_orders := [sample_payment_order ''pending'']\<rparr>"

definition paid_event :: agent_event where
  "paid_event = sample_event ''event-1'' ''cashfree.payment.webhook.received.v1'' (sample_webhook ''pay-1'' ''SUCCESS'')"

lemma sample_amount: "money_minor repr (JInt 499) = Inr 49900"
proof -
  have p: "parse_decimal (show_int 499) = Some 499" by code_simp
  have "dec_mul 499 100 = 49900"
    unfolding dec_mul_def using dec_rnd_exactI [of "49900" 0 49900 28] by simp
  moreover have "\<lfloor>99801 / 2 :: rat\<rfloor> = 49900" by (rule floor_unique) simp_all
  ultimately show ?thesis using p by (simp add: money_minor_def py_str_def Let_def)
qed

definition sample_fields :: "string \<Rightarrow> string \<Rightarrow> cashfree_fields" where
  "sample_fields payment_id status = \<lparr>cf_domain_order_id = ''dcc-1'', cf_provider_order_id = ''cf-1'', cf_provider_payment_id = payment_id,
     cf_status = status, cf_currency = ''INR'', cf_customer_ref = ''user-1'', cf_purpose = ''demo_conversion'',
     cf_environment = ''sandbox'', cf_amount = JInt 499\<rparr>"

lemma sample_fields_read:
  "cashfree_fields_of sample_env (sample_webhook ''pay-1'' ''SUCCESS'') = Inr (sample_fields ''pay-1'' ''SUCCESS'')"
  "cashfree_fields_of sample_env (sample_webhook ''pay-2'' ''FAILED'') = Inr (sample_fields ''pay-2'' ''FAILED'')"
proof -
  have s: "strip ''dcc-1'' = ''dcc-1''" "strip ''cf-1'' = ''cf-1''" "strip ''INR'' = ''INR''" "upper ''INR'' = ''INR''"
    "strip ''pay-1'' = ''pay-1''" "strip ''pay-2'' = ''pay-2''" "strip ''SUCCESS'' = ''SUCCESS''" "strip ''FAILED'' = ''FAILED''"
    "upper ''SUCCESS'' = ''SUCCESS''" "upper ''FAILED'' = ''FAILED''" by code_simp+
  show "cashfree_fields_of sample_env (sample_webhook ''pay-1'' ''SUCCESS'') = Inr (sample_fields ''pay-1'' ''SUCCESS'')"
    "cashfree_fields_of sample_env (sample_webhook ''pay-2'' ''FAILED'') = Inr (sample_fields ''pay-2'' ''FAILED'')"
    by (simp_all add: cashfree_fields_of_def sample_webhook_def jget_def as_object_def required_string_def required_reference_def str_or_def
        py_str_def s sample_env_def sample_fields_def Let_def)
qed

lemma sample_policy_ok: "payment_policy_post_init sample_saga_policy = Inr ()"
  by (simp add: payment_policy_post_init_def sample_saga_policy_def blank_def strip_def lstrip_def is_space_def)

lemma sample_policy_simps:
  "pp_version sample_saga_policy = ''cashfree-payment-v1''" "''SUCCESS'' \<in> pp_successful_terminal_statuses sample_saga_policy"
  "''FAILED'' \<notin> pp_successful_terminal_statuses sample_saga_policy" "''FAILED'' \<in> pp_failed_terminal_statuses sample_saga_policy"
  by (simp_all add: sample_saga_policy_def)

lemma pending_constraints: "constraints_ok pending_store"
  by (simp add: constraints_ok_def pending_store_def empty_store_def sample_case_def sample_payment_order_def started_transition_def sample_event_def
      unique_some_def outbox_unique_def List.map_filter_def)

lemma money_samples: "mk_money 49900 ''INR'' = Inr (Money 49900 ''INR'')"
  by code_simp

definition sample_key :: "string \<Rightarrow> string" where
  "sample_key operation = payment_operation_key operation (order_binding (sample_payment_order ''pending'') ''cf-1'' (Money 49900 ''INR''))"

lemma paid_decision:
  "webhook_decision sample_env 200 paid_event (sample_fields ''pay-1'' ''SUCCESS'')
     (sample_payment_order ''pending'') ''cf-1'' 49900 False = Inr \<lparr>pd_kind = TRANSITION_PAID, pd_reason_codes = [''verified_terminal_success''],
       pd_should_transition_paid = True, pd_activation_key = Some (sample_key ''activation''), pd_paid_outbox_key = Some (sample_key ''paid-outbox''),
       pd_policy_version = ''cashfree-payment-v1''\<rparr>"
  by (simp add: webhook_decision_def sample_payment_order_def money_samples sample_fields_def sample_env_def sample_policy_ok verify_payment_def
      paid_event_def sample_event_def order_binding_def webhook_evidence_def mismatches_empty matches_def authoritative_def sample_key_def
      sample_policy_simps utc_at_def Let_def)

definition paid_store :: store where
  "paid_store = pending_store\<lparr>st_demos := [(sample_case PAID)\<lparr>dc_version := 2\<rparr>],
     st_transitions := st_transitions pending_store @ [payment_verified_transition sample_env paid_event (sample_case demo_state.PAYMENT_PENDING)],
     st_orders := [(sample_payment_order ''paid'')\<lparr>py_paid_at := Some (Datetime 100 (Some 0)), py_version := 2\<rparr>],
     st_webhooks := [(webhook_row sample_env paid_event ''cashfree'' ''transition_paid'' 1)\<lparr>we_processed_at := Some (utc_at 200)\<rparr>],
     st_attempts := [attempt_row paid_event (sample_fields ''pay-1'' ''SUCCESS'') (sample_payment_order ''pending'') 1 49900],
     st_paid := [paid_row sample_env paid_event (sample_payment_order ''pending'') ''pay-1'' (sample_key ''activation'') 2],
     st_outbox := [activation_outbox sample_env 200 paid_event (sample_payment_order ''pending'') (sample_case demo_state.PAYMENT_PENDING) 7 ''pay-1''
        (sample_key ''activation'') (sample_key ''paid-outbox'')], st_next := 3\<rparr>"

lemmas sample_rows = empty_store_def sample_case_def sample_payment_order_def started_transition_def sample_event_def

lemma paid_constraints: "constraints_ok paid_store"
  by (simp add: constraints_ok_def paid_store_def pending_store_def sample_rows payment_verified_transition_def paid_event_def
      unique_some_def outbox_unique_def List.map_filter_def)

lemma paid_run: "process_cashfree_event sample_env 200 paid_event pending_store = (Inr (), paid_store)"
proof -
  have pl: "py_int ''7'' = Some 7" by code_simp
  have payload: "ae_payload paid_event = sample_webhook ''pay-1'' ''SUCCESS''" by (simp add: paid_event_def sample_event_def)
  have o: "st_orders pending_store = [sample_payment_order ''pending'']" "st_demos pending_store = [sample_case demo_state.PAYMENT_PENDING]"
    "st_paid pending_store = []" "st_attempts pending_store = []" "st_webhooks pending_store = []" "st_next pending_store = 1" "st_outbox pending_store = []"
    by (simp_all add: pending_store_def empty_store_def)
  have c1: "constraints_ok (pending_store\<lparr>st_webhooks := [w], st_next := n\<rparr>)" for w n
    by (simp add: constraints_ok_def pending_store_def sample_rows unique_some_def outbox_unique_def List.map_filter_def)
  have c2: "constraints_ok (pending_store\<lparr>st_webhooks := [w], st_next := n, st_attempts := [a]\<rparr>)" for w n a
    by (simp add: constraints_ok_def pending_store_def sample_rows unique_some_def outbox_unique_def List.map_filter_def)
  have sel: "py_domain_order_id (sample_payment_order s) = ''dcc-1''" "py_provider_order_id (sample_payment_order s) = Some ''cf-1''"
    "py_id (sample_payment_order s) = ''order-1''" "py_demo_case_id (sample_payment_order s) = ''demo-1''" "dc_id (sample_case d) = ''demo-1''"
    "dc_state (sample_case d) = demo_state_value d" "py_plan_ref (sample_payment_order s) = ''7''"
    "cf_domain_order_id (sample_fields i s) = ''dcc-1''" "cf_amount (sample_fields i s) = JInt 499" "cf_provider_payment_id (sample_fields i s) = i" for s d i
    by (simp_all add: sample_payment_order_def sample_case_def sample_fields_def)
  have rows: "update_by we_id (Suc 0) (\<lambda>w. w\<lparr>we_status := ''transition_paid'', we_processed_at := Some (utc_at 200)\<rparr>)
      [webhook_row sample_env paid_event ''cashfree'' ''processing'' (Suc 0)]
        = [(webhook_row sample_env paid_event ''cashfree'' ''transition_paid'' 1)\<lparr>we_processed_at := Some (utc_at 200)\<rparr>]"
    "update_by dc_id ''demo-1'' (set_state PAID) [sample_case demo_state.PAYMENT_PENDING] = [(sample_case PAID)\<lparr>dc_version := 2\<rparr>]"
    "update_by py_id ''order-1'' (\<lambda>p. p\<lparr>py_status := ''paid'', py_paid_at := Some (ae_occurred_at paid_event), py_version := py_version p + 1\<rparr>)
        [sample_payment_order ''pending''] = [(sample_payment_order ''paid'')\<lparr>py_paid_at := Some (Datetime 100 (Some 0)), py_version := 2\<rparr>]"
    by (simp_all add: webhook_row_def sample_case_def sample_payment_order_def set_state_def paid_event_def sample_event_def update_by_def Let_def)
  show ?thesis
    by (simp add: process_cashfree_event_def new_provider_event_def payload sample_fields_read o c1 c2 sel sample_amount paid_decision
        settle_webhook_def apply_decision_def apply_paid_transition_def find_demo_def update_webhook_def update_order_def update_demo_def add_transition_def
        add_outbox_def pl rows Let_def)
      (simp add: paid_store_def pending_store_def empty_store_def eval_nat_numeral)
qed

lemma paid_step: "saga_step pending_store (Handled paid_event) paid_store"
proof (rule saga_step.handled)
  show "handle_event sample_env 200 paid_event pending_store = (Inr (), paid_store)"
    using paid_run by (simp add: handle_event_def paid_event_def sample_event_def)
qed (rule paid_constraints)

lemma paid_history: "saga pending_store [Handled paid_event] paid_store"
  using saga.step [OF saga.start paid_step] by simp

section \<open>Exactly once\<close>

text \<open>
  (C1) In every history of payment requests, recorded deliveries and inbox events, each order has at
  most one paid transition, and paid transitions, logged verifications and subscription activations
  correspond one to one: each stands for an order at its amount and currency and for a recorded
  provider payment of that amount.
\<close>

theorem payments_exactly_once:
  assumes "saga st0 ls st" "constraints_ok st0" "ledger_ok st0"
  shows "ledger_ok st \<and> distinct (map pt_payment_order_id (st_paid st)) \<and> distinct (map pt_provider_payment_id (st_paid st))
    \<and> distinct (map pt_website_activation_key (st_paid st))"
proof -
  have "constraints_ok st \<and> ledger_ok st" using assms(1)
    by (rule saga_invariant) (use assms saga_step_constraints saga_step_steps ledger_step_ok in blast)+
  then show ?thesis by (simp add: constraints_ok_def)
qed

lemma pending_ledger: "ledger_ok pending_store"
  by (simp add: ledger_ok_def verified_entries_def activations_def is_verification_def pending_store_def empty_store_def started_transition_def)

theorem payments_exactly_once_witness: "ledger_ok paid_store \<and> length (st_paid paid_store) = 1"
  using payments_exactly_once [OF paid_history pending_constraints pending_ledger] by (simp add: paid_store_def)

text \<open>
  (C2) Along every history the log of a case is a chain: it begins at NEW, each entry starts in the
  state the one before ended in, and the case is in the state its last entry names.
\<close>

theorem case_logs_chain:
  assumes "saga st0 ls st" "history_ok st0"
  shows "history_ok st"
  using assms(1) by (rule saga_invariant) (use assms saga_step_steps logged_history in blast)+

lemma pending_history: "history_ok pending_store"
  by (simp add: history_ok_def case_history_def log_of_def pending_store_def sample_rows Let_def)

theorem case_logs_chain_witness: "history_ok paid_store"
  using case_logs_chain [OF paid_history pending_history] .

section \<open>The table\<close>

lemma payment_rules:
  "demo_step CONVERSION_FOLLOW_UP (REQUEST_PAYMENT, ActorUSER) demo_state.PAYMENT_PENDING"
  "s \<in> {demo_state.PAYMENT_PENDING, demo_state.PAYMENT_REVIEW} \<Longrightarrow> demo_step s (VERIFY_PAYMENT, ActorPROVIDER) PAID"
  "a \<in> SYSTEM \<Longrightarrow> demo_step PAID (HANDOFF_ONBOARDING, a) ONBOARDING_HANDOFF"
  "a \<in> SYSTEM \<Longrightarrow> demo_step ONBOARDING_HANDOFF (COMPLETE_ONBOARDING, a) CONVERTED"
proof -
  have rules: "list_all (\<lambda>(s, c, actors, s'). list_ex (\<lambda>r. rule_before r = s \<and> rule_command r = c \<and> rule_after r = s' \<and> rule_actors r = actors) TRANSITIONS)
     [(CONVERSION_FOLLOW_UP, REQUEST_PAYMENT, USER, demo_state.PAYMENT_PENDING), (demo_state.PAYMENT_PENDING, VERIFY_PAYMENT, PROVIDER, PAID),
      (demo_state.PAYMENT_REVIEW, VERIFY_PAYMENT, PROVIDER, PAID), (PAID, HANDOFF_ONBOARDING, SYSTEM, ONBOARDING_HANDOFF),
      (ONBOARDING_HANDOFF, COMPLETE_ONBOARDING, SYSTEM, CONVERTED)]" by code_simp
  have step: "demo_step s (c, a) s'" if "list_ex (\<lambda>r. rule_before r = s \<and> rule_command r = c \<and> rule_after r = s' \<and> rule_actors r = actors) TRANSITIONS" "a \<in> actors"
    for s c a s' actors using that step_of_rule by (auto simp: list_ex_iff ALL_TRANSITIONS_def)
  show "demo_step CONVERSION_FOLLOW_UP (REQUEST_PAYMENT, ActorUSER) demo_state.PAYMENT_PENDING"
    by (rule step [of _ _ _ USER]) (use rules in \<open>simp_all add: USER_def\<close>)
  show "demo_step s (VERIFY_PAYMENT, ActorPROVIDER) PAID" if "s \<in> {demo_state.PAYMENT_PENDING, demo_state.PAYMENT_REVIEW}"
    by (rule step [of _ _ _ PROVIDER]) (use rules that in \<open>auto simp: PROVIDER_def\<close>)
  show "demo_step PAID (HANDOFF_ONBOARDING, a) ONBOARDING_HANDOFF" if "a \<in> SYSTEM"
    by (rule step [of _ _ _ SYSTEM]) (use rules that in simp_all)
  show "demo_step ONBOARDING_HANDOFF (COMPLETE_ONBOARDING, a) CONVERTED" if "a \<in> SYSTEM"
    by (rule step [of _ _ _ SYSTEM]) (use rules that in simp_all)
qed

definition stays :: "store \<Rightarrow> store \<Rightarrow> bool" where
  "stays st st' \<longleftrightarrow> st_demos st' = st_demos st \<and> st_transitions st' = st_transitions st"

definition moves_by_table :: "store \<Rightarrow> store \<Rightarrow> bool" where
  "moves_by_table st st' \<longleftrightarrow> (\<exists>d s c a s'. moves st st' d s c a s' \<and> demo_step s (c, a) s')"

lemma by_table:
  "quiet st st' \<Longrightarrow> stays st st' \<or> moves_by_table st st'"
  "moves st st' d s c a s' \<Longrightarrow> demo_step s (c, a) s' \<Longrightarrow> stays st st' \<or> moves_by_table st st'"
  "handed_over st st' s c a s' \<Longrightarrow> demo_step s (c, a) s' \<Longrightarrow> stays st st' \<or> moves_by_table st st'"
  by (auto simp: quiet_def stays_def moves_by_table_def handed_over_def hands_over_def del: demo_stepE)

text \<open>The steps of the paid side: everything but a WhatsApp message, onboarding events from a system actor.\<close>

fun paid_side :: "saga_label \<Rightarrow> bool" where
  "paid_side (Handled event) \<longleftrightarrow> ae_event_type event \<noteq> ''whatsapp.handoff.demo.v1''
     \<and> (ae_event_type event \<in> {''onboarding.handoff.accepted.v1'', ''onboarding.completed.v1''} \<longrightarrow> ea_type (ae_actor event) \<in> SYSTEM)"
| "paid_side _ = True"

lemma recorded_by_table:
  assumes "composite_record [record_payment_delivery penv rc now, record_lifecycle_delivery env lr dump now] row payload reference details st = (r, st')"
  shows "stays st st' \<or> moves_by_table st st'"
  using record_step [OF assms]
proof
  assume "\<exists>r'. record_payment_delivery penv rc now row payload reference details st = (r', st')
        \<and> (r = Inr () \<longrightarrow> ox_event_type row \<notin> {''demo.payment.verified.v1'', ''onboarding.paid-user.requested.v1''})"
  then obtain r' where "record_payment_delivery penv rc now row payload reference details st = (r', st')" by blast
  then show ?thesis
    by (cases rule: record_payment_delivery_cases) (use by_table(1) by_table(2) [OF create_order_moves payment_rules(1)] in blast)+
next
  assume "record_lifecycle_delivery env lr dump now row payload reference details st = (r, st')"
  from record_lifecycle_delivery_cases [OF this] show ?thesis
    using by_table(1) by_table(3) [OF _ payment_rules(3) [of ActorSYSTEM]] unfolding handed_over_def [symmetric] SYSTEM_def by blast
qed

lemma handled_by_table:
  assumes "handle_event env now event st = (Inr (), st')" "paid_side (Handled event)"
  shows "stays st st' \<or> moves_by_table st st'"
proof -
  have "quiet st (snd (record_provider_event env event st))" by (simp add: record_provider_event_def quiet_def activations_def)
  moreover have "stays st st' \<or> moves_by_table st st'" if "process_cashfree_event env now event st = (Inr (), st')"
    using that by (cases rule: process_cashfree_event_cases) (use by_table(1) by_table(2) [OF _ payment_rules(2)] in blast)+
  ultimately show ?thesis
    using assms by_table(1) [of st st'] accept_onboarding_cases [of env event st "Inr ()" st'] complete_onboarding_cases [of env now event st "Inr ()" st']
      by_table(3) [OF _ payment_rules(3), of st st' "ea_type (ae_actor event)"] by_table(3) [OF _ payment_rules(4), of st st' "ea_type (ae_actor event)"]
    by (auto simp: handle_event_def split: if_splits)
qed

text \<open>
  (C7) On the paid side a committed step leaves every case and log alone, or moves one case by one
  rule of the transition table, for an actor the rule admits, and logs exactly that move.  The premise
  on onboarding events is needed: the handler itself takes their actor as it comes.
\<close>

theorem paid_side_follows_table:
  assumes "saga_step st l st'" "paid_side l"
  shows "stays st st' \<or> moves_by_table st st'"
  using assms
proof (cases rule: saga_step.cases)
  case (requested penv svc command correlation_id now r)
  then show ?thesis using by_table(1) request_order_cases by blast
next
  case (recorded penv rc now env lr dump row payload reference details r)
  then show ?thesis using recorded_by_table by blast
next
  case (handled env now event)
  then show ?thesis using handled_by_table assms(2) by blast
qed

theorem paid_side_follows_table_witness: "moves_by_table pending_store paid_store"
proof -
  have "paid_side (Handled paid_event)" by (simp add: paid_event_def sample_event_def)
  from paid_side_follows_table [OF paid_step this] show ?thesis by (simp add: stays_def paid_store_def pending_store_def)
qed

section \<open>Payment requests\<close>

text \<open>What the first transaction of a new request writes.\<close>

definition requested_store :: "payment_env \<Rightarrow> payment_order_job_service \<Rightarrow> payment_order_command \<Rightarrow> string \<Rightarrow> int \<Rightarrow> store \<Rightarrow> store" where
  "requested_store env svc command correlation_id now st = add_outbox (quote_request_outbox env svc command correlation_id now)
     (st\<lparr>st_requests := st_requests st @ [quote_request_row svc command correlation_id]\<rparr>)"

definition request_of :: "payment_order_job_service \<Rightarrow> payment_order_command \<Rightarrow> store \<Rightarrow> provider_request option" where
  "request_of svc command st = find_request (ps_tenant_id svc) website_gateway (pc_request_id command) st"

lemma request_order_replay:
  assumes "ps_request_hash_key svc \<noteq> []" "request_of svc command st = Some request"
  shows "request_order env svc command correlation_id now st =
    (if pr_request_hash request = request_hash svc command then payment_job env svc now (pc_request_id command) st
     else Inl (ServiceError ''DCC_IDEMPOTENCY_CONFLICT'' ''The payment request ID was already used for different input''), st)"
  using assms by (cases "payment_job env svc now (pc_request_id command) st")
    (simp_all add: request_order_def request_transaction_def request_of_def validate_replay_def)

lemma request_order_new:
  assumes "request_order env svc command correlation_id now st = (Inr job, st')" "request_of svc command st = None"
  shows "st' = requested_store env svc command correlation_id now st"
  using assms
  by (auto simp: request_order_def request_transaction_def request_of_def requested_store_def split: if_splits option.splits)

lemma find_snoc: "List.find P xs = None \<Longrightarrow> P x \<Longrightarrow> List.find P (xs @ [x]) = Some x"
  by (induction xs) (auto split: if_splits)

lemma requested_store_request:
  "request_of svc command st = None \<Longrightarrow>
     request_of svc command (requested_store env svc command correlation_id now st) = Some (quote_request_row svc command correlation_id)"
  by (simp add: request_of_def find_request_def requested_store_def add_outbox_def find_snoc quote_request_row_def request_key_of_def)

text \<open>
  (C13) A payment request is idempotent.  One that fails leaves the tables alone; the first that
  succeeds adds one request row and one outbox row and nothing else, a later one nothing.  From then
  on the same command, sent any number of times, only reports the job's state, and a different command
  under the same request id (one with another hash) is a conflict; neither changes the tables.
\<close>

theorem payment_request_idempotent:
  assumes "request_order env svc command correlation_id now st = (r, st')"
  shows "(\<forall>e. r = Inl e \<longrightarrow> st' = st)
    \<and> (\<forall>job. r = Inr job \<longrightarrow>
        st' = (if request_of svc command st = None then requested_store env svc command correlation_id now st else st)
        \<and> (\<forall>c now'. request_order env svc command c now' st' = (payment_job env svc now' (pc_request_id command) st', st'))
        \<and> (\<forall>command' c now'. pc_request_id command' = pc_request_id command \<longrightarrow> request_hash svc command' \<noteq> request_hash svc command \<longrightarrow>
             request_order env svc command' c now' st' = (Inl (ServiceError ''DCC_IDEMPOTENCY_CONFLICT''
               ''The payment request ID was already used for different input''), st')))"
proof (cases r)
  case (Inl e)
  then show ?thesis using assms by (auto simp: request_order_def split: if_splits prod.splits sum.splits option.splits)
next
  case (Inr job)
  have key: "ps_request_hash_key svc \<noteq> []" using assms Inr by (auto simp: request_order_def)
  have "\<exists>request. request_of svc command st' = Some request \<and> pr_request_hash request = request_hash svc command
    \<and> st' = (if request_of svc command st = None then requested_store env svc command correlation_id now st else st)"
  proof (cases "request_of svc command st")
    case None
    then show ?thesis using request_order_new [of env svc command correlation_id now st job st'] requested_store_request assms Inr
      by (simp add: quote_request_row_def)
  next
    case (Some request)
    then show ?thesis using request_order_replay [OF key Some, of env correlation_id now] assms Inr by (auto split: if_splits)
  qed
  then obtain request where r: "request_of svc command st' = Some request" "pr_request_hash request = request_hash svc command"
    "st' = (if request_of svc command st = None then requested_store env svc command correlation_id now st else st)" by blast
  have "request_of svc command' st' = Some request" if "pc_request_id command' = pc_request_id command" for command'
    using r(1) that by (simp add: request_of_def)
  then show ?thesis using request_order_replay [OF key] r Inr by simp
qed

definition sample_payment_env :: payment_env where
  "sample_payment_env = \<lparr>px_quote_request = (\<lambda>_. Inl (ValueError [])), px_quote = (\<lambda>_. Inl (ValueError [])),
     px_cashfree_order = (\<lambda>_. Inl (ValueError [])), px_acknowledgement = (\<lambda>_. Inl (ValueError [])), px_encrypt = (\<lambda>p a. p),
     px_decrypt = (\<lambda>c a. Inr c), px_uuid5 = (\<lambda>n s. s)\<rparr>"

definition sample_service :: payment_order_job_service where
  "sample_service = \<lparr>ps_request_hash_key = ''key'', ps_tenant_id = ''nxtutors''\<rparr>"

definition sample_command :: payment_order_command where
  "sample_command = \<lparr>pc_request_id = ''request-1'', pc_demo_ref = ''demo-1'', pc_website_user_ref = ''user-1'', pc_plan_ref = ''7'',
     pc_customer_phone = ''9876543210''\<rparr>"

definition follow_up_store :: store where
  "follow_up_store = empty_store\<lparr>st_demos := [sample_case CONVERSION_FOLLOW_UP]\<rparr>"

lemma sample_request:
  "request_order sample_payment_env sample_service sample_command ''corr-1'' 100 follow_up_store =
     (Inr \<lparr>pj_request_id = ''request-1'', pj_status = ''quote_pending'', pj_provider_order_ref = None, pj_payment_session_id = None\<rparr>,
      requested_store sample_payment_env sample_service sample_command ''corr-1'' 100 follow_up_store)"
proof -
  have "constraints_ok (requested_store sample_payment_env sample_service sample_command ''corr-1'' 100 follow_up_store)"
    by (simp add: constraints_ok_def requested_store_def add_outbox_def follow_up_store_def sample_rows unique_some_def outbox_unique_def List.map_filter_def)
  then show ?thesis
    by (simp add: request_order_def request_transaction_def requested_store_def find_request_def follow_up_store_def sample_rows
        sample_service_def sample_command_def)
qed

theorem payment_request_idempotent_witness:
  "snd (request_order sample_payment_env sample_service sample_command ''corr-9'' 200
      (requested_store sample_payment_env sample_service sample_command ''corr-1'' 100 follow_up_store))
   = requested_store sample_payment_env sample_service sample_command ''corr-1'' 100 follow_up_store"
  using payment_request_idempotent [OF sample_request] by simp

section \<open>A late failure\<close>

text \<open>
  A paid case whose hand-over is queued, with the webhook rows pruned, a webhook that reports a failed
  attempt for the same order, and the acceptance of the hand-over.
\<close>

definition handed_store :: store where
  "handed_store = paid_store\<lparr>st_webhooks := [],
     st_handoffs := [\<lparr>oh_id = ''handoff-1'', oh_tenant_id = ''nxtutors'', oh_paid_transition_id = sg_uuid4 sample_env 2, oh_idempotency_key = ''onboarding-paid'',
       oh_onboarding_required = True, oh_status = ''queued'', oh_acknowledgement_ref = None, oh_attempt_count = 0, oh_acknowledged_at = None,
       oh_welcome_message_id = None\<rparr>]\<rparr>"

definition failed_event :: agent_event where
  "failed_event = sample_event ''event-2'' ''cashfree.payment.webhook.received.v1'' (sample_webhook ''pay-2'' ''FAILED'')"

definition accepted_event :: agent_event where
  "accepted_event = sample_event ''event-3'' ''onboarding.handoff.accepted.v1''
     [(''demo_ref'', JString ''demo-1''), (''user_ref'', JString ''user-1''), (''onboarding_ref'', JString ''onb-1''), (''inbox_ref'', JString ''inbox-1'')]"

definition paid_order :: "string \<Rightarrow> payment_order" where
  "paid_order status = (sample_payment_order status)\<lparr>py_paid_at := Some (Datetime 100 (Some 0)), py_version := 2\<rparr>"

definition late_store :: store where
  "late_store = handed_store\<lparr>st_orders := [paid_order ''failed''],
     st_webhooks := [(webhook_row sample_env failed_event ''cashfree'' ''failed'' 3)\<lparr>we_processed_at := Some (utc_at 300)\<rparr>],
     st_attempts := st_attempts handed_store @ [attempt_row failed_event (sample_fields ''pay-2'' ''FAILED'') (paid_order ''paid'') 3 49900], st_next := 4\<rparr>"

lemma handed_rows:
  "st_orders handed_store = [paid_order ''paid'']" "st_demos handed_store = [(sample_case PAID)\<lparr>dc_version := 2\<rparr>]" "st_next handed_store = 3"
  "st_paid handed_store = [paid_row sample_env paid_event (sample_payment_order ''pending'') ''pay-1'' (sample_key ''activation'') 2]"
  "st_webhooks handed_store = []"
  "st_attempts handed_store = [attempt_row paid_event (sample_fields ''pay-1'' ''SUCCESS'') (sample_payment_order ''pending'') 1 49900]"
  by (simp_all add: handed_store_def paid_store_def paid_order_def)

lemma late_decision:
  "webhook_decision sample_env 300 failed_event (sample_fields ''pay-2'' ''FAILED'') (paid_order ''paid'') ''cf-1'' 49900 True =
     Inr \<lparr>pd_kind = payment_decision_kind.FAILED, pd_reason_codes = [''verified_terminal_failure''],
       pd_should_transition_paid = False, pd_activation_key = None, pd_paid_outbox_key = None, pd_policy_version = ''cashfree-payment-v1''\<rparr>"
  by (simp add: webhook_decision_def sample_payment_order_def paid_order_def money_samples sample_fields_def sample_env_def sample_policy_ok verify_payment_def
      failed_event_def sample_event_def order_binding_def webhook_evidence_def mismatches_empty matches_def authoritative_def
      sample_policy_simps utc_at_def Let_def)

lemma late_run: "process_cashfree_event sample_env 300 failed_event handed_store = (Inr (), late_store)"
proof -
  have payload: "ae_payload failed_event = sample_webhook ''pay-2'' ''FAILED''" by (simp add: failed_event_def sample_event_def)
  note base = constraints_ok_def handed_store_def paid_store_def pending_store_def sample_rows payment_verified_transition_def paid_event_def
    unique_some_def outbox_unique_def List.map_filter_def
  have c1: "constraints_ok (handed_store\<lparr>st_webhooks := [w], st_next := n\<rparr>)" for w n by (simp add: base)
  have c2: "constraints_ok (handed_store\<lparr>st_webhooks := [w], st_next := n,
      st_attempts := [attempt_row paid_event (sample_fields ''pay-1'' ''SUCCESS'') (sample_payment_order ''pending'') (Suc 0) 49900,
        attempt_row failed_event (sample_fields ''pay-2'' ''FAILED'') (paid_order ''paid'') 3 49900]\<rparr>)" for w n
    by (simp add: base attempt_row_def sample_fields_def)
  have sel: "py_domain_order_id (paid_order s) = ''dcc-1''" "py_provider_order_id (paid_order s) = Some ''cf-1''" "py_id (paid_order s) = ''order-1''"
    "cf_domain_order_id (sample_fields i s) = ''dcc-1''" "cf_amount (sample_fields i s) = JInt 499" for s i
    by (simp_all add: paid_order_def sample_payment_order_def sample_fields_def)
  have paid: "pt_payment_order_id (paid_row env event (sample_payment_order s) i k n) = ''order-1''" for env event s i k n
    by (simp add: paid_row_def sample_payment_order_def)
  have rows: "update_by we_id 3 (\<lambda>w. w\<lparr>we_status := ''failed'', we_processed_at := Some (utc_at 300)\<rparr>)
      [webhook_row sample_env failed_event ''cashfree'' ''processing'' 3]
        = [(webhook_row sample_env failed_event ''cashfree'' ''failed'' 3)\<lparr>we_processed_at := Some (utc_at 300)\<rparr>]"
    "update_by py_id ''order-1'' (\<lambda>p. p\<lparr>py_status := ''failed''\<rparr>) [paid_order ''paid''] = [paid_order ''failed'']"
    by (simp_all add: webhook_row_def paid_order_def sample_payment_order_def update_by_def Let_def)
  show ?thesis
    by (simp add: process_cashfree_event_def new_provider_event_def payload sample_fields_read handed_rows c1 c2 sel sample_amount paid late_decision
        settle_webhook_def apply_decision_def set_order_status_def update_webhook_def update_order_def rows)
      (simp add: late_store_def handed_store_def paid_store_def pending_store_def empty_store_def)
qed


end
