(* ===== verification/RequirementProofs.thy ===== *)
theory RequirementProofs
  imports Requirements
begin

text \<open>
  The extraction finds the longest alias that stands in the message as a word, writes only values of
  its vocabulary into the requirement, and reads its own values back.
\<close>

section \<open>Aliases\<close>

definition word_occurs :: "string \<Rightarrow> string \<Rightarrow> bool" where
  "word_occurs raw text \<longleftrightarrow> (\<exists>u v. text = u @ raw @ v \<and> (u = [] \<or> \<not> is_alnum_lower (last u)) \<and> (v = [] \<or> \<not> is_alnum_lower (hd v)))"

lemma alias_at_nonempty:
  "alias_at raw (at_split None u w) \<noteq> [] \<longleftrightarrow>
     (u = [] \<or> \<not> is_alnum_lower (last u)) \<and> (\<exists>v. w = raw @ v \<and> (v = [] \<or> \<not> is_alnum_lower (hd v)))"
  by (auto simp: alias_at_def rx_seq_def rx_not_behind_def rx_not_ahead_def rx_lit_def at_split_def advance_def opt_sat_def next_char_def
      prefix_def split: list.splits option.splits)

lemma alias_found: "re_search (alias_at raw) None text \<noteq> None \<longleftrightarrow> word_occurs raw text"
proof -
  have "re_search (alias_at raw) None text \<noteq> None \<longleftrightarrow> (\<exists>u w. text = u @ w \<and> alias_at raw (at_split None u w) \<noteq> [])"
    by (auto simp: re_search_None)
  also have "\<dots> \<longleftrightarrow> word_occurs raw text" unfolding alias_at_nonempty word_occurs_def by blast
  finally show ?thesis .
qed

lemma extract_alias_eq:
  "extract_alias text table = map_option snd (List.find (\<lambda>(raw, _). word_occurs raw text) (longest_first table))"
  unfolding extract_alias_def alias_found ..

text \<open>
  The alias extraction answers nothing exactly when no alias of the table stands in the text as a
  word of its own, and otherwise a canonical name of one of the longest aliases that do.
\<close>

theorem extract_alias_longest:
  "(extract_alias text table = None \<longleftrightarrow> (\<forall>(raw, c) \<in> set table. \<not> word_occurs raw text))
   \<and> (extract_alias text table = Some c \<longrightarrow> (\<exists>raw. (raw, c) \<in> set table \<and> word_occurs raw text
        \<and> (\<forall>(raw', c') \<in> set table. word_occurs raw' text \<longrightarrow> length raw' \<le> length raw)))"
proof (intro conjI impI)
  let ?L = "longest_first table" and ?P = "\<lambda>(raw, _). word_occurs raw text"
  have L: "set ?L = set table" by (simp add: longest_first_def)
  show "extract_alias text table = None \<longleftrightarrow> (\<forall>(raw, c) \<in> set table. \<not> word_occurs raw text)"
    unfolding extract_alias_eq by (auto simp: find_None_iff L)
  assume "extract_alias text table = Some c"
  then obtain raw where "List.find ?P ?L = Some (raw, c)" by (auto simp: extract_alias_eq)
  then obtain i where i: "i < length ?L" "?P (?L ! i)" "?L ! i = (raw, c)" "\<forall>j<i. \<not> ?P (?L ! j)"
    by (auto simp: find_Some_iff)
  have s: "sorted (map (\<lambda>item. - int (length (fst item))) ?L)" by (simp add: longest_first_def)
  have "length raw' \<le> length raw" if o: "(raw', c') \<in> set table" "word_occurs raw' text" for raw' c'
  proof -
    obtain j where j: "j < length ?L" "?L ! j = (raw', c')" using o(1) L by (metis in_set_conv_nth)
    then have "i \<le> j" using i(4) o(2) by (metis (no_types, lifting) case_prod_conv linorder_not_less)
    then show ?thesis using sorted_nth_mono [OF s, of i j] i(1,3) j by simp
  qed
  moreover have "(raw, c) \<in> set table" "word_occurs raw text" using nth_mem [OF i(1)] i(2,3) L by simp_all
  ultimately show "\<exists>raw. (raw, c) \<in> set table \<and> word_occurs raw text
      \<and> (\<forall>(raw', c') \<in> set table. word_occurs raw' text \<longrightarrow> length raw' \<le> length raw)" by blast
qed

section \<open>The vocabulary\<close>

definition class_levels :: "string set" where
  "class_levels = (\<lambda>n. ''Class '' @ show_int n) ` {1..12}"

definition update_ok :: "string \<Rightarrow> field_value \<Rightarrow> bool" where
  "update_ok k v \<longleftrightarrow>
     (k = ''class_level'' \<and> v \<in> FText ` class_levels)
   \<or> (k = ''board'' \<and> v \<in> FText ` snd ` set BOARD_ALIASES)
   \<or> (k = ''location_region'' \<and> v \<in> FText ` snd ` set CITY_ALIASES)
   \<or> (k = ''subject'' \<and> (v = FNone \<or> (\<exists>s. v = FText s \<and> s \<noteq> [] \<and> length s \<le> 41)))
   \<or> (k = ''mode'' \<and> v \<in> FText ` snd ` set MODE_ALIASES)
   \<or> (k = ''preferred_times'' \<and> v \<in> (\<lambda>t. FList [JObject [(''label'', JString t)]]) ` snd ` set TIME_ALIASES)
   \<or> (k = ''learning_goal'' \<and> v = FText ''Start from the beginning'')"

lemma extract_alias_range: "extract_alias text table = Some c \<Longrightarrow> c \<in> snd ` set table"
proof -
  assume "extract_alias text table = Some c"
  then obtain raw where "List.find (\<lambda>(raw, _). re_search (alias_at raw) None text \<noteq> None) (longest_first table) = Some (raw, c)"
    by (auto simp: extract_alias_def)
  then have "(raw, c) \<in> set (longest_first table)" unfolding find_Some_iff using nth_mem by metis
  then show ?thesis by (force simp: longest_first_def)
qed

lemma class_level_by_range: "class_level_by ps t = Some c \<Longrightarrow> c \<in> class_levels"
  by (induction ps t rule: class_level_by.induct) (auto simp: class_levels_def split: option.splits if_splits)

lemma length_title_from [simp]: "length (title_from b s) = length s"
  by (induction s arbitrary: b) auto

lemma subject_group_first: "(x, st') \<in> set (subject_group st) \<Longrightarrow> x \<noteq> [] \<and> is_lower (hd x) \<and> length x \<le> 41"
  by (auto simp: subject_group_def rx_seq_def dest!: rx_many_matches) (metis One_nat_def append_is_Nil_conv hd_append2 le_antisym length_0_conv length_Suc_conv list.pred_inject(2) list.sel(1) nat.distinct(1))+

lemma named_subject_range:
  assumes "named_subject s = Some r" "s \<noteq> []" "length s \<le> 41"
  shows "r \<noteq> [] \<and> length r \<le> 41"
proof -
  have "c \<noteq> [] \<and> length c \<le> 41" if "c \<in> snd ` set SUBJECT_ALIASES" for c using that by (auto simp: SUBJECT_ALIASES_def)
  moreover have "title s \<noteq> [] \<and> length (title s) \<le> 41" using assms(2,3) unfolding title_def
    by (metis length_0_conv length_title_from)
  ultimately show ?thesis using assms(1) extract_alias_range
    by (auto simp: named_subject_def split: if_splits option.splits)
qed

lemma subject_range:
  assumes "subject_from_free_text text = Some r"
  shows "r \<noteq> [] \<and> length r \<le> 41"
proof -
  have a: "c \<noteq> [] \<and> length c \<le> 41" if "extract_alias text SUBJECT_ALIASES = Some c" for c
    using extract_alias_range [OF that] by (auto simp: SUBJECT_ALIASES_def)
  show ?thesis
  proof (cases "re_search (rx_group subject_lead subject_group (rx_lit [])) None text")
    case None
    then show ?thesis using assms a by (simp add: subject_from_free_text_def)
  next
    case (Some g)
    then have g: "g \<noteq> []" "is_lower (hd g)" "length g \<le> 41"
      using re_search_SomeD [OF Some] set_rx_group subject_group_first by blast+
    let ?out = "\<lambda>c. c \<in> set '' .,!?:;-''"
    have "\<not> ?out (hd g)" using g(2) by (auto simp: is_lower_def)
    then have d: "dropWhile ?out g = g" using g(1) by (cases g) auto
    have "hd g \<in> set (dropWhile ?out (rev g))" using g(1) \<open>\<not> ?out (hd g)\<close>
      by (cases g) (auto simp: dropWhile_append)
    then have "strip_chars '' .,!?:;-'' g \<noteq> []" unfolding strip_chars_def Let_def d by (metis empty_iff list.set(1) rev_is_Nil_conv)
    moreover have "length (strip_chars '' .,!?:;-'' g) \<le> 41" unfolding strip_chars_def Let_def d
      using g(3) length_dropWhile_le [of ?out "rev g"] by simp
    ultimately show ?thesis using assms Some a named_subject_range
      by (auto simp: subject_from_free_text_def split: option.splits)
  qed
qed

lemma list_all_dict_set: "P k v \<Longrightarrow> list_all (\<lambda>(k, v). P k v) d \<Longrightarrow> list_all (\<lambda>(k, v). P k v) (dict_set k v d)"
  by (auto simp: dict_set_def list_all_iff split: if_splits)

lemma list_all_set_text:
  "(\<And>s. v = Some s \<Longrightarrow> P k (FText s)) \<Longrightarrow> list_all (\<lambda>(k, v). P k v) d \<Longrightarrow> list_all (\<lambda>(k, v). P k v) (set_text k v d)"
  by (auto simp: set_text_def intro: list_all_dict_set split: option.splits)

lemma distinct_dict_set: "distinct (map fst d) \<Longrightarrow> distinct (map fst (dict_set k v d))"
proof -
  have "map fst (map (\<lambda>(k', v'). if k' = k then (k', v) else (k', v')) d) = map fst d" by (induction d) auto
  then show "distinct (map fst d) \<Longrightarrow> distinct (map fst (dict_set k v d))" by (simp add: dict_set_def del: map_map)
qed

lemma distinct_set_text: "distinct (map fst d) \<Longrightarrow> distinct (map fst (set_text k v d))"
  by (simp add: set_text_def distinct_dict_set split: option.splits)

lemma mode_range: "mode_from_text t step = Some m \<Longrightarrow> m \<in> snd ` set MODE_ALIASES"
  using extract_alias_range [of t MODE_ALIASES] by (auto simp: mode_from_text_def MODE_ALIASES_def split: if_splits)

lemma time_range: "preferred_time_from_text t step = Some m \<Longrightarrow> m \<in> snd ` set TIME_ALIASES"
  using extract_alias_range [of t TIME_ALIASES]
  by (auto simp: preferred_time_from_text_def TIME_ALIASES_def time_by_number_def split: if_splits option.splits)

text \<open>How the dictionary of updates is built.\<close>

definition dict_ok :: "updates \<Rightarrow> bool" where
  "dict_ok d \<longleftrightarrow> list_all (\<lambda>(k, v). update_ok k v) d \<and> distinct (map fst d)"

lemma dict_ok_intros:
  "dict_ok []" "dict_ok [(''subject'', FNone)]"
  "update_ok k v \<Longrightarrow> dict_ok d \<Longrightarrow> dict_ok (dict_set k v d)"
  "(\<And>s. w = Some s \<Longrightarrow> update_ok k (FText s)) \<Longrightarrow> dict_ok d \<Longrightarrow> dict_ok (set_text k w d)"
  "(\<And>t. w' = Some t \<Longrightarrow> dict_ok (f t)) \<Longrightarrow> dict_ok d \<Longrightarrow> dict_ok (case w' of None \<Rightarrow> d | Some t \<Rightarrow> f t)"
  "(b \<Longrightarrow> dict_ok d1) \<Longrightarrow> (\<not> b \<Longrightarrow> dict_ok d2) \<Longrightarrow> dict_ok (if b then d1 else d2)"
  by (auto simp: dict_ok_def update_ok_def list_all_dict_set list_all_set_text distinct_dict_set distinct_set_text split: option.splits)

lemma update_ok_values:
  "class_level_from_text t = Some s \<Longrightarrow> update_ok ''class_level'' (FText s)"
  "extract_alias t BOARD_ALIASES = Some s \<Longrightarrow> update_ok ''board'' (FText s)"
  "extract_alias t CITY_ALIASES = Some s \<Longrightarrow> update_ok ''location_region'' (FText s)"
  "(if b then None else subject_from_free_text t) = Some s \<Longrightarrow> update_ok ''subject'' (FText s)"
  "mode_from_text t step = Some s \<Longrightarrow> update_ok ''mode'' (FText s)"
  "preferred_time_from_text t step = Some s \<Longrightarrow> update_ok ''preferred_times'' (FList [JObject [(''label'', JString s)]])"
  "update_ok ''learning_goal'' (FText ''Start from the beginning'')"
  by (simp_all add: update_ok_def class_level_from_text_def class_level_by_range extract_alias_range mode_range time_range subject_range
      split: if_splits)

lemma extracted_updates_ok: "dict_ok (extract_requirement_updates t step subject)"
  unfolding extract_requirement_updates_def Let_def
  by (intro dict_ok_intros update_ok_values) assumption+

section \<open>The requirement row\<close>

definition requirement_fields :: "string set" where
  "requirement_fields = {''class_level'', ''board'', ''location_region'', ''subject'', ''mode'', ''learning_goal'', ''preferred_times''}"

text \<open>A row whose every field is unset or holds a value of the vocabulary.\<close>

definition requirement_ok :: "demo_requirement \<Rightarrow> bool" where
  "requirement_ok r \<longleftrightarrow> (\<forall>k \<in> requirement_fields. get_field r k \<in> {FNone, FList []} \<or> update_ok k (get_field r k))"

text \<open>The columns the updates never name.\<close>

definition fixed_columns :: "demo_requirement \<Rightarrow> string \<times> string \<times> string list \<times> int" where
  "fixed_columns r = (rq_demo_case_id r, rq_timezone r, rq_missing_fields r, rq_version r)"

lemma update_ok_field: "update_ok k v \<Longrightarrow> k \<in> requirement_fields"
  by (auto simp: update_ok_def requirement_fields_def)

lemma update_ok_shape:
  assumes "update_ok k v"
  shows "(if k = ''preferred_times'' then FList (value_list v) else text_value (value_text v)) = v"
  using assms unfolding update_ok_def
  by (elim disjE conjE; (elim imageE)?; (elim exE)?; simp add: text_value_def value_text_def value_list_def)

lemma get_set_same:
  assumes "update_ok k v"
  shows "get_field (set_field k v r) k = v"
  using update_ok_field [OF assms] update_ok_shape [OF assms] unfolding requirement_fields_def insert_iff empty_iff
  by (elim disjE FalseE; simp add: get_field_def set_field_def)

lemma get_set_other:
  assumes "k \<in> requirement_fields" "k' \<in> requirement_fields" "k' \<noteq> k"
  shows "get_field (set_field k v r) k' = get_field r k'"
  using assms unfolding requirement_fields_def insert_iff empty_iff
  by (elim disjE FalseE; simp add: get_field_def set_field_def)

lemma get_set_field:
  assumes "update_ok k v" "k' \<in> requirement_fields"
  shows "get_field (set_field k v r) k' = (if k' = k then v else get_field r k')"
  using get_set_same [OF assms(1)] get_set_other [OF update_ok_field [OF assms(1)] assms(2)] by simp

lemma fixed_set_field [simp]: "fixed_columns (set_field k v r) = fixed_columns r"
  by (simp add: fixed_columns_def set_field_def)

lemma apply_updates_get:
  assumes "dict_ok ups" "k \<in> requirement_fields"
  shows "get_field (fst (apply_requirement_updates r ups)) k = (case map_of ups k of Some v \<Rightarrow> v | None \<Rightarrow> get_field r k)
    \<and> (k \<in> snd (apply_requirement_updates r ups) \<longleftrightarrow> (\<exists>v. map_of ups k = Some v \<and> v \<noteq> get_field r k))"
  using assms(1)
proof (induction r ups rule: apply_requirement_updates.induct)
  case (2 r k' v rest)
  let ?r = "if get_field r k' \<noteq> v then set_field k' v r else r"
  have ok: "update_ok k' v" "dict_ok rest" "k' \<notin> fst ` set rest" using "2.prems" by (simp_all add: dict_ok_def)
  have g: "get_field ?r k = (if k = k' then v else get_field r k)" using get_set_field [OF ok(1) assms(2), of r] by auto
  have m: "map_of rest k' = None" using ok(3) by (simp add: map_of_eq_None_iff)
  show ?case
  proof (cases "k = k'")
    case True
    then show ?thesis using "2.IH" [OF ok(2)] g m by (simp add: split_beta Let_def split: if_splits)
  next
    case False
    then show ?thesis using "2.IH" [OF ok(2)] g by (simp add: split_beta Let_def cong: option.case_cong split: if_splits)
  qed
qed simp

lemma apply_updates_frame:
  assumes "dict_ok ups"
  shows "fixed_columns (fst (apply_requirement_updates r ups)) = fixed_columns r
    \<and> snd (apply_requirement_updates r ups) \<subseteq> requirement_fields"
  using assms
proof (induction r ups rule: apply_requirement_updates.induct)
  case (2 r k' v rest)
  have ok: "update_ok k' v" "dict_ok rest" using "2.prems" by (simp_all add: dict_ok_def)
  show ?case using "2.IH" [OF ok(2)] update_ok_field [OF ok(1)] by (simp add: split_beta Let_def split: if_splits)
qed simp

lemma requirement_ok_apply:
  assumes "dict_ok ups" "requirement_ok r"
  shows "requirement_ok (fst (apply_requirement_updates r ups))"
proof -
  have "update_ok k v" if "map_of ups k = Some v" for k v
    using assms(1) map_of_SomeD [OF that] by (auto simp: dict_ok_def list_all_iff)
  then show ?thesis using assms apply_updates_get [OF assms(1)] by (auto simp: requirement_ok_def split: option.splits)
qed

lemma requirement_ok_frame [simp]:
  "requirement_ok (r\<lparr>rq_missing_fields := m\<rparr>) = requirement_ok r" "requirement_ok (r\<lparr>rq_version := v\<rparr>) = requirement_ok r"
  by (simp_all add: requirement_ok_def get_field_def)

text \<open>
  (C24) Applying what a message says sets exactly the fields it names, reports exactly those whose value
  changed, leaves the other columns alone, and keeps every field within its vocabulary: a class from 1
  to 12, a known board, city, mode and time, and a subject that is not empty and fits its column.
\<close>

theorem requirement_update_exact:
  assumes "apply_requirement_updates r (extract_requirement_updates t step subject) = (r', changed)"
  shows "(\<forall>k \<in> requirement_fields. get_field r' k =
            (case map_of (extract_requirement_updates t step subject) k of Some v \<Rightarrow> v | None \<Rightarrow> get_field r k))
    \<and> changed = {k \<in> requirement_fields. get_field r' k \<noteq> get_field r k} \<and> fixed_columns r' = fixed_columns r
    \<and> (requirement_ok r \<longrightarrow> requirement_ok r')"
proof -
  define ups where "ups = extract_requirement_updates t step subject"
  have ok: "dict_ok ups" unfolding ups_def by (rule extracted_updates_ok)
  have r': "r' = fst (apply_requirement_updates r ups)" and ch: "changed = snd (apply_requirement_updates r ups)"
    using assms by (simp_all add: ups_def)
  have get: "get_field r' k = (case map_of ups k of Some v \<Rightarrow> v | None \<Rightarrow> get_field r k)"
    and mem: "k \<in> changed \<longleftrightarrow> get_field r' k \<noteq> get_field r k" if "k \<in> requirement_fields" for k
    using apply_updates_get [OF ok that, of r] r' ch by (auto split: option.splits)
  have "changed \<subseteq> requirement_fields" and fixed: "fixed_columns r' = fixed_columns r"
    using apply_updates_frame [OF ok, of r] r' ch by simp_all
  then have "changed = {k \<in> requirement_fields. get_field r' k \<noteq> get_field r k}" using mem by blast
  moreover have "requirement_ok r \<longrightarrow> requirement_ok r'" unfolding r' using requirement_ok_apply [OF ok] by blast
  ultimately show ?thesis using get fixed unfolding ups_def by blast
qed

definition sample_requirement :: demo_requirement where
  "sample_requirement = \<lparr>rq_demo_case_id = ''demo-1'', rq_board = None, rq_class_level = Some ''Class 7'', rq_subject = Some ''Mathematics'',
     rq_learning_goal = None, rq_mode = Some ''online'', rq_location_region = Some ''Gurugram'', rq_timezone = ''Asia/Kolkata'',
     rq_preferred_times = [JObject [(''label'', JString ''morning'')]], rq_missing_fields = [], rq_version = 4\<rparr>"

lemma sample_updates:
  "extract_requirement_updates (Some ''not maths'') ''requirements_complete'' (Some ''Mathematics'') = [(''subject'', FNone)]"
  by code_simp

lemma sample_correction:
  "apply_requirement_updates sample_requirement
     (extract_requirement_updates (Some ''not maths'') ''requirements_complete'' (Some ''Mathematics''))
   = (sample_requirement\<lparr>rq_subject := None\<rparr>, {''subject''})"
  by (simp add: sample_updates sample_requirement_def get_field_def set_field_def text_value_def value_text_def)

theorem requirement_update_exact_witness:
  "{''subject''} = {k \<in> requirement_fields. get_field (sample_requirement\<lparr>rq_subject := None\<rparr>) k \<noteq> get_field sample_requirement k}"
  using requirement_update_exact [OF sample_correction] by blast

text \<open>
  Every canonical class, board, mode and time, written into a message, is read back as
  itself, so that the summary of the requirements can be quoted without changing them.
\<close>

theorem vocabulary_read_back:
  "(\<forall>n \<in> {1..12}. class_level_from_text (normalise_text (Some (''Class '' @ show_int n))) = Some (''Class '' @ show_int n))
   \<and> (\<forall>c \<in> snd ` set BOARD_ALIASES. extract_alias (normalise_text (Some c)) BOARD_ALIASES = Some c)
   \<and> (\<forall>c \<in> snd ` set MODE_ALIASES. mode_from_text (normalise_text (Some c)) step = Some c)
   \<and> (\<forall>c \<in> snd ` set TIME_ALIASES. preferred_time_from_text (normalise_text (Some c)) step = Some c)"
proof (intro conjI)
  have "list_all (\<lambda>n. class_level_from_text (normalise_text (Some (''Class '' @ show_int n))) = Some (''Class '' @ show_int n)) [1..12]"
    by code_simp
  then show "\<forall>n \<in> {1..12}. class_level_from_text (normalise_text (Some (''Class '' @ show_int n))) = Some (''Class '' @ show_int n)"
    by (simp only: list_all_iff set_upto)
  have "list_all (\<lambda>c. extract_alias (normalise_text (Some c)) BOARD_ALIASES = Some c) (map snd BOARD_ALIASES)" by code_simp
  then show "\<forall>c \<in> snd ` set BOARD_ALIASES. extract_alias (normalise_text (Some c)) BOARD_ALIASES = Some c"
    by (simp only: list_all_iff set_map)
  have m: "list_all (\<lambda>c. normalise_text (Some c) \<notin> {''1'', ''2'', ''3''} \<and> extract_alias (normalise_text (Some c)) MODE_ALIASES = Some c)
      (map snd MODE_ALIASES)" by code_simp
  then show "\<forall>c \<in> snd ` set MODE_ALIASES. mode_from_text (normalise_text (Some c)) step = Some c"
    unfolding list_all_iff set_map mode_from_text_def by simp
  have t: "list_all (\<lambda>c. map_of time_by_number (normalise_text (Some c)) = None \<and> extract_alias (normalise_text (Some c)) TIME_ALIASES = Some c)
      (map snd TIME_ALIASES)" by code_simp
  then show "\<forall>c \<in> snd ` set TIME_ALIASES. preferred_time_from_text (normalise_text (Some c)) step = Some c"
    unfolding list_all_iff set_map preferred_time_from_text_def by simp
qed

end
