(* ===== verification/ChatProperties.thy ===== *)
theory ChatProperties
  imports SagaProperties RequirementProofs
begin

text \<open>
  What the conversation promises: every handled message is answered once; and what a reply does to the
  state of its case.
\<close>

section \<open>Tables a session keeps\<close>

definition keeps :: "('s \<Rightarrow> 'a) \<Rightarrow> 's \<Rightarrow> 's \<Rightarrow> bool" where
  "keeps table s t \<longleftrightarrow> table t = table s"

interpretation keep: step_relation "keeps table" for table
  by unfold_locales (simp_all add: keeps_def)

text \<open>A session whose every successful run relates the state before to the state after.\<close>

definition succeeds :: "('s \<Rightarrow> 's \<Rightarrow> bool) \<Rightarrow> ('s, 'a) sess \<Rightarrow> bool" where
  "succeeds Q m \<longleftrightarrow> (\<forall>s x s'. m s = (Inr x, s') \<longrightarrow> Q s s')"

lemma succeedsD: "succeeds Q m \<Longrightarrow> m s = (Inr x, s') \<Longrightarrow> Q s s'"
  by (simp add: succeeds_def)

lemma succeeds_raise: "succeeds Q (s_raise e)"
  by (simp add: succeeds_def)

lemma succeeds_bind:
  assumes "effects R m" "\<And>x. succeeds Q (f x)" "\<And>s t u. R s t \<Longrightarrow> Q t u \<Longrightarrow> Q s u"
  shows "succeeds Q (s_bind m f)"
  unfolding succeeds_def
proof (intro allI impI)
  fix s y s'
  assume "s_bind m f s = (Inr y, s')"
  then obtain x t where "m s = (Inr x, t)" "f x t = (Inr y, s')" by (auto simp: s_bind_Inr)
  then show "Q s s'" using assms(3) effectsD [OF assms(1)] succeedsD [OF assms(2)] by blast
qed

lemma succeeds_get: "(\<And>x. succeeds Q (f x)) \<Longrightarrow> succeeds Q (s_bind (s_get get) f)"
  by (simp add: succeeds_def)

lemma succeeds_lift: "(\<And>x. succeeds Q (f x)) \<Longrightarrow> succeeds Q (s_bind (s_lift r) f)"
  by (cases r) (simp_all add: succeeds_def)

lemma succeeds_if: "(b \<Longrightarrow> succeeds Q m) \<Longrightarrow> (\<not> b \<Longrightarrow> succeeds Q m') \<Longrightarrow> succeeds Q (if b then m else m')"
  by simp

lemma succeeds_try:
  assumes "effects R m" "succeeds Q h" "\<And>x. succeeds Q (k x)" "\<And>s t u. R s t \<Longrightarrow> Q t u \<Longrightarrow> Q s u"
  shows "succeeds Q (s_try m c h k)"
  unfolding succeeds_def
proof (intro allI impI)
  fix s y s'
  assume *: "s_try m c h k s = (Inr y, s')"
  obtain r t where m: "m s = (r, t)" by (cases "m s")
  have "Q t s'"
  proof (cases r)
    case (Inl e)
    then show ?thesis using * m succeedsD [OF assms(2)] by (simp add: s_try_def split: if_splits)
  next
    case (Inr x)
    then show ?thesis using * m succeedsD [OF assms(3)] by (simp add: s_try_def)
  qed
  then show "Q s s'" using assms(4) effectsD [OF assms(1) m] by blast
qed

section \<open>Answers\<close>

text \<open>The tables the search for tutors leaves alone.\<close>

definition chat_tables :: "store \<Rightarrow> outbox_row list \<times> demo_case list \<times> demo_requirement list \<times> conversation_state list" where
  "chat_tables st = (st_outbox st, st_demos st, st_requirements st, st_conversations st)"

lemma keeps_chat_tables:
  "keeps chat_tables s t \<longleftrightarrow> keeps st_outbox s t \<and> keeps st_demos s t \<and> keeps st_requirements s t \<and> keeps st_conversations s t"
  by (auto simp: keeps_def chat_tables_def)

lemma store_candidate_keep: "keeps chat_tables st (store_candidate env now demo_id rank ref candidate st)"
  by (simp add: keeps_def chat_tables_def store_candidate_def Let_def)

lemma store_candidates_keep: "effects (keeps chat_tables) (store_candidates env now demo_id rank candidates)"
  by (induction env now demo_id rank candidates rule: store_candidates.induct)
    (auto intro!: keep.effects_intros store_candidate_keep simp del: sess_simps split: option.splits)

lemma create_tutor_shortlist_keep: "effects (keeps chat_tables) (create_tutor_shortlist env now demo_id requirement)"
  unfolding create_tutor_shortlist_def
  by (auto intro!: keep.effects_bind keep.effects_simps store_candidates_keep split: option.splits)

lemma transition_keep:
  "effects (keeps (\<lambda>st. (st_outbox st, st_requirements st, st_conversations st, map dc_id (st_demos st))))
     (transition_demo_state env demo_id event command after reason requested completed)"
  by (auto simp: transition_demo_state_def effects_def keeps_def add_transition_def update_demo_def cong: map_cong split: option.splits)

lemma effects_mono: "effects R m \<Longrightarrow> (\<And>s t. R s t \<Longrightarrow> R' s t) \<Longrightarrow> effects R' m"
  by (simp add: effects_def)

lemma transition_keep_outbox: "effects (keeps st_outbox) (transition_demo_state env demo_id event command after reason requested completed)"
  by (rule effects_mono [OF transition_keep]) (simp add: keeps_def)

lemma update_conversation_keep: "effects (keeps st_outbox) (s_modify (update_conversation k f))"
  by (intro keep.effects_modify) (simp add: keeps_def update_conversation_def)

text \<open>One reply to the agent the message came from, under the key of the message.\<close>

definition answered :: "agent_event \<Rightarrow> store \<Rightarrow> store \<Rightarrow> bool" where
  "answered event s s' \<longleftrightarrow> (\<exists>row. st_outbox s' = st_outbox s @ [row] \<and> ox_idempotency_key row = ''demo-reply:'' @ ae_event_id event
     \<and> ox_event_type row = ''outbound.delivery.requested.v1'' \<and> ox_tenant_id row = ae_tenant_id event
     \<and> ox_target_agent row = ae_source_agent event \<and> ox_correlation_id row = ae_correlation_id event \<and> ox_attempts row = 0)"

lemma answered_after: "keeps st_outbox s t \<Longrightarrow> answered event t u \<Longrightarrow> answered event s u"
  by (simp add: keeps_def answered_def)

lemmas answers_bind = succeeds_bind [where R = "keeps st_outbox" and Q = "answered event" for event, OF _ _ answered_after]

lemma reply_answers: "succeeds (answered event) (add_demo_reply_outbox env now event demo_id (ae_source_agent event) expires_at template variables)"
  by (auto simp: succeeds_def add_demo_reply_outbox_def answered_def add_outbox_def reply_outbox_def outbox_event_def Let_def)

lemma escalate_answers: "succeeds (answered event) (escalate env now event demo_id (ae_source_agent event) expires_at reason template variables)"
  unfolding escalate_def by (intro answers_bind transition_keep_outbox reply_answers)

lemma offer_answers:
  "succeeds (answered event) (offer_shortlist env now event demo_id requirement conversation (ae_source_agent event) expires_at changed shortlist)"
  unfolding offer_shortlist_def by (intro answers_bind transition_keep_outbox update_conversation_keep reply_answers)

lemma advance_answers:
  "succeeds (answered event)
     (advance_demo_after_requirements env now event demo_id requirement conversation step (ae_source_agent event) expires_at changed)"
proof -
  have search: "succeeds (answered event) (s_try (create_tutor_shortlist env now demo_id requirement) search_failure h k)"
    if "succeeds (answered event) h" "\<And>x. succeeds (answered event) (k x)" for h k
    by (rule succeeds_try [OF create_tutor_shortlist_keep that]) (auto simp: keeps_chat_tables intro: answered_after)
  then show ?thesis
    unfolding advance_demo_after_requirements_def Let_def
    by (intro succeeds_if reply_answers escalate_answers offer_answers search)
qed

lemma select_tutor_answers: "succeeds (answered event) (select_tutor env now event demo_id requirement conversation expires_at selected)"
  unfolding select_tutor_def
  by (intro answers_bind transition_keep_outbox update_conversation_keep reply_answers keep.effects_modify) (simp add: keeps_def)

lemma continue_demo_answers: "succeeds (answered event) (continue_demo env now event payload expires_at conversation)"
proof -
  have "effects (keeps st_outbox) (s_modify (update_requirement i r))" for i r
    by (intro keep.effects_modify) (simp add: keeps_def update_requirement_def)
  then show ?thesis
    unfolding continue_demo_def Let_def
    by (auto intro!: succeeds_get answers_bind [where m = "s_modify _"] update_conversation_keep advance_answers select_tutor_answers succeeds_raise
        split: option.splits prod.splits)
qed

text \<open>
  (C14) A WhatsApp message that is handled gets exactly one reply: one row is appended to the outbox, to
  the agent the message came from, under the key \<open>demo-reply:<event id>\<close>.  The exception is a message
  whose case exists while its conversation does not; it changes nothing.
\<close>

theorem message_answered_once:
  assumes "start_demo env now event st = (Inr (), st')"
  shows "answered event st st' \<or> (st' = st \<and> find_conversation (ae_tenant_id event, ae_conversation_id event) st = None
     \<and> find_demo (sg_uuid5 env namespace_url (''nxtutors:demo:'' @ ae_event_id event)) st \<noteq> None)"
proof -
  let ?demo = "sg_uuid5 env namespace_url (''nxtutors:demo:'' @ ae_event_id event)"
  have opened: "answered event st st'" if "open_demo env now event payload ?demo st = (Inr (), st')" for payload
    using that succeedsD [OF advance_answers] answered_after [of st "opened_store env event payload ?demo st"]
    by (simp add: open_demo_eq keeps_def Let_def split: if_splits)
  show ?thesis
    using assms succeedsD [OF continue_demo_answers] opened
    by (auto simp: start_demo_def Let_def s_bind_lift split: sum.splits option.splits if_splits)
qed

section \<open>The state of the case\<close>

lemma succeeds_then:
  assumes "succeeds Q m" "\<And>x. effects R (f x)" "\<And>s t u. Q s t \<Longrightarrow> R t u \<Longrightarrow> Q s u"
  shows "succeeds Q (s_bind m f)"
  unfolding succeeds_def
proof (intro allI impI)
  fix s y s'
  assume "s_bind m f s = (Inr y, s')"
  then obtain x t where "m s = (Inr x, t)" "f x t = (Inr y, s')" by (auto simp: s_bind_Inr)
  then show "Q s s'" using assms(3) effectsD [OF assms(2)] succeedsD [OF assms(1)] by blast
qed

text \<open>The case, when it exists, ends in one of the given states.\<close>

definition ends_in :: "string \<Rightarrow> demo_state set \<Rightarrow> store \<Rightarrow> store \<Rightarrow> bool" where
  "ends_in i states s s' \<longleftrightarrow> (find_demo i s \<noteq> None \<longrightarrow> (\<exists>d. find_demo i s' = Some d \<and> dc_state d \<in> demo_state_value ` states))"

lemma find_demo_iff: "find_demo i st \<noteq> None \<longleftrightarrow> i \<in> dc_id ` set (st_demos st)"
  by (auto simp: find_demo_def find_None_iff)

lemma ends_in_compose:
  "ends_in i states s t \<Longrightarrow> keeps st_demos t u \<Longrightarrow> ends_in i states s u"
  "keeps (\<lambda>st. map dc_id (st_demos st)) s t \<Longrightarrow> ends_in i states t u \<Longrightarrow> ends_in i states s u"
proof -
  show "ends_in i states s t \<Longrightarrow> keeps st_demos t u \<Longrightarrow> ends_in i states s u"
    by (simp add: ends_in_def keeps_def find_demo_def)
  assume "keeps (\<lambda>st. map dc_id (st_demos st)) s t"
  then have "dc_id ` set (st_demos t) = dc_id ` set (st_demos s)" unfolding keeps_def by (metis set_map)
  then show "ends_in i states t u \<Longrightarrow> ends_in i states s u" by (simp only: ends_in_def find_demo_iff)
qed

lemmas ends_then = succeeds_then [where R = "keeps st_demos" and Q = "ends_in i states" for i states, OF _ _ ends_in_compose(1)]
lemmas ends_after = succeeds_bind [where R = "keeps (\<lambda>st. map dc_id (st_demos st))" and Q = "ends_in i states" for i states, OF _ _ ends_in_compose(2)]

lemma ends_in_mono: "states \<subseteq> states' \<Longrightarrow> ends_in i states s s' \<Longrightarrow> ends_in i states' s s'"
  unfolding ends_in_def by blast

lemma find_demo_set_state:
  assumes "find_demo i st = Some d"
  shows "find_demo i (add_transition t (update_demo i (set_state after) st)) = Some (set_state after d)"
proof -
  have "List.find (\<lambda>d. dc_id d = i) (update_by dc_id i (set_state after) ds) = map_option (set_state after) (List.find (\<lambda>d. dc_id d = i) ds)" for ds
    by (induction ds) (auto simp: update_by_def)
  then show ?thesis using assms by (simp add: find_demo_def add_transition_def update_demo_def)
qed

lemma transition_ends:
  "succeeds (ends_in demo_id {after}) (transition_demo_state env demo_id event command after reason requested completed)"
  by (auto simp: succeeds_def transition_demo_state_def ends_in_def find_demo_set_state split: option.splits if_splits)

lemma reply_keep_demos: "effects (keeps st_demos) (add_demo_reply_outbox env now event demo_id target expires_at template variables)"
  unfolding add_demo_reply_outbox_def by (intro keep.effects_modify) (simp add: keeps_def add_outbox_def)

lemma step_keep_demos: "effects (keeps st_demos) (s_modify (update_conversation k f))"
  by (intro keep.effects_modify) (simp add: keeps_def update_conversation_def)

lemma transition_keep_ids:
  "effects (keeps (\<lambda>st. map dc_id (st_demos st))) (transition_demo_state env demo_id event command after reason requested completed)"
  by (rule effects_mono [OF transition_keep]) (simp add: keeps_def)

lemma escalate_ends: "succeeds (ends_in demo_id {HUMAN_HANDOFF}) (escalate env now event demo_id target expires_at reason template variables)"
  unfolding escalate_def by (intro ends_then transition_ends reply_keep_demos)

lemma offer_ends:
  "succeeds (ends_in demo_id {TUTOR_SHORTLISTED})
     (offer_shortlist env now event demo_id requirement conversation target expires_at changed shortlist)"
  unfolding offer_shortlist_def
  by (rule ends_after [OF transition_keep_ids], rule ends_then [OF transition_ends])
    (intro keep.effects_bind step_keep_demos reply_keep_demos)

lemma search_ends:
  assumes "rq_missing_fields requirement = []" "step \<notin> {''select_tutor_candidate'', ''awaiting_tutor_confirmation''}" "sg_website env \<noteq> None"
  shows "succeeds (ends_in demo_id {HUMAN_HANDOFF, TUTOR_SHORTLISTED})
    (advance_demo_after_requirements env now event demo_id requirement conversation step target expires_at changed)"
proof -
  let ?Q = "ends_in demo_id {HUMAN_HANDOFF, TUTOR_SHORTLISTED}"
  have keep: "effects (keeps (\<lambda>st. map dc_id (st_demos st))) (create_tutor_shortlist env now demo_id requirement)"
    by (rule effects_mono [OF create_tutor_shortlist_keep]) (simp add: keeps_def chat_tables_def)
  have esc: "succeeds ?Q (escalate env now event demo_id target expires_at reason template variables)" for reason template variables
    using escalate_ends ends_in_mono [of "{HUMAN_HANDOFF}" "{HUMAN_HANDOFF, TUTOR_SHORTLISTED}"] unfolding succeeds_def by blast
  have off: "succeeds ?Q (offer_shortlist env now event demo_id requirement conversation target expires_at changed shortlist)" for shortlist
    using offer_ends ends_in_mono [of "{TUTOR_SHORTLISTED}" "{HUMAN_HANDOFF, TUTOR_SHORTLISTED}"] unfolding succeeds_def by blast
  have search: "succeeds ?Q (s_try (create_tutor_shortlist env now demo_id requirement) search_failure h k)"
    if "succeeds ?Q h" "\<And>x. succeeds ?Q (k x)" for h k
    by (rule succeeds_try [OF keep that ends_in_compose(2)])
  show ?thesis unfolding advance_demo_after_requirements_def Let_def by (intro search succeeds_if esc off) (use assms in simp_all)
qed

text \<open>A reply in a running conversation that names at least one field and leaves none missing.\<close>

definition completing_reply :: "saga_env \<Rightarrow> agent_event \<Rightarrow> store \<Rightarrow> string \<Rightarrow> bool" where
  "completing_reply env event st demo_id \<longleftrightarrow>
     (case (validated demo_handoff_ok (sg_handoff env (ae_payload event)), find_conversation (ae_tenant_id event, ae_conversation_id event) st,
            List.find (\<lambda>r. rq_demo_case_id r = demo_id) (st_requirements st)) of
        (Inr payload, Some conversation, Some stored) \<Rightarrow>
          (let updates = extract_requirement_updates (hm_text (hp_message payload)) (cv_current_step conversation) (rq_subject stored)
           in cv_demo_case_id conversation = Some demo_id \<and> updates \<noteq> []
              \<and> missing_requirement_fields (fst (apply_requirement_updates stored updates)) = [])
      | _ \<Rightarrow> False)"


text \<open>A converted case whose family asks for another time.\<close>

definition evening_event :: agent_event where
  "evening_event = sample_event ''event-9'' ''whatsapp.handoff.demo.v1'' [(''text'', JString ''evening'')]"

definition converted_store :: store where
  "converted_store = empty_store\<lparr>st_demos := [sample_case CONVERTED], st_requirements := [sample_requirement],
     st_conversations := [\<lparr>cv_tenant_id = ''nxtutors'', cv_demo_case_id = Some ''demo-1'', cv_conversation_id = ''conv-1'',
       cv_current_step = ''awaiting_tutor_confirmation'', cv_safe_summary = None, cv_flow_version = ''demo-flow-v1'', cv_version = 1\<rparr>]\<rparr>"

lemma evening_updates:
  "extract_requirement_updates (Some ''evening'') ''awaiting_tutor_confirmation'' (Some ''Mathematics'')
     = [(''preferred_times'', FList [JObject [(''label'', JString ''evening'')]])]"
  by code_simp

lemma evening_payload:
  "validated demo_handoff_ok (sg_handoff sample_env (ae_payload evening_event)) = Inr
     \<lparr>hp_provider_message_ref = ''m'', hp_intent = ''demo_request'', hp_lead_ref = Some ''lead-1'', hp_user_ref = Some ''user-1'',
      hp_message = \<lparr>hm_type = ''text'', hm_text = Some ''evening''\<rparr>,
      hp_last_user_message_at = Datetime 0 (Some 0), hp_expires_at = Datetime 1000 (Some 0), hp_consent_refs = []\<rparr>"
  by (simp add: validated_def sample_env_def sample_handoff_def evening_event_def sample_event_def text_of_def jget_def demo_handoff_ok_def
      length_in_def optional_max_def)

lemma evening_rows:
  "ae_tenant_id evening_event = ''nxtutors''" "ae_conversation_id evening_event = ''conv-1''"
  "find_conversation (''nxtutors'', ''conv-1'') converted_store = Some (hd (st_conversations converted_store))"
  "cv_demo_case_id (hd (st_conversations converted_store)) = Some ''demo-1''"
  "cv_current_step (hd (st_conversations converted_store)) = ''awaiting_tutor_confirmation''"
  "List.find (\<lambda>r. rq_demo_case_id r = ''demo-1'') (st_requirements converted_store) = Some sample_requirement"
  "rq_subject sample_requirement = Some ''Mathematics''"
  by (simp_all add: evening_event_def sample_event_def converted_store_def empty_store_def find_conversation_def conversation_key_def sample_requirement_def)

lemma evening_requirement:
  "apply_requirement_updates sample_requirement [(''preferred_times'', FList [JObject [(''label'', JString ''evening'')]])]
     = (sample_requirement\<lparr>rq_preferred_times := [JObject [(''label'', JString ''evening'')]]\<rparr>, {''preferred_times''})"
  "missing_requirement_fields (sample_requirement\<lparr>rq_preferred_times := [JObject [(''label'', JString ''evening'')]]\<rparr>) = []"
  by (simp_all add: sample_requirement_def get_field_def set_field_def value_list_def missing_requirement_fields_def truthy_def)

lemma evening_completes: "completing_reply sample_env evening_event converted_store ''demo-1''"
  by (simp add: completing_reply_def evening_payload evening_rows evening_updates evening_requirement del: apply_requirement_updates.simps)

lemma evening_run: "fst (start_demo sample_env 500 evening_event converted_store) = Inr ()"
proof -
  have search: "create_tutor_shortlist sample_env now i r = s_return []" for now i r
    by (rule ext) (simp add: create_tutor_shortlist_def sample_env_def slice_to_def candidate_items_from_payload_def shortlist_rows_def List.map_filter_def)
  have website: "sg_website sample_env = Some (\<lambda>_. Inr [])" by (simp add: sample_env_def)
  have "fst (escalate sample_env 500 evening_event i t e r m v st) = Inr ()" for i t e r m v st
    by (simp add: escalate_def transition_demo_state_def add_demo_reply_outbox_def split: option.splits)
  then show ?thesis using website
    by (simp add: start_demo_def evening_payload evening_rows continue_demo_def evening_updates evening_requirement updated_requirement_def
        next_requirement_step_def advance_demo_after_requirements_def search s_try_def Let_def
        del: apply_requirement_updates.simps)
qed

lemma evening_reply: "start_demo sample_env 500 evening_event converted_store = (Inr (), snd (start_demo sample_env 500 evening_event converted_store))"
  using evening_run by (metis prod.collapse)

theorem message_answered_once_witness: "answered evening_event converted_store (snd (start_demo sample_env 500 evening_event converted_store))"
  using message_answered_once [OF evening_reply] by (simp add: evening_rows)


end
