(* ===== verification/ChatInvariant.thy ===== *)
theory ChatInvariant
  imports ChatProperties
begin

text \<open>
  The invariant of the conversations: requirement rows within the vocabulary, each with the list of the
  fields it misses, and steps that ask for them in order.
\<close>

section \<open>Requirements and steps agree\<close>

definition step_agrees :: "string \<Rightarrow> demo_requirement \<Rightarrow> bool" where
  "step_agrees step r \<longleftrightarrow> step = next_requirement_step (rq_missing_fields r)
     \<or> step \<in> {''select_tutor_candidate'', ''awaiting_tutor_confirmation''} \<and> rq_missing_fields r = []"

definition chat_ok :: "store \<Rightarrow> bool" where
  "chat_ok st \<longleftrightarrow>
     (\<forall>r \<in> set (st_requirements st). requirement_ok r \<and> rq_missing_fields r = missing_requirement_fields r \<and> rq_demo_case_id r \<in> dc_id ` set (st_demos st))
   \<and> (\<forall>c \<in> set (st_conversations st). \<exists>r \<in> set (st_requirements st).
        cv_demo_case_id c = Some (rq_demo_case_id r) \<and> step_agrees (cv_current_step c) r)
   \<and> distinct (map rq_demo_case_id (st_requirements st)) \<and> distinct (map conversation_key (st_conversations st))
   \<and> distinct (map cv_demo_case_id (st_conversations st))"

lemma next_step_collects: "next_requirement_step missing \<notin> {''select_tutor_candidate'', ''awaiting_tutor_confirmation''}"
  by (simp add: next_requirement_step_def)

text \<open>A session that at most sets the step of one conversation to the choice of a tutor or what follows it.\<close>

definition sets_step :: "string \<times> string \<Rightarrow> store \<Rightarrow> store \<Rightarrow> bool" where
  "sets_step key s t \<longleftrightarrow> st_requirements t = st_requirements s \<and> map dc_id (st_demos t) = map dc_id (st_demos s)
     \<and> (st_conversations t = st_conversations s
        \<or> (\<exists>step \<in> {''select_tutor_candidate'', ''awaiting_tutor_confirmation''}.
             st_conversations t = update_by conversation_key key (set_step step) (st_conversations s)))"

lemma set_step_simps [simp]:
  "conversation_key (set_step step c) = conversation_key c" "cv_demo_case_id (set_step step c) = cv_demo_case_id c"
  "cv_current_step (set_step step c) = step" "set_step step (set_step step' c) = set_step step c"
  by (simp_all add: set_step_def conversation_key_def)

lemma update_by_twice: "update_by conversation_key key (set_step s) (update_by conversation_key key (set_step s') cs) = update_by conversation_key key (set_step s) cs"
  by (simp add: update_by_def)

interpretation sets: step_relation "sets_step key" for key
  by unfold_locales (auto simp: sets_step_def update_by_twice)

lemma sets_step_keeps: "effects (keeps (\<lambda>st. (st_requirements st, map dc_id (st_demos st), st_conversations st))) m \<Longrightarrow> effects (sets_step key) m"
  by (erule effects_mono) (simp add: keeps_def sets_step_def)

lemma sets_step_intros:
  "effects (sets_step key) (transition_demo_state env demo_id event command after reason requested completed)"
  "effects (sets_step key) (create_tutor_shortlist env now demo_id requirement)"
  "effects (sets_step key) (add_demo_reply_outbox env now event demo_id target expires_at template variables)"
  "effects (sets_step key) (s_modify (update_conversation key (set_step ''select_tutor_candidate'')))"
  "effects (sets_step key) (s_modify (update_conversation key (set_step ''awaiting_tutor_confirmation'')))"
proof -
  show "effects (sets_step key) (transition_demo_state env demo_id event command after reason requested completed)"
    by (rule sets_step_keeps, rule effects_mono [OF transition_keep]) (simp add: keeps_def)
  show "effects (sets_step key) (create_tutor_shortlist env now demo_id requirement)"
    by (rule sets_step_keeps, rule effects_mono [OF create_tutor_shortlist_keep]) (simp add: keeps_def chat_tables_def)
qed (simp_all add: effects_def sets_step_def add_demo_reply_outbox_def add_outbox_def update_conversation_def)

lemma advance_sets:
  "effects (sets_step key) (advance_demo_after_requirements env now event demo_id requirement key step target expires_at changed)"
  unfolding advance_demo_after_requirements_def escalate_def offer_shortlist_def Let_def
  by (intro sets.effects_if sets.effects_try sets.effects_bind sets_step_intros)

lemma select_tutor_sets: "effects (sets_step key) (select_tutor env now event demo_id requirement key expires_at selected)"
  unfolding select_tutor_def
  by (intro sets.effects_bind sets_step_intros sets.effects_modify) (simp add: sets_step_def)

lemma missing_asks:
  assumes "rq_missing_fields requirement \<noteq> []"
    and "advance_demo_after_requirements env now event demo_id requirement key step target expires_at changed st = (r, st')"
  shows "st_requirements st' = st_requirements st" "st_demos st' = st_demos st" "st_conversations st' = st_conversations st"
  using assms by (auto simp: advance_demo_after_requirements_def add_demo_reply_outbox_def add_outbox_def)

lemma chat_ok_sets_step:
  assumes "chat_ok st" "sets_step key st st'"
    and "\<And>c r. c \<in> set (st_conversations st) \<Longrightarrow> conversation_key c = key \<Longrightarrow> r \<in> set (st_requirements st)
      \<Longrightarrow> cv_demo_case_id c = Some (rq_demo_case_id r) \<Longrightarrow> rq_missing_fields r = []"
  shows "chat_ok st'"
proof -
  have eq: "st_requirements st' = st_requirements st" "dc_id ` set (st_demos st') = dc_id ` set (st_demos st)"
    using assms(2) unfolding sets_step_def by (metis set_map)+
  consider "st_conversations st' = st_conversations st"
    | step where "step \<in> {''select_tutor_candidate'', ''awaiting_tutor_confirmation''}"
        "st_conversations st' = update_by conversation_key key (set_step step) (st_conversations st)"
    using assms(2) unfolding sets_step_def by blast
  then show ?thesis
  proof cases
    case 1
    then show ?thesis using assms(1) eq by (simp add: chat_ok_def)
  next
    case (2 step)
    have "\<exists>r \<in> set (st_requirements st). cv_demo_case_id c' = Some (rq_demo_case_id r) \<and> step_agrees (cv_current_step c') r"
      if c': "c' \<in> set (st_conversations st')" for c'
    proof -
      obtain c where c: "c \<in> set (st_conversations st)" "c' = (if conversation_key c = key then set_step step c else c)"
        using c' unfolding 2(2) set_update_by by blast
      obtain r where r: "r \<in> set (st_requirements st)" "cv_demo_case_id c = Some (rq_demo_case_id r)" "step_agrees (cv_current_step c) r"
        using assms(1) c(1) unfolding chat_ok_def by blast
      then have "step_agrees (cv_current_step c') r" using assms(3) [OF c(1) _ r(1,2)] c(2) 2(1) by (simp add: step_agrees_def)
      then show ?thesis using r c(2) by auto
    qed
    moreover have "map conversation_key (st_conversations st') = map conversation_key (st_conversations st)"
      "map cv_demo_case_id (st_conversations st') = map cv_demo_case_id (st_conversations st)"
      unfolding 2(2) by (auto cong: map_cong)
    ultimately show ?thesis using assms(1) eq unfolding chat_ok_def by simp
  qed
qed

text \<open>The requirement and the step a reply writes.\<close>

lemma reply_requirement:
  assumes "requirement_ok stored" "rq_missing_fields stored = missing_requirement_fields stored" "step_agrees previous stored"
    and "updates = extract_requirement_updates t previous subject"
    and "requirement = (fst (updated_requirement stored updates))\<lparr>rq_version := v\<rparr>"
    and "step = (if previous \<in> {''select_tutor_candidate'', ''awaiting_tutor_confirmation''} \<and> updates = []
                    then previous else next_requirement_step (rq_missing_fields requirement))"
  shows "requirement_ok requirement" "rq_missing_fields requirement = missing_requirement_fields requirement"
    "rq_demo_case_id requirement = rq_demo_case_id stored" "step_agrees step requirement"
proof -
  have d: "dict_ok updates" unfolding assms(4) by (rule extracted_updates_ok)
  show "requirement_ok requirement" using requirement_ok_apply [OF d assms(1)] by (simp add: assms(5) updated_requirement_def split_beta)
  show m: "rq_missing_fields requirement = missing_requirement_fields requirement"
    by (simp add: assms(5) updated_requirement_def split_beta missing_requirement_fields_def)
  show "rq_demo_case_id requirement = rq_demo_case_id stored"
    using apply_updates_frame [OF d, of stored] by (simp add: assms(5) updated_requirement_def split_beta fixed_columns_def)
  show "step_agrees step requirement"
  proof (cases "previous \<in> {''select_tutor_candidate'', ''awaiting_tutor_confirmation''} \<and> updates = []")
    case True
    then have "rq_missing_fields stored = []" using assms(3) next_step_collects [of "rq_missing_fields stored"] unfolding step_agrees_def by metis
    moreover have "missing_requirement_fields requirement = missing_requirement_fields stored"
      using True by (simp add: assms(5) updated_requirement_def missing_requirement_fields_def)
    ultimately show ?thesis using True m assms(2,6) by (simp add: step_agrees_def)
  next
    case False
    then have "step = next_requirement_step (rq_missing_fields requirement)" unfolding assms(6) by (rule if_not_P)
    then show ?thesis by (simp add: step_agrees_def)
  qed
qed

lemma chat_ok_reply:
  assumes "chat_ok st" "conversation \<in> set (st_conversations st)" "stored \<in> set (st_requirements st)" "cv_demo_case_id conversation = Some demo_id"
    "rq_demo_case_id stored = demo_id"
    and "requirement_ok requirement" "rq_missing_fields requirement = missing_requirement_fields requirement"
    "rq_demo_case_id requirement = demo_id" "step_agrees step requirement"
    and "\<And>c. conversation_key (f c) = conversation_key c \<and> cv_demo_case_id (f c) = cv_demo_case_id c \<and> cv_current_step (f c) = step"
  shows "chat_ok (update_conversation (conversation_key conversation) f (update_requirement demo_id requirement st))"
    (is "chat_ok ?st")
proof -
  have reqs: "st_requirements ?st = update_by rq_demo_case_id demo_id (\<lambda>_. requirement) (st_requirements st)"
    and convs: "st_conversations ?st = update_by conversation_key (conversation_key conversation) f (st_conversations st)"
    and demos: "st_demos ?st = st_demos st"
    by (simp_all add: update_conversation_def update_requirement_def)
  have inj: "c = conversation" if "c \<in> set (st_conversations st)" "conversation_key c = conversation_key conversation \<or> cv_demo_case_id c = Some demo_id" for c
  proof -
    have "inj_on conversation_key (set (st_conversations st))" "inj_on cv_demo_case_id (set (st_conversations st))"
      using assms(1) by (simp_all add: chat_ok_def distinct_map)
    then show ?thesis using that assms(2,4) by (metis inj_onD)
  qed
  have "requirement \<in> set (st_requirements ?st)" unfolding reqs set_update_by using assms(3,5) by (intro bexI [of _ stored]) simp_all
  have "\<exists>r \<in> set (st_requirements ?st). cv_demo_case_id c' = Some (rq_demo_case_id r) \<and> step_agrees (cv_current_step c') r"
    if c': "c' \<in> set (st_conversations ?st)" for c'
  proof -
    obtain c where c: "c \<in> set (st_conversations st)" "c' = (if conversation_key c = conversation_key conversation then f c else c)"
      using c' unfolding convs set_update_by by blast
    show ?thesis
    proof (cases "conversation_key c = conversation_key conversation")
      case True
      then have "c = conversation" using inj c(1) by blast
      then show ?thesis using c(2) assms(4,8-10) \<open>requirement \<in> set (st_requirements ?st)\<close> by (intro bexI [of _ requirement]) simp_all
    next
      case False
      obtain r where r: "r \<in> set (st_requirements st)" "cv_demo_case_id c = Some (rq_demo_case_id r)" "step_agrees (cv_current_step c) r"
        using assms(1) c(1) unfolding chat_ok_def by blast
      then have "rq_demo_case_id r \<noteq> demo_id" using inj [OF c(1)] False by auto
      then have "r \<in> set (st_requirements ?st)" unfolding reqs set_update_by using r(1) by (intro bexI [of _ r]) simp_all
      then show ?thesis using r c(2) False by auto
    qed
  qed
  moreover have "map rq_demo_case_id (st_requirements ?st) = map rq_demo_case_id (st_requirements st)"
    "map conversation_key (st_conversations ?st) = map conversation_key (st_conversations st)"
    "map cv_demo_case_id (st_conversations ?st) = map cv_demo_case_id (st_conversations st)"
    unfolding reqs convs using assms(8,10) by (auto cong: map_cong)
  moreover have "requirement_ok r \<and> rq_missing_fields r = missing_requirement_fields r \<and> rq_demo_case_id r \<in> dc_id ` set (st_demos st)"
    if "r \<in> set (st_requirements ?st)" for r
    using that assms(1,3,5-8) unfolding reqs set_update_by chat_ok_def by auto
  ultimately show ?thesis using assms(1) unfolding chat_ok_def demos by simp
qed

lemma chat_ok_advance:
  assumes "chat_ok st" "requirement \<in> set (st_requirements st)" "c \<in> set (st_conversations st)" "conversation_key c = key"
    "cv_demo_case_id c = Some (rq_demo_case_id requirement)"
    and "advance_demo_after_requirements env now event demo_id requirement key step target expires_at changed st = (r, st')"
  shows "chat_ok st'"
proof (cases "rq_missing_fields requirement = []")
  case True
  have "c' = c" if "c' \<in> set (st_conversations st)" "conversation_key c' = key" for c'
    using assms(1,3,4) that by (auto simp: chat_ok_def distinct_map dest: inj_onD)
  moreover have "r' = requirement" if "r' \<in> set (st_requirements st)" "rq_demo_case_id r' = rq_demo_case_id requirement" for r'
    using assms(1,2) that by (auto simp: chat_ok_def distinct_map dest: inj_onD)
  ultimately show ?thesis
    using True assms(5) by (intro chat_ok_sets_step [OF assms(1) effectsD [OF advance_sets assms(6)]]) (metis option.inject)
next
  case False
  then show ?thesis using assms(1) missing_asks [OF False assms(6)] by (simp add: chat_ok_def)
qed

lemma find_requirement: "List.find (\<lambda>r. rq_demo_case_id r = i) rs = Some r \<Longrightarrow> r \<in> set rs \<and> rq_demo_case_id r = i"
  by (auto simp: find_Some_iff)

lemma case_option_app: "(case x of None \<Rightarrow> f | Some y \<Rightarrow> g y) s = (case x of None \<Rightarrow> f s | Some y \<Rightarrow> g y s)"
  by (cases x) simp_all

lemma continue_demo_ok:
  assumes "chat_ok st" "conversation \<in> set (st_conversations st)"
    and "continue_demo env now event payload expires_at conversation st = (Inr (), st')"
  shows "chat_ok st'"
proof -
  obtain demo_id stored where d: "cv_demo_case_id conversation = Some demo_id"
    and q: "List.find (\<lambda>r. rq_demo_case_id r = demo_id) (st_requirements st) = Some stored"
    using assms(3) by (auto simp: continue_demo_def split: option.splits)
  note stored = find_requirement [OF q]
  define previous where "previous = cv_current_step conversation"
  define ups where "ups = extract_requirement_updates (hm_text (hp_message payload)) previous (rq_subject stored)"
  define requirement where "requirement = (fst (updated_requirement stored ups))\<lparr>rq_version := rq_version (fst (updated_requirement stored ups)) + 1\<rparr>"
  define step where "step = (if previous \<in> {''select_tutor_candidate'', ''awaiting_tutor_confirmation''} \<and> ups = []
                    then previous else next_requirement_step (rq_missing_fields requirement))"
  define f where "f = (\<lambda>c :: conversation_state. c\<lparr>cv_current_step := step, cv_safe_summary := Some (safe_requirement_summary requirement), cv_version := cv_version c + 1\<rparr>)"
  define st1 where "st1 = update_conversation (conversation_key conversation) f (update_requirement demo_id requirement st)"
  obtain r where "r \<in> set (st_requirements st)" "cv_demo_case_id conversation = Some (rq_demo_case_id r)" "step_agrees previous r"
    using assms(1,2) unfolding chat_ok_def previous_def by blast
  then have "step_agrees previous stored" using assms(1) stored d by (auto simp: chat_ok_def distinct_map dest: inj_onD)
  moreover have "requirement_ok stored" "rq_missing_fields stored = missing_requirement_fields stored" using assms(1) stored by (simp_all add: chat_ok_def)
  ultimately have req: "requirement_ok requirement" "rq_missing_fields requirement = missing_requirement_fields requirement"
    "rq_demo_case_id requirement = demo_id" "step_agrees step requirement"
    using reply_requirement [OF _ _ _ ups_def requirement_def step_def] stored by simp_all
  have ok: "chat_ok st1" unfolding st1_def
    by (rule chat_ok_reply [OF assms(1,2) conjunct1 [OF stored] d conjunct2 [OF stored] req]) (simp add: f_def conversation_key_def)
  have in1: "requirement \<in> set (st_requirements st1)" "f conversation \<in> set (st_conversations st1)"
    "conversation_key (f conversation) = conversation_key conversation" "cv_demo_case_id (f conversation) = Some (rq_demo_case_id requirement)"
  proof -
    show "requirement \<in> set (st_requirements st1)"
      using stored by (simp add: st1_def update_conversation_def update_requirement_def set_update_by) (metis (full_types))
    show "f conversation \<in> set (st_conversations st1)"
      using assms(2) by (simp add: st1_def update_conversation_def update_requirement_def set_update_by) (metis (full_types))
  qed (simp_all add: f_def conversation_key_def d req(3))
  define go where "go = advance_demo_after_requirements env now event demo_id requirement (conversation_key conversation) step (ae_source_agent event)
      expires_at (snd (updated_requirement stored ups))"
  have "(if previous = ''select_tutor_candidate'' \<and> step = ''select_tutor_candidate'' then
        (case selected_candidate_rank (hm_text (hp_message payload)) of None \<Rightarrow> go st1
         | Some rank \<Rightarrow> (case find_ranked demo_id rank st1 of None \<Rightarrow> go st1
             | Some s \<Rightarrow> select_tutor env now event demo_id requirement (conversation_key conversation) expires_at s st1))
      else go st1) = (Inr (), st')"
    using assms(3)
    unfolding continue_demo_def d option.case s_bind_simps q Let_def split_beta case_option_app if_distribR
      go_def st1_def f_def step_def requirement_def ups_def previous_def by blast
  then have run: "(\<exists>changed. advance_demo_after_requirements env now event demo_id requirement (conversation_key conversation) step (ae_source_agent event)
        expires_at changed st1 = (Inr (), st'))
      \<or> step = ''select_tutor_candidate'' \<and> (\<exists>selected. select_tutor env now event demo_id requirement (conversation_key conversation) expires_at selected st1 = (Inr (), st'))"
    unfolding go_def by (auto split: if_splits option.splits)
  then show ?thesis
  proof
    assume "step = ''select_tutor_candidate'' \<and> (\<exists>selected. select_tutor env now event demo_id requirement (conversation_key conversation) expires_at selected st1 = (Inr (), st'))"
    then obtain selected where s: "step = ''select_tutor_candidate''" and
      "select_tutor env now event demo_id requirement (conversation_key conversation) expires_at selected st1 = (Inr (), st')" by blast
    from effectsD [OF select_tutor_sets this(2)] show ?thesis
    proof (rule chat_ok_sets_step [OF ok])
      have "rq_missing_fields requirement = []" using req(4) s next_step_collects [of "rq_missing_fields requirement"] by (auto simp: step_agrees_def)
      then show "rq_missing_fields r = []" if "c \<in> set (st_conversations st1)" "conversation_key c = conversation_key conversation"
          "r \<in> set (st_requirements st1)" "cv_demo_case_id c = Some (rq_demo_case_id r)" for c r
        using that ok in1 by (metis chat_ok_def distinct_map inj_onD option.inject)
    qed
  qed (use chat_ok_advance [OF ok in1] in blast)
qed

lemma initial_requirement_ok:
  "requirement_ok (initial_requirement env demo_id t)" "rq_missing_fields (initial_requirement env demo_id t) = missing_requirement_fields (initial_requirement env demo_id t)"
  "rq_demo_case_id (initial_requirement env demo_id t) = demo_id"
proof -
  note ok = extracted_updates_ok [of t "''collect_requirements''" None]
  define base where "base = \<lparr>rq_demo_case_id = demo_id, rq_board = None, rq_class_level = None, rq_subject = None, rq_learning_goal = None,
        rq_mode = None, rq_location_region = None, rq_timezone = sg_default_timezone env, rq_preferred_times = [],
        rq_missing_fields = REQUIRED_DEMO_FIELDS, rq_version = 1\<rparr>"
  have b: "requirement_ok base" "rq_demo_case_id base = demo_id"
    by (simp_all add: base_def requirement_ok_def get_field_def text_value_def)
  have i: "initial_requirement env demo_id t = (let r = fst (apply_requirement_updates base (extract_requirement_updates t ''collect_requirements'' None))
      in r\<lparr>rq_missing_fields := missing_requirement_fields r\<rparr>)"
    by (simp add: initial_requirement_def updated_requirement_def base_def split_beta Let_def)
  show "requirement_ok (initial_requirement env demo_id t)" using requirement_ok_apply [OF ok b(1)] by (simp add: i Let_def)
  show "rq_missing_fields (initial_requirement env demo_id t) = missing_requirement_fields (initial_requirement env demo_id t)"
    by (simp add: i Let_def missing_requirement_fields_def)
  show "rq_demo_case_id (initial_requirement env demo_id t) = demo_id"
    using apply_updates_frame [OF ok, of base] b(2) by (simp add: i Let_def fixed_columns_def)
qed

lemma opened_ok:
  assumes "chat_ok st" "find_demo demo_id st = None" "find_conversation (ae_tenant_id event, ae_conversation_id event) st = None"
  shows "chat_ok (opened_store env event payload demo_id st)"
proof -
  have fresh: "demo_id \<notin> dc_id ` set (st_demos st)" "(ae_tenant_id event, ae_conversation_id event) \<notin> conversation_key ` set (st_conversations st)"
    using assms(2,3) by (auto simp: find_demo_def find_conversation_def find_None_iff)
  have "demo_id \<notin> rq_demo_case_id ` set (st_requirements st)" "Some demo_id \<notin> cv_demo_case_id ` set (st_conversations st)"
    using assms(1) fresh(1) unfolding chat_ok_def by fastforce+
  then show ?thesis
    using assms(1) fresh initial_requirement_ok
    by (auto simp: chat_ok_def new_conversation_def conversation_key_def new_demo_def step_agrees_def) blast
qed


lemma converted_ok: "chat_ok converted_store"
proof -
  have "show_int 7 = ''7''" by code_simp
  then have "''Class 7'' \<in> class_levels" unfolding class_levels_def by (intro image_eqI [of _ _ 7]) simp_all
  then have "requirement_ok sample_requirement"
    unfolding requirement_ok_def requirement_fields_def
    by (simp add: sample_requirement_def get_field_def text_value_def update_ok_def CITY_ALIASES_def MODE_ALIASES_def TIME_ALIASES_def)
  then show ?thesis
    by (simp add: chat_ok_def converted_store_def empty_store_def sample_case_def step_agrees_def sample_requirement_def missing_requirement_fields_def
        truthy_def)
qed


end
