(* ===== verification/OutboxRouter.thy ===== *)
theory OutboxRouter
  imports Conversation
begin

text \<open>
  \<open>integrations/outbox_router.py\<close> with the delivery request of \<open>integrations/lead_intake/client.py\<close>: the
  transport of the publisher, which hands a row to the one gateway that owns its target after checking
  that the payload and the row belong together.  The gateways are arguments, as are \<open>uuid5\<close>, parsing a
  UUID and the decoding of a payload; the constraints on the decoded fields are checked here.
\<close>

section \<open>Payloads\<close>

record website_activation_payload =
  wa_event_type :: string
  wa_demo_ref :: string
  wa_website_user_ref :: string
  wa_plan_id :: int
  wa_plan_version :: string
  wa_amount_minor :: int
  wa_currency :: string
  wa_provider_order_ref :: string
  wa_payment_evidence_ref :: string
  wa_payment_verified_at :: datetime
  wa_correlation_id :: string
  wa_activation_key :: string

definition website_activation_ok :: "website_activation_payload \<Rightarrow> bool" where
  "website_activation_ok a \<longleftrightarrow> wa_event_type a = ''demo.payment.verified.v1'' \<and> wa_plan_id a > 0 \<and> length_in 1 64 (wa_plan_version a)
     \<and> wa_amount_minor a > 0 \<and> currency_pattern (wa_currency a) \<and> aware (wa_payment_verified_at a)"

record lead_intake_delivery_request =
  ld_event_id :: string
  ld_event_type :: string
  ld_demo_id :: string
  ld_recipient_ref :: string
  ld_template_or_message_ref :: string
  ld_variables :: "(string \<times> string) list"
  ld_message_category :: string
  ld_service_window_expires_at :: datetime
  ld_send_key :: string
  ld_correlation_id :: string

definition lead_intake_delivery_ok :: "lead_intake_delivery_request \<Rightarrow> bool" where
  "lead_intake_delivery_ok r \<longleftrightarrow> ld_event_type r = ''outbound.delivery.requested.v1'' \<and> length_in 1 255 (ld_recipient_ref r)
     \<and> length_in 1 255 (ld_template_or_message_ref r) \<and> length (ld_variables r) \<le> 50
     \<and> ld_message_category r \<in> {''service'', ''utility'', ''marketing''} \<and> aware (ld_service_window_expires_at r)
     \<and> length_in 8 255 (ld_send_key r) \<and> length_in 1 128 (ld_correlation_id r)"

record verified_subscription_activation =
  va_demo_ref :: string
  va_website_user_ref :: string
  va_plan_id :: int
  va_plan_version :: string
  va_amount_minor :: int
  va_currency :: string
  va_provider_order_ref :: string
  va_payment_evidence_ref :: string
  va_payment_verified_at :: datetime
  va_correlation_id :: string

record payment_order_request =
  por_order_reference :: string
  por_amount_minor :: int
  por_currency :: string
  por_customer_ref :: string
  por_customer_phone :: string
  por_purpose :: string
  por_correlation_id :: string
  por_expires_at :: datetime
  por_return_url :: "string option"

record provider_order_result =
  pres_provider_order_id :: string
  pres_payment_session_id :: string
  pres_status :: string

section \<open>The transport\<close>

record website_port =
  wp_get_plan_quote :: "string \<Rightarrow> string \<Rightarrow> json_object res"
  wp_activate_verified_subscription :: "verified_subscription_activation \<Rightarrow> string \<Rightarrow> json_object res"

record routing_outbox_transport =
  rt_website :: "website_port option"
  rt_lead_intake :: "(lead_intake_delivery_request \<Rightarrow> string \<Rightarrow> string res) option"
  rt_onboarding :: "(agent_event \<Rightarrow> string res) option"
  rt_cashfree :: "(payment_order_request \<Rightarrow> string \<Rightarrow> provider_order_result res) option"
  rt_quote_request :: "json_object \<Rightarrow> plan_quote_request res"
  rt_activation :: "json_object \<Rightarrow> website_activation_payload res"
  rt_delivery :: "json_object \<Rightarrow> lead_intake_delivery_request res"
  rt_cashfree_order :: "json_object \<Rightarrow> cashfree_order_payload res"
  rt_event :: "json_object \<Rightarrow> agent_event res"
  rt_uuid :: "string \<Rightarrow> string option"
  rt_uuid5 :: "string \<Rightarrow> string \<Rightarrow> string"
  rt_repr :: "json \<Rightarrow> string"

definition policy_rejected :: "string \<Rightarrow> 'a res" where
  "policy_rejected message = Inl (ServiceError ''DCC_POLICY_REJECTED'' message)"

definition provider_unavailable :: "string \<Rightarrow> 'a res" where
  "provider_unavailable message = Inl (ServiceError ''DCC_PROVIDER_UNAVAILABLE'' message)"

definition activation_of :: "website_activation_payload \<Rightarrow> verified_subscription_activation" where
  "activation_of a = \<lparr>va_demo_ref = wa_demo_ref a, va_website_user_ref = wa_website_user_ref a, va_plan_id = wa_plan_id a,
     va_plan_version = wa_plan_version a, va_amount_minor = wa_amount_minor a, va_currency = wa_currency a,
     va_provider_order_ref = wa_provider_order_ref a, va_payment_evidence_ref = wa_payment_evidence_ref a,
     va_payment_verified_at = wa_payment_verified_at a, va_correlation_id = wa_correlation_id a\<rparr>"

definition quote_reference :: "json_object \<Rightarrow> string" where
  "quote_reference quote = (case jget quote ''plan_version'' of JString s \<Rightarrow> if s = [] then ''plan-quote'' else s | _ \<Rightarrow> ''plan-quote'')"

definition route_website :: "routing_outbox_transport \<Rightarrow> json_object \<Rightarrow> string \<Rightarrow> string \<Rightarrow> delivery res" where
  "route_website rt payload idempotency_key correlation_id =
     (case rt_website rt of
        None \<Rightarrow> provider_unavailable ''The website integration gateway is not configured''
      | Some website \<Rightarrow>
          if map_of payload ''event_type'' = Some (JString ''payment.plan-quote.requested.v1'')
          then res_bind (validated plan_quote_request_ok (rt_quote_request rt payload)) (\<lambda>q.
            if qr_request_id q \<noteq> idempotency_key \<or> qr_correlation_id q \<noteq> correlation_id
            then policy_rejected ''Plan quote metadata does not match its durable outbox record''
            else res_bind (wp_get_plan_quote website (qr_plan_ref q) (qr_website_user_ref q)) (\<lambda>quote.
              Inr (OutboxDeliveryResult (quote_reference quote) quote)))
          else res_bind (validated website_activation_ok (rt_activation rt payload)) (\<lambda>a.
            if wa_correlation_id a \<noteq> correlation_id \<or> wa_activation_key a \<noteq> idempotency_key
            then policy_rejected ''Website activation metadata does not match its durable outbox record''
            else res_bind (wp_activate_verified_subscription website (activation_of a) idempotency_key) (\<lambda>result.
              case map_of result ''activation_ref'' of
                None \<Rightarrow> Inl (KeyError ''activation_ref'')
              | Some ref \<Rightarrow> Inr (Reference (py_str (rt_repr rt) ref)))))"

definition order_request_of :: "cashfree_order_payload \<Rightarrow> payment_order_request" where
  "order_request_of e = \<lparr>por_order_reference = co_order_reference e, por_amount_minor = co_amount_minor e, por_currency = co_currency e,
     por_customer_ref = co_customer_ref e, por_customer_phone = co_customer_phone e, por_purpose = co_purpose e,
     por_correlation_id = co_correlation_id e, por_expires_at = co_expires_at e, por_return_url = None\<rparr>"

definition create_cashfree_order :: "routing_outbox_transport \<Rightarrow> json_object \<Rightarrow> string \<Rightarrow> string \<Rightarrow> delivery res" where
  "create_cashfree_order rt payload idempotency_key correlation_id =
     (case rt_cashfree rt of
        None \<Rightarrow> provider_unavailable ''Cashfree order creation is not configured''
      | Some create_at_cashfree \<Rightarrow>
          res_bind (validated cashfree_order_payload_ok (rt_cashfree_order rt payload)) (\<lambda>e.
          case rt_uuid rt idempotency_key of
            None \<Rightarrow> policy_rejected ''Cashfree order idempotency key must be a UUID''
          | Some key \<Rightarrow>
              if co_payment_order_id e \<noteq> rt_uuid5 rt (co_request_id e) ''nxtutors:payment-order''
                \<or> key \<noteq> rt_uuid5 rt (co_request_id e) ''nxtutors:cashfree-create-order''
                \<or> co_correlation_id e \<noteq> correlation_id
              then policy_rejected ''Cashfree order metadata does not match its durable outbox record''
              else res_bind (create_at_cashfree (order_request_of e) key) (\<lambda>result.
                Inr (OutboxDeliveryResult (pres_provider_order_id result)
                  [(''provider_order_id'', JString (pres_provider_order_id result)),
                   (''payment_session_id'', JString (pres_payment_session_id result)),
                   (''status'', JString (pres_status result))]))))"

text \<open>\<open>setdefault\<close> on a copy of the payload.\<close>

definition set_default :: "string \<Rightarrow> json \<Rightarrow> json_object \<Rightarrow> json_object" where
  "set_default k v obj = (if k \<in> fst ` set obj then obj else obj @ [(k, v)])"

definition request_whatsapp :: "routing_outbox_transport \<Rightarrow> json_object \<Rightarrow> string \<Rightarrow> string \<Rightarrow> delivery res" where
  "request_whatsapp rt payload idempotency_key correlation_id =
     (case rt_lead_intake rt of
        None \<Rightarrow> provider_unavailable ''The canonical outbound messaging gateway is not configured''
      | Some request_delivery \<Rightarrow>
          res_bind (validated lead_intake_delivery_ok (rt_delivery rt (set_default ''correlation_id'' (JString correlation_id) payload))) (\<lambda>e.
          if ld_send_key e \<noteq> idempotency_key \<or> ld_correlation_id e \<noteq> correlation_id
          then policy_rejected ''Outbound send metadata does not match its durable outbox record''
          else res_bind (request_delivery e idempotency_key) (\<lambda>ref. Inr (Reference ref))))"

definition publish_onboarding :: "routing_outbox_transport \<Rightarrow> json_object \<Rightarrow> string \<Rightarrow> string \<Rightarrow> delivery res" where
  "publish_onboarding rt payload idempotency_key correlation_id =
     (case rt_onboarding rt of
        None \<Rightarrow> provider_unavailable ''The canonical onboarding event gateway is not configured''
      | Some publish_event \<Rightarrow>
          res_bind (res_bind (rt_event rt payload) validate_envelope) (\<lambda>e.
          if ae_event_type e \<noteq> ''onboarding.paid-user.requested.v1'' \<or> ae_target_agent e \<noteq> ''onboarding-agent''
            \<or> ae_idempotency_key e \<noteq> idempotency_key \<or> ae_correlation_id e \<noteq> correlation_id
          then policy_rejected ''Onboarding event metadata does not match its durable outbox record''
          else res_bind (publish_event e) (\<lambda>ref. Inr (Reference ref))))"

definition route_publish :: "routing_outbox_transport \<Rightarrow> string \<Rightarrow> json_object \<Rightarrow> string \<Rightarrow> string \<Rightarrow> delivery res" where
  "route_publish rt target payload idempotency_key correlation_id =
     (if target = ''nxtutors-website-gateway'' then route_website rt payload idempotency_key correlation_id
      else if target \<in> {''lead-intake'', ''lead-intake-agent''} then request_whatsapp rt payload idempotency_key correlation_id
      else if target = ''onboarding-agent'' then publish_onboarding rt payload idempotency_key correlation_id
      else if target = ''cashfree'' then create_cashfree_order rt payload idempotency_key correlation_id
      else policy_rejected ''The outbox target is not allow-listed'')"

end
