(* ===== verification/RouterProperties.thy ===== *)
theory RouterProperties
  imports OutboxRouter SagaProperties
begin

text \<open>
  What the router admits, and whether the rows the service writes are among it.
\<close>

section \<open>What the router admits\<close>

lemma validated_Inr [simp]: "validated ok m = Inr x \<longleftrightarrow> m = Inr x \<and> ok x"
  by (auto simp: validated_def res_simps split: if_splits)

text \<open>A payload that belongs to the row: its own key and correlation id are those of the row.\<close>

definition bound_to_row :: "routing_outbox_transport \<Rightarrow> string \<Rightarrow> json_object \<Rightarrow> string \<Rightarrow> string \<Rightarrow> bool" where
  "bound_to_row rt target payload key correlation_id \<longleftrightarrow>
     target = ''nxtutors-website-gateway'' \<and> map_of payload ''event_type'' = Some (JString ''payment.plan-quote.requested.v1'')
       \<and> (\<exists>q. rt_quote_request rt payload = Inr q \<and> plan_quote_request_ok q \<and> qr_request_id q = key \<and> qr_correlation_id q = correlation_id)
   \<or> target = ''nxtutors-website-gateway'' \<and> map_of payload ''event_type'' \<noteq> Some (JString ''payment.plan-quote.requested.v1'')
       \<and> (\<exists>a. rt_activation rt payload = Inr a \<and> website_activation_ok a \<and> wa_activation_key a = key \<and> wa_correlation_id a = correlation_id)
   \<or> target \<in> {''lead-intake'', ''lead-intake-agent''}
       \<and> (\<exists>e. rt_delivery rt (set_default ''correlation_id'' (JString correlation_id) payload) = Inr e \<and> lead_intake_delivery_ok e
            \<and> ld_send_key e = key \<and> ld_correlation_id e = correlation_id)
   \<or> target = ''onboarding-agent''
       \<and> (\<exists>e0 e. rt_event rt payload = Inr e0 \<and> validate_envelope e0 = Inr e \<and> ae_event_type e = ''onboarding.paid-user.requested.v1''
            \<and> ae_target_agent e = ''onboarding-agent'' \<and> ae_idempotency_key e = key \<and> ae_correlation_id e = correlation_id)
   \<or> target = ''cashfree''
       \<and> (\<exists>e. rt_cashfree_order rt payload = Inr e \<and> cashfree_order_payload_ok e \<and> co_correlation_id e = correlation_id
            \<and> co_payment_order_id e = rt_uuid5 rt (co_request_id e) ''nxtutors:payment-order''
            \<and> rt_uuid rt key = Some (rt_uuid5 rt (co_request_id e) ''nxtutors:cashfree-create-order''))"

text \<open>
  (C34) A row is delivered only when its target is one of the four owners and its payload belongs to it:
  the payload's own key (for a Cashfree order, the one derived from its request) and correlation id
  are those of the row.  Otherwise the row fails whatever the gateways would answer.
\<close>

theorem router_binds_rows:
  assumes "route_publish rt target payload key correlation_id = Inr d"
  shows "bound_to_row rt target payload key correlation_id"
proof -
  have web: "bound_to_row rt ''nxtutors-website-gateway'' payload key correlation_id" if "route_website rt payload key correlation_id = Inr d"
    using that by (auto simp: route_website_def bound_to_row_def policy_rejected_def provider_unavailable_def res_simps split: option.splits if_splits)
  have lead: "bound_to_row rt t payload key correlation_id" if "request_whatsapp rt payload key correlation_id = Inr d" "t \<in> {''lead-intake'', ''lead-intake-agent''}" for t
    using that by (auto simp: request_whatsapp_def bound_to_row_def policy_rejected_def provider_unavailable_def res_simps split: option.splits if_splits)
  have onb: "bound_to_row rt ''onboarding-agent'' payload key correlation_id" if "publish_onboarding rt payload key correlation_id = Inr d"
    using that by (auto simp: publish_onboarding_def bound_to_row_def policy_rejected_def provider_unavailable_def res_simps split: option.splits if_splits)
  have cash: "bound_to_row rt ''cashfree'' payload key correlation_id" if "create_cashfree_order rt payload key correlation_id = Inr d"
    using that by (auto simp: create_cashfree_order_def bound_to_row_def policy_rejected_def provider_unavailable_def res_simps split: option.splits if_splits)
  show ?thesis using assms web lead onb cash
    by (auto simp: route_publish_def policy_rejected_def split: if_splits)
qed

section \<open>The rows the service writes\<close>

text \<open>The publisher reads the payload of the row back.\<close>

definition reads_back :: "(json_object, 'w) outbox_env \<Rightarrow> outbox_row \<Rightarrow> json_object \<Rightarrow> bool" where
  "reads_back oe row payload \<longleftrightarrow>
     res_bind (oe_decrypt oe (ox_payload_ciphertext row) (outbox_associated_data row)) (oe_loads_object oe) = Inr payload"

lemma deliver_row_rejected:
  assumes "reads_back oe row payload" "oe_publish oe (ox_target_agent row) payload (ox_idempotency_key row) (ox_correlation_id row) = Inl e"
  shows "deliver_row oe row db = (Inl e, db)"
  using assms by (auto simp: deliver_row_def reads_back_def res_simps)


section \<open>Samples\<close>

definition sample_quote_request :: plan_quote_request where
  "sample_quote_request = \<lparr>qr_event_type = ''payment.plan-quote.requested.v1'', qr_request_id = ''request-1'', qr_demo_ref = ''demo-1'',
     qr_website_user_ref = ''user-1'', qr_plan_ref = ''7'', qr_customer_phone = ''+919876543210'', qr_purpose = ''demo_conversion'',
     qr_correlation_id = ''corr-1''\<rparr>"

definition sample_activation :: website_activation_payload where
  "sample_activation = \<lparr>wa_event_type = ''demo.payment.verified.v1'', wa_demo_ref = ''demo-1'', wa_website_user_ref = ''user-1'', wa_plan_id = 7,
     wa_plan_version = ''v1'', wa_amount_minor = 49900, wa_currency = ''INR'', wa_provider_order_ref = ''cf-1'', wa_payment_evidence_ref = ''pay-1'',
     wa_payment_verified_at = Datetime 100 (Some 0), wa_correlation_id = ''corr-1'', wa_activation_key = sample_key ''activation''\<rparr>"

text \<open>A router with a website only, which answers every quote and activation.\<close>

definition sample_router :: routing_outbox_transport where
  "sample_router = \<lparr>rt_website = Some \<lparr>wp_get_plan_quote = (\<lambda>plan user. Inr [(''plan_version'', JString ''v1'')]),
       wp_activate_verified_subscription = (\<lambda>activation key. Inr [(''activation_ref'', JString ''act-1'')])\<rparr>,
     rt_lead_intake = None, rt_onboarding = None, rt_cashfree = None, rt_quote_request = (\<lambda>_. Inr sample_quote_request),
     rt_activation = (\<lambda>_. Inr sample_activation), rt_delivery = (\<lambda>_. Inl (ValueError [])), rt_cashfree_order = (\<lambda>_. Inl (ValueError [])),
     rt_event = (\<lambda>_. Inl (ValueError [])), rt_uuid = Some, rt_uuid5 = (\<lambda>n s. s), rt_repr = (\<lambda>_. [])\<rparr>"

lemma sample_quote_ok: "plan_quote_request_ok sample_quote_request"
  by code_simp

theorem router_binds_rows_witness:
  "bound_to_row sample_router ''nxtutors-website-gateway'' (quote_request_payload sample_command ''corr-1'') ''request-1'' ''corr-1''"
proof (rule router_binds_rows)
  show "route_publish sample_router ''nxtutors-website-gateway'' (quote_request_payload sample_command ''corr-1'') ''request-1'' ''corr-1''
      = Inr (OutboxDeliveryResult ''v1'' [(''plan_version'', JString ''v1'')])"
    using sample_quote_ok
    by (simp add: route_publish_def route_website_def quote_request_payload_def sample_router_def validated_def quote_reference_def jget_def)
      (simp add: sample_quote_request_def)
qed

definition sample_activation_row :: outbox_row where
  "sample_activation_row = activation_outbox sample_env 200 paid_event (sample_payment_order ''pending'') (sample_case demo_state.PAYMENT_PENDING) 7 ''pay-1''
     (sample_key ''activation'') (sample_key ''paid-outbox'')"

definition sample_activation_payload :: json_object where
  "sample_activation_payload = activation_payload paid_event (sample_payment_order ''pending'') (sample_case demo_state.PAYMENT_PENDING) 7 ''pay-1'' (sample_key ''activation'')"

definition sample_publisher :: "(json_object, unit) outbox_env" where
  "sample_publisher = \<lparr>oe_decrypt = (\<lambda>c a. Inr c), oe_loads_object = (\<lambda>_. Inr sample_activation_payload), oe_publish = route_publish sample_router,
     oe_recorder = None, oe_blocked_targets = {}, oe_maximum_attempts = 5\<rparr>"



end
