(* ===== verification/Routes.thy ===== *)
theory Routes
  imports InternalAuth Inbox Conversation
begin

text \<open>
  \<open>security/signatures/webhook.py\<close>, \<open>api/routes/providers.py\<close> and \<open>api/routes/internal.py\<close>: how events and
  payment requests enter.  A request's body is a byte string, its headers are Latin-1 strings.  The JSON
  parser, \<open>uuid5\<close>, the serialisation of an envelope and the decoding of a request body into an envelope are
  arguments; the clock is an argument in seconds or, for stored times, in microseconds.
\<close>

section \<open>Signatures of the providers\<close>

text \<open>\<open>hmac.compare_digest\<close> on two texts: both must be ASCII.\<close>

definition compare_digest :: "string \<Rightarrow> string \<Rightarrow> bool res" where
  "compare_digest a b = (if list_all (\<lambda>c. cval c < 128) (a @ b) then Inr (a = b)
     else Inl (TypeError ''comparing strings with non-ASCII characters is not supported''))"

definition present :: "string option \<Rightarrow> bool" where
  "present h \<longleftrightarrow> h \<noteq> None \<and> h \<noteq> Some []"

definition verify_meta_signature :: "string \<Rightarrow> string option \<Rightarrow> string \<Rightarrow> bool res" where
  "verify_meta_signature raw_body signature_header app_secret =
     (if \<not> present signature_header \<or> app_secret = [] \<or> \<not> prefix ''sha256='' (the signature_header) then Inr False
      else compare_digest (hmac_sha256 (utf8 app_secret) raw_body) (removeprefix ''sha256='' (the signature_header)))"

definition b64_char :: "nat \<Rightarrow> char" where
  "b64_char n = (if n < 26 then char_of (65 + n) else if n < 52 then char_of (71 + n) else if n < 62 then char_of (n - 4)
     else if n = 62 then CHR ''+'' else CHR ''/'')"

fun b64encode :: "string \<Rightarrow> string" where
  "b64encode [] = []"
| "b64encode [a] = [b64_char (cval a div 4), b64_char (cval a mod 4 * 16), CHR ''='', CHR ''='']"
| "b64encode [a, b] = [b64_char (cval a div 4), b64_char (cval a mod 4 * 16 + cval b div 16), b64_char (cval b mod 16 * 4), CHR ''='']"
| "b64encode (a # b # c # s) = b64_char (cval a div 4) # b64_char (cval a mod 4 * 16 + cval b div 16)
     # b64_char (cval b mod 16 * 4 + cval c div 64) # b64_char (cval c mod 64) # b64encode s"

definition in_seconds :: "int \<Rightarrow> int" where
  "in_seconds timestamp = (if timestamp > 10000000000 then timestamp div 1000 else timestamp)"

definition cashfree_signature :: "string \<Rightarrow> string \<Rightarrow> string \<Rightarrow> string" where
  "cashfree_signature secret timestamp_header raw_body = b64encode (hmac_sha256_digest (utf8 secret) (utf8 timestamp_header @ raw_body))"

definition verify_cashfree_signature :: "string \<Rightarrow> string option \<Rightarrow> string option \<Rightarrow> string \<Rightarrow> int option \<Rightarrow> int \<Rightarrow> bool res" where
  "verify_cashfree_signature raw_body timestamp_header signature_header secret replay_window_seconds now =
     (if \<not> present timestamp_header \<or> \<not> present signature_header \<or> secret = [] then Inr False
      else
        let compare = compare_digest (cashfree_signature secret (the timestamp_header) raw_body) (the signature_header)
        in case replay_window_seconds of
             None \<Rightarrow> compare
           | Some window \<Rightarrow>
               (case py_int (the timestamp_header) of
                  None \<Rightarrow> Inr False
                | Some timestamp \<Rightarrow>
                    if window \<le> 0 \<or> \<bar>now - in_seconds timestamp\<bar> > window then Inr False else compare))"

section \<open>Reading a webhook\<close>

record route_settings =
  ws_app_name :: string
  ws_tenant_id :: string
  ws_meta_direct_webhook_enabled :: bool
  ws_meta_whatsapp_verify_token :: string
  ws_meta_whatsapp_app_secret :: string
  ws_demo_payments_enabled :: bool
  ws_cashfree_order_enabled :: bool
  ws_cashfree_secret_key :: string
  ws_cashfree_webhook_replay_window_seconds :: "int option"

record route_env =
  rv_settings :: route_settings
  rv_loads :: "string \<Rightarrow> json option"
  rv_uuid5 :: "string \<Rightarrow> string \<Rightarrow> string"
  rv_ingress :: "ingress_env option"
  rv_event :: "string \<Rightarrow> agent_event res"
  rv_payment :: "string \<Rightarrow> payment_order_command res"
  rv_max_request_body_bytes :: int
  rv_payment_order_jobs :: "payment_order_job_service option"
  rv_dump :: "agent_event \<Rightarrow> string"

definition object_payload :: "route_env \<Rightarrow> string \<Rightarrow> json_object res" where
  "object_payload env raw =
     (case rv_loads env raw of
        None \<Rightarrow> Inl (HTTPException 400 ''Malformed provider payload'')
      | Some (JObject obj) \<Rightarrow> Inr obj
      | Some _ \<Rightarrow> Inl (HTTPException 422 ''Provider payload must be an object''))"

definition nested_string :: "json_object \<Rightarrow> string list \<Rightarrow> string option" where
  "nested_string payload path =
     (case foldl (\<lambda>v part. case v of Some (JObject obj) \<Rightarrow> Some (jget obj part) | _ \<Rightarrow> None) (Some (JObject payload)) path of
        Some (JString s) \<Rightarrow> if s = [] then None else Some (take 255 s)
      | _ \<Rightarrow> None)"

definition nested_step :: "json option \<Rightarrow> string \<Rightarrow> json option" where
  "nested_step v part =
     (case v of
        Some (JObject obj) \<Rightarrow> Some (jget obj part)
      | Some (JArray xs) \<Rightarrow>
          if isdigit part
          then (case py_int part of
                  Some i \<Rightarrow> Some (if i < int (length xs) then xs ! nat i else JNull)
                | None \<Rightarrow> None)
          else None
      | _ \<Rightarrow> None)"

definition nested_reference :: "json_object \<Rightarrow> string list \<Rightarrow> string option" where
  "nested_reference payload path =
     (let reference = (\<lambda>s. if strip s = [] then None else Some (take 255 (strip s)))
      in case foldl nested_step (Some (JObject payload)) path of
           Some (JString s) \<Rightarrow> reference s
         | Some (JInt i) \<Rightarrow> reference (show_int i)
         | _ \<Rightarrow> None)"

definition or_local :: "string \<Rightarrow> string" where
  "or_local tenant = (if tenant = [] then ''local'' else tenant)"

definition provider_envelope ::
  "route_env \<Rightarrow> string option \<Rightarrow> string \<Rightarrow> string \<Rightarrow> string \<Rightarrow> datetime \<Rightarrow> json_object \<Rightarrow> agent_event res" where
  "provider_envelope env correlation_id provider provider_event_id event_type occurred_at payload =
     (let digest = sha256 (utf8 (provider @ '':'' @ provider_event_id))
      in validate_envelope
        \<lparr>ae_event_id = rv_uuid5 env namespace_url (provider @ '':'' @ provider_event_id), ae_event_type = event_type,
         ae_schema_version = ''1.0'', ae_occurred_at = occurred_at, ae_source_agent = provider,
         ae_target_agent = ws_app_name (rv_settings env), ae_tenant_id = or_local (ws_tenant_id (rv_settings env)), ae_region_id = None,
         ae_correlation_id = (case correlation_id of Some c \<Rightarrow> c | None \<Rightarrow> take 32 digest), ae_causation_id = None,
         ae_conversation_id = ''provider:'' @ take 32 digest, ae_actor = \<lparr>ea_type = ActorPROVIDER, ea_id = provider\<rparr>,
         ae_subject = \<lparr>es_lead_id = None, es_user_id = None, es_tutor_id = None, es_demo_id = None\<rparr>,
         ae_idempotency_key = ''provider:'' @ digest, ae_traceparent = None, ae_pii_classification = PII_RESTRICTED, ae_payload = payload\<rparr>)"

text \<open>
  The fields of an envelope that the ingress stores, and its text.  Without a database the container holds
  an ingress that only raises.
\<close>

definition inbox_event_of :: "route_env \<Rightarrow> agent_event \<Rightarrow> inbox_event" where
  "inbox_event_of env e = \<lparr>ev_event_id = ae_event_id e, ev_event_type = ae_event_type e, ev_schema_version = ae_schema_version e,
     ev_source_agent = ae_source_agent e, ev_tenant_id = ae_tenant_id e, ev_idempotency_key = ae_idempotency_key e,
     ev_correlation_id = ae_correlation_id e, ev_body = rv_dump env e\<rparr>"

definition ingress_unconfigured :: "'a res" where
  "ingress_unconfigured = Inl (ServiceError ''DCC_PROVIDER_UNAVAILABLE'' ''Durable event ingress is not configured'')"

definition accept_event :: "route_env \<Rightarrow> int \<Rightarrow> agent_event \<Rightarrow> 'w inbox_db \<Rightarrow> ingress_receipt res \<times> 'w inbox_db" where
  "accept_event env now e db =
     (case rv_ingress env of
        None \<Rightarrow> (ingress_unconfigured, db)
      | Some ingress \<Rightarrow> accept ingress now (inbox_event_of env e) db)"

definition event_status :: "route_env \<Rightarrow> string \<Rightarrow> 'w inbox_db \<Rightarrow> ingress_event_status option res" where
  "event_status env event_id db = (case rv_ingress env of None \<Rightarrow> ingress_unconfigured | Some _ \<Rightarrow> status event_id db)"

section \<open>The request before it reaches a route\<close>

text \<open>
  \<open>CorrelationMiddleware\<close> and \<open>RequestSafetyMiddleware\<close>.  The body arrives in chunks; the random identifier of
  a request without a usable one is an argument.
\<close>

record http_request =
  hq_headers :: headers
  hq_chunks :: "string list"

definition safe_correlation_id :: "string \<Rightarrow> bool" where
  "safe_correlation_id s \<longleftrightarrow> length_in 1 128 s
     \<and> list_all (\<lambda>c. is_lower c \<or> is_upper c \<or> is_digit c \<or> c \<in> {CHR ''_'', CHR ''.'', CHR '':'', CHR ''-''}) s"

definition correlation_of :: "headers \<Rightarrow> string \<Rightarrow> string" where
  "correlation_of headers uuid4 =
     (case if present (headers ''x-correlation-id'') then headers ''x-correlation-id'' else headers ''x-request-id'' of
        Some candidate \<Rightarrow> if safe_correlation_id candidate then candidate else uuid4
      | None \<Rightarrow> uuid4)"

definition content_length_ok :: "int \<Rightarrow> headers \<Rightarrow> unit res" where
  "content_length_ok maximum headers =
     (if \<not> present (headers ''content-length'') then Inr ()
      else case py_int (the (headers ''content-length'')) of
             None \<Rightarrow> Inl (HTTPException 400 ''DCC_INVALID_CONTENT_LENGTH'')
           | Some n \<Rightarrow> if n > maximum then Inl (HTTPException 413 ''DCC_REQUEST_TOO_LARGE'') else Inr ())"

fun limited_receive :: "int \<Rightarrow> int \<Rightarrow> string list \<Rightarrow> string res" where
  "limited_receive maximum received_so_far [] = Inr []"
| "limited_receive maximum received_so_far (chunk # chunks) =
     (if received_so_far + int (length chunk) > maximum then Inl (HTTPException 413 ''DCC_REQUEST_TOO_LARGE'')
      else res_bind (limited_receive maximum (received_so_far + int (length chunk)) chunks) (\<lambda>rest. Inr (chunk @ rest)))"

definition request_body :: "route_env \<Rightarrow> http_request \<Rightarrow> string res" where
  "request_body env q = limited_receive (rv_max_request_body_bytes env) 0 (hq_chunks q)"

section \<open>The webhooks\<close>

definition verify_meta_webhook :: "route_settings \<Rightarrow> string \<Rightarrow> string \<Rightarrow> string \<Rightarrow> string res" where
  "verify_meta_webhook settings hub_mode hub_verify_token hub_challenge =
     (let expected = ws_meta_whatsapp_verify_token settings
      in if \<not> ws_meta_direct_webhook_enabled settings then Inl (HTTPException 404 ''Direct webhook disabled'')
         else res_bind (if expected \<noteq> [] \<and> hub_mode = ''subscribe'' then compare_digest expected hub_verify_token else Inr False) (\<lambda>ok.
           if ok then Inr hub_challenge else Inl (HTTPException 403 ''Verification failed'')))"

text \<open>The envelope of a delivery: the checks of the route up to handing it to the ingress.\<close>

definition meta_webhook_event :: "route_env \<Rightarrow> int \<Rightarrow> string \<Rightarrow> http_request \<Rightarrow> agent_event res" where
  "meta_webhook_event env now uuid4 q =
     (let settings = rv_settings env
      in res_bind (content_length_ok (rv_max_request_body_bytes env) (hq_headers q)) (\<lambda>_.
         if \<not> ws_meta_direct_webhook_enabled settings then Inl (HTTPException 404 ''Direct webhook disabled'')
         else res_bind (request_body env q) (\<lambda>raw.
           res_bind (verify_meta_signature raw (hq_headers q ''x-hub-signature-256'') (ws_meta_whatsapp_app_secret settings)) (\<lambda>valid.
           if \<not> valid then Inl (HTTPException 403 ''Invalid signature'')
           else res_bind (object_payload env raw) (\<lambda>payload.
             provider_envelope env (Some (correlation_of (hq_headers q) uuid4)) ''meta-whatsapp-direct'' (sha256 raw)
               ''meta.whatsapp.webhook.received.v1'' (utc_at now) payload)))))"

definition receive_meta_webhook ::
  "route_env \<Rightarrow> int \<Rightarrow> string \<Rightarrow> http_request \<Rightarrow> 'w inbox_db \<Rightarrow> ingress_receipt res \<times> 'w inbox_db" where
  "receive_meta_webhook env now uuid4 q db =
     (case meta_webhook_event env now uuid4 q of
        Inl e \<Rightarrow> (Inl e, db)
      | Inr envelope \<Rightarrow> accept_event env now envelope db)"

definition or_else :: "string option \<Rightarrow> string \<Rightarrow> string" where
  "or_else a b = (case a of Some s \<Rightarrow> s | None \<Rightarrow> b)"

definition cashfree_event_reference :: "json_object \<Rightarrow> string \<Rightarrow> string" where
  "cashfree_event_reference payload raw =
     (let provider_reference = or_else (nested_reference payload [''data'', ''payment'', ''cf_payment_id''])
            (or_else (nested_reference payload [''data'', ''order'', ''order_id'']) (sha256 raw))
      in or_else (nested_string payload [''type'']) ''unknown'' @ '':'' @ provider_reference @ '':'' @ take 16 (sha256 raw))"

definition cashfree_occurred_at :: "string option \<Rightarrow> int \<Rightarrow> datetime" where
  "cashfree_occurred_at timestamp_header now =
     (case py_int (if present timestamp_header then the timestamp_header else ''0'') of
        None \<Rightarrow> utc_at now
      | Some timestamp \<Rightarrow>
          if in_range (in_seconds timestamp * 1000000) then utc_at (in_seconds timestamp * 1000000) else utc_at now)"

definition cashfree_webhook_event :: "route_env \<Rightarrow> int \<Rightarrow> string \<Rightarrow> http_request \<Rightarrow> agent_event res" where
  "cashfree_webhook_event env now uuid4 q =
     (let settings = rv_settings env; timestamp = hq_headers q ''x-webhook-timestamp''
      in res_bind (content_length_ok (rv_max_request_body_bytes env) (hq_headers q)) (\<lambda>_.
         if \<not> ws_demo_payments_enabled settings then Inl (HTTPException 404 ''Payments disabled'')
         else res_bind (request_body env q) (\<lambda>raw.
           res_bind (verify_cashfree_signature raw timestamp (hq_headers q ''x-webhook-signature'') (ws_cashfree_secret_key settings)
               (ws_cashfree_webhook_replay_window_seconds settings) (now div 1000000)) (\<lambda>valid.
           if \<not> valid then Inl (HTTPException 403 ''Invalid signature'')
           else res_bind (object_payload env raw) (\<lambda>payload.
             provider_envelope env (Some (correlation_of (hq_headers q) uuid4)) ''cashfree'' (cashfree_event_reference payload raw)
               ''cashfree.payment.webhook.received.v1'' (cashfree_occurred_at timestamp now) payload)))))"

definition receive_cashfree_webhook ::
  "route_env \<Rightarrow> int \<Rightarrow> string \<Rightarrow> http_request \<Rightarrow> 'w inbox_db \<Rightarrow> ingress_receipt res \<times> 'w inbox_db" where
  "receive_cashfree_webhook env now uuid4 q db =
     (case cashfree_webhook_event env now uuid4 q of
        Inl e \<Rightarrow> (Inl e, db)
      | Inr envelope \<Rightarrow> accept_event env now envelope db)"

section \<open>The internal routes\<close>

text \<open>
  The authentication of the request comes first; the framework then decodes the body into an envelope,
  which is \<open>rv_event\<close> here, and answers 422 when its constraints fail.  An error object with a code and a
  message is written as the text of the two.
\<close>

record 's auth_env =
  au_consume :: "string \<Rightarrow> int \<Rightarrow> 's \<Rightarrow> bool \<times> 's"
  au_verifier :: hmac_request_verifier
  au_settings :: auth_settings

definition require_internal_scopes :: "'s auth_env \<Rightarrow> int \<Rightarrow> string set \<Rightarrow> internal_request \<Rightarrow> 's \<Rightarrow> internal_identity res \<times> 's" where
  "require_internal_scopes auth now scopes q =
     authenticate_request (au_consume auth) (au_verifier auth) (au_settings auth) q (iq_headers q ''x-nxtutors-internal-secret'') scopes (now div 1000000)"

definition error_detail :: "string \<Rightarrow> string \<Rightarrow> string" where
  "error_detail code message = code @ '': '' @ message"

definition unavailable :: "'a res \<Rightarrow> 'a res" where
  "unavailable m = (case m of Inl (ServiceError code message) \<Rightarrow> Inl (HTTPException 503 (error_detail code message)) | _ \<Rightarrow> m)"

definition validate_route_identity :: "route_env \<Rightarrow> agent_event \<Rightarrow> internal_identity \<Rightarrow> unit res" where
  "validate_route_identity env event identity =
     (if ae_source_agent event \<in> {''cashfree'', ''meta-whatsapp-direct''} \<or> prefix ''cashfree.'' (ae_event_type event) \<or> prefix ''meta.'' (ae_event_type event)
      then Inl (HTTPException 403 ''Provider events must use their signature-verified webhook route'')
      else if ae_target_agent event \<notin> {ws_app_name (rv_settings env), ''demo-command-center''}
      then Inl (HTTPException 422 ''Event target is not this service'')
      else if \<not> ii_legacy identity \<and> ae_source_agent event \<noteq> ii_source identity
      then Inl (HTTPException 403 ''Signed source does not match the event source'')
      else Inr ())"

definition body_envelope :: "route_env \<Rightarrow> string \<Rightarrow> agent_event res" where
  "body_envelope env body =
     (case res_bind (rv_event env body) validate_envelope of
        Inl _ \<Rightarrow> Inl (HTTPException 422 ''Request validation failed'')
      | Inr e \<Rightarrow> Inr e)"

definition internal_event :: "route_env \<Rightarrow> internal_identity \<Rightarrow> string \<Rightarrow> agent_event res" where
  "internal_event env identity body =
     res_bind (body_envelope env body) (\<lambda>event. res_bind (validate_route_identity env event identity) (\<lambda>_. Inr event))"

definition accept_internal :: "route_env \<Rightarrow> int \<Rightarrow> agent_event \<Rightarrow> 'w inbox_db \<Rightarrow> ingress_receipt res \<times> 'w inbox_db" where
  "accept_internal env now event db = (let (r, db') = accept_event env now event db in (unavailable r, db'))"

definition ingest_event ::
  "route_env \<Rightarrow> 's auth_env \<Rightarrow> int \<Rightarrow> internal_request \<Rightarrow> 's \<times> 'w inbox_db \<Rightarrow> ingress_receipt res \<times> 's \<times> 'w inbox_db" where
  "ingest_event env auth now q st =
     (let (store, db) = st
      in case require_internal_scopes auth now {''events:write''} q store of
           (Inl e, store') \<Rightarrow> (Inl e, store', db)
         | (Inr identity, store') \<Rightarrow>
             (case internal_event env identity (iq_body q) of
                Inl e \<Rightarrow> (Inl e, store', db)
              | Inr event \<Rightarrow> (let (r, db') = accept_internal env now event db in (r, store', db'))))"

definition ingest_whatsapp_handoff ::
  "route_env \<Rightarrow> 's auth_env \<Rightarrow> int \<Rightarrow> internal_request \<Rightarrow> 's \<times> 'w inbox_db \<Rightarrow> ingress_receipt res \<times> 's \<times> 'w inbox_db" where
  "ingest_whatsapp_handoff env auth now q st =
     (let (store, db) = st
      in case require_internal_scopes auth now {''handoffs:write''} q store of
           (Inl e, store') \<Rightarrow> (Inl e, store', db)
         | (Inr identity, store') \<Rightarrow>
             (case internal_event env identity (iq_body q) of
                Inl e \<Rightarrow> (Inl e, store', db)
              | Inr event \<Rightarrow>
                  if \<not> prefix ''whatsapp.handoff.'' (ae_event_type event)
                  then (Inl (HTTPException 422 ''WhatsApp handoff route requires a whatsapp.handoff.* event''), store', db)
                  else (let (r, db') = accept_internal env now event db in (r, store', db'))))"

definition get_event_status ::
  "route_env \<Rightarrow> 's auth_env \<Rightarrow> int \<Rightarrow> internal_request \<Rightarrow> string \<Rightarrow> 's \<times> 'w inbox_db \<Rightarrow> ingress_event_status res \<times> 's" where
  "get_event_status env auth now q event_id st =
     (let (store, db) = st
      in case require_internal_scopes auth now {''events:read''} q store of
           (Inl e, store') \<Rightarrow> (Inl e, store')
         | (Inr _, store') \<Rightarrow>
             (res_bind (unavailable (event_status env event_id db)) (\<lambda>result.
                case result of None \<Rightarrow> Inl (HTTPException 404 ''Event not found'') | Some s \<Rightarrow> Inr s), store'))"

section \<open>The payment routes\<close>

definition payment_service :: "route_env \<Rightarrow> payment_order_job_service res" where
  "payment_service env =
     (case rv_payment_order_jobs env of
        Some service \<Rightarrow>
          if ws_demo_payments_enabled (rv_settings env) \<and> ws_cashfree_order_enabled (rv_settings env) then Inr service
          else Inl (HTTPException 503 ''Cashfree order creation is disabled or not configured'')
      | None \<Rightarrow> Inl (HTTPException 503 ''Cashfree order creation is disabled or not configured''))"

definition payment_error_status :: "string \<Rightarrow> int" where
  "payment_error_status code =
     (if code = ''DCC_IDEMPOTENCY_CONFLICT'' then 409
      else if code \<in> {''DCC_POLICY_REJECTED'', ''DCC_PAYMENT_MISMATCH'', ''DCC_INVALID_TRANSITION''} then 422
      else 503)"

definition raise_payment_error :: "'a res \<Rightarrow> 'a res" where
  "raise_payment_error m =
     (case m of Inl (ServiceError code message) \<Rightarrow> Inl (HTTPException (payment_error_status code) (error_detail code message)) | _ \<Rightarrow> m)"

definition job_response :: "payment_order_job \<Rightarrow> payment_order_job res" where
  "job_response job =
     (if pj_status job \<in> {''quote_pending'', ''provider_pending'', ''ready'', ''expired'', ''failed'', ''payment_review'', ''paid''} then Inr job
      else Inl (ValueError ''validation error''))"

text \<open>\<open>PaymentOrderCreateRequest\<close>: the constraints on the decoded body.\<close>

definition payment_order_create_ok :: "payment_order_command \<Rightarrow> bool" where
  "payment_order_create_ok body \<longleftrightarrow> length_in 1 255 (pc_website_user_ref body) \<and> plan_ref_pattern (pc_plan_ref body) \<and> valid_phone (pc_customer_phone body)"

text \<open>The route after authentication: body and headers, then the service.\<close>

definition payment_request_of :: "route_env \<Rightarrow> internal_request \<Rightarrow> payment_order_command res" where
  "payment_request_of env q =
     (case (validated payment_order_create_ok (rv_payment env (iq_body q)), iq_headers q ''idempotency-key'') of
        (Inr body, Some idempotency_key) \<Rightarrow>
          if idempotency_key \<noteq> pc_request_id body then Inl (HTTPException 422 ''Idempotency-Key must equal the signed request_id'')
          else Inr body
      | _ \<Rightarrow> Inl (HTTPException 422 ''Request validation failed''))"

definition request_payment_order ::
  "route_env \<Rightarrow> 's auth_env \<Rightarrow> payment_env \<Rightarrow> int \<Rightarrow> string \<Rightarrow> internal_request \<Rightarrow> ('s \<times> store, payment_order_job) sess" where
  "request_payment_order env auth penv now uuid4 q st =
     (let (nonces, db) = st
      in case require_internal_scopes auth now {''payments:write''} q nonces of
           (Inl e, nonces') \<Rightarrow> (Inl e, nonces', db)
         | (Inr _, nonces') \<Rightarrow>
             (case res_bind (payment_request_of env q) (\<lambda>body. res_bind (payment_service env) (\<lambda>service. Inr (body, service))) of
                Inl e \<Rightarrow> (Inl e, nonces', db)
              | Inr (body, service) \<Rightarrow>
                  (let (r, db') = request_order penv service body (correlation_of (iq_headers q) uuid4) now db
                   in (res_bind (raise_payment_error r) job_response, nonces', db'))))"

definition get_payment_order ::
  "route_env \<Rightarrow> 's auth_env \<Rightarrow> payment_env \<Rightarrow> int \<Rightarrow> internal_request \<Rightarrow> string \<Rightarrow> ('s \<times> store, payment_order_job) sess" where
  "get_payment_order env auth penv now q request_id st =
     (let (nonces, db) = st
      in case require_internal_scopes auth now {''payments:read''} q nonces of
           (Inl e, nonces') \<Rightarrow> (Inl e, nonces', db)
         | (Inr _, nonces') \<Rightarrow>
             (res_bind (payment_service env) (\<lambda>service.
              res_bind (raise_payment_error (order_status penv service now request_id db)) (\<lambda>job.
                case job of None \<Rightarrow> Inl (HTTPException 404 ''Payment request not found'') | Some j \<Rightarrow> job_response j)), nonces', db))"

end
