(* ===== verification/RouteProperties.thy ===== *)
theory RouteProperties
  imports Routes
begin

text \<open>
  What can enter the inbox, and through which door: provider events only through their signed webhooks,
  everything else only from an authenticated agent that speaks for itself; and a webhook delivered
  again changes nothing.
\<close>

section \<open>Envelopes of the providers\<close>

lemma validate_envelope_keeps:
  assumes "validate_envelope e = Inr e'"
  shows "ae_event_id e' = ae_event_id e" "ae_event_type e' = ae_event_type e" "ae_schema_version e' = ae_schema_version e"
    "ae_source_agent e' = ae_source_agent e" "ae_tenant_id e' = ae_tenant_id e" "ae_idempotency_key e' = ae_idempotency_key e"
    "ae_payload e' = ae_payload e" "ae_target_agent e' = ae_target_agent e"
  using assms by (auto simp: validate_envelope_def restricted_payload_is_explicit_def res_simps split: if_splits)

lemma provider_envelope_fields:
  assumes "provider_envelope env c provider ref event_type t payload = Inr e"
  shows "ae_event_id e = rv_uuid5 env namespace_url (provider @ '':'' @ ref)" "ae_event_type e = event_type" "ae_schema_version e = ''1.0''"
    "ae_source_agent e = provider" "ae_tenant_id e = or_local (ws_tenant_id (rv_settings env))"
    "ae_idempotency_key e = ''provider:'' @ sha256 (utf8 (provider @ '':'' @ ref))" "ae_payload e = payload"
  using validate_envelope_keeps [OF assms [unfolded provider_envelope_def Let_def]] by simp_all

lemma compare_digest_true: "compare_digest a b = Inr True \<Longrightarrow> a = b"
  by (simp add: compare_digest_def split: if_splits)

text \<open>A delivery signed by Cashfree: the header is the keyed digest of the time stamp and the body.\<close>

definition cashfree_signed :: "route_settings \<Rightarrow> http_request \<Rightarrow> string \<Rightarrow> bool" where
  "cashfree_signed settings q raw \<longleftrightarrow> ws_demo_payments_enabled settings \<and> ws_cashfree_secret_key settings \<noteq> []
     \<and> (\<exists>timestamp. hq_headers q ''x-webhook-timestamp'' = Some timestamp
          \<and> hq_headers q ''x-webhook-signature'' = Some (cashfree_signature (ws_cashfree_secret_key settings) timestamp raw))"

definition meta_signed :: "route_settings \<Rightarrow> http_request \<Rightarrow> string \<Rightarrow> bool" where
  "meta_signed settings q raw \<longleftrightarrow> ws_meta_direct_webhook_enabled settings \<and> ws_meta_whatsapp_app_secret settings \<noteq> []
     \<and> hq_headers q ''x-hub-signature-256'' = Some (''sha256='' @ hmac_sha256 (utf8 (ws_meta_whatsapp_app_secret settings)) raw)"

lemma cashfree_event_signed:
  assumes "cashfree_webhook_event env now uuid4 q = Inr e"
  obtains raw where "request_body env q = Inr raw" "cashfree_signed (rv_settings env) q raw" "rv_loads env raw = Some (JObject (ae_payload e))"
    "ae_event_type e = ''cashfree.payment.webhook.received.v1''" "ae_source_agent e = ''cashfree''" "ae_schema_version e = ''1.0''"
    "ae_event_id e = rv_uuid5 env namespace_url (''cashfree:'' @ cashfree_event_reference (ae_payload e) raw)"
    "ae_tenant_id e = or_local (ws_tenant_id (rv_settings env))"
    "ae_idempotency_key e = ''provider:'' @ sha256 (utf8 (''cashfree:'' @ cashfree_event_reference (ae_payload e) raw))"
proof -
  obtain raw payload where on: "ws_demo_payments_enabled (rv_settings env)" and raw: "request_body env q = Inr raw"
    and v: "verify_cashfree_signature raw (hq_headers q ''x-webhook-timestamp'') (hq_headers q ''x-webhook-signature'') (ws_cashfree_secret_key (rv_settings env))
       (ws_cashfree_webhook_replay_window_seconds (rv_settings env)) (now div 1000000) = Inr True"
    and p: "object_payload env raw = Inr payload"
    and e: "provider_envelope env (Some (correlation_of (hq_headers q) uuid4)) ''cashfree'' (cashfree_event_reference payload raw)
               ''cashfree.payment.webhook.received.v1'' (cashfree_occurred_at (hq_headers q ''x-webhook-timestamp'') now) payload = Inr e"
    using assms by (auto simp: cashfree_webhook_event_def Let_def res_simps split: if_splits)
  note f = provider_envelope_fields [OF e]
  have "cashfree_signed (rv_settings env) q raw" using v on
    by (auto simp: cashfree_signed_def verify_cashfree_signature_def present_def Let_def dest!: compare_digest_true split: if_splits option.splits)
  moreover have "rv_loads env raw = Some (JObject (ae_payload e))"
    using p f by (auto simp: object_payload_def split: option.splits json.splits)
  ultimately show thesis using that raw f by simp
qed

lemma meta_event_signed:
  assumes "meta_webhook_event env now uuid4 q = Inr e"
  obtains raw where "request_body env q = Inr raw" "meta_signed (rv_settings env) q raw" "rv_loads env raw = Some (JObject (ae_payload e))"
    "ae_event_type e = ''meta.whatsapp.webhook.received.v1''" "ae_source_agent e = ''meta-whatsapp-direct''"
proof -
  obtain raw payload where on: "ws_meta_direct_webhook_enabled (rv_settings env)" and raw: "request_body env q = Inr raw"
    and v: "verify_meta_signature raw (hq_headers q ''x-hub-signature-256'') (ws_meta_whatsapp_app_secret (rv_settings env)) = Inr True"
    and p: "object_payload env raw = Inr payload"
    and e: "provider_envelope env (Some (correlation_of (hq_headers q) uuid4)) ''meta-whatsapp-direct'' (sha256 raw)
               ''meta.whatsapp.webhook.received.v1'' (utc_at now) payload = Inr e"
    using assms by (auto simp: meta_webhook_event_def Let_def res_simps split: if_splits)
  note f = provider_envelope_fields [OF e]
  have "meta_signed (rv_settings env) q raw" using v on
    by (auto simp: meta_signed_def verify_meta_signature_def present_def removeprefix_def prefix_def dest!: compare_digest_true split: if_splits)
  moreover have "rv_loads env raw = Some (JObject (ae_payload e))"
    using p f by (auto simp: object_payload_def split: option.splits json.splits)
  ultimately show thesis using that raw f by simp
qed

section \<open>The doors of the inbox\<close>

text \<open>One request to one of the four writing routes, or one processing step.\<close>

inductive ingress_step ::
  "route_env \<Rightarrow> (nat \<Rightarrow> 's auth_env) \<Rightarrow> ('e, 'w) inbox_env \<Rightarrow> 's \<times> 'w inbox_db \<Rightarrow> 's \<times> 'w inbox_db \<Rightarrow> bool"
  for env auth_at nenv where
  meta: "ingress_step env auth_at nenv (s, db) (s, snd (receive_meta_webhook env now uuid4 q db))"
| cashfree: "ingress_step env auth_at nenv (s, db) (s, snd (receive_cashfree_webhook env now uuid4 q db))"
| events: "ingress_step env auth_at nenv st (snd (ingest_event env (auth_at t) now iq st))"
| handoffs: "ingress_step env auth_at nenv st (snd (ingest_whatsapp_handoff env (auth_at t) now iq st))"
| process: "ingress_step env auth_at nenv (s, db) (s, snd (process_one nenv now locked db))"

text \<open>The row as it was stored, before any attempt to process it.\<close>

definition as_received :: "inbox_row \<Rightarrow> inbox_row" where
  "as_received r = r\<lparr>ix_processed_at := None, ix_processing_attempts := 0, ix_error_code := None\<rparr>"

definition stored :: "route_env \<Rightarrow> agent_event \<Rightarrow> inbox_row \<Rightarrow> bool" where
  "stored env e r \<longleftrightarrow> (\<exists>ingress now i. rv_ingress env = Some ingress \<and> as_received r = ingress_row ingress now i (inbox_event_of env e))"

definition internally_sent :: "route_env \<Rightarrow> (nat \<Rightarrow> 's auth_env) \<Rightarrow> agent_event \<Rightarrow> bool" where
  "internally_sent env auth_at e \<longleftrightarrow> (\<exists>t now scopes q store identity.
     fst (require_internal_scopes (auth_at t) now scopes q store) = Inr identity \<and> scopes \<noteq> {} \<and> internal_event env identity (iq_body q) = Inr e)"

lemma as_received_marks [simp]:
  "as_received (mark_processed now r) = as_received r" "as_received (mark_attempt_failed r) = as_received r"
  by (simp_all add: as_received_def mark_processed_def mark_attempt_failed_def)

lemma as_received_ingress_row [simp]: "as_received (ingress_row env now i event) = ingress_row env now i event"
  by (simp add: as_received_def ingress_row_def)

lemma accept_event_rows:
  assumes "r \<in> set (id_rows (snd (accept_event env now e db)))"
  shows "r \<in> set (id_rows db) \<or> stored env e r"
proof (cases "r \<in> set (id_rows db)")
  case False
  then obtain ingress where "rv_ingress env = Some ingress" "r = ingress_row ingress now (id_next_id db) (inbox_event_of env e)"
    using assms by (auto simp: accept_event_def accept_def Let_def split: option.splits if_splits)
  then have "rv_ingress env = Some ingress" "as_received r = ingress_row ingress now (id_next_id db) (inbox_event_of env e)" by simp_all
  then show ?thesis unfolding stored_def by blast
qed simp

lemma accept_event_keeps: "r \<in> set (id_rows db) \<Longrightarrow> r \<in> set (id_rows (snd (accept_event env now e db)))"
  by (auto simp: accept_event_def accept_def Let_def split: option.splits)

lemma process_one_as_received: "map as_received (id_rows (snd (process_one env now locked db))) = map as_received (id_rows db)"
  by (auto simp: process_one_def update_inbox_row_def split: option.splits sum.splits)

lemma snd_accept_internal: "snd (accept_internal env now e db) = snd (accept_event env now e db)"
  by (simp add: accept_internal_def split_beta)

text \<open>A step hands one entitled event to the ingress, or leaves every row as it was received.\<close>

definition entitled :: "route_env \<Rightarrow> (nat \<Rightarrow> 's auth_env) \<Rightarrow> agent_event \<Rightarrow> bool" where
  "entitled env auth_at e \<longleftrightarrow> (\<exists>now uuid4 q. cashfree_webhook_event env now uuid4 q = Inr e)
     \<or> (\<exists>now uuid4 q. meta_webhook_event env now uuid4 q = Inr e) \<or> internally_sent env auth_at e"

definition authentic :: "route_env \<Rightarrow> (nat \<Rightarrow> 's auth_env) \<Rightarrow> inbox_row \<Rightarrow> bool" where
  "authentic env auth_at r \<longleftrightarrow> (\<exists>e. stored env e r \<and> entitled env auth_at e)"

lemma ingress_step_effect:
  assumes "ingress_step env auth_at nenv st st'"
  obtains (accepts) now e where "entitled env auth_at e" "snd st' = snd (accept_event env now e (snd st))"
  | (keeps) "map as_received (id_rows (snd st')) = map as_received (id_rows (snd st))"
  using assms
proof cases
  case (meta s db now uuid4 q)
  show thesis
  proof (cases "meta_webhook_event env now uuid4 q")
    case Inl then show thesis using meta by (intro keeps) (simp add: receive_meta_webhook_def)
  next
    case (Inr e) then show thesis using meta by (intro accepts [of e now]) (auto simp: entitled_def receive_meta_webhook_def)
  qed
next
  case (cashfree s db now uuid4 q)
  show thesis
  proof (cases "cashfree_webhook_event env now uuid4 q")
    case Inl then show thesis using cashfree by (intro keeps) (simp add: receive_cashfree_webhook_def)
  next
    case (Inr e) then show thesis using cashfree by (intro accepts [of e now]) (auto simp: entitled_def receive_cashfree_webhook_def)
  qed
next
  case (events t now iq)
  obtain s db where st: "st = (s, db)" by (cases st)
  show thesis
  proof (cases "fst (require_internal_scopes (auth_at t) now {''events:write''} iq s)")
    case Inl then show thesis using events st by (intro keeps) (auto simp: ingest_event_def split: prod.splits)
  next
    case (Inr identity)
    show thesis
    proof (cases "internal_event env identity (iq_body iq)")
      case Inl then show thesis using events st Inr by (intro keeps) (auto simp: ingest_event_def split: prod.splits)
    next
      case (Inr e)
      with \<open>fst _ = Inr identity\<close> have "internally_sent env auth_at e" unfolding internally_sent_def by blast
      then show thesis using events st Inr \<open>fst _ = Inr identity\<close> snd_accept_internal [of env now e db]
        by (intro accepts [of e now]) (auto simp: entitled_def ingest_event_def split: prod.splits)
    qed
  qed
next
  case (handoffs t now iq)
  obtain s db where st: "st = (s, db)" by (cases st)
  show thesis
  proof (cases "fst (require_internal_scopes (auth_at t) now {''handoffs:write''} iq s)")
    case Inl then show thesis using handoffs st by (intro keeps) (auto simp: ingest_whatsapp_handoff_def split: prod.splits)
  next
    case (Inr identity)
    show thesis
    proof (cases "\<exists>e. internal_event env identity (iq_body iq) = Inr e \<and> prefix ''whatsapp.handoff.'' (ae_event_type e)")
      case False then show thesis using handoffs st Inr
        by (intro keeps) (auto simp: ingest_whatsapp_handoff_def split: prod.splits sum.splits)
    next
      case True
      then obtain e where e: "internal_event env identity (iq_body iq) = Inr e" "prefix ''whatsapp.handoff.'' (ae_event_type e)" by blast
      with Inr have "internally_sent env auth_at e" unfolding internally_sent_def by blast
      then show thesis using handoffs st Inr e snd_accept_internal [of env now e db]
        by (intro accepts [of e now]) (auto simp: entitled_def ingest_whatsapp_handoff_def split: prod.splits)
    qed
  qed
next
  case (process s db now locked)
  then show thesis by (intro keeps) (simp add: process_one_as_received)
qed

lemma authentic_as_received: "authentic env auth_at r \<longleftrightarrow> as_received r \<in> {r. authentic env auth_at r}"
  by (simp add: authentic_def stored_def) (simp add: as_received_def)

lemma ingress_step_authentic:
  assumes "ingress_step env auth_at nenv st st'" "\<forall>r \<in> set (id_rows (snd st)). authentic env auth_at r"
  shows "\<forall>r \<in> set (id_rows (snd st')). authentic env auth_at r"
  using assms(1)
proof (cases rule: ingress_step_effect)
  case (accepts now e)
  then show ?thesis using assms(2) accept_event_rows by (fastforce simp: authentic_def)
next
  case keeps
  then have "as_received ` set (id_rows (snd st')) = as_received ` set (id_rows (snd st))" by (metis set_map)
  then show ?thesis using assms(2) authentic_as_received by (smt (verit) image_iff)
qed

lemma ingress_step_keeps_rows:
  assumes "ingress_step env auth_at nenv st st'"
  shows "as_received ` set (id_rows (snd st)) \<subseteq> as_received ` set (id_rows (snd st'))"
  using assms
proof (cases rule: ingress_step_effect)
  case (accepts now e)
  then show ?thesis using accept_event_keeps by fastforce
next
  case keeps
  then show ?thesis by (metis set_map subset_refl)
qed

lemma ingress_reach_authentic:
  assumes "(ingress_step env auth_at nenv)\<^sup>*\<^sup>* st0 st" "id_rows (snd st0) = []"
  shows "\<forall>r \<in> set (id_rows (snd st)). authentic env auth_at r"
  using assms(1)
proof (induction rule: rtranclp_induct)
  case base
  then show ?case using assms(2) by simp
next
  case (step y z)
  then show ?case using ingress_step_authentic by blast
qed

lemma ingress_reach_keeps_rows:
  assumes "(ingress_step env auth_at nenv)\<^sup>*\<^sup>* st st'"
  shows "as_received ` set (id_rows (snd st)) \<subseteq> as_received ` set (id_rows (snd st'))"
  using assms by (induction rule: rtranclp_induct) (simp, use ingress_step_keeps_rows in blast)

lemma stored_fields:
  assumes "stored env e r"
  shows "ix_source_agent r = ae_source_agent e" "ix_event_type r = ae_event_type e" "ix_event_id r = ae_event_id e" "ix_tenant_id r = ae_tenant_id e"
    "ix_schema_version r = ae_schema_version e" "ix_idempotency_key r = ae_idempotency_key e"
proof -
  obtain ingress now i where "as_received r = ingress_row ingress now i (inbox_event_of env e)" using assms by (auto simp: stored_def)
  then have "f (as_received r) = f (ingress_row ingress now i (inbox_event_of env e))" for f :: "inbox_row \<Rightarrow> string" by simp
  from this [of ix_source_agent] this [of ix_event_type] this [of ix_event_id] this [of ix_tenant_id] this [of ix_schema_version] this [of ix_idempotency_key]
  show "ix_source_agent r = ae_source_agent e" "ix_event_type r = ae_event_type e" "ix_event_id r = ae_event_id e" "ix_tenant_id r = ae_tenant_id e"
    "ix_schema_version r = ae_schema_version e" "ix_idempotency_key r = ae_idempotency_key e"
    by (simp_all add: as_received_def ingress_row_def inbox_event_of_def)
qed

text \<open>
  What the processor hands to its handler is the envelope that was stored, when the cipher and the
  serialisation give it back.
\<close>

definition reads_envelope :: "route_env \<Rightarrow> ('e, 'w) inbox_env \<Rightarrow> agent_event \<Rightarrow> 'e \<Rightarrow> bool" where
  "reads_envelope env nenv e handled \<longleftrightarrow> (\<forall>ingress. rv_ingress env = Some ingress \<longrightarrow>
     ne_validate nenv (ie_dumps ingress (inbox_event_of env e)) = Inr handled
     \<and> (\<forall>text data. ne_decrypt nenv (ie_encrypt ingress text data) data = Inr text))"

lemma handle_stored_row:
  assumes "stored env e r" "reads_envelope env nenv e handled"
  shows "handle_row nenv r rest = ne_handle nenv handled rest"
proof -
  obtain ingress now i where i: "rv_ingress env = Some ingress" "as_received r = ingress_row ingress now i (inbox_event_of env e)"
    using assms(1) by (auto simp: stored_def)
  then have "ix_payload_ciphertext (as_received r) = ie_encrypt ingress (ie_dumps ingress (inbox_event_of env e)) (ingress_associated_data (inbox_event_of env e))"
    by (simp add: ingress_row_def)
  moreover have "inbox_associated_data r = ingress_associated_data (inbox_event_of env e)"
    using stored_fields [OF assms(1)] by (simp add: inbox_associated_data_def ingress_associated_data_def inbox_event_of_def)
  ultimately show ?thesis using assms(2) i(1) by (simp add: handle_row_def reads_envelope_def as_received_def)
qed

lemma internal_event_checked:
  assumes "internal_event env identity body = Inr e"
  shows "\<not> (ae_source_agent e = ''cashfree'' \<or> prefix ''cashfree.'' (ae_event_type e))"
    "\<not> (ae_source_agent e = ''meta-whatsapp-direct'' \<or> prefix ''meta.'' (ae_event_type e))"
    "ii_legacy identity \<or> ae_source_agent e = ii_source identity" "ae_target_agent e \<in> {ws_app_name (rv_settings env), ''demo-command-center''}"
  using assms by (auto simp: internal_event_def validate_route_identity_def res_simps split: if_splits)


section \<open>Redelivery\<close>

lemma accept_event_present:
  assumes "accept_event env now e db = (Inr rec, db')"
  shows "\<exists>r \<in> set (id_rows db'). is_duplicate (inbox_event_of env e) r"
  using assms by (auto simp: accept_event_def accept_def Let_def ingress_unconfigured_def is_duplicate_def ingress_row_def list_ex_iff
      split: option.splits if_splits)

lemma is_duplicate_as_received: "is_duplicate event (as_received r) = is_duplicate event r"
  by (simp add: is_duplicate_def as_received_def)

lemma accept_duplicate:
  assumes "rv_ingress env \<noteq> None" "\<exists>r \<in> set (id_rows db). is_duplicate (inbox_event_of env e) r"
  shows "accept_event env now e db = (Inr (receipt (inbox_event_of env e) Duplicate), db)"
proof -
  have "\<not> inbox_unique (id_rows db @ [ingress_row ingress now i (inbox_event_of env e)])" for ingress i
  proof
    assume u: "inbox_unique (id_rows db @ [ingress_row ingress now i (inbox_event_of env e)])"
    then have "inbox_unique (id_rows db)" by (simp add: inbox_unique_def)
    from duplicate_iff [OF this] u assms(2) show False by (auto simp: list_ex_iff)
  qed
  then show ?thesis using assms by (auto simp: accept_event_def accept_def Let_def list_ex_iff)
qed


section \<open>Samples\<close>

lemma b64_char_ascii: "n < 64 \<Longrightarrow> cval (b64_char n) < 128"
  by (auto simp: b64_char_def)

lemma sextets:
  assumes "a < 256" "b < (256::nat)"
  shows "a div 4 < 64" "a mod 4 * 16 < 64" "a mod 4 * 16 + b div 16 < 64" "a mod 16 * 4 < 64" "a mod 16 * 4 + b div 64 < 64" "a mod 64 < 64"
proof -
  have "a mod 4 < 4" "a mod 16 < 16" by simp_all
  moreover have "b div 16 < 16" "b div 64 < 4" "a div 4 < 64" using assms by (simp_all add: less_mult_imp_div_less)
  ultimately show "a div 4 < 64" "a mod 4 * 16 < 64" "a mod 4 * 16 + b div 16 < 64" "a mod 16 * 4 < 64" "a mod 16 * 4 + b div 64 < 64" "a mod 64 < 64"
    by simp_all
qed

lemma b64encode_ascii: "list_all (\<lambda>c. cval c < 128) (b64encode s)"
  by (induction s rule: b64encode.induct) (simp_all add: b64_char_ascii sextets [OF cval_lt cval_lt])

lemma cashfree_signature_nonempty: "cashfree_signature k t raw \<noteq> []"
proof -
  have "b64encode s = [] \<Longrightarrow> s = []" for s by (cases s rule: b64encode.cases) simp_all
  moreover have "hmac_sha256_digest k m \<noteq> []" for k m
    using sha256_digest_length by (metis hmac_sha256_digest_def length_0_conv zero_neq_numeral)
  ultimately show ?thesis unfolding cashfree_signature_def by blast
qed

lemma cashfree_signature_accepted: "compare_digest (cashfree_signature k t raw) (cashfree_signature k t raw) = Inr True"
  by (simp add: compare_digest_def cashfree_signature_def b64encode_ascii)

definition sample_routes :: route_env where
  "sample_routes = \<lparr>rv_settings = \<lparr>ws_app_name = ''demo-command-center'', ws_tenant_id = ''t'', ws_meta_direct_webhook_enabled = False,
       ws_meta_whatsapp_verify_token = [], ws_meta_whatsapp_app_secret = [], ws_demo_payments_enabled = True, ws_cashfree_order_enabled = True,
       ws_cashfree_secret_key = ''secret'', ws_cashfree_webhook_replay_window_seconds = Some 300\<rparr>,
     rv_loads = (\<lambda>_. Some (JObject [(''type'', JString ''PAYMENT_SUCCESS_WEBHOOK'')])), rv_uuid5 = (\<lambda>n s. ''uuid''), rv_ingress = Some sample_ingress,
     rv_event = (\<lambda>_. Inl (ValueError [])), rv_payment = (\<lambda>_. Inl (ValueError [])), rv_max_request_body_bytes = 1000,
     rv_payment_order_jobs = None, rv_dump = (\<lambda>_. [])\<rparr>"

text \<open>A signed delivery at second \<open>t\<close> in the given chunks.\<close>

definition sample_hook :: "string \<Rightarrow> string list \<Rightarrow> http_request" where
  "sample_hook t chunks = \<lparr>hq_headers = [''x-webhook-timestamp'' \<mapsto> t,
     ''x-webhook-signature'' \<mapsto> cashfree_signature ''secret'' t (concat chunks), ''x-correlation-id'' \<mapsto> ''corr-1''], hq_chunks = chunks\<rparr>"

lemma sample_body: "request_body sample_routes (sample_hook t [''{'', ''}'']) = Inr ''{}''" "request_body sample_routes (sample_hook t [''{}'']) = Inr ''{}''"
  by (simp_all add: request_body_def sample_routes_def sample_hook_def)

lemma sample_hook_accepted:
  assumes "py_int t = Some n" "t \<noteq> []" "0 \<le> n" "n \<le> 1000" "chunks \<in> {[''{'', ''}''], [''{}'']}"
  shows "\<exists>e. cashfree_webhook_event sample_routes (n * 1000000) ''u'' (sample_hook t chunks) = Inr e"
proof -
  have body: "request_body sample_routes (sample_hook t chunks) = Inr ''{}''" "concat chunks = ''{}''" using assms(5) sample_body by auto
  have "verify_cashfree_signature ''{}'' (Some t) (Some (cashfree_signature ''secret'' t ''{}'')) ''secret'' (Some 300) n = Inr True"
    using assms(1-4) by (simp add: verify_cashfree_signature_def present_def in_seconds_def cashfree_signature_accepted cashfree_signature_nonempty)
  moreover have "event_type_pattern ''cashfree.payment.webhook.received.v1''" by code_simp
  moreover have "safe_correlation_id ''corr-1''" by code_simp
  moreover have "content_length_ok (rv_max_request_body_bytes sample_routes) (hq_headers (sample_hook t chunks)) = Inr ()"
    by (simp add: content_length_ok_def present_def sample_hook_def)
  ultimately show ?thesis using assms body
    by (simp add: cashfree_webhook_event_def) (simp add: sample_routes_def sample_hook_def object_payload_def provider_envelope_def validate_envelope_def
        envelope_fields_ok_def length_in_def optional_max_def or_local_def correlation_of_def present_def occurred_at_must_be_utc_def
        restricted_payload_is_explicit_def cashfree_occurred_at_def in_seconds_def in_range_def utc_at_def aware_def to_utc_def instant_def Let_def)
qed

definition sample_auth :: "nat \<Rightarrow> replay_expiries auth_env" where
  "sample_auth t = \<lparr>au_consume = consume_in_memory (int t), au_verifier = sample_verifier,
     au_settings = \<lparr>as_lead_intake_shared_secret = [], as_internal_legacy_shared_secret_enabled = False, as_internal_auth_audience = ''dcc''\<rparr>\<rparr>"

definition sample_processor :: "(agent_event, nat) inbox_env" where
  "sample_processor = \<lparr>ne_decrypt = (\<lambda>c a. Inr c), ne_validate = (\<lambda>_. Inl (ValueError [])), ne_handle = (\<lambda>_ w. Inr w),
     ne_blocked_event_types = {}, ne_maximum_attempts = 5\<rparr>"

lemma sample_first_delivery:
  "\<exists>e. cashfree_webhook_event sample_routes 5000000 ''u'' (sample_hook ''5'' [''{}'']) = Inr e
     \<and> receive_cashfree_webhook sample_routes 5000000 ''u'' (sample_hook ''5'' [''{}'']) empty_inbox
       = (Inr (receipt (inbox_event_of sample_routes e) Accepted),
          empty_inbox\<lparr>id_rows := [ingress_row sample_ingress 5000000 1 (inbox_event_of sample_routes e)], id_next_id := 2\<rparr>)"
proof -
  have "py_int ''5'' = Some 5" by code_simp
  then obtain e where "cashfree_webhook_event sample_routes 5000000 ''u'' (sample_hook ''5'' [''{}'']) = Inr e"
    using sample_hook_accepted [of "''5''" 5 "[''{}'']"] by auto
  moreover have "rv_ingress sample_routes = Some sample_ingress" by (simp add: sample_routes_def)
  ultimately show ?thesis
    by (intro exI [of _ e]) (simp add: receive_cashfree_webhook_def accept_event_def accept_def inbox_unique_def empty_inbox_def)
qed



end
