(* ===== verification/AuditChain.thy ===== *)
theory AuditChain
  imports
    Json
    Store
    "HOL-Library.Product_Lexorder"
    "HOL-Library.Multiset"
begin

text \<open>
  \<open>infrastructure/audit/chain.py\<close>: the audit log of a tenant is a chain of records, each with a keyed
  digest of its text, which includes the digest of the record before it.  The table's serial number is
  \<open>al_next\<close>.
\<close>

section \<open>Appending\<close>

record audit_event =
  av_id :: nat
  av_tenant_id :: string
  av_event_type :: string
  av_actor_type :: string
  av_actor_ref_hash :: string
  av_correlation_id :: string
  av_details :: json_object
  av_occurred_at :: datetime
  av_previous_hash :: "string option"
  av_event_hash :: string
  av_export_sanitized :: bool

record audit_log =
  al_events :: "audit_event list"
  al_next :: nat

definition audit_order :: "audit_event \<Rightarrow> int \<times> nat" where
  "audit_order e = (instant (av_occurred_at e), av_id e)"

definition tenant_trail :: "string \<Rightarrow> audit_event list \<Rightarrow> audit_event list" where
  "tenant_trail tenant events = sort_key audit_order (filter (\<lambda>e. av_tenant_id e = tenant) events)"

definition latest_hash :: "string \<Rightarrow> audit_event list \<Rightarrow> string option" where
  "latest_hash tenant events = (case rev (tenant_trail tenant events) of [] \<Rightarrow> None | e # _ \<Rightarrow> Some (av_event_hash e))"

definition audit_canonical :: "audit_event \<Rightarrow> string" where
  "audit_canonical e = dumps (JObject
     [(''tenant_id'', JString (av_tenant_id e)), (''event_type'', JString (av_event_type e)), (''actor_type'', JString (av_actor_type e)),
      (''correlation_id'', JString (av_correlation_id e)), (''details'', JObject (av_details e)),
      (''occurred_at'', JString (isoformat (av_occurred_at e))),
      (''previous_hash'', case av_previous_hash e of Some h \<Rightarrow> JString h | None \<Rightarrow> JNull)])"

definition audit_hash :: "string \<Rightarrow> audit_event \<Rightarrow> string" where
  "audit_hash hash_key e = hmac_sha256 (utf8 hash_key) (audit_canonical e)"

record audit_entry =
  at_tenant_id :: string
  at_event_type :: string
  at_actor_type :: string
  at_actor_ref :: string
  at_correlation_id :: string
  at_details :: json_object
  at_occurred_at :: "datetime option"

text \<open>The clock is an argument, and is read when the caller gives no time.\<close>

definition append_audit_event :: "string \<Rightarrow> datetime \<Rightarrow> audit_entry \<Rightarrow> (audit_log, audit_event) sess" where
  "append_audit_event hash_key now entry trail =
     (if hash_key = [] \<or> at_tenant_id entry = [] \<or> at_actor_ref entry = []
      then (Inl (ValueError ''audit tenant, actor, and hash key are required''), trail)
      else
        let timestamp = (case at_occurred_at entry of Some t \<Rightarrow> t | None \<Rightarrow> now)
        in if \<not> aware timestamp then (Inl (ValueError ''audit timestamp must be timezone-aware''), trail)
           else
             let draft = \<lparr>av_id = al_next trail, av_tenant_id = at_tenant_id entry, av_event_type = at_event_type entry,
                   av_actor_type = at_actor_type entry, av_actor_ref_hash = hmac_sha256 (utf8 hash_key) (utf8 (at_actor_ref entry)),
                   av_correlation_id = at_correlation_id entry, av_details = at_details entry, av_occurred_at = timestamp,
                   av_previous_hash = latest_hash (at_tenant_id entry) (al_events trail), av_event_hash = [], av_export_sanitized = True\<rparr>;
                 event = draft\<lparr>av_event_hash := audit_hash hash_key draft\<rparr>
             in (Inr event, \<lparr>al_events = al_events trail @ [event], al_next = al_next trail + 1\<rparr>))"

section \<open>The chain\<close>

fun linked :: "string \<Rightarrow> string option \<Rightarrow> audit_event list \<Rightarrow> bool" where
  "linked hash_key previous [] = True"
| "linked hash_key previous (e # es) \<longleftrightarrow> av_previous_hash e = previous \<and> av_event_hash e = audit_hash hash_key e
     \<and> linked hash_key (Some (av_event_hash e)) es"

definition audit_ok :: "string \<Rightarrow> audit_log \<Rightarrow> bool" where
  "audit_ok hash_key trail \<longleftrightarrow> (\<forall>tenant. linked hash_key None (tenant_trail tenant (al_events trail)))
     \<and> (\<forall>e \<in> set (al_events trail). av_id e < al_next trail)"

lemma sort_key_snoc:
  assumes "\<forall>y \<in> set xs. f y \<le> f x"
  shows "sort_key f (xs @ [x]) = sort_key f xs @ [x]"
proof (rule properties_for_sort_key)
  show "mset (sort_key f xs @ [x]) = mset (xs @ [x])" by simp
  show "sorted (map f (sort_key f xs @ [x]))" using assms by (auto simp: sorted_append)
  show "filter (\<lambda>y. f k = f y) (sort_key f xs @ [x]) = filter (\<lambda>y. f k = f y) (xs @ [x])" for k
    using sort_key_stable [of f "f k" xs] by (simp add: eq_commute)
qed

lemma linked_snoc: "linked k p (es @ [e]) \<longleftrightarrow> linked k p es \<and> av_event_hash e = audit_hash k e
    \<and> av_previous_hash e = (case rev es of [] \<Rightarrow> p | l # _ \<Rightarrow> Some (av_event_hash l))"
  by (induction es arbitrary: p) (auto split: list.splits)

lemma trail_snoc:
  assumes "\<forall>e' \<in> set events. av_tenant_id e' = av_tenant_id e \<longrightarrow> audit_order e' \<le> audit_order e"
  shows "tenant_trail tenant (events @ [e]) = tenant_trail tenant events @ (if av_tenant_id e = tenant then [e] else [])"
  using assms sort_key_snoc [of "filter (\<lambda>e. av_tenant_id e = tenant) events" audit_order e] by (auto simp: tenant_trail_def)

lemma audit_hash_draft [simp]: "audit_hash k (e\<lparr>av_event_hash := h\<rparr>) = audit_hash k e"
  by (simp add: audit_hash_def audit_canonical_def)


section \<open>Tampering\<close>

definition link_text :: "string option \<Rightarrow> string" where
  "link_text p = dumps (case p of Some h \<Rightarrow> JString h | None \<Rightarrow> JNull)"

lemma audit_canonical_parts:
  "\<exists>front. audit_canonical e = front @ link_text (av_previous_hash e) @ '','' @ json_quote ''tenant_id'' @ '':'' @ json_quote (av_tenant_id e) @ ''}''"
proof -
  have "sort_key fst [(''tenant_id'', t1), (''event_type'', t2), (''actor_type'', t3), (''correlation_id'', t4), (''details'', t5),
      (''occurred_at'', t6), (''previous_hash'', t7)]
    = [(''actor_type'', t3), (''correlation_id'', t4), (''details'', t5), (''event_type'', t2), (''occurred_at'', t6), (''previous_hash'', t7), (''tenant_id'', t1 :: string)]"
    for t1 t2 t3 t4 t5 t6 t7 by (simp add: less_eq_char_def)
  then show ?thesis by (auto simp: audit_canonical_def link_text_def)
qed

lemma hex_unescaped: "concat (map escape_char (hex bs)) = hex bs"
proof -
  have "list_all (\<lambda>n. escape_char (hex_digit n) = [hex_digit n]) [0..<16]" by code_simp
  then have digit: "n < 16 \<Longrightarrow> escape_char (hex_digit n) = [hex_digit n]" for n by (simp only: list_all_iff set_upt atLeastLessThan_iff) simp
  have "escape_char (hex_digit (cval c div 16)) = [hex_digit (cval c div 16)]" "escape_char (hex_digit (cval c mod 16)) = [hex_digit (cval c mod 16)]" for c
    using cval_lt [of c] by (auto intro!: digit simp: less_mult_imp_div_less)
  then show ?thesis by (induction bs) (auto simp: hex_def)
qed

lemma digest_text: "link_text (Some (hmac_sha256 k m)) = [CHR 0x22] @ hmac_sha256 k m @ [CHR 0x22]"
  by (simp add: link_text_def json_quote_def hmac_sha256_def hex_unescaped)

definition is_link :: "string option \<Rightarrow> bool" where
  "is_link p \<longleftrightarrow> p = None \<or> (\<exists>k m. p = Some (hmac_sha256 k m))"

lemma link_text_inj:
  assumes "is_link p" "is_link q" "a @ link_text p = b @ link_text q"
  shows "p = q"
proof -
  have none: "link_text None = ''nul'' @ ''l''" by (simp add: link_text_def)
  consider "p = None" "q = None" | k m where "p = None" "q = Some (hmac_sha256 k m)" | k m where "p = Some (hmac_sha256 k m)" "q = None"
    | k m k' m' where "p = Some (hmac_sha256 k m)" "q = Some (hmac_sha256 k' m')"
    using assms(1,2) unfolding is_link_def by blast
  then show ?thesis
  proof cases
    case 2
    then show ?thesis using arg_cong [OF assms(3), of last] by (simp add: none digest_text)
  next
    case 3
    then show ?thesis using arg_cong [OF assms(3), of last] by (simp add: none digest_text)
  next
    case 4
    then have "a @ [CHR 0x22] @ hmac_sha256 k m = b @ [CHR 0x22] @ hmac_sha256 k' m'" using assms(3) by (simp add: digest_text)
    then have "hmac_sha256 k m = hmac_sha256 k' m'" using append_eq_append_conv [of "hmac_sha256 k m" "hmac_sha256 k' m'" "a @ [CHR 0x22]" "b @ [CHR 0x22]"] by simp
    then show ?thesis using 4 by simp
  qed simp
qed

definition last_link :: "audit_event list \<Rightarrow> string option" where
  "last_link es = (case rev es of [] \<Rightarrow> None | e # _ \<Rightarrow> Some (av_event_hash e))"

lemma last_link_is_link: "linked k None es \<Longrightarrow> is_link (last_link es)"
  by (cases es rule: rev_cases) (auto simp: last_link_def is_link_def linked_snoc audit_hash_def)


text \<open>The actor is not covered: its digest can be replaced and every link still holds.\<close>

lemma actor_not_covered: "linked k p (xs @ e\<lparr>av_actor_ref_hash := anyone\<rparr> # ys) = linked k p (xs @ e # ys)"
  by (induction xs arbitrary: p) (simp_all add: audit_hash_def audit_canonical_def)

section \<open>Samples\<close>

definition empty_trail :: audit_log where
  "empty_trail = \<lparr>al_events = [], al_next = 1\<rparr>"

definition sample_entry :: audit_entry where
  "sample_entry = \<lparr>at_tenant_id = ''t'', at_event_type = ''operations.inbox.replay.authorized.v1'', at_actor_type = ''operator'', at_actor_ref = ''ops-1'',
     at_correlation_id = ''c'', at_details = [(''reason_code'', JString ''RETRY'')], at_occurred_at = None\<rparr>"

lemma empty_trail_ok: "audit_ok k empty_trail"
  by (simp add: audit_ok_def empty_trail_def tenant_trail_def)

lemma sample_append:
  "\<exists>e. append_audit_event ''key'' (Datetime 5 (Some 0)) sample_entry empty_trail = (Inr e, \<lparr>al_events = [e], al_next = 2\<rparr>)
     \<and> av_tenant_id e = ''t'' \<and> linked ''key'' None [e]"
  by (simp add: append_audit_event_def sample_entry_def empty_trail_def Let_def aware_def latest_hash_def tenant_trail_def)
    (simp add: audit_hash_def audit_canonical_def)



end
