(* ===== verification/Reconciliation.thy ===== *)
theory Reconciliation
  imports AuditChain PaymentOrders
begin

text \<open>
  \<open>cli/reconcile_payments.py\<close>: open Cashfree orders are compared with what the provider says of them.
  Each order is reserved in one transaction and settled in another; the provider is asked in between.
  The columns \<open>created_at\<close> and \<open>updated_at\<close> are instants, set by the database; its clock, the answers of the
  provider and the rows other workers have locked are arguments, indexed by the iterations that are left.
  Ascending order puts null last, as PostgreSQL does.
\<close>

section \<open>Data\<close>

record reconciled_order = payment_order +
  ro_created_at :: int
  ro_updated_at :: int

record provider_payment_status =
  pst_provider_order_id :: string
  pst_status :: string
  pst_amount_minor :: int
  pst_currency :: string

record payment_reconciliation =
  rn_payment_order_id :: string
  rn_provider_snapshot_hash :: string
  rn_local_status_before :: string
  rn_verified_provider_status :: string
  rn_result :: string
  rn_mismatch_codes :: "string list"
  rn_reconciled_at :: datetime

record reconcile_db =
  rc_orders :: "reconciled_order list"
  rc_reconciliations :: "payment_reconciliation list"
  rc_audit :: audit_log

record reconciliation_result =
  rr_inspected :: int
  rr_pending :: int
  rr_expired :: int
  rr_review :: int
  rr_failed_requests :: int

record reconcile_env =
  re_tenant_id :: string
  re_now :: datetime
  re_retry_delay :: timedelta
  re_fetch_verified_status :: "nat \<Rightarrow> string \<Rightarrow> provider_payment_status res"
  re_locked :: "nat \<Rightarrow> string set"
  re_clock :: "nat \<Rightarrow> int"
  re_policy_reference :: string
  re_audit_hash_key :: string
  re_uuid4 :: string

definition snapshot_hash :: "provider_payment_status \<Rightarrow> string" where
  "snapshot_hash s = sha256 (dumps (JObject
     [(''provider_order_id'', JString (pst_provider_order_id s)), (''status'', JString (upper (pst_status s))),
      (''amount_minor'', JInt (pst_amount_minor s)), (''currency'', JString (upper (pst_currency s)))]))"

section \<open>Reserving\<close>

definition reconcilable :: "string \<Rightarrow> int \<Rightarrow> int \<Rightarrow> reconciled_order \<Rightarrow> bool" where
  "reconcilable tenant_id now stale_before order \<longleftrightarrow>
     py_tenant_id order = tenant_id \<and> py_provider order = ''cashfree'' \<and> py_provider_order_id order \<noteq> None
     \<and> (py_status order \<in> {''pending'', ''reconciliation_required'', ''payment_review''}
        \<or> py_status order = ''reconciling'' \<and> ro_updated_at order \<le> stale_before)
     \<and> (case py_reconcile_after order of None \<Rightarrow> True | Some t \<Rightarrow> instant t \<le> now)"

definition reconcile_order :: "reconciled_order \<Rightarrow> (nat \<times> int) \<times> int" where
  "reconcile_order order = ((case py_reconcile_after order of None \<Rightarrow> (1, 0) | Some t \<Rightarrow> (0, instant t)), ro_created_at order)"

text \<open>A write sets \<open>updated_at\<close> when it changes the row.\<close>

definition write_order :: "string \<Rightarrow> int \<Rightarrow> (reconciled_order \<Rightarrow> reconciled_order) \<Rightarrow> reconcile_db \<Rightarrow> reconcile_db" where
  "write_order i t f db = db\<lparr>rc_orders := update_by py_id i (\<lambda>o'. if f o' = o' then o' else (f o')\<lparr>ro_updated_at := t\<rparr>) (rc_orders db)\<rparr>"

definition select_order :: "reconcile_env \<Rightarrow> nat \<Rightarrow> int \<Rightarrow> reconcile_db \<Rightarrow> reconciled_order option" where
  "select_order env n stale_before db =
     (case sort_key reconcile_order (filter (\<lambda>x. reconcilable (re_tenant_id env) (instant (re_now env)) stale_before x \<and> py_id x \<notin> re_locked env n) (rc_orders db)) of
        [] \<Rightarrow> None | x # _ \<Rightarrow> Some x)"

definition reserve_order :: "reconcile_env \<Rightarrow> nat \<Rightarrow> (reconcile_db, (string \<times> string) option) sess" where
  "reserve_order env n db =
     (case dt_add (re_now env) (- re_retry_delay env) of
        Inl e \<Rightarrow> (Inl e, db)
      | Inr stale_before \<Rightarrow>
          (case select_order env n (instant stale_before) db of
             None \<Rightarrow> (Inr None, db)
           | Some x \<Rightarrow> (Inr (Some (py_id x, py_status x)), write_order (py_id x) (re_clock env (2 * n + 1)) (\<lambda>x. x\<lparr>py_status := ''reconciling''\<rparr>) db)))"

definition find_reconciled :: "string \<Rightarrow> reconcile_db \<Rightarrow> reconciled_order option" where
  "find_reconciled i db = List.find (\<lambda>x. py_id x = i) (rc_orders db)"

section \<open>Settling\<close>

definition record_provider_failure :: "reconcile_env \<Rightarrow> nat \<Rightarrow> string \<Rightarrow> datetime \<Rightarrow> reconcile_db \<Rightarrow> reconcile_db" where
  "record_provider_failure env n order_id next_attempt db =
     write_order order_id (re_clock env (2 * n)) (\<lambda>x. x\<lparr>py_status := ''reconciliation_required'', py_reconcile_after := Some next_attempt\<rparr>) db"

definition snapshot_mismatches :: "reconciled_order \<Rightarrow> provider_payment_status \<Rightarrow> string list" where
  "snapshot_mismatches order s =
     (if Some (pst_provider_order_id s) \<noteq> py_provider_order_id order then [''provider_order_mismatch''] else [])
     @ (if pst_amount_minor s \<noteq> py_amount_minor order then [''amount_mismatch''] else [])
     @ (if upper (pst_currency s) \<noteq> upper (py_currency order) then [''currency_mismatch''] else [])"

text \<open>The result, the mismatch codes and the change of the order.\<close>

definition judge_snapshot ::
  "reconciled_order \<Rightarrow> provider_payment_status \<Rightarrow> datetime \<Rightarrow> string \<times> string list \<times> (reconciled_order \<Rightarrow> reconciled_order)" where
  "judge_snapshot order s next_attempt =
     (let mismatches = snapshot_mismatches order s; status = upper (pst_status s)
      in if mismatches \<noteq> [] then (''review'', mismatches, \<lambda>x. x\<lparr>py_status := ''payment_review''\<rparr>)
         else if status = ''PAID'' then (''review'', [''payment_evidence_required''], \<lambda>x. x\<lparr>py_status := ''payment_review''\<rparr>)
         else if status = ''EXPIRED'' then (''expired'', [], \<lambda>x. x\<lparr>py_status := ''expired''\<rparr>)
         else if status = ''ACTIVE'' then (''pending'', [], \<lambda>x. x\<lparr>py_status := ''pending'', py_reconcile_after := Some next_attempt\<rparr>)
         else (''review'', [''unknown_provider_status''],
               \<lambda>x. x\<lparr>py_status := ''reconciliation_required'', py_reconcile_after := Some next_attempt\<rparr>))"

definition apply_snapshot ::
  "reconcile_env \<Rightarrow> nat \<Rightarrow> string \<Rightarrow> string \<Rightarrow> provider_payment_status \<Rightarrow> datetime \<Rightarrow> (reconcile_db, string) sess" where
  "apply_snapshot env n order_id previous_status s next_attempt db =
     (case find_reconciled order_id db of
        None \<Rightarrow> (Inl (LookupError ''payment order disappeared during reconciliation''), db)
      | Some order \<Rightarrow>
          if py_provider_order_id order = None then (Inl (LookupError ''payment order disappeared during reconciliation''), db)
          else
            let (verdict, mismatches, change) = judge_snapshot order s next_attempt;
                hash = snapshot_hash s;
                db' = write_order order_id (re_clock env (2 * n)) change db
            in (Inr verdict,
                if list_ex (\<lambda>x. rn_payment_order_id x = order_id \<and> rn_provider_snapshot_hash x = hash) (rc_reconciliations db) then db'
                else db'\<lparr>rc_reconciliations := rc_reconciliations db @
                  [\<lparr>rn_payment_order_id = order_id, rn_provider_snapshot_hash = hash, rn_local_status_before = previous_status,
                    rn_verified_provider_status = upper (pst_status s), rn_result = verdict, rn_mismatch_codes = mismatches,
                    rn_reconciled_at = re_now env\<rparr>]\<rparr>))"

section \<open>The batch\<close>

definition count_result :: "string \<Rightarrow> reconciliation_result \<Rightarrow> reconciliation_result" where
  "count_result result counts =
     (if result = ''pending'' then counts\<lparr>rr_pending := rr_pending counts + 1\<rparr>
      else if result = ''expired'' then counts\<lparr>rr_expired := rr_expired counts + 1\<rparr>
      else counts\<lparr>rr_review := rr_review counts + 1\<rparr>)"

definition settle_order :: "reconcile_env \<Rightarrow> nat \<Rightarrow> string \<Rightarrow> string \<Rightarrow> reconciliation_result \<Rightarrow> (reconcile_db, reconciliation_result) sess" where
  "settle_order env n order_id previous_status counts db =
     (case find_reconciled order_id db of
        None \<Rightarrow> (Inr (counts\<lparr>rr_failed_requests := rr_failed_requests counts + 1\<rparr>), db)
      | Some order \<Rightarrow>
          (case (re_fetch_verified_status env n (py_domain_order_id order), dt_add (re_now env) (re_retry_delay env)) of
             (_, Inl e) \<Rightarrow> (Inl e, db)
           | (Inl _, Inr next_attempt) \<Rightarrow>
               (Inr (counts\<lparr>rr_failed_requests := rr_failed_requests counts + 1\<rparr>), record_provider_failure env n order_id next_attempt db)
           | (Inr s, Inr next_attempt) \<Rightarrow>
               s_bind (apply_snapshot env n order_id previous_status s next_attempt) (\<lambda>result. s_return (count_result result counts)) db))"

fun reconcile_loop :: "reconcile_env \<Rightarrow> nat \<Rightarrow> reconciliation_result \<Rightarrow> (reconcile_db, reconciliation_result) sess" where
  "reconcile_loop env 0 counts db = (Inr counts, db)"
| "reconcile_loop env (Suc n) counts db =
     s_bind (reserve_order env n) (\<lambda>reservation.
       case reservation of
         None \<Rightarrow> s_return counts
       | Some (order_id, previous_status) \<Rightarrow>
           s_bind (settle_order env n order_id previous_status (counts\<lparr>rr_inspected := rr_inspected counts + 1\<rparr>)) (\<lambda>counts'.
             reconcile_loop env n counts')) db"

definition no_counts :: reconciliation_result where
  "no_counts = \<lparr>rr_inspected = 0, rr_pending = 0, rr_expired = 0, rr_review = 0, rr_failed_requests = 0\<rparr>"

definition batch_entry :: "reconcile_env \<Rightarrow> reconciliation_result \<Rightarrow> audit_entry" where
  "batch_entry env summary = \<lparr>at_tenant_id = re_tenant_id env, at_event_type = ''payments.reconciliation.batch.completed.v1'',
     at_actor_type = ''scheduled_task'', at_actor_ref = ''payment-reconciliation'', at_correlation_id = re_uuid4 env,
     at_details = [(''inspected'', JInt (rr_inspected summary)), (''pending'', JInt (rr_pending summary)), (''expired'', JInt (rr_expired summary)),
       (''review'', JInt (rr_review summary)), (''failed_requests'', JInt (rr_failed_requests summary)), (''policy_reference'', JString (re_policy_reference env))],
     at_occurred_at = Some (re_now env)\<rparr>"

definition reconcile_payment_batch :: "reconcile_env \<Rightarrow> int \<Rightarrow> (reconcile_db, reconciliation_result) sess" where
  "reconcile_payment_batch env batch_size db =
     (if \<not> (1 \<le> batch_size \<and> batch_size \<le> 1000) \<or> re_retry_delay env \<le> 0
      then (Inl (ValueError ''reconciliation batch and retry delay are invalid''), db)
      else if \<not> aware (re_now env) then (Inl (ValueError ''reconciliation timestamp must be timezone-aware''), db)
      else s_bind (reconcile_loop env (nat batch_size) no_counts) (\<lambda>summary db'.
        case append_audit_event (re_audit_hash_key env) (re_now env) (batch_entry env summary) (rc_audit db') of
          (Inl e, _) \<Rightarrow> (Inl e, db')
        | (Inr _, audit) \<Rightarrow> (Inr summary, db'\<lparr>rc_audit := audit\<rparr>)) db)"

end
