(* ===== verification/ReconciliationProofs.thy ===== *)
theory ReconciliationProofs
  imports Reconciliation
begin

text \<open>
  What a reconciliation batch can do to the orders, and what one order under review does to the batch.
\<close>

section \<open>What a batch may change\<close>

text \<open>The columns that no batch writes.\<close>

definition order_terms :: "reconciled_order \<Rightarrow> reconciled_order" where
  "order_terms x = x\<lparr>py_status := [], py_reconcile_after := None, ro_updated_at := 0\<rparr>"

definition open_order :: "reconcile_env \<Rightarrow> reconciled_order \<Rightarrow> bool" where
  "open_order env x \<longleftrightarrow> py_tenant_id x = re_tenant_id env \<and> py_provider x = ''cashfree'' \<and> py_provider_order_id x \<noteq> None
     \<and> py_status x \<in> {''pending'', ''reconciliation_required'', ''payment_review'', ''reconciling''}"

text \<open>The provider confirmed this order, with its own identifier, amount and currency, in the given status.\<close>

definition confirmed :: "reconcile_env \<Rightarrow> reconciled_order \<Rightarrow> string \<Rightarrow> bool" where
  "confirmed env x status \<longleftrightarrow> (\<exists>n s. re_fetch_verified_status env n (py_domain_order_id x) = Inr s
     \<and> Some (pst_provider_order_id s) = py_provider_order_id x \<and> pst_amount_minor s = py_amount_minor x
     \<and> upper (pst_currency s) = upper (py_currency x) \<and> upper (pst_status s) = status)"

definition reconciled :: "reconcile_env \<Rightarrow> reconciled_order \<Rightarrow> reconciled_order \<Rightarrow> bool" where
  "reconciled env x y \<longleftrightarrow> y = x \<or>
     open_order env x \<and> order_terms y = order_terms x
     \<and> py_status y \<in> {''reconciling'', ''reconciliation_required'', ''payment_review'', ''expired'', ''pending''}
     \<and> (py_status y = ''expired'' \<longrightarrow> confirmed env x ''EXPIRED'') \<and> (py_status y = ''pending'' \<longrightarrow> confirmed env x ''ACTIVE'')"

lemma terms_eqD:
  assumes "order_terms y = order_terms x"
  shows "py_id y = py_id x" "py_domain_order_id y = py_domain_order_id x" "py_provider_order_id y = py_provider_order_id x"
    "py_amount_minor y = py_amount_minor x" "py_currency y = py_currency x"
  using arg_cong [OF assms, of py_id] arg_cong [OF assms, of py_domain_order_id] arg_cong [OF assms, of py_provider_order_id]
    arg_cong [OF assms, of py_amount_minor] arg_cong [OF assms, of py_currency]
  by (simp_all add: order_terms_def)

lemma reconciled_trans:
  assumes "reconciled env x y" "reconciled env y z"
  shows "reconciled env x z"
proof (cases "y = x \<or> z = y")
  case False
  then have t: "order_terms y = order_terms x" using assms(1) by (auto simp: reconciled_def)
  have "confirmed env y s \<longleftrightarrow> confirmed env x s" for s unfolding confirmed_def terms_eqD [OF t] ..
  then show ?thesis using assms False t by (auto simp: reconciled_def)
qed (use assms in auto)

lemma reconciled_id: "reconciled env x y \<Longrightarrow> py_id y = py_id x"
  by (auto simp: reconciled_def dest: terms_eqD)

definition batch_safe :: "reconcile_env \<Rightarrow> reconcile_db \<Rightarrow> reconcile_db \<Rightarrow> bool" where
  "batch_safe env db db' \<longleftrightarrow> list_all2 (reconciled env) (rc_orders db) (rc_orders db')"

lemma batch_safe_refl: "batch_safe env db db"
  by (simp add: batch_safe_def list_all2_conv_all_nth reconciled_def)

lemma batch_safe_trans: "batch_safe env a b \<Longrightarrow> batch_safe env b c \<Longrightarrow> batch_safe env a c"
  unfolding batch_safe_def by (rule list_all2_trans [of "reconciled env" "reconciled env" "reconciled env"]) (auto intro: reconciled_trans)

lemma batch_safe_ids: "batch_safe env a b \<Longrightarrow> map py_id (rc_orders b) = map py_id (rc_orders a)"
  unfolding batch_safe_def by (induction rule: list_all2_induct) (auto dest: reconciled_id)

lemma write_order_safe:
  assumes "\<And>x. x \<in> set (rc_orders db) \<Longrightarrow> py_id x = i \<Longrightarrow> f x \<noteq> x \<Longrightarrow> reconciled env x ((f x)\<lparr>ro_updated_at := t\<rparr>)"
  shows "batch_safe env db (write_order i t f db)"
  using assms by (auto simp: batch_safe_def write_order_def update_by_def list_all2_conv_all_nth reconciled_def)

lemma select_order_Some:
  assumes "select_order env n stale db = Some x"
  shows "x \<in> set (rc_orders db)" "reconcilable (re_tenant_id env) (instant (re_now env)) stale x" "py_id x \<notin> re_locked env n"
    "\<And>y. y \<in> set (rc_orders db) \<Longrightarrow> reconcilable (re_tenant_id env) (instant (re_now env)) stale y \<Longrightarrow> py_id y \<notin> re_locked env n \<Longrightarrow> reconcile_order x \<le> reconcile_order y"
proof -
  let ?due = "filter (\<lambda>x. reconcilable (re_tenant_id env) (instant (re_now env)) stale x \<and> py_id x \<notin> re_locked env n) (rc_orders db)"
  obtain rest where s: "sort_key reconcile_order ?due = x # rest" using assms by (auto simp: select_order_def split: list.splits)
  have set: "set (x # rest) = set ?due" by (simp flip: s)
  then show "x \<in> set (rc_orders db)" "reconcilable (re_tenant_id env) (instant (re_now env)) stale x" "py_id x \<notin> re_locked env n" by auto
  fix y assume "y \<in> set (rc_orders db)" "reconcilable (re_tenant_id env) (instant (re_now env)) stale y" "py_id y \<notin> re_locked env n"
  then have "y \<in> set (x # rest)" using set by simp
  moreover have "sorted (map reconcile_order (x # rest))" by (metis s sorted_sort_key)
  ultimately show "reconcile_order x \<le> reconcile_order y" by auto
qed

lemma same_id:
  assumes "distinct (map py_id xs)" "x \<in> set xs" "y \<in> set xs" "py_id x = py_id y"
  shows "x = y"
  using assms by (auto simp: distinct_map inj_on_def)

lemma reserve_safe:
  assumes "distinct (map py_id (rc_orders db))" "reserve_order env n db = (r, db')"
  shows "batch_safe env db db'" "\<And>i st x. r = Inr (Some (i, st)) \<Longrightarrow> x \<in> set (rc_orders db') \<Longrightarrow> py_id x = i \<Longrightarrow> open_order env x"
proof -
  have "batch_safe env db db' \<and> (\<forall>i st x. r = Inr (Some (i, st)) \<longrightarrow> x \<in> set (rc_orders db') \<longrightarrow> py_id x = i \<longrightarrow> open_order env x)"
  proof (cases "\<exists>stale x. dt_add (re_now env) (- re_retry_delay env) = Inr stale \<and> select_order env n (instant stale) db = Some x")
    case True
    then obtain stale x where x: "dt_add (re_now env) (- re_retry_delay env) = Inr stale" "select_order env n (instant stale) db = Some x" by blast
    note sel = select_order_Some [OF x(2)]
    have "open_order env x" using sel(2) by (auto simp: open_order_def reconcilable_def)
    then have opn: "open_order env y" if "y \<in> set (rc_orders db)" "py_id y = py_id x" for y using same_id [OF assms(1) that(1) sel(1) that(2)] by simp
    have db': "db' = write_order (py_id x) (re_clock env (2 * n + 1)) (\<lambda>x. x\<lparr>py_status := ''reconciling''\<rparr>) db" and r: "r = Inr (Some (py_id x, py_status x))"
      using assms(2) x by (auto simp: reserve_order_def)
    have "batch_safe env db db'" unfolding db'
      by (rule write_order_safe) (use opn in \<open>auto simp: reconciled_def order_terms_def\<close>)
    moreover have "open_order env y" if "y \<in> set (rc_orders db')" "py_id y = py_id x" for y
    proof -
      have "y \<in> set (update_by py_id (py_id x) (\<lambda>x. if x\<lparr>py_status := ''reconciling''\<rparr> = x then x
          else x\<lparr>py_status := ''reconciling'', ro_updated_at := re_clock env (2 * n + 1)\<rparr>) (rc_orders db))"
        using that(1) unfolding db' write_order_def by simp
      then obtain z where z: "z \<in> set (rc_orders db)" "y = (if py_id z = py_id x then if z\<lparr>py_status := ''reconciling''\<rparr> = z then z
          else z\<lparr>py_status := ''reconciling'', ro_updated_at := re_clock env (2 * n + 1)\<rparr> else z)"
        unfolding set_update_by by blast
      have "py_id z = py_id y" by (simp add: z(2))
      then have "open_order env z" using opn [OF z(1)] that(2) by simp
      then show ?thesis by (simp add: z(2) open_order_def)
    qed
    ultimately show ?thesis using r by auto
  next
    case False
    then show ?thesis using assms(2) by (auto simp: reserve_order_def batch_safe_refl split: sum.splits option.splits)
  qed
  then show "batch_safe env db db'" "\<And>i st x. r = Inr (Some (i, st)) \<Longrightarrow> x \<in> set (rc_orders db') \<Longrightarrow> py_id x = i \<Longrightarrow> open_order env x" by blast+
qed

lemma find_reconciled_Some: "find_reconciled i db = Some x \<Longrightarrow> x \<in> set (rc_orders db) \<and> py_id x = i"
  by (auto simp: find_reconciled_def find_Some_iff)

lemma snapshot_mismatches_Nil:
  "snapshot_mismatches x s = [] \<longleftrightarrow> Some (pst_provider_order_id s) = py_provider_order_id x \<and> pst_amount_minor s = py_amount_minor x
     \<and> upper (pst_currency s) = upper (py_currency x)"
  by (auto simp: snapshot_mismatches_def)

lemma reconciled_review:
  assumes "open_order env x" "order_terms y = order_terms x" "py_status y = ''reconciliation_required'' \<or> py_status y = ''payment_review''"
  shows "reconciled env x y"
  using assms(3) by (elim disjE) (simp_all add: reconciled_def assms(1,2))

lemma judge_safe:
  assumes "judge_snapshot x s next_attempt = (verdict, mismatches, change)" "open_order env x"
    and "re_fetch_verified_status env n (py_domain_order_id x) = Inr s"
  shows "reconciled env x ((change x)\<lparr>ro_updated_at := t\<rparr>)"
proof -
  note j = assms(1) [unfolded judge_snapshot_def Let_def]
  consider "snapshot_mismatches x s \<noteq> [] \<or> upper (pst_status s) = ''PAID''"
    | "snapshot_mismatches x s = []" "upper (pst_status s) = ''EXPIRED''" | "snapshot_mismatches x s = []" "upper (pst_status s) = ''ACTIVE''"
    | "snapshot_mismatches x s = []" "upper (pst_status s) \<noteq> ''PAID''" "upper (pst_status s) \<noteq> ''EXPIRED''" "upper (pst_status s) \<noteq> ''ACTIVE''" by blast
  then show ?thesis
  proof cases
    case 1
    then have "change = (\<lambda>x. x\<lparr>py_status := ''payment_review''\<rparr>)" using j by (auto split: if_splits)
    then show ?thesis by (intro reconciled_review assms(2)) (simp_all add: order_terms_def)
  next
    case 2
    then have "change = (\<lambda>x. x\<lparr>py_status := ''expired''\<rparr>)" using j by auto
    moreover have "confirmed env x ''EXPIRED''" unfolding confirmed_def using 2 assms(3) snapshot_mismatches_Nil by blast
    ultimately show ?thesis using assms(2) by (simp add: reconciled_def order_terms_def)
  next
    case 3
    then have "change = (\<lambda>x. x\<lparr>py_status := ''pending'', py_reconcile_after := Some next_attempt\<rparr>)" using j by auto
    moreover have "confirmed env x ''ACTIVE''" unfolding confirmed_def using 3 assms(3) snapshot_mismatches_Nil by blast
    ultimately show ?thesis using assms(2) by (simp add: reconciled_def order_terms_def)
  next
    case 4
    then have "change = (\<lambda>x. x\<lparr>py_status := ''reconciliation_required'', py_reconcile_after := Some next_attempt\<rparr>)" using j by auto
    then show ?thesis by (intro reconciled_review assms(2)) (simp_all add: order_terms_def)
  qed
qed

lemma apply_snapshot_safe:
  assumes "distinct (map py_id (rc_orders db))" "\<And>x. x \<in> set (rc_orders db) \<Longrightarrow> py_id x = i \<Longrightarrow> open_order env x"
    and "find_reconciled i db = Some order" "re_fetch_verified_status env n (py_domain_order_id order) = Inr s"
    and "apply_snapshot env n i previous s next_attempt db = (r, db')"
  shows "batch_safe env db db'"
proof -
  note order = find_reconciled_Some [OF assms(3)]
  obtain verdict mismatches change where j: "judge_snapshot order s next_attempt = (verdict, mismatches, change)" by (metis prod_cases3)
  have "batch_safe env db (write_order i (re_clock env (2 * n)) change db)"
  proof (rule write_order_safe)
    fix x assume x: "x \<in> set (rc_orders db)" "py_id x = i"
    then have "x = order" using same_id [OF assms(1)] order by auto
    then show "reconciled env x ((change x)\<lparr>ro_updated_at := re_clock env (2 * n)\<rparr>)"
      using judge_safe [OF j _ assms(4)] assms(2) [OF x] by simp
  qed
  then have "batch_safe env db (write_order i (re_clock env (2 * n)) change db\<lparr>rc_reconciliations := rs\<rparr>)" for rs
    by (simp add: batch_safe_def)
  moreover have "db' = db \<or> db' = write_order i (re_clock env (2 * n)) change db \<or> (\<exists>rs. db' = write_order i (re_clock env (2 * n)) change db\<lparr>rc_reconciliations := rs\<rparr>)"
    using assms(3,5) j by (auto simp: apply_snapshot_def Let_def split: if_splits)
  ultimately show ?thesis using \<open>batch_safe env db (write_order i (re_clock env (2 * n)) change db)\<close> batch_safe_refl by auto
qed

lemma settle_safe:
  assumes "distinct (map py_id (rc_orders db))" "\<And>x. x \<in> set (rc_orders db) \<Longrightarrow> py_id x = i \<Longrightarrow> open_order env x"
    and "settle_order env n i previous counts db = (r, db')"
  shows "batch_safe env db db'"
proof (cases "find_reconciled i db")
  case None
  then show ?thesis using assms(3) by (simp add: settle_order_def batch_safe_refl)
next
  case (Some order)
  show ?thesis
  proof (cases "re_fetch_verified_status env n (py_domain_order_id order)")
    case (Inl e)
    have "batch_safe env db (record_provider_failure env n i next_attempt db)" for next_attempt unfolding record_provider_failure_def
      by (rule write_order_safe) (use assms(2) in \<open>auto simp: reconciled_def order_terms_def\<close>)
    then show ?thesis using assms(3) Some Inl by (auto simp: settle_order_def batch_safe_refl split: sum.splits)
  next
    case (Inr s)
    show ?thesis
    proof (cases "dt_add (re_now env) (re_retry_delay env)")
      case Inl
      then show ?thesis using assms(3) Some Inr by (simp add: settle_order_def batch_safe_refl)
    next
      case (Inr next_attempt)
      obtain v db2 where a: "apply_snapshot env n i previous s next_attempt db = (v, db2)" by fastforce
      then have "db' = db2" using assms(3) Some \<open>_ = Inr s\<close> Inr by (cases v) (auto simp: settle_order_def s_bind_def)
      then show ?thesis using apply_snapshot_safe [OF assms(1,2) Some \<open>_ = Inr s\<close> a] by simp
    qed
  qed
qed

lemma reconcile_loop_safe:
  assumes "distinct (map py_id (rc_orders db))" "reconcile_loop env n counts db = (r, db')"
  shows "batch_safe env db db'"
  using assms
proof (induction n arbitrary: counts db)
  case 0
  then show ?case by (simp add: batch_safe_refl)
next
  case (Suc n)
  obtain v db1 where res: "reserve_order env n db = (v, db1)" by fastforce
  note r = reserve_safe [OF Suc.prems(1) res]
  have d1: "distinct (map py_id (rc_orders db1))" using batch_safe_ids [OF r(1)] Suc.prems(1) by simp
  show ?case
  proof (cases "\<exists>i previous. v = Inr (Some (i, previous))")
    case False
    then have "db' = db1" using Suc.prems(2) res by (cases v) (auto simp: s_bind_def split: option.splits)
    then show ?thesis using r(1) by simp
  next
    case True
    then obtain i previous where v: "v = Inr (Some (i, previous))" by blast
    obtain c db2 where s: "settle_order env n i previous (counts\<lparr>rr_inspected := rr_inspected counts + 1\<rparr>) db1 = (c, db2)" by fastforce
    have safe: "batch_safe env db db2" using settle_safe [OF d1 r(2) [OF v] s] batch_safe_trans [OF r(1)] by blast
    show ?thesis
    proof (cases c)
      case Inl
      then show ?thesis using Suc.prems(2) res v s safe by (simp add: s_bind_def)
    next
      case (Inr counts')
      have "distinct (map py_id (rc_orders db2))" using batch_safe_ids [OF safe] Suc.prems(1) by simp
      moreover have "reconcile_loop env n counts' db2 = (r, db')" using Suc.prems(2) res v s Inr by (simp add: s_bind_def)
      ultimately show ?thesis using Suc.IH safe batch_safe_trans by blast
    qed
  qed
qed

section \<open>Counts and audit\<close>

definition accounted :: "reconciliation_result \<Rightarrow> int" where
  "accounted c = rr_pending c + rr_expired c + rr_review c + rr_failed_requests c"

lemma write_order_audit [simp]: "rc_audit (write_order i t f db) = rc_audit db"
  by (simp add: write_order_def)

lemma reserve_audit: "rc_audit (snd (reserve_order env n db)) = rc_audit db"
  by (auto simp: reserve_order_def split: sum.splits option.splits)

lemma apply_audit: "rc_audit (snd (apply_snapshot env n i previous s next_attempt db)) = rc_audit db"
  by (auto simp: apply_snapshot_def Let_def split: option.splits prod.splits)

lemma settle_audit: "rc_audit (snd (settle_order env n i previous counts db)) = rc_audit db"
  using apply_audit [of env n i previous _ _ db]
  by (auto simp: settle_order_def record_provider_failure_def s_bind_def split: option.splits sum.splits prod.splits)
    (metis snd_conv)+

lemma settle_counts:
  assumes "settle_order env n i previous counts db = (Inr c, db')"
  shows "accounted c = accounted counts + 1" "rr_inspected c = rr_inspected counts"
  using assms by (auto simp: settle_order_def s_bind_def count_result_def accounted_def split: option.splits sum.splits prod.splits)

lemma reconcile_loop_counts:
  assumes "reconcile_loop env n counts db = (r, db')"
  shows "rc_audit db' = rc_audit db"
    "r = Inr c \<Longrightarrow> rr_inspected c - accounted c = rr_inspected counts - accounted counts \<and> rr_inspected counts \<le> rr_inspected c
       \<and> rr_inspected c \<le> rr_inspected counts + int n"
proof -
  have "rc_audit db' = rc_audit db \<and> (\<forall>c. r = Inr c \<longrightarrow> rr_inspected c - accounted c = rr_inspected counts - accounted counts
      \<and> rr_inspected counts \<le> rr_inspected c \<and> rr_inspected c \<le> rr_inspected counts + int n)"
    using assms
  proof (induction n arbitrary: counts db)
    case (Suc n)
    obtain v db1 where res: "reserve_order env n db = (v, db1)" by fastforce
    have a1: "rc_audit db1 = rc_audit db" using reserve_audit [of env n db] res by simp
    show ?case
    proof (cases "\<exists>i previous. v = Inr (Some (i, previous))")
      case False
      then show ?thesis using Suc.prems res a1 by (cases v) (auto simp: s_bind_def split: option.splits)
    next
      case True
      then obtain i previous where v: "v = Inr (Some (i, previous))" by blast
      let ?counts = "counts\<lparr>rr_inspected := rr_inspected counts + 1\<rparr>"
      obtain x db2 where s: "settle_order env n i previous ?counts db1 = (x, db2)" by fastforce
      have a2: "rc_audit db2 = rc_audit db" using settle_audit [of env n i previous ?counts db1] s a1 by simp
      show ?thesis
      proof (cases x)
        case Inl
        then show ?thesis using Suc.prems res v s a2 by (simp add: s_bind_def) (metis Inl_Inr_False)
      next
        case (Inr counts')
        note c = settle_counts [OF s [unfolded Inr]]
        have "reconcile_loop env n counts' db2 = (r, db')" using Suc.prems res v s Inr by (simp add: s_bind_def)
        from Suc.IH [OF this] show ?thesis using a2 c by (auto simp: accounted_def)
      qed
    qed
  qed auto
  then show "rc_audit db' = rc_audit db"
    "r = Inr c \<Longrightarrow> rr_inspected c - accounted c = rr_inspected counts - accounted counts \<and> rr_inspected counts \<le> rr_inspected c
       \<and> rr_inspected c \<le> rr_inspected counts + int n" by blast+
qed

lemma append_audit_Inr:
  assumes "append_audit_event k now entry trail = (Inr e, trail')"
  shows "al_events trail' = al_events trail @ [e] \<and> av_details e = at_details entry \<and> av_event_type e = at_event_type entry"
  using assms by (auto simp: append_audit_event_def Let_def split: if_splits)

text \<open>
  (C17) Reconciliation cannot make an order paid.  Whatever the provider answers and whether or not the
  batch ends with an error, every order is left alone or was an open order of the tenant and keeps its
  amount, currency, plan and identifiers, and ends under review, to be reconciled again, or, only
  when the provider confirmed this very order with its amount and currency, as expired or pending.
  A batch that ends normally inspected at most as many orders as asked, accounts for each of them
  once, and leaves one audit record with its counts.
\<close>

theorem reconciliation_safe:
  assumes "distinct (map py_id (rc_orders db))" "reconcile_payment_batch env batch_size db = (r, db')"
  shows "list_all2 (reconciled env) (rc_orders db) (rc_orders db')
    \<and> (\<forall>summary. r = Inr summary \<longrightarrow> 0 \<le> rr_inspected summary \<and> rr_inspected summary \<le> batch_size
         \<and> rr_inspected summary = rr_pending summary + rr_expired summary + rr_review summary + rr_failed_requests summary
         \<and> (\<exists>e. al_events (rc_audit db') = al_events (rc_audit db) @ [e] \<and> av_details e = at_details (batch_entry env summary)
              \<and> av_event_type e = ''payments.reconciliation.batch.completed.v1''))"
proof (cases "\<not> (1 \<le> batch_size \<and> batch_size \<le> 1000) \<or> re_retry_delay env \<le> 0 \<or> \<not> aware (re_now env)")
  case True
  then show ?thesis using assms(2) batch_safe_refl [of env db] by (auto simp: reconcile_payment_batch_def batch_safe_def split: if_splits)
next
  case False
  obtain v db1 where loop: "reconcile_loop env (nat batch_size) no_counts db = (v, db1)" by fastforce
  note safe = reconcile_loop_safe [OF assms(1) loop, unfolded batch_safe_def]
  note cnt = reconcile_loop_counts [OF loop]
  show ?thesis
  proof (cases v)
    case Inl
    then have "r = v" "db' = db1" using False assms(2) loop by (auto simp: reconcile_payment_batch_def s_bind_def)
    then show ?thesis using safe Inl by simp
  next
    case (Inr summary)
    obtain w audit where ap: "append_audit_event (re_audit_hash_key env) (re_now env) (batch_entry env summary) (rc_audit db1) = (w, audit)" by fastforce
    have eq: "(r, db') = (case w of Inl e \<Rightarrow> (Inl e, db1) | Inr _ \<Rightarrow> (Inr summary, db1\<lparr>rc_audit := audit\<rparr>))"
      using False assms(2) loop Inr ap by (simp add: reconcile_payment_batch_def s_bind_def split: sum.splits)
    show ?thesis
    proof (cases w)
      case Inl
      then show ?thesis using eq safe by simp
    next
      case (Inr e)
      note a = append_audit_Inr [OF ap [unfolded Inr]]
      have "r = Inr summary" "db' = db1\<lparr>rc_audit := audit\<rparr>" using eq Inr by simp_all
      moreover have "rr_inspected summary = accounted summary" "0 \<le> rr_inspected summary" "rr_inspected summary \<le> batch_size"
        using cnt(2) [OF \<open>v = Inr summary\<close>] False by (simp_all add: no_counts_def accounted_def)
      ultimately show ?thesis using safe a cnt(1) by (auto simp: accounted_def batch_entry_def)
    qed
  qed
qed

section \<open>An order under review\<close>

text \<open>
  An order at the head of the queue that the provider reports as paid, or otherwise than it was
  ordered, goes to review with the time of its next attempt unchanged.
\<close>

definition under_review :: "reconcile_env \<Rightarrow> reconciled_order \<Rightarrow> bool" where
  "under_review env x \<longleftrightarrow> (\<forall>n. \<exists>s. re_fetch_verified_status env n (py_domain_order_id x) = Inr s
     \<and> (snapshot_mismatches x s \<noteq> [] \<or> upper (pst_status s) = ''PAID''))"

definition heads_queue :: "reconcile_env \<Rightarrow> int \<Rightarrow> reconciled_order \<Rightarrow> reconcile_db \<Rightarrow> bool" where
  "heads_queue env stale x db \<longleftrightarrow> distinct (map py_id (rc_orders db)) \<and> x \<in> set (rc_orders db)
     \<and> reconcilable (re_tenant_id env) (instant (re_now env)) stale x \<and> py_status x \<noteq> ''reconciling'' \<and> (\<forall>n. py_id x \<notin> re_locked env n)
     \<and> (\<forall>y \<in> set (rc_orders db). py_id y \<noteq> py_id x \<and> reconcilable (re_tenant_id env) (instant (re_now env)) stale y \<longrightarrow> reconcile_order x < reconcile_order y)"

definition other_orders :: "string \<Rightarrow> reconcile_db \<Rightarrow> reconciled_order list" where
  "other_orders i db = filter (\<lambda>y. py_id y \<noteq> i) (rc_orders db)"

lemma select_head:
  assumes "heads_queue env stale x db"
  shows "select_order env n stale db = Some x"
proof -
  let ?due = "\<lambda>x. reconcilable (re_tenant_id env) (instant (re_now env)) stale x \<and> py_id x \<notin> re_locked env n"
  have x: "x \<in> set (rc_orders db)" "?due x" using assms by (auto simp: heads_queue_def)
  then have "set (sort_key reconcile_order (filter ?due (rc_orders db))) \<noteq> {}" by auto
  then obtain y where y: "select_order env n stale db = Some y" by (cases "sort_key reconcile_order (filter ?due (rc_orders db))") (auto simp: select_order_def)
  note sel = select_order_Some [OF y]
  have "reconcile_order y \<le> reconcile_order x" using sel(4) x by blast
  then have "py_id y = py_id x" using assms sel(1,2) by (auto simp: heads_queue_def not_le [symmetric])
  then show ?thesis using same_id [of "rc_orders db" y x] assms sel(1) x(1) y by (simp add: heads_queue_def)
qed

lemma find_mem:
  assumes "distinct (map py_id (rc_orders db))" "x \<in> set (rc_orders db)"
  shows "find_reconciled (py_id x) db = Some x"
proof -
  have "distinct (map py_id xs) \<Longrightarrow> x \<in> set xs \<Longrightarrow> List.find (\<lambda>y. py_id y = py_id x) xs = Some x" for xs
    by (induction xs) (auto intro: rev_image_eqI)
  then show ?thesis using assms by (simp add: find_reconciled_def)
qed

text \<open>Writing one order leaves the others and the identifiers as they are.\<close>

definition touched :: "int \<Rightarrow> (reconciled_order \<Rightarrow> reconciled_order) \<Rightarrow> reconciled_order \<Rightarrow> reconciled_order" where
  "touched t f x = (if f x = x then x else (f x)\<lparr>ro_updated_at := t\<rparr>)"

lemma write_order_eq: "rc_orders (write_order i t f db) = update_by py_id i (touched t f) (rc_orders db)"
  unfolding write_order_def touched_def by simp

lemma write_others:
  assumes "\<And>x. py_id (f x) = py_id x"
  shows "other_orders i (write_order i t f db) = other_orders i db" "map py_id (rc_orders (write_order i t f db)) = map py_id (rc_orders db)"
proof -
  have k: "py_id (touched t f x) = py_id x" for x using assms by (simp add: touched_def)
  have "filter (\<lambda>y. py_id y \<noteq> i) (update_by py_id i (touched t f) xs) = filter (\<lambda>y. py_id y \<noteq> i) xs" for xs
    by (induction xs) (auto simp: update_by_def k)
  then show "other_orders i (write_order i t f db) = other_orders i db" by (simp add: other_orders_def write_order_eq)
  show "map py_id (rc_orders (write_order i t f db)) = map py_id (rc_orders db)" by (simp add: write_order_eq k if_distrib cong: if_cong)
qed

lemma write_mem: "x \<in> set (rc_orders db) \<Longrightarrow> touched t f x \<in> set (rc_orders (write_order (py_id x) t f db))"
  by (auto simp: write_order_eq set_update_by)

lemma other_orders_mem: "y \<in> set (other_orders i db) \<longleftrightarrow> y \<in> set (rc_orders db) \<and> py_id y \<noteq> i"
  by (auto simp: other_orders_def)

lemma heads_queue_after:
  assumes "heads_queue env stale x db" "x' \<in> set (rc_orders db')" "order_terms x' = order_terms x" "py_reconcile_after x' = py_reconcile_after x"
    and "py_status x' = ''payment_review''" "other_orders (py_id x) db' = other_orders (py_id x) db" "map py_id (rc_orders db') = map py_id (rc_orders db)"
  shows "heads_queue env stale x' db'"
proof -
  have "f (order_terms x') = f (order_terms x)" for f :: "reconciled_order \<Rightarrow> string" using assms(3) by simp
  from this [of py_tenant_id] this [of py_provider] this [of py_id] have t: "py_tenant_id x' = py_tenant_id x" "py_provider x' = py_provider x" "py_id x' = py_id x"
    by (simp_all add: order_terms_def)
  have c: "ro_created_at x' = ro_created_at x" using arg_cong [OF assms(3), of ro_created_at] by (simp add: order_terms_def)
  have "reconcile_order x' = reconcile_order x" using assms(4) c by (simp add: reconcile_order_def)
  moreover have "reconcilable (re_tenant_id env) (instant (re_now env)) stale x'"
    using assms(1,4,5) t(1,2) terms_eqD(3) [OF assms(3)] by (simp add: heads_queue_def reconcilable_def)
  moreover have "y \<in> set (rc_orders db)" if "y \<in> set (rc_orders db')" "py_id y \<noteq> py_id x" for y
    using that other_orders_mem [of y "py_id x" db] other_orders_mem [of y "py_id x" db'] assms(6) by simp
  moreover have "\<forall>n. py_id x' \<notin> re_locked env n" "py_status x' \<noteq> ''reconciling''" "distinct (map py_id (rc_orders db'))"
    using assms(1,5,7) t(3) by (simp_all add: heads_queue_def)
  moreover have "\<forall>y \<in> set (rc_orders db). py_id y \<noteq> py_id x \<and> reconcilable (re_tenant_id env) (instant (re_now env)) stale y \<longrightarrow> reconcile_order x < reconcile_order y"
    using assms(1) unfolding heads_queue_def by blast
  ultimately show ?thesis using assms(2) t(3) unfolding heads_queue_def by simp
qed

lemma review_again:
  assumes "heads_queue env stale x db" "under_review env x"
    and "dt_add (re_now env) (- re_retry_delay env) = Inr before" "instant before = stale" "dt_add (re_now env) (re_retry_delay env) = Inr next_attempt"
  shows "\<exists>x' db'. reconcile_loop env (Suc n) counts db = reconcile_loop env n (counts\<lparr>rr_inspected := rr_inspected counts + 1, rr_review := rr_review counts + 1\<rparr>) db'
     \<and> heads_queue env stale x' db' \<and> under_review env x' \<and> py_id x' = py_id x \<and> py_status x' = ''payment_review''
     \<and> other_orders (py_id x) db' = other_orders (py_id x) db"
proof -
  let ?reserved = "\<lambda>x. x\<lparr>py_status := ''reconciling''\<rparr>" and ?review = "\<lambda>x. x\<lparr>py_status := ''payment_review''\<rparr>"
  let ?t1 = "re_clock env (2 * n + 1)" and ?t2 = "re_clock env (2 * n)"
  define db1 where "db1 = write_order (py_id x) ?t1 ?reserved db"
  define x1 where "x1 = touched ?t1 ?reserved x"
  have x: "distinct (map py_id (rc_orders db))" "x \<in> set (rc_orders db)" using assms(1) by (simp_all add: heads_queue_def)
  have x1: "x1 \<in> set (rc_orders db1)" "py_id x1 = py_id x" "order_terms x1 = order_terms x" "py_reconcile_after x1 = py_reconcile_after x"
    using write_mem [OF x(2)] by (simp_all add: x1_def db1_def touched_def order_terms_def)
  have d1: "distinct (map py_id (rc_orders db1))" "other_orders (py_id x) db1 = other_orders (py_id x) db" "map py_id (rc_orders db1) = map py_id (rc_orders db)"
    using x(1) write_others [of ?reserved "py_id x" ?t1 db] by (simp_all add: db1_def)
  obtain s where s: "re_fetch_verified_status env n (py_domain_order_id x) = Inr s" "snapshot_mismatches x s \<noteq> [] \<or> upper (pst_status s) = ''PAID''"
    using assms(2) unfolding under_review_def by blast
  have m: "snapshot_mismatches y s' = snapshot_mismatches x s'" if "order_terms y = order_terms x" for y s'
    by (simp add: snapshot_mismatches_def terms_eqD [OF that])
  obtain codes where j: "judge_snapshot x1 s next_attempt = (''review'', codes, ?review)"
    using s(2) m [OF x1(3)] by (cases "snapshot_mismatches x s = []") (simp_all add: judge_snapshot_def)
  have found: "find_reconciled (py_id x) db1 = Some x1" "py_provider_order_id x1 \<noteq> None"
    using find_mem [OF d1(1) x1(1)] x1(2) terms_eqD(3) [OF x1(3)] assms(1) by (simp_all add: heads_queue_def reconcilable_def)
  have "\<exists>db2. apply_snapshot env n (py_id x) (py_status x) s next_attempt db1 = (Inr ''review'', db2)
      \<and> rc_orders db2 = rc_orders (write_order (py_id x) ?t2 ?review db1)"
    by (simp add: apply_snapshot_def found j Let_def)
  then obtain db2 where ap: "apply_snapshot env n (py_id x) (py_status x) s next_attempt db1 = (Inr ''review'', db2)"
    and o2: "rc_orders db2 = rc_orders (write_order (py_id x) ?t2 ?review db1)" by blast
  define x2 where "x2 = touched ?t2 ?review x1"
  have x2: "x2 \<in> set (rc_orders db2)" "order_terms x2 = order_terms x" "py_reconcile_after x2 = py_reconcile_after x" "py_status x2 = ''payment_review''" "py_id x2 = py_id x"
  proof -
    show "x2 \<in> set (rc_orders db2)" using write_mem [OF x1(1), of ?t2 ?review] x1(2) by (simp add: x2_def o2)
    have "order_terms x2 = order_terms x1" "py_reconcile_after x2 = py_reconcile_after x1" "py_id x2 = py_id x1" by (simp_all add: x2_def touched_def order_terms_def)
    then show "order_terms x2 = order_terms x" "py_reconcile_after x2 = py_reconcile_after x" "py_id x2 = py_id x" using x1 by simp_all
    show "py_status x2 = ''payment_review''" unfolding x2_def touched_def by (auto dest: arg_cong [of _ _ py_status])
  qed
  have d2: "other_orders (py_id x) db2 = other_orders (py_id x) db" "map py_id (rc_orders db2) = map py_id (rc_orders db)"
    using write_others [of ?review "py_id x" ?t2 db1] d1(2,3) o2 by (simp_all add: other_orders_def)
  have "settle_order env n (py_id x) (py_status x) c db1 = (Inr (c\<lparr>rr_review := rr_review c + 1\<rparr>), db2)" for c
    using found(1) terms_eqD(2) [OF x1(3)] s(1) assms(5) ap
    by (simp add: settle_order_def s_bind_def count_result_def)
  moreover have "reserve_order env n db = (Inr (Some (py_id x, py_status x)), db1)"
    using assms(3,4) select_head [OF assms(1)] by (simp add: reserve_order_def db1_def)
  ultimately have "reconcile_loop env (Suc n) counts db = reconcile_loop env n (counts\<lparr>rr_inspected := rr_inspected counts + 1, rr_review := rr_review counts + 1\<rparr>) db2"
    by (simp add: s_bind_def)
  moreover have "under_review env x2" using assms(2) m [OF x2(2)] terms_eqD(2) [OF x2(2)] by (simp add: under_review_def)
  ultimately show ?thesis using heads_queue_after [OF assms(1) x2(1-4) d2] x2 d2(1) by blast
qed

lemma review_loop:
  assumes "heads_queue env stale x db" "under_review env x"
    and "dt_add (re_now env) (- re_retry_delay env) = Inr before" "instant before = stale" "dt_add (re_now env) (re_retry_delay env) = Inr next_attempt"
  shows "\<exists>db'. reconcile_loop env n counts db = (Inr (counts\<lparr>rr_inspected := rr_inspected counts + int n, rr_review := rr_review counts + int n\<rparr>), db')
     \<and> other_orders (py_id x) db' = other_orders (py_id x) db"
  using assms(1,2)
proof (induction n arbitrary: counts db x)
  case (Suc n)
  obtain x' db' where step: "reconcile_loop env (Suc n) counts db = reconcile_loop env n (counts\<lparr>rr_inspected := rr_inspected counts + 1, rr_review := rr_review counts + 1\<rparr>) db'"
    "heads_queue env stale x' db'" "under_review env x'" "py_id x' = py_id x" "other_orders (py_id x) db' = other_orders (py_id x) db"
    using review_again [OF Suc.prems assms(3-5)] by blast
  from Suc.IH [OF step(2,3), of "counts\<lparr>rr_inspected := rr_inspected counts + 1, rr_review := rr_review counts + 1\<rparr>"] step
  show ?case by (auto simp del: reconcile_loop.simps simp: algebra_simps)
qed simp

text \<open>
  (C36) One order under review stops the reconciliation of all others.  When the order at the head of the
  queue is reported as paid, or with another amount, currency or identifier, it is sent to review but
  stays due and keeps its place: every iteration of the batch takes it again, counts it as inspected
  and reviewed, and no other order is looked at, however large the batch.
\<close>

theorem review_starves_queue:
  assumes "heads_queue env (instant before) x db" "under_review env x"
    and "dt_add (re_now env) (- re_retry_delay env) = Inr before" "dt_add (re_now env) (re_retry_delay env) = Inr next_attempt"
    and "reconcile_payment_batch env batch_size db = (Inr summary, db')"
  shows "rr_inspected summary = batch_size \<and> rr_review summary = batch_size \<and> other_orders (py_id x) db' = other_orders (py_id x) db"
proof -
  obtain db1 where loop: "reconcile_loop env (nat batch_size) no_counts db
      = (Inr (no_counts\<lparr>rr_inspected := int (nat batch_size), rr_review := int (nat batch_size)\<rparr>), db1)"
    "other_orders (py_id x) db1 = other_orders (py_id x) db"
    using review_loop [OF assms(1-3) refl assms(4), of "nat batch_size" no_counts] by (auto simp: no_counts_def)
  then show ?thesis using assms(5)
    by (auto simp: reconcile_payment_batch_def s_bind_def no_counts_def other_orders_def split: if_splits sum.splits prod.splits)
qed

section \<open>Samples\<close>

text \<open>Two pending orders; the provider reports the older one as paid.\<close>

definition sample_due :: "string \<Rightarrow> int \<Rightarrow> reconciled_order" where
  "sample_due i created = \<lparr>py_id = i, py_tenant_id = ''t'', py_demo_case_id = ''d'', py_domain_order_id = i, py_provider = ''cashfree'', py_provider_order_id = Some i,
     py_user_ref = ''u'', py_customer_ref = ''c'', py_plan_ref = ''7'', py_plan_version = ''v'', py_offer_id = None, py_amount_minor = 49900, py_currency = ''INR'',
     py_purpose = ''demo_conversion'', py_provider_environment = ''production'', py_status = ''pending'', py_creation_idempotency_key = i, py_correlation_id = ''c'',
     py_expires_at = Datetime 900000000 (Some 0), py_reconcile_after = None, py_paid_at = None, py_version = 1, ro_created_at = created, ro_updated_at = created\<rparr>"

definition sample_reconcile_db :: reconcile_db where
  "sample_reconcile_db = \<lparr>rc_orders = [sample_due ''a'' 1, sample_due ''b'' 2], rc_reconciliations = [], rc_audit = empty_trail\<rparr>"

definition sample_reconcile :: reconcile_env where
  "sample_reconcile = \<lparr>re_tenant_id = ''t'', re_now = Datetime 600000000 (Some 0), re_retry_delay = 60000000,
     re_fetch_verified_status = (\<lambda>n i. Inr \<lparr>pst_provider_order_id = i, pst_status = ''PAID'', pst_amount_minor = 49900, pst_currency = ''INR''\<rparr>),
     re_locked = (\<lambda>_. {}), re_clock = (\<lambda>n. 600000000), re_policy_reference = ''p'', re_audit_hash_key = ''key'', re_uuid4 = ''c''\<rparr>"

lemma sample_reconcile_distinct: "distinct (map py_id (rc_orders sample_reconcile_db))"
  by (simp add: sample_reconcile_db_def sample_due_def)

lemma sample_heads: "heads_queue sample_reconcile 540000000 (sample_due ''a'' 1) sample_reconcile_db"
  by (simp add: heads_queue_def sample_reconcile_db_def sample_due_def sample_reconcile_def reconcilable_def reconcile_order_def)

lemma sample_review: "under_review sample_reconcile (sample_due ''a'' 1)"
  by (simp add: under_review_def sample_reconcile_def sample_due_def) code_simp

theorem reconciliation_safe_witness:
  "list_all2 (reconciled sample_reconcile) (rc_orders sample_reconcile_db) (rc_orders (snd (reconcile_payment_batch sample_reconcile 2 sample_reconcile_db)))"
  using reconciliation_safe [OF sample_reconcile_distinct, of sample_reconcile 2] by (metis prod.collapse)

theorem review_starves_queue_witness:
  "\<exists>summary db'. reconcile_payment_batch sample_reconcile 2 sample_reconcile_db = (Inr summary, db') \<and> rr_review summary = 2
     \<and> other_orders ''a'' db' = [sample_due ''b'' 2]"
proof -
  have before: "dt_add (re_now sample_reconcile) (- re_retry_delay sample_reconcile) = Inr (Datetime 540000000 (Some 0))"
    and after: "dt_add (re_now sample_reconcile) (re_retry_delay sample_reconcile) = Inr (Datetime 660000000 (Some 0))"
    by (simp_all add: sample_reconcile_def dt_add_def in_range_def)
  have i: "instant (Datetime 540000000 (Some 0)) = 540000000" by (simp add: instant_def)
  obtain c db1 where "reconcile_loop sample_reconcile (nat 2) no_counts sample_reconcile_db = (Inr c, db1)"
    using review_loop [OF sample_heads sample_review before i after] by blast
  moreover obtain e audit where "append_audit_event (re_audit_hash_key sample_reconcile) (re_now sample_reconcile) (batch_entry sample_reconcile c) (rc_audit db1) = (Inr e, audit)"
    by (simp add: append_audit_event_def sample_reconcile_def batch_entry_def aware_def Let_def)
  moreover have "re_retry_delay sample_reconcile > 0" "aware (re_now sample_reconcile)" by (simp_all add: sample_reconcile_def aware_def)
  ultimately have batch: "reconcile_payment_batch sample_reconcile 2 sample_reconcile_db = (Inr c, db1\<lparr>rc_audit := audit\<rparr>)"
    by (simp add: reconcile_payment_batch_def s_bind_def)
  have "other_orders ''a'' sample_reconcile_db = [sample_due ''b'' 2]" by (simp add: other_orders_def sample_reconcile_db_def sample_due_def)
  moreover have heads: "heads_queue sample_reconcile (instant (Datetime 540000000 (Some 0))) (sample_due ''a'' 1) sample_reconcile_db"
    using sample_heads unfolding i .
  moreover have "py_id (sample_due ''a'' 1) = ''a''" by (simp add: sample_due_def)
  ultimately show ?thesis using review_starves_queue [OF heads sample_review before after batch] batch by auto
qed

end
