(* ===== verification/Operations.thy ===== *)
theory Operations
  imports AuditChain Inbox
begin

text \<open>
  The operator's tools: \<open>cli/replay_event.py\<close> puts one handled or failed event back into the queue,
  \<open>cli/redrive_dlq.py\<close> asks SQS once to move the messages of a dead-letter queue back.  Both require
  an exact confirmation and leave an audit record.  The clock, random identifiers and the answer of the
  queue are arguments.
\<close>

section \<open>Replaying an event\<close>

text \<open>The pattern \<open>[A-Z0-9][A-Z0-9_:-]{2,99}\<close>.\<close>

definition reason_code_ok :: "string \<Rightarrow> bool" where
  "reason_code_ok s \<longleftrightarrow> 3 \<le> length s \<and> length s \<le> 100 \<and> (is_upper (hd s) \<or> is_digit (hd s))
     \<and> list_all (\<lambda>c. is_upper c \<or> is_digit c \<or> c \<in> {CHR ''_'', CHR '':'', CHR ''-''}) (tl s)"

record replay_request =
  ry_event_id :: string
  ry_source_agent :: string
  ry_schema_version :: string
  ry_reason_code :: string
  ry_operator_ref :: string
  ry_confirmation :: string
  ry_tenant_id :: string
  ry_include_processed :: bool

record replay_result =
  rl_event_id :: string
  rl_source_agent :: string
  rl_schema_version :: string
  rl_previous_attempts :: int
  rl_previous_status :: string
  rl_status :: string

record replay_env =
  ry_audit_hash_key :: string
  ry_now :: datetime
  ry_uuid4 :: string

definition replay_target :: "replay_request \<Rightarrow> inbox_row \<Rightarrow> bool" where
  "replay_target q row \<longleftrightarrow> ix_tenant_id row = ry_tenant_id q \<and> ix_event_id row = ry_event_id q \<and> ix_source_agent row = ry_source_agent q
     \<and> ix_schema_version row = ry_schema_version q"

definition previous_status :: "inbox_row \<Rightarrow> string" where
  "previous_status row = (if ix_processed_at row \<noteq> None then ''processed'' else if ix_error_code row \<noteq> None then ''failed'' else ''pending'')"

definition requeued :: "inbox_row \<Rightarrow> inbox_row" where
  "requeued row = row\<lparr>ix_processed_at := None, ix_processing_attempts := 0, ix_error_code := None\<rparr>"

definition replay_entry :: "replay_env \<Rightarrow> replay_request \<Rightarrow> inbox_row \<Rightarrow> audit_entry" where
  "replay_entry env q row = \<lparr>at_tenant_id = ry_tenant_id q, at_event_type = ''operations.inbox.replay.authorized.v1'', at_actor_type = ''operator'',
     at_actor_ref = ry_operator_ref q, at_correlation_id = ry_uuid4 env,
     at_details = [(''event_id'', JString (ry_event_id q)), (''source_agent'', JString (ry_source_agent q)), (''schema_version'', JString (ry_schema_version q)),
       (''previous_status'', JString (previous_status row)), (''previous_attempts'', JInt (ix_processing_attempts row)), (''reason_code'', JString (ry_reason_code q))],
     at_occurred_at = None\<rparr>"

definition replay_checks :: "replay_request \<Rightarrow> unit res" where
  "replay_checks q =
     (if ry_confirmation q \<noteq> ''REPLAY:'' @ ry_event_id q then Inl (ValueError ''confirmation must exactly match REPLAY:<event-id>'')
      else if \<not> reason_code_ok (ry_reason_code q) then Inl (ValueError ''reason code must be a controlled uppercase code'')
      else if ry_source_agent q = [] \<or> ry_schema_version q = [] \<or> ry_operator_ref q = []
      then Inl (ValueError ''source, schema, and operator reference are required'')
      else Inr ())"

definition replayable :: "replay_request \<Rightarrow> inbox_row list \<Rightarrow> inbox_row res" where
  "replayable q rows =
     (case List.find (replay_target q) rows of
        None \<Rightarrow> Inl (LookupError ''inbox event was not found in the configured tenant'')
      | Some row \<Rightarrow>
          if previous_status row = ''pending'' then Inl (ValueError ''pending events cannot be manually replayed'')
          else if previous_status row = ''processed'' \<and> \<not> ry_include_processed q then Inl (ValueError ''processed replay requires --include-processed'')
          else Inr row)"

text \<open>One transaction: when the audit record cannot be written nothing is.\<close>

definition replay_inbox_event :: "replay_env \<Rightarrow> replay_request \<Rightarrow> ('w inbox_db \<times> audit_log, replay_result) sess" where
  "replay_inbox_event env q st =
     (let (db, trail) = st
      in case res_bind (replay_checks q) (\<lambda>_. replayable q (id_rows db)) of
           Inl e \<Rightarrow> (Inl e, st)
         | Inr row \<Rightarrow>
             (case append_audit_event (ry_audit_hash_key env) (ry_now env) (replay_entry env q row) trail of
                (Inl e, _) \<Rightarrow> (Inl e, st)
              | (Inr _, trail') \<Rightarrow>
                  (Inr \<lparr>rl_event_id = ry_event_id q, rl_source_agent = ry_source_agent q, rl_schema_version = ry_schema_version q,
                        rl_previous_attempts = ix_processing_attempts row, rl_previous_status = previous_status row, rl_status = ''queued''\<rparr>,
                   db\<lparr>id_rows := update_inbox_row (ix_id row) requeued (id_rows db)\<rparr>, trail')))"

section \<open>Redriving a dead-letter queue\<close>

record redrive_request = provider_request +
  rx_safe_error_code :: "string option"

text \<open>The calls that reached SQS are kept beside the tables.\<close>

record redrive_db =
  rd_requests :: "redrive_request list"
  rd_audit :: audit_log
  rd_calls :: "(string \<times> string) list"

record redrive_command =
  rd_tenant_id :: string
  rd_source_dlq_arn :: string
  rd_destination_queue_arn :: string
  rd_maximum_messages_per_second :: int
  rd_operation_key :: string
  rd_reason_code :: string
  rd_operator_ref :: string
  rd_confirmation :: string

record redrive_env =
  rd_audit_hash_key :: string
  rd_now :: datetime
  rd_uuid4 :: string
  rd_start_redrive :: "string \<Rightarrow> string \<Rightarrow> int \<Rightarrow> string res"

record redrive_result =
  rdr_operation_key :: string
  rdr_task_handle :: string
  rdr_status :: string

definition redrive_checks :: "redrive_command \<Rightarrow> unit res" where
  "redrive_checks c =
     (if rd_confirmation c \<noteq> rd_source_dlq_arn c then Inl (ValueError ''confirmation must exactly match the source DLQ ARN'')
      else if \<not> reason_code_ok (rd_reason_code c) then Inl (ValueError ''reason code must be a controlled uppercase code'')
      else if \<not> length_in 8 255 (rd_operation_key c) \<or> rd_operator_ref c = []
      then Inl (ValueError ''a stable operation key and operator reference are required'')
      else Inr ())"

definition redrive_hash :: "redrive_command \<Rightarrow> string" where
  "redrive_hash c = sha256 (dumps (JObject
     [(''source'', JString (rd_source_dlq_arn c)), (''destination'', JString (rd_destination_queue_arn c)),
      (''rate'', JInt (rd_maximum_messages_per_second c)), (''reason_code'', JString (rd_reason_code c))]))"

definition redrive_key :: "redrive_command \<Rightarrow> string \<times> string \<times> string" where
  "redrive_key c = (rd_tenant_id c, ''aws-sqs'', rd_operation_key c)"

definition redrive_key_of :: "redrive_request \<Rightarrow> string \<times> string \<times> string" where
  "redrive_key_of r = (pr_tenant_id r, pr_provider r, pr_idempotency_key r)"

definition reservation :: "redrive_env \<Rightarrow> redrive_command \<Rightarrow> redrive_request" where
  "reservation env c = \<lparr>pr_tenant_id = rd_tenant_id c, pr_provider = ''aws-sqs'', pr_operation = ''start_message_move_task'', pr_idempotency_key = rd_operation_key c,
     pr_correlation_id = rd_uuid4 env, pr_request_hash = redrive_hash c, pr_provider_reference = None, pr_status = ''reserved'', pr_attempt_count = 0,
     rx_safe_error_code = None\<rparr>"

text \<open>The first transaction: a known key answers or raises, a new one is reserved.\<close>

definition reserve_redrive :: "redrive_env \<Rightarrow> redrive_command \<Rightarrow> (redrive_db, redrive_result option) sess" where
  "reserve_redrive env c db =
     (case List.find (\<lambda>r. redrive_key_of r = redrive_key c) (rd_requests db) of
        Some existing \<Rightarrow>
          (if pr_request_hash existing \<noteq> redrive_hash c then Inl (ValueError ''operation key is already bound to a different redrive'')
           else case pr_provider_reference existing of
             Some ref \<Rightarrow>
               if pr_status existing = ''succeeded'' \<and> ref \<noteq> []
               then Inr (Some \<lparr>rdr_operation_key = rd_operation_key c, rdr_task_handle = ref, rdr_status = ''duplicate''\<rparr>)
               else Inl (RuntimeError ''redrive state is uncertain; reconcile the existing AWS task'')
           | None \<Rightarrow> Inl (RuntimeError ''redrive state is uncertain; reconcile the existing AWS task''), db)
      | None \<Rightarrow> (Inr None, db\<lparr>rd_requests := rd_requests db @ [reservation env c]\<rparr>))"

definition redrive_entry :: "redrive_env \<Rightarrow> redrive_command \<Rightarrow> string \<Rightarrow> json_object \<Rightarrow> audit_entry" where
  "redrive_entry env c event_type details = \<lparr>at_tenant_id = rd_tenant_id c, at_event_type = event_type, at_actor_type = ''operator'',
     at_actor_ref = rd_operator_ref c, at_correlation_id = rd_uuid4 env, at_details = details, at_occurred_at = None\<rparr>"

text \<open>The closing transaction writes the row and the audit record together, or neither.\<close>

definition close_redrive :: "redrive_env \<Rightarrow> redrive_command \<Rightarrow> (redrive_request \<Rightarrow> redrive_request) \<Rightarrow> audit_entry \<Rightarrow> (redrive_db, unit) sess" where
  "close_redrive env c change entry db =
     (case append_audit_event (rd_audit_hash_key env) (rd_now env) entry (rd_audit db) of
        (Inl e, _) \<Rightarrow> (Inl e, db)
      | (Inr _, trail) \<Rightarrow> (Inr (), db\<lparr>rd_requests := update_by redrive_key_of (redrive_key c) change (rd_requests db), rd_audit := trail\<rparr>))"

definition start_redrive :: "redrive_env \<Rightarrow> redrive_command \<Rightarrow> (redrive_db, string) sess" where
  "start_redrive env c db =
     (rd_start_redrive env (rd_source_dlq_arn c) (rd_destination_queue_arn c) (rd_maximum_messages_per_second c),
      db\<lparr>rd_calls := rd_calls db @ [(rd_tenant_id c, rd_operation_key c)]\<rparr>)"

definition redrive_dlq :: "redrive_env \<Rightarrow> redrive_command \<Rightarrow> (redrive_db, redrive_result) sess" where
  "redrive_dlq env c db =
     (case redrive_checks c of
        Inl e \<Rightarrow> (Inl e, db)
      | Inr _ \<Rightarrow>
          (case reserve_redrive env c db of
             (Inl e, db1) \<Rightarrow> (Inl e, db1)
           | (Inr (Some known), db1) \<Rightarrow> (Inr known, db1)
           | (Inr None, db1) \<Rightarrow>
               (case start_redrive env c db1 of
                  (Inl e, db2) \<Rightarrow>
                    (case close_redrive env c (\<lambda>r. r\<lparr>pr_status := ''failed'', pr_attempt_count := pr_attempt_count r + 1,
                           rx_safe_error_code := Some ''DCC_SQS_REDRIVE_START_FAILED''\<rparr>)
                         (redrive_entry env c ''operations.dlq.redrive.failed.v1''
                           [(''operation_key'', JString (rd_operation_key c)), (''reason_code'', JString (rd_reason_code c))]) db2 of
                       (Inl e', db3) \<Rightarrow> (Inl e', db3)
                     | (Inr _, db3) \<Rightarrow> (Inl e, db3))
                | (Inr task_handle, db2) \<Rightarrow>
                    (case close_redrive env c (\<lambda>r. r\<lparr>pr_status := ''succeeded'', pr_provider_reference := Some task_handle,
                           pr_attempt_count := pr_attempt_count r + 1\<rparr>)
                         (redrive_entry env c ''operations.dlq.redrive.started.v1''
                           [(''operation_key'', JString (rd_operation_key c)), (''reason_code'', JString (rd_reason_code c)),
                            (''maximum_messages_per_second'', JInt (rd_maximum_messages_per_second c))]) db2 of
                       (Inl e', db3) \<Rightarrow> (Inl e', db3)
                     | (Inr _, db3) \<Rightarrow> (Inr \<lparr>rdr_operation_key = rd_operation_key c, rdr_task_handle = task_handle, rdr_status = ''started''\<rparr>, db3)))))"

end
