(* ===== verification/OperationProofs.thy ===== *)
theory OperationProofs
  imports Operations
begin

text \<open>
  What the operator's tools can change: a replay resets one event and nothing else, and a dead-letter
  queue is redriven at most once for an operation key.
\<close>

section \<open>Replay\<close>

definition replay_permitted :: "replay_env \<Rightarrow> replay_request \<Rightarrow> inbox_row \<Rightarrow> bool" where
  "replay_permitted env q row \<longleftrightarrow> ry_confirmation q = ''REPLAY:'' @ ry_event_id q \<and> reason_code_ok (ry_reason_code q)
     \<and> ry_source_agent q \<noteq> [] \<and> ry_schema_version q \<noteq> [] \<and> ry_operator_ref q \<noteq> [] \<and> ry_tenant_id q \<noteq> [] \<and> ry_audit_hash_key env \<noteq> [] \<and> aware (ry_now env)
     \<and> replay_target q row \<and> (ix_processed_at row \<noteq> None \<and> ry_include_processed q \<or> ix_processed_at row = None \<and> ix_error_code row \<noteq> None)"

lemma append_audit_accepts:
  "(\<exists>e trail'. append_audit_event k now entry trail = (Inr e, trail') \<and> al_events trail' = al_events trail @ [e] \<and> av_details e = at_details entry)
     \<longleftrightarrow> k \<noteq> [] \<and> at_tenant_id entry \<noteq> [] \<and> at_actor_ref entry \<noteq> [] \<and> aware (case at_occurred_at entry of Some t \<Rightarrow> t | None \<Rightarrow> now)"
  by (auto simp: append_audit_event_def Let_def)

lemma append_audit_refuses:
  assumes "append_audit_event k now entry trail = (Inl e, trail')"
  shows "\<not> (k \<noteq> [] \<and> at_tenant_id entry \<noteq> [] \<and> at_actor_ref entry \<noteq> [] \<and> aware (case at_occurred_at entry of Some t \<Rightarrow> t | None \<Rightarrow> now))"
  using assms by (auto simp: append_audit_event_def Let_def split: if_splits)

lemma previous_status_cases:
  "previous_status row = ''pending'' \<longleftrightarrow> ix_processed_at row = None \<and> ix_error_code row = None"
  "previous_status row = ''processed'' \<longleftrightarrow> ix_processed_at row \<noteq> None"
  by (simp_all add: previous_status_def)

lemma target_unique:
  assumes "inbox_unique rows" "row \<in> set rows" "row' \<in> set rows" "replay_target q row" "replay_target q row'"
  shows "row' = row"
proof -
  have "inj_on (\<lambda>r. (ix_source_agent r, ix_event_id r, ix_schema_version r)) (set rows)"
    using assms(1) by (simp add: inbox_unique_def distinct_map)
  then show ?thesis using assms(2-5) by (auto simp: inj_on_def replay_target_def)
qed

lemma find_target:
  assumes "inbox_unique rows"
  shows "List.find (replay_target q) rows = Some row \<longleftrightarrow> row \<in> set rows \<and> replay_target q row"
proof
  assume r: "row \<in> set rows \<and> replay_target q row"
  then obtain row' where "List.find (replay_target q) rows = Some row'" by (cases "List.find (replay_target q) rows") (auto simp: find_None_iff)
  moreover from this have "row' \<in> set rows" "replay_target q row'" by (auto simp: find_Some_iff)
  ultimately show "List.find (replay_target q) rows = Some row" using target_unique [OF assms] r by blast
qed (auto simp: find_Some_iff)

lemma replayable_iff:
  assumes "inbox_unique rows"
  shows "res_bind (replay_checks q) (\<lambda>_. replayable q rows) = Inr row \<longleftrightarrow>
    ry_confirmation q = ''REPLAY:'' @ ry_event_id q \<and> reason_code_ok (ry_reason_code q) \<and> ry_source_agent q \<noteq> [] \<and> ry_schema_version q \<noteq> []
    \<and> ry_operator_ref q \<noteq> [] \<and> row \<in> set rows \<and> replay_target q row
    \<and> (ix_processed_at row \<noteq> None \<and> ry_include_processed q \<or> ix_processed_at row = None \<and> ix_error_code row \<noteq> None)"
proof -
  have "replayable q rows = Inr row \<longleftrightarrow> row \<in> set rows \<and> replay_target q row
      \<and> (ix_processed_at row \<noteq> None \<and> ry_include_processed q \<or> ix_processed_at row = None \<and> ix_error_code row \<noteq> None)"
  proof (cases "List.find (replay_target q) rows")
    case None
    then have "\<not> (row \<in> set rows \<and> replay_target q row)" using find_target [OF assms, of q row] by simp
    then show ?thesis using None by (auto simp: replayable_def)
  next
    case (Some x)
    then have "row \<in> set rows \<and> replay_target q row \<longleftrightarrow> row = x" using find_target [OF assms, of q row] by auto
    then show ?thesis using Some by (auto simp: replayable_def previous_status_cases split: if_splits)
  qed
  then show ?thesis by (auto simp: replay_checks_def)
qed

text \<open>
  (C19) A replay touches one event, and only on an operator's exact word.  It succeeds exactly when the
  confirmation names the event, the reason is a controlled code, source, schema version, operator and
  audit key are given, and the tenant has the event, failed or, with the flag, processed.  Then this
  row alone is reset, so that a processor with attempts left that is not told to skip its type takes
  it again, and one audit record is appended; otherwise nothing changes at all.
\<close>

theorem replay_exact:
  assumes "inbox_unique (id_rows db)" "distinct (map ix_id (id_rows db))" "replay_inbox_event env q (db, trail) = (r, db', trail')"
  shows "if \<exists>row \<in> set (id_rows db). replay_permitted env q row
    then \<exists>row \<in> set (id_rows db). \<exists>result e. replay_permitted env q row \<and> r = Inr result \<and> rl_previous_attempts result = ix_processing_attempts row
        \<and> id_rows db' = map (\<lambda>x. if x = row then requeued x else x) (id_rows db) \<and> id_rest db' = id_rest db
        \<and> al_events trail' = al_events trail @ [e] \<and> av_details e = at_details (replay_entry env q row)
        \<and> (0 < ne_maximum_attempts nenv \<and> ix_event_type row \<notin> ne_blocked_event_types nenv \<longrightarrow> waiting nenv {} (requeued row))
    else (\<exists>e. r = Inl e) \<and> db' = db \<and> trail' = trail"
proof (cases "res_bind (replay_checks q) (\<lambda>_. replayable q (id_rows db))")
  case (Inl e)
  then have "\<not> (\<exists>row \<in> set (id_rows db). replay_permitted env q row)"
    using replayable_iff [OF assms(1), of q] unfolding replay_permitted_def by (metis Inl_Inr_False)
  then show ?thesis using assms(3) Inl by (auto simp: replay_inbox_event_def)
next
  case (Inr row)
  note row = Inr [unfolded replayable_iff [OF assms(1)]]
  obtain w t where ap: "append_audit_event (ry_audit_hash_key env) (ry_now env) (replay_entry env q row) trail = (w, t)" by fastforce
  have only: "replay_permitted env q row' \<Longrightarrow> row' \<in> set (id_rows db) \<Longrightarrow> row' = row" for row'
    using target_unique [OF assms(1)] row by (auto simp: replay_permitted_def)
  show ?thesis
  proof (cases w)
    case (Inl e)
    have "\<not> replay_permitted env q row" using append_audit_refuses [OF ap [unfolded Inl]] by (auto simp: replay_permitted_def replay_entry_def)
    then have "\<not> (\<exists>row \<in> set (id_rows db). replay_permitted env q row)" using only by blast
    then show ?thesis using assms(3) \<open>_ = Inr row\<close> ap Inl by (auto simp: replay_inbox_event_def)
  next
    case (Inr e)
    have "ry_audit_hash_key env \<noteq> [] \<and> ry_tenant_id q \<noteq> [] \<and> ry_operator_ref q \<noteq> [] \<and> aware (ry_now env)
        \<and> al_events t = al_events trail @ [e] \<and> av_details e = at_details (replay_entry env q row)"
      using ap [unfolded Inr] by (auto simp: append_audit_event_def replay_entry_def Let_def split: if_splits)
    moreover from this have p: "replay_permitted env q row" using row by (simp add: replay_permitted_def)
    moreover have "id_rows db' = map (\<lambda>x. if x = row then requeued x else x) (id_rows db)" "id_rest db' = id_rest db" "trail' = t"
      using assms(3) \<open>_ = Inr row\<close> ap Inr row update_inbox_row_eq [OF assms(2), of row requeued] by (auto simp: replay_inbox_event_def)
    moreover have "\<exists>result. r = Inr result \<and> rl_previous_attempts result = ix_processing_attempts row"
      using assms(3) \<open>_ = Inr row\<close> ap Inr by (auto simp: replay_inbox_event_def)
    ultimately have "\<exists>result e. replay_permitted env q row \<and> r = Inr result \<and> rl_previous_attempts result = ix_processing_attempts row
        \<and> id_rows db' = map (\<lambda>x. if x = row then requeued x else x) (id_rows db) \<and> id_rest db' = id_rest db
        \<and> al_events trail' = al_events trail @ [e] \<and> av_details e = at_details (replay_entry env q row)
        \<and> (0 < ne_maximum_attempts nenv \<and> ix_event_type row \<notin> ne_blocked_event_types nenv \<longrightarrow> waiting nenv {} (requeued row))"
      by (auto simp: waiting_def requeued_def)
    then show ?thesis using row p by (simp add: bexI [of _ row])
  qed
qed

section \<open>Redrive\<close>

definition reserved_for :: "string \<times> string \<Rightarrow> redrive_db \<Rightarrow> bool" where
  "reserved_for tk db \<longleftrightarrow> (fst tk, ''aws-sqs'', snd tk) \<in> set (map redrive_key_of (rd_requests db))"

definition calls_ok :: "redrive_db \<Rightarrow> bool" where
  "calls_ok db \<longleftrightarrow> distinct (rd_calls db) \<and> (\<forall>tk \<in> set (rd_calls db). reserved_for tk db)"

lemma close_redrive_keeps:
  assumes "close_redrive env c change entry db = (r, db')" "\<And>x. redrive_key_of (change x) = redrive_key_of x"
  shows "rd_calls db' = rd_calls db" "reserved_for tk db' = reserved_for tk db"
proof -
  have "db' = db \<or> (\<exists>trail. db' = db\<lparr>rd_requests := update_by redrive_key_of (redrive_key c) change (rd_requests db), rd_audit := trail\<rparr>)"
    using assms(1) by (auto simp: close_redrive_def split: prod.splits sum.splits)
  moreover have "redrive_key_of (if redrive_key_of x = redrive_key c then change x else x) = redrive_key_of x" for x using assms(2) by simp
  ultimately show "rd_calls db' = rd_calls db" "reserved_for tk db' = reserved_for tk db" by (auto simp: reserved_for_def simp del: set_map)
qed

lemma reserve_redrive_new:
  assumes "reserve_redrive env c db = (Inr None, db')"
  shows "db' = db\<lparr>rd_requests := rd_requests db @ [reservation env c]\<rparr>" "\<not> reserved_for (rd_tenant_id c, rd_operation_key c) db"
proof -
  have n: "List.find (\<lambda>r. redrive_key_of r = redrive_key c) (rd_requests db) = None"
    using assms by (auto simp: reserve_redrive_def split: option.splits if_splits)
  then show "\<not> reserved_for (rd_tenant_id c, rd_operation_key c) db" by (force simp: find_None_iff reserved_for_def redrive_key_def)
  show "db' = db\<lparr>rd_requests := rd_requests db @ [reservation env c]\<rparr>" using assms n by (simp add: reserve_redrive_def)
qed

lemma reserve_redrive_known: "reserve_redrive env c db = (r, db') \<Longrightarrow> r \<noteq> Inr None \<Longrightarrow> db' = db"
  by (auto simp: reserve_redrive_def split: option.splits)

text \<open>A call that reaches the queue is for a new key, confirmed, and stays reserved.\<close>

lemma redrive_step:
  assumes "redrive_dlq env c db = (r, db')"
  shows "rd_calls db' = rd_calls db \<and> (\<forall>tk. reserved_for tk db \<longrightarrow> reserved_for tk db')
    \<or> rd_calls db' = rd_calls db @ [(rd_tenant_id c, rd_operation_key c)] \<and> redrive_checks c = Inr ()
      \<and> \<not> reserved_for (rd_tenant_id c, rd_operation_key c) db \<and> reserved_for (rd_tenant_id c, rd_operation_key c) db'
      \<and> (\<forall>tk. reserved_for tk db \<longrightarrow> reserved_for tk db')"
proof (cases "redrive_checks c = Inr () \<and> fst (reserve_redrive env c db) = Inr None")
  case False
  obtain v db1 where v: "reserve_redrive env c db = (v, db1)" by fastforce
  have "db' = db" using False assms v reserve_redrive_known [OF v] by (auto simp: redrive_dlq_def split: sum.splits option.splits)
  then show ?thesis by simp
next
  case True
  then obtain db1 where r1: "reserve_redrive env c db = (Inr None, db1)" by (metis prod.collapse)
  note n = reserve_redrive_new [OF r1]
  define db2 where "db2 = db1\<lparr>rd_calls := rd_calls db1 @ [(rd_tenant_id c, rd_operation_key c)]\<rparr>"
  have db2: "rd_calls db2 = rd_calls db @ [(rd_tenant_id c, rd_operation_key c)]" "reserved_for (rd_tenant_id c, rd_operation_key c) db2"
    "reserved_for tk db \<Longrightarrow> reserved_for tk db2" for tk
    by (auto simp: db2_def n(1) reserved_for_def redrive_key_of_def reservation_def)
  have s: "start_redrive env c db1 = (rd_start_redrive env (rd_source_dlq_arn c) (rd_destination_queue_arn c) (rd_maximum_messages_per_second c), db2)"
    by (simp add: start_redrive_def db2_def)
  obtain change entry w where "close_redrive env c change entry db2 = (w, db')" "\<And>x. redrive_key_of (change x) = redrive_key_of x"
  proof (cases "rd_start_redrive env (rd_source_dlq_arn c) (rd_destination_queue_arn c) (rd_maximum_messages_per_second c)")
    case Inl
    then show thesis using assms True r1 s that
      by (auto simp: redrive_dlq_def redrive_key_of_def split: prod.splits sum.splits)
  next
    case Inr
    then show thesis using assms True r1 s that
      by (auto simp: redrive_dlq_def redrive_key_of_def split: prod.splits sum.splits)
  qed
  from close_redrive_keeps [OF this] show ?thesis using db2 True n(2) by simp
qed

definition redrive_all :: "(redrive_env \<times> redrive_command) list \<Rightarrow> redrive_db \<Rightarrow> redrive_db" where
  "redrive_all runs db = foldl (\<lambda>db (env, c). snd (redrive_dlq env c db)) db runs"

lemma redrive_all_calls:
  assumes "calls_ok db"
  shows "calls_ok (redrive_all runs db)
    \<and> (\<forall>tk \<in> set (rd_calls (redrive_all runs db)) - set (rd_calls db). \<exists>(env, c) \<in> set runs. tk = (rd_tenant_id c, rd_operation_key c) \<and> redrive_checks c = Inr ())"
  using assms
proof (induction runs arbitrary: db)
  case (Cons run runs)
  obtain env c where run: "run = (env, c)" by (cases run)
  obtain r db1 where d: "redrive_dlq env c db = (r, db1)" by fastforce
  from redrive_step [OF d] Cons.prems have ok: "calls_ok db1"
    and new: "set (rd_calls db1) - set (rd_calls db) \<subseteq> {tk. tk = (rd_tenant_id c, rd_operation_key c) \<and> redrive_checks c = Inr ()}"
    by (auto simp: calls_ok_def)
  have all: "redrive_all (run # runs) db = redrive_all runs db1" by (simp add: redrive_all_def run d)
  have "\<exists>(env, c) \<in> set (run # runs). tk = (rd_tenant_id c, rd_operation_key c) \<and> redrive_checks c = Inr ()"
    if "tk \<in> set (rd_calls (redrive_all runs db1))" "tk \<notin> set (rd_calls db)" for tk
  proof (cases "tk \<in> set (rd_calls db1)")
    case True
    then show ?thesis using new that(2) by (auto simp: run)
  next
    case False
    then show ?thesis using Cons.IH [OF ok] that(1) by auto
  qed
  then show ?case unfolding all using Cons.IH [OF ok] by blast
qed (simp add: redrive_all_def)

text \<open>
  (C37) However often and with whatever keys and answers the tool is run, SQS is asked to move the
  messages at most once for a tenant's operation key, also when the call or the bookkeeping after it
  failed; and only after the operator repeated the queue's name exactly and gave a controlled reason.
\<close>

theorem redrive_at_most_once:
  assumes "rd_calls db = []"
  shows "distinct (rd_calls (redrive_all runs db))
    \<and> (\<forall>tk \<in> set (rd_calls (redrive_all runs db)). \<exists>(env, c) \<in> set runs. tk = (rd_tenant_id c, rd_operation_key c)
         \<and> rd_confirmation c = rd_source_dlq_arn c \<and> reason_code_ok (rd_reason_code c) \<and> rd_operator_ref c \<noteq> [])"
proof -
  have "calls_ok db" using assms by (simp add: calls_ok_def)
  moreover have "redrive_checks c = Inr () \<Longrightarrow> rd_confirmation c = rd_source_dlq_arn c \<and> reason_code_ok (rd_reason_code c) \<and> rd_operator_ref c \<noteq> []" for c
    by (auto simp: redrive_checks_def split: if_splits)
  ultimately show ?thesis using redrive_all_calls [of db runs] assms by (fastforce simp: calls_ok_def)
qed

section \<open>Samples\<close>

definition failed_inbox :: "nat inbox_db" where
  "failed_inbox = empty_inbox\<lparr>id_rows := [mark_attempt_failed (ingress_row sample_ingress 5 1 sample_event)]\<rparr>"

definition sample_replay :: replay_request where
  "sample_replay = \<lparr>ry_event_id = ''e1'', ry_source_agent = ''lead-intake'', ry_schema_version = ''1.0'', ry_reason_code = ''FIXED'', ry_operator_ref = ''ops-1'',
     ry_confirmation = ''REPLAY:e1'', ry_tenant_id = ''t'', ry_include_processed = False\<rparr>"

definition sample_replay_env :: replay_env where
  "sample_replay_env = \<lparr>ry_audit_hash_key = ''key'', ry_now = Datetime 5 (Some 0), ry_uuid4 = ''c''\<rparr>"

theorem replay_exact_witness:
  "\<exists>result db' trail'. replay_inbox_event sample_replay_env sample_replay (failed_inbox, empty_trail) = (Inr result, db', trail') \<and> rl_previous_attempts result = 1"
proof -
  have "inbox_unique (id_rows failed_inbox)" "distinct (map ix_id (id_rows failed_inbox))" by (simp_all add: failed_inbox_def inbox_unique_def)
  moreover obtain r db' trail' where r: "replay_inbox_event sample_replay_env sample_replay (failed_inbox, empty_trail) = (r, db', trail')" by (metis prod_cases3)
  moreover have p: "\<exists>row \<in> set (id_rows failed_inbox). replay_permitted sample_replay_env sample_replay row"
  proof -
    have "reason_code_ok ''FIXED''" by code_simp
    then show ?thesis
      by (simp add: failed_inbox_def replay_permitted_def sample_replay_env_def sample_replay_def replay_target_def mark_attempt_failed_def ingress_row_def sample_event_def aware_def)
  qed
  moreover have "ix_processing_attempts row = 1" if "row \<in> set (id_rows failed_inbox)" for row
    using that by (auto simp: failed_inbox_def mark_attempt_failed_def ingress_row_def)
  ultimately show ?thesis using replay_exact [of failed_inbox sample_replay_env sample_replay empty_trail r db' trail'] by auto
qed

definition sample_redrive :: redrive_command where
  "sample_redrive = \<lparr>rd_tenant_id = ''t'', rd_source_dlq_arn = ''arn:dlq'', rd_destination_queue_arn = ''arn:q'', rd_maximum_messages_per_second = 5,
     rd_operation_key = ''operation-1'', rd_reason_code = ''FIXED'', rd_operator_ref = ''ops-1'', rd_confirmation = ''arn:dlq''\<rparr>"

definition sample_redrive_env :: redrive_env where
  "sample_redrive_env = \<lparr>rd_audit_hash_key = ''key'', rd_now = Datetime 5 (Some 0), rd_uuid4 = ''c'', rd_start_redrive = (\<lambda>_ _ _. Inl (RuntimeError ''down''))\<rparr>"

theorem redrive_at_most_once_witness:
  "distinct (rd_calls (redrive_all [(sample_redrive_env, sample_redrive), (sample_redrive_env, sample_redrive)] \<lparr>rd_requests = [], rd_audit = empty_trail, rd_calls = []\<rparr>))
   \<and> rd_calls (redrive_all [(sample_redrive_env, sample_redrive)] \<lparr>rd_requests = [], rd_audit = empty_trail, rd_calls = []\<rparr>) = [(''t'', ''operation-1'')]"
proof -
  have "reason_code_ok ''FIXED''" by code_simp
  then have "rd_calls (redrive_all [(sample_redrive_env, sample_redrive)] \<lparr>rd_requests = [], rd_audit = empty_trail, rd_calls = []\<rparr>) = [(''t'', ''operation-1'')]"
    by (simp add: redrive_all_def redrive_dlq_def redrive_checks_def sample_redrive_def length_in_def reserve_redrive_def start_redrive_def sample_redrive_env_def
        close_redrive_def append_audit_event_def redrive_entry_def aware_def Let_def)
  then show ?thesis using redrive_at_most_once [of "\<lparr>rd_requests = [], rd_audit = empty_trail, rd_calls = []\<rparr>"] by simp
qed

end
