(* ===== verification/Retention.thy ===== *)
theory Retention
  imports AuditChain Inbox
begin

text \<open>
  \<open>cli/retention_cleanup.py\<close>: handled events are deleted and personal data is erased once their time is
  up, table by table and in batches, never under a legal hold.  The tables are those of the other
  components with the two columns only this job reads; times are instants.  The cipher, random
  identifiers and the rows other workers have locked are arguments.
\<close>

section \<open>Tables\<close>

record retained_inbox = inbox_row +
  ri_retain_until :: "int option"
  ri_legal_hold :: bool

record retained_outbox = outbox_row +
  rb_retain_until :: "int option"
  rb_legal_hold :: bool

record retained_webhook = webhook_event +
  rw_retain_until :: "int option"
  rw_legal_hold :: bool

record retained_message = communication_message +
  rm_content_ciphertext :: "string option"
  rm_content_key_reference :: "string option"
  rm_retain_until :: "int option"
  rm_legal_hold :: bool

record retained_demo = demo_case +
  rde_retain_until :: "int option"
  rde_legal_hold :: bool

record demo_session =
  ds_id :: string
  ds_demo_case_id :: string

record calendar_event_state =
  ce_id :: string
  ce_session_id :: string
  ce_meeting_uri_ciphertext :: "string option"
  ce_meeting_uri_key_reference :: "string option"
  ce_meeting_uri_expires_at :: "int option"
  ce_legal_hold :: bool

record retention_db =
  rt_inbox :: "retained_inbox list"
  rt_outbox :: "retained_outbox list"
  rt_webhooks :: "retained_webhook list"
  rt_messages :: "retained_message list"
  rt_calendar :: "calendar_event_state list"
  rt_sessions :: "demo_session list"
  rt_demos :: "retained_demo list"
  rt_audit :: audit_log

record retention_env =
  te_tenant_id :: string
  te_encrypt :: "string \<Rightarrow> string \<Rightarrow> string"
  te_key_reference :: string
  te_policy_reference :: string
  te_audit_hash_key :: string
  te_now :: datetime
  te_uuid4 :: string

record retention_cleanup_result =
  tr_inbox_deleted :: int
  tr_outbox_deleted :: int
  tr_provider_payloads_erased :: int
  tr_message_payloads_erased :: int
  tr_meeting_links_erased :: int
  tr_demo_identifiers_erased :: int

section \<open>What is due\<close>

text \<open>\<open>column <= now\<close> in SQL: not true of null.\<close>

definition passed :: "retention_env \<Rightarrow> int option \<Rightarrow> bool" where
  "passed env t = (case t of None \<Rightarrow> False | Some t \<Rightarrow> t \<le> instant (te_now env))"

definition inbox_due :: "retention_env \<Rightarrow> retained_inbox \<Rightarrow> bool" where
  "inbox_due env r \<longleftrightarrow> ix_tenant_id r = te_tenant_id env \<and> ix_processed_at r \<noteq> None \<and> passed env (ri_retain_until r) \<and> \<not> ri_legal_hold r"

definition outbox_due :: "retention_env \<Rightarrow> retained_outbox \<Rightarrow> bool" where
  "outbox_due env r \<longleftrightarrow> ox_tenant_id r = te_tenant_id env \<and> ox_published_at r \<noteq> None \<and> passed env (rb_retain_until r) \<and> \<not> rb_legal_hold r"

definition webhook_due :: "retention_env \<Rightarrow> retained_webhook \<Rightarrow> bool" where
  "webhook_due env r \<longleftrightarrow> we_tenant_id r = te_tenant_id env \<and> passed env (rw_retain_until r) \<and> \<not> rw_legal_hold r"

definition message_due :: "retention_env \<Rightarrow> retained_message \<Rightarrow> bool" where
  "message_due env r \<longleftrightarrow> cm_tenant_id r = te_tenant_id env \<and> passed env (rm_retain_until r) \<and> \<not> rm_legal_hold r \<and> rm_content_ciphertext r \<noteq> None"

definition calendar_due :: "retention_env \<Rightarrow> demo_session list \<Rightarrow> retained_demo list \<Rightarrow> calendar_event_state \<Rightarrow> bool" where
  "calendar_due env sessions demos r \<longleftrightarrow>
     list_ex (\<lambda>s. ds_id s = ce_session_id r \<and> list_ex (\<lambda>d. dc_id d = ds_demo_case_id s \<and> dc_tenant_id d = te_tenant_id env) demos) sessions
     \<and> passed env (ce_meeting_uri_expires_at r) \<and> \<not> ce_legal_hold r \<and> ce_meeting_uri_ciphertext r \<noteq> None"

definition demo_due :: "retention_env \<Rightarrow> retained_demo \<Rightarrow> bool" where
  "demo_due env r \<longleftrightarrow> dc_tenant_id r = te_tenant_id env \<and> passed env (rde_retain_until r) \<and> \<not> rde_legal_hold r"

text \<open>The keys a query selects: in the order of the key, at most \<open>n\<close>, none that is locked.\<close>

definition select_due :: "('r \<Rightarrow> 'k::linorder) \<Rightarrow> nat \<Rightarrow> 'k set \<Rightarrow> ('r \<Rightarrow> bool) \<Rightarrow> 'r list \<Rightarrow> 'k list" where
  "select_due key n locked due rows = take n (sort (map key (filter (\<lambda>r. due r \<and> key r \<notin> locked) rows)))"

definition delete_rows :: "('r \<Rightarrow> 'k) \<Rightarrow> 'k list \<Rightarrow> 'r list \<Rightarrow> 'r list" where
  "delete_rows key ks rows = filter (\<lambda>r. key r \<notin> set ks) rows"

definition erase_rows :: "('r \<Rightarrow> 'k) \<Rightarrow> 'k list \<Rightarrow> ('r \<Rightarrow> 'r) \<Rightarrow> 'r list \<Rightarrow> 'r list" where
  "erase_rows key ks f rows = map (\<lambda>r. if key r \<in> set ks then f r else r) rows"

section \<open>What is erased\<close>

definition erase_webhook :: "retention_env \<Rightarrow> retained_webhook \<Rightarrow> retained_webhook" where
  "erase_webhook env r = r\<lparr>we_payload_ciphertext := te_encrypt env ''{}'' (we_provider r @ '':'' @ we_provider_event_id r),
     we_payload_key_reference := te_key_reference env, rw_retain_until := None\<rparr>"

definition erase_message :: "retained_message \<Rightarrow> retained_message" where
  "erase_message r = r\<lparr>rm_content_ciphertext := None, rm_content_key_reference := None, cm_content_source_refs := [], rm_retain_until := None\<rparr>"

definition erase_calendar :: "calendar_event_state \<Rightarrow> calendar_event_state" where
  "erase_calendar r = r\<lparr>ce_meeting_uri_ciphertext := None, ce_meeting_uri_key_reference := None, ce_meeting_uri_expires_at := None\<rparr>"

definition erase_demo :: "retained_demo \<Rightarrow> retained_demo" where
  "erase_demo r = r\<lparr>dc_external_lead_id := None, dc_external_user_id := None, dc_conversation_id := ''retained:'' @ dc_id r, rde_retain_until := None\<rparr>"

text \<open>The locks the queries meet.\<close>

record retention_locks =
  lk_inbox :: "nat set"
  lk_outbox :: "nat set"
  lk_webhooks :: "nat set"
  lk_messages :: "string set"
  lk_calendar :: "string set"
  lk_demos :: "string set"

definition cleanup_tables :: "retention_env \<Rightarrow> retention_locks \<Rightarrow> nat \<Rightarrow> retention_db \<Rightarrow> retention_cleanup_result \<times> retention_db" where
  "cleanup_tables env locks n db =
     (let inbox_ids = select_due ix_id n (lk_inbox locks) (inbox_due env) (rt_inbox db);
          outbox_ids = select_due ox_id n (lk_outbox locks) (outbox_due env) (rt_outbox db);
          provider_rows = select_due we_id n (lk_webhooks locks) (webhook_due env) (rt_webhooks db);
          message_rows = select_due cm_id n (lk_messages locks) (message_due env) (rt_messages db);
          calendar_rows = select_due ce_id n (lk_calendar locks) (calendar_due env (rt_sessions db) (rt_demos db)) (rt_calendar db);
          demo_rows = select_due dc_id n (lk_demos locks) (demo_due env) (rt_demos db)
      in (\<lparr>tr_inbox_deleted = int (length inbox_ids), tr_outbox_deleted = int (length outbox_ids), tr_provider_payloads_erased = int (length provider_rows),
           tr_message_payloads_erased = int (length message_rows), tr_meeting_links_erased = int (length calendar_rows),
           tr_demo_identifiers_erased = int (length demo_rows)\<rparr>,
          db\<lparr>rt_inbox := delete_rows ix_id inbox_ids (rt_inbox db), rt_outbox := delete_rows ox_id outbox_ids (rt_outbox db),
             rt_webhooks := erase_rows we_id provider_rows (erase_webhook env) (rt_webhooks db),
             rt_messages := erase_rows cm_id message_rows erase_message (rt_messages db),
             rt_calendar := erase_rows ce_id calendar_rows erase_calendar (rt_calendar db),
             rt_demos := erase_rows dc_id demo_rows erase_demo (rt_demos db)\<rparr>))"

definition cleanup_entry :: "retention_env \<Rightarrow> retention_cleanup_result \<Rightarrow> audit_entry" where
  "cleanup_entry env x = \<lparr>at_tenant_id = te_tenant_id env, at_event_type = ''privacy.retention.cleanup.completed.v1'', at_actor_type = ''scheduled_task'',
     at_actor_ref = ''retention-cleanup'', at_correlation_id = te_uuid4 env,
     at_details = [(''inbox_deleted'', JInt (tr_inbox_deleted x)), (''outbox_deleted'', JInt (tr_outbox_deleted x)),
       (''provider_payloads_erased'', JInt (tr_provider_payloads_erased x)), (''message_payloads_erased'', JInt (tr_message_payloads_erased x)),
       (''meeting_links_erased'', JInt (tr_meeting_links_erased x)), (''demo_identifiers_erased'', JInt (tr_demo_identifiers_erased x)),
       (''policy_reference'', JString (te_policy_reference env))],
     at_occurred_at = Some (te_now env)\<rparr>"

text \<open>One transaction: when the audit record cannot be written nothing is erased.\<close>

definition run_retention_cleanup :: "retention_env \<Rightarrow> retention_locks \<Rightarrow> int \<Rightarrow> (retention_db, retention_cleanup_result) sess" where
  "run_retention_cleanup env locks batch_size db =
     (if \<not> (1 \<le> batch_size \<and> batch_size \<le> 10000) then (Inl (ValueError ''batch size must be between 1 and 10000''), db)
      else if \<not> aware (te_now env) then (Inl (ValueError ''retention timestamp must be timezone-aware''), db)
      else
        let (x, db') = cleanup_tables env locks (nat batch_size) db
        in case append_audit_event (te_audit_hash_key env) (te_now env) (cleanup_entry env x) (rt_audit db) of
             (Inl e, _) \<Rightarrow> (Inl e, db)
           | (Inr _, trail) \<Rightarrow> (Inr x, db'\<lparr>rt_audit := trail\<rparr>))"

section \<open>What a cleanup keeps and what it clears\<close>

lemma select_due_sub: "k \<in> set (select_due key n locked due rows) \<Longrightarrow> \<exists>r \<in> set rows. due r \<and> k = key r"
  unfolding select_due_def by (drule in_set_takeD) auto

lemma select_due_all:
  assumes "length (filter due rows) \<le> n" "r \<in> set rows" "due r"
  shows "key r \<in> set (select_due key n {} due rows)"
  using assms by (simp add: select_due_def)

lemma selected_due:
  assumes "distinct (map key rows)" "r \<in> set rows" "key r \<in> set (select_due key n locked due rows)"
  shows "due r"
proof -
  obtain r' where "r' \<in> set rows" "due r'" "key r = key r'" using select_due_sub [OF assms(3)] by blast
  then show ?thesis using assms(1,2) by (auto simp: distinct_map inj_on_def)
qed

lemma selected_few:
  assumes "distinct (map key rows)"
  shows "length (filter (\<lambda>r. key r \<in> set (select_due key n locked due rows)) rows) \<le> n"
proof -
  let ?ks = "select_due key n locked due rows"
  have "length (filter (\<lambda>r. key r \<in> set ?ks) rows) = card (key ` set (filter (\<lambda>r. key r \<in> set ?ks) rows))"
    using assms distinct_map_filter [OF assms] by (metis (no_types, lifting) distinct_card length_map set_map)
  also have "\<dots> \<le> card (set ?ks)" by (rule card_mono) auto
  also have "\<dots> \<le> length ?ks" by (rule card_length)
  also have "\<dots> \<le> n" by (simp add: select_due_def)
  finally show ?thesis .
qed

text \<open>
  A table is treated properly: only rows that are due are selected, at most \<open>n\<close>, and all of them when
  there are no more than \<open>n\<close> and none is locked; the selected rows are treated, the others are kept.
\<close>

definition picks :: "('r \<Rightarrow> bool) \<Rightarrow> nat \<Rightarrow> bool \<Rightarrow> 'r list \<Rightarrow> ('r \<Rightarrow> bool) \<Rightarrow> bool" where
  "picks due n unlocked rows picked \<longleftrightarrow> (\<forall>r \<in> set rows. picked r \<longrightarrow> due r) \<and> length (filter picked rows) \<le> n
     \<and> (unlocked \<and> length (filter due rows) \<le> n \<longrightarrow> (\<forall>r \<in> set rows. due r \<longrightarrow> picked r))"

definition deletes :: "('r \<Rightarrow> bool) \<Rightarrow> nat \<Rightarrow> bool \<Rightarrow> 'r list \<Rightarrow> 'r list \<Rightarrow> bool" where
  "deletes due n unlocked rows rows' \<longleftrightarrow> (\<exists>picked. picks due n unlocked rows picked \<and> rows' = filter (\<lambda>r. \<not> picked r) rows)"

definition erases :: "('r \<Rightarrow> bool) \<Rightarrow> ('r \<Rightarrow> 'r) \<Rightarrow> nat \<Rightarrow> bool \<Rightarrow> 'r list \<Rightarrow> 'r list \<Rightarrow> bool" where
  "erases due f n unlocked rows rows' \<longleftrightarrow> (\<exists>picked. picks due n unlocked rows picked \<and> rows' = map (\<lambda>r. if picked r then f r else r) rows)"

lemma select_picks:
  assumes "distinct (map key rows)"
  shows "picks due n (locked = {}) rows (\<lambda>r. key r \<in> set (select_due key n locked due rows))"
  using selected_due [OF assms] selected_few [OF assms] select_due_all [of due rows n _ key] by (auto simp: picks_def)

lemma delete_selected:
  assumes "distinct (map key rows)"
  shows "deletes due n (locked = {}) rows (delete_rows key (select_due key n locked due rows) rows)"
  unfolding deletes_def delete_rows_def using select_picks [OF assms] by blast

lemma erase_selected:
  assumes "distinct (map key rows)"
  shows "erases due f n (locked = {}) rows (erase_rows key (select_due key n locked due rows) f rows)"
  unfolding erases_def erase_rows_def using select_picks [OF assms] by blast

text \<open>What was erased is not due again.\<close>

lemma erased_not_due:
  "\<not> webhook_due env (erase_webhook env w)" "\<not> message_due env (erase_message m)" "\<not> calendar_due env sessions demos (erase_calendar c)" "\<not> demo_due env (erase_demo d)"
  by (simp_all add: webhook_due_def erase_webhook_def message_due_def erase_message_def calendar_due_def erase_calendar_def demo_due_def erase_demo_def passed_def)

lemma erases_all:
  assumes "erases due f n True rows rows'" "length (filter due rows) \<le> n" "\<And>r. \<not> due (f r)"
  shows "\<forall>r \<in> set rows'. \<not> due r"
  using assms by (auto simp: erases_def picks_def)

definition keys_distinct :: "retention_db \<Rightarrow> bool" where
  "keys_distinct db \<longleftrightarrow> distinct (map ix_id (rt_inbox db)) \<and> distinct (map ox_id (rt_outbox db)) \<and> distinct (map we_id (rt_webhooks db))
     \<and> distinct (map cm_id (rt_messages db)) \<and> distinct (map ce_id (rt_calendar db)) \<and> distinct (map dc_id (rt_demos db))"


section \<open>Samples\<close>

definition sample_retained :: "nat \<Rightarrow> bool \<Rightarrow> retained_inbox" where
  "sample_retained i hold = \<lparr>ix_id = i, ix_event_id = ''e'', ix_event_type = ''demo.requested.v1'', ix_schema_version = ''1.0'', ix_source_agent = ''a'',
     ix_tenant_id = ''t'', ix_idempotency_key = ''k'', ix_correlation_id = ''c'', ix_payload_ciphertext = ''x'', ix_payload_key_reference = ''v1'',
     ix_received_at = 1, ix_processed_at = Some 2, ix_processing_attempts = 1, ix_error_code = None, ri_retain_until = Some 3, ri_legal_hold = hold\<rparr>"

definition sample_retention_db :: retention_db where
  "sample_retention_db = \<lparr>rt_inbox = [sample_retained 1 False, sample_retained 2 True], rt_outbox = [], rt_webhooks = [], rt_messages = [], rt_calendar = [],
     rt_sessions = [], rt_demos = [], rt_audit = empty_trail\<rparr>"

definition sample_retention :: retention_env where
  "sample_retention = \<lparr>te_tenant_id = ''t'', te_encrypt = (\<lambda>p a. a @ p), te_key_reference = ''v1'', te_policy_reference = ''p'', te_audit_hash_key = ''key'',
     te_now = Datetime 10 (Some 0), te_uuid4 = ''c''\<rparr>"

definition no_locks :: retention_locks where
  "no_locks = \<lparr>lk_inbox = {}, lk_outbox = {}, lk_webhooks = {}, lk_messages = {}, lk_calendar = {}, lk_demos = {}\<rparr>"


end
