(* ===== verification/Spec2Isabelle.thy ===== *)
theory Spec2Isabelle
  imports Transitions Money Quality Forecasting Scheduling Coordinator Matching Discounts Payments
    Messaging Reminders Conversion Objections Regional Outbox Inbox InternalAuth ChatInvariant
    RouterProperties RouteProperties ReconciliationProofs OperationProofs Retention
begin

text \<open>
  The Demo Command Center (\<open>src/src/demo_command_center\<close>) runs the life of a tutoring demo: a WhatsApp
  conversation collects what the family wants, tutors are shortlisted and a slot is arranged, the demo
  is assessed, a payment is taken and verified, and the learner is handed over to onboarding.

  \<^bold>\<open>How the parts interact.\<close>  Other agents and payment providers send signed events.  The routes and the
  internal authentication admit them, the durable ingress stores each once, the inbox processor handles them one
  at a time, each in a transaction on the shared tables, and what a handler wants sent is a row of the
  outbox, which the publisher delivers with retries through the router; recorders write the outcome of a delivery back into
  the tables.  Operators and scheduled jobs reconcile payments, replay events, redrive dead-letter queues and
  erase what is no longer to be kept, each leaving a record in the audit chain.  Beside this pipeline stand domain policies without state: the transition table of a case,
  scheduling, matching, quality, forecasting, discounts, payment verification, messages, reminders,
  conversion, objections and regional monitoring.

  \<^bold>\<open>Theories and the code they model.\<close>
  Each operation of the code is one definition with the code's name, its early returns and exceptions as
  branches in the order of the code; a dataclass or table row is a record, an enum a datatype, an
  exception a value of \<open>py_error\<close>, a fallible function returns \<open>'a res\<close> (a sum).

  \<^item> \<open>Prelude\<close>, \<open>PyText\<close>, \<open>PyNumber\<close>, \<open>PyRegex\<close>, \<open>Json\<close>, \<open>Clock\<close>, \<open>Decimal\<close>, \<open>Digest\<close>: the Python the code
    uses.  Text methods, backtracking regular expressions, \<open>json.dumps\<close>, aware datetimes,
    \<open>decimal.Decimal\<close> at 28 digits, doubles, SHA-256 and HMAC.
  \<^item> \<open>Transitions\<close>: \<open>state/machine\<close> and \<open>state/transitions\<close>; \<open>Money\<close>, \<open>Quality\<close>: \<open>modules/demo_core\<close>;
    \<open>Forecasting\<close>, \<open>Scheduling\<close>, \<open>Coordinator\<close>, \<open>Matching\<close>, \<open>Discounts\<close>, \<open>Payments\<close>, \<open>Messaging\<close>,
    \<open>Reminders\<close>, \<open>Conversion\<close>, \<open>Objections\<close>, \<open>Regional\<close>: the packages of \<open>modules\<close> with these topics.
  \<^item> \<open>InternalAuth\<close>: \<open>security/authentication/internal_hmac.py\<close>, \<open>api/dependencies/auth.py\<close> and the signer
    of \<open>integrations/http_security.py\<close>; \<open>Envelope\<close>: \<open>glue/envelopes/agent_event.py\<close>.
  \<^item> \<open>Routes\<close>: \<open>api/routes/providers.py\<close>, \<open>api/routes/internal.py\<close>, \<open>api/middleware\<close> and
    \<open>security/signatures/webhook.py\<close>; \<open>RouteProperties\<close>: who can store which event.
  \<^item> \<open>OutboxRouter\<close>: \<open>integrations/outbox_router.py\<close>; \<open>RouterProperties\<close>: what it lets pass.
  \<^item> \<open>AuditChain\<close>: \<open>infrastructure/audit/chain.py\<close>; \<open>Reconciliation\<close>, \<open>ReconciliationProofs\<close>:
    \<open>cli/reconcile_payments.py\<close>; \<open>Operations\<close>, \<open>OperationProofs\<close>: \<open>cli/replay_event.py\<close> and
    \<open>cli/redrive_dlq.py\<close>; \<open>Retention\<close>: \<open>cli/retention_cleanup.py\<close>.
  \<^item> \<open>RetryQueue\<close>, \<open>Outbox\<close>, \<open>Inbox\<close>: \<open>infrastructure/outbox/publisher.py\<close>,
    \<open>infrastructure/inbox/durable_ingress.py\<close> and the queue of \<open>infrastructure/inbox/processor.py\<close>.
  \<^item> \<open>Store\<close>: the tables of \<open>infrastructure/database/models\<close> that the handlers share, with their unique and
    check constraints (\<open>constraints_ok\<close>), and sessions: state-passing computations that may raise.
  \<^item> \<open>PaymentOrders\<close>: \<open>infrastructure/payments\<close>; \<open>PaidSaga\<close>: the payment webhook and the onboarding events
    of \<open>processor.py\<close> and \<open>infrastructure/outbox/lifecycle.py\<close>.
  \<^item> \<open>Requirements\<close>, \<open>Shortlist\<close>, \<open>Conversation\<close>: the conversation of \<open>processor.py\<close>, from reading a message
    over storing the shortlist to the reply, and \<open>handle_event\<close>, which dispatches every event.
  \<^item> \<open>History\<close>, \<open>ConversationProofs\<close>, \<open>SagaProofs\<close>, \<open>Saga\<close>: proofs.  What each step does to the tables,
    whether it returns or raises; \<open>saga_step\<close> and \<open>saga\<close> are the committed steps and their histories:
    payment requests, recorded deliveries and handled events, in any order.
  \<^item> \<open>SagaProperties\<close>, \<open>RequirementProofs\<close>, \<open>ChatProperties\<close>, \<open>ChatInvariant\<close>: the theorems about these.

  \<^bold>\<open>Interfaces.\<close>  \<open>keyed_table\<close> (a table of rules with a unique key, interpreted on the transition table),
  \<open>rounding\<close> (the laws of rounded arithmetic, on 28-digit decimals), \<open>retry_queue\<close> (one attempt on a row, on
  the inbox and on the outbox), \<open>replay_store\<close> (consuming a nonce, on the in-memory store) and
  \<open>step_relation\<close> (what a session may do, composed along it, on the logged changes, on kept tables and on
  the steps of a conversation).

  \<^bold>\<open>What the theorems show.\<close>
  \<^item> Histories: each order is paid at most once, and paid transitions, logged verifications and website
    activations correspond one to one, for the order's amount and a recorded provider payment; the log of
    a case is a chain from NEW to its state; the paid side moves cases by the transition table only.
  \<^item> Payments: exactly which evidence makes an order paid; payment requests are idempotent.
  \<^item> Conversation: every message is answered once; requirement rows hold only values of the vocabulary,
    list exactly what they miss, and the step of the conversation asks for it.
  \<^item> Queues: a batch attempts exactly the due rows, a handled event's effects are stored together with its
    mark or not at all, events are accepted once, draining ends.
  \<^item> Authentication: exactly which requests are accepted, that they are accepted once, and that signer and
    verifier agree; every stored event stems from a request signed by the provider or the agent it names.
  \<^item> Delivery: the router passes on only payloads that belong to their row.
  \<^item> Operations: reconciliation never makes an order paid and changes an order only as the provider
    confirmed; a replay resets one event; a queue is redriven once for a key; a cleanup touches only what is due
    and not held; the audit chain stays linked and shows changes to what it covers.
  \<^item> Domain policies: exact characterisations, bounds and safety of each decision, the reachability and
    liveness of the lifecycle.
  \<^item> Some theorems state behaviour the code probably does not mean to have: a reply reopens a closed case, a
    late failed webhook marks a paid order as failed, a replay at the edge of the window is accepted, the
    activation of a paid subscription is never delivered, one order under review stops the
    reconciliation of all others, and the audit chain does not cover the actor.

  \<^bold>\<open>Bounds and idealisations.\<close>  Characters are Latin-1, with one code standing for the em dash of the
  replies; Unicode case folding outside that range is not modelled.  Decimals have 28 digits and no limit on
  the exponent; doubles have 53 bits without overflow or subnormal numbers.  Time zones are arguments
  (a database of offsets), instants are integers in microseconds.  Transactions are serial; where a query
  without an order returns one of several rows the model takes the first.  Every recursion is structural or has
  its termination proved; the publisher and processor loops are batches with the code's own limit, and
  no fuel is used.  The cipher, uuid generators, \<open>repr\<close> of a JSON value, pydantic decoding, remote ports and the
  Redis server are arguments of the definitions; constraints pydantic checks are definitions (\<open>..._ok\<close>).

  \<^bold>\<open>Not modelled.\<close>  The HTTP clients of \<open>integrations\<close>, SQS, bootstrap, settings, health checks and
  workers: I/O and wiring around the modelled services.  The framework's decoding of a request body is an
  argument of the routes, and a body that is no JSON is refused before them.  The drift evaluation sums binary
  floats.  The tables that no modelled code reads or writes, and the columns \<open>created_at\<close> and \<open>updated_at\<close> except
  where reconciliation reads them, are left out.
\<close>

end
